(* ===== verification/Px4_Base.thy ===== *)
theory Px4_Base
  imports Complex_Main "HOL-Library.Word" "HOL-Library.Log_Nat" "HOL-Library.Product_Lexorder"
begin

text \<open>
  Prelude of the development: the machine integer types the firmware uses, the microsecond
  clock (\<^verbatim>\<open>hrt_abstime\<close>) with its wrapping difference, the collections of simplification rules
  that the component theories fill, and the generic facts on lists, options and words that
  more than one component needs.
\<close>

unbundle bit_operations_syntax

named_theorems wf32_intros "every binary32 operation returns a well-formed value"
named_theorems f32_nan "propagation of NaN through the binary32 operations"
named_theorems nav_defs "the failsafe handlers of the commander"

type_synonym u8 = "8 word"
type_synonym u16 = "16 word"
type_synonym u32 = "32 word"
type_synonym u64 = "64 word"

type_synonym hrt_abstime = u64

subsection \<open>Time\<close>

text \<open>
  \<^verbatim>\<open>hrt_elapsed_time(&then)\<close> of \<^verbatim>\<open>platforms/common/include/px4_platform_common/time.h\<close> and
  \<^verbatim>\<open>src/drivers/drv_hrt.h\<close>: the difference of two 64 bit microsecond counters. The current time is
  an argument of every model that reads the clock.
\<close>

definition hrt_elapsed_time :: "hrt_abstime \<Rightarrow> hrt_abstime \<Rightarrow> hrt_abstime" where
  "hrt_elapsed_time now t0 = now - t0"

lemma hrt_elapsed_unat:
  assumes "t0 \<le> now"
  shows "unat (hrt_elapsed_time now t0) = unat now - unat t0"
  using assms by (simp add: hrt_elapsed_time_def unat_sub)

lemma hrt_elapsed_le_iff:
  assumes "t0 \<le> now"
  shows "hrt_elapsed_time now t0 \<le> d \<longleftrightarrow> unat now \<le> unat t0 + unat d"
  using assms by (simp add: word_le_nat_alt hrt_elapsed_unat) linarith

subsection \<open>Lists and bounded sequences\<close>

lemma list_all_nthI:
  "(\<And>i. i < length xs \<Longrightarrow> P (xs ! i)) \<Longrightarrow> list_all P xs"
  by (simp add: list_all_length)

lemma list_all_nthD: "list_all P xs \<Longrightarrow> i < length xs \<Longrightarrow> P (xs ! i)"
  by (simp add: list_all_length)

lemma list_all_list_update:
  "list_all P xs \<Longrightarrow> P v \<Longrightarrow> list_all P (xs[i := v])"
  using set_update_subset_insert [of xs i v] by (auto simp: list_all_iff)

lemma less_4_iff: "(i::nat) < 4 \<longleftrightarrow> i = 0 \<or> i = 1 \<or> i = 2 \<or> i = 3"
  by linarith

lemma map_eq_append3:
  assumes "map f xs = a @ b @ c"
  obtains p m q where "xs = p @ m @ q" and "a = map f p" and "b = map f m" and "c = map f q"
proof -
  obtain p r where "xs = p @ r" "a = map f p" "b @ c = map f r"
    using assms by (auto simp: map_eq_append_conv)
  moreover from this(3) obtain m q where "r = m @ q" "b = map f m" "c = map f q"
    by (metis map_eq_append_conv)
  ultimately show thesis using that by blast
qed

lemma foldl_invariant:
  assumes "P s" and "\<And>s x. P s \<Longrightarrow> x \<in> set xs \<Longrightarrow> P (f s x)"
  shows "P (foldl f s xs)"
  using assms by (induction xs arbitrary: s) auto

subsection \<open>Runs that keep an invariant\<close>

locale invariant_steps =
  fixes step :: "'i \<Rightarrow> 's \<Rightarrow> 's"
    and ok :: "'i \<Rightarrow> bool"
    and good :: "'s \<Rightarrow> bool"
  assumes step_good: "good s \<Longrightarrow> ok i \<Longrightarrow> good (step i s)"
begin

lemma run_good: "good s \<Longrightarrow> list_all ok xs \<Longrightarrow> good (fold step xs s)"
  by (induction xs arbitrary: s) (auto intro: step_good)

lemma run_keeps:
  assumes "good s" and "list_all ok xs" and "\<And>i t. good t \<Longrightarrow> ok i \<Longrightarrow> f (step i t) = f t"
  shows "f (fold step xs s) = f s"
  using assms(1,2) by (induction xs arbitrary: s) (simp_all add: step_good assms(3))

end

end
