(* ===== verification/Binary32.thy ===== *)
theory Binary32
  imports Px4_Base
begin

text \<open>
  IEEE 754 binary32, the \<^verbatim>\<open>float\<close> of the control code. A value is NaN, a signed infinity or a
  sign with a magnitude; every operation computes the exact real result and rounds it once, to
  nearest with ties to even. The theory shows that rounding is monotone, idempotent and
  sign-symmetric, that every operation returns a well-formed value (a magnitude of at most 24
  significant bits, below \<open>2^128\<close>), and how NaN propagates. Payloads of NaN are not
  distinguished, and the compiler is taken to evaluate the source expressions as written (no
  contraction; the flags \<^verbatim>\<open>-freciprocal-math\<close> and \<^verbatim>\<open>-fno-signed-zeros\<close> of the build are taken to have no
  effect).
\<close>

subsection \<open>Rounding of magnitudes\<close>

text \<open>
  Magnitudes are rounded in units of the least subnormal, \<open>2^-149\<close>: a scaled magnitude \<open>y\<close> with
  more than 24 integer bits loses \<open>ulp_exp y\<close> of them, a smaller one is rounded to an integer.
\<close>

definition round_half_even :: "real \<Rightarrow> int" where
  "round_half_even y =
     (let q = \<lfloor>y\<rfloor>; d = y - of_int q
      in if d < 1 / 2 \<or> (d = 1 / 2 \<and> even q) then q else q + 1)"

definition ulp_exp :: "real \<Rightarrow> nat" where
  "ulp_exp y = floorlog 2 (nat \<lfloor>y\<rfloor>) - 24"

definition round24 :: "real \<Rightarrow> real" where
  "round24 y = of_int (round_half_even (y / 2 ^ ulp_exp y)) * 2 ^ ulp_exp y"

lemma round_half_even_int [simp]: "round_half_even (of_int n) = n"
  by (simp add: round_half_even_def)

lemma round_half_even_bounds: "\<lfloor>y\<rfloor> \<le> round_half_even y" "round_half_even y \<le> \<lfloor>y\<rfloor> + 1"
  by (auto simp: round_half_even_def Let_def)

lemma round_half_even_mono:
  assumes "x \<le> y"
  shows "round_half_even x \<le> round_half_even y"
proof (cases "\<lfloor>x\<rfloor> = \<lfloor>y\<rfloor>")
  case True
  with assms show ?thesis by (auto simp: round_half_even_def Let_def)
next
  case False
  with assms have "\<lfloor>x\<rfloor> + 1 \<le> \<lfloor>y\<rfloor>" using floor_mono [OF assms] by linarith
  then show ?thesis
    using round_half_even_bounds [of x] round_half_even_bounds [of y] by linarith
qed

lemma round_half_even_le: "y \<le> of_int n \<Longrightarrow> round_half_even y \<le> n"
  using round_half_even_mono [of y "of_int n"] by simp

lemma round_half_even_ge: "of_int n \<le> y \<Longrightarrow> n \<le> round_half_even y"
  using round_half_even_mono [of "of_int n" y] by simp

lemma ulp_exp_mono: "x \<le> y \<Longrightarrow> ulp_exp x \<le> ulp_exp y"
  by (simp add: ulp_exp_def diff_le_mono floorlog_mono floor_mono nat_mono)

text \<open>The kept part has at most 24 bits, and exactly 24 once bits are dropped.\<close>

lemma ulp_exp_upper:
  assumes "0 \<le> y"
  shows "y < 2 ^ (24 + ulp_exp y)"
proof -
  let ?n = "nat \<lfloor>y\<rfloor>"
  have "?n < 2 ^ (24 + ulp_exp y)"
    by (rule floorlog_leD) (simp_all add: ulp_exp_def)
  then have "Suc ?n \<le> 2 ^ (24 + ulp_exp y)" by (rule Suc_leI)
  then have "real (Suc ?n) \<le> 2 ^ (24 + ulp_exp y)"
    by (metis of_nat_le_iff of_nat_numeral of_nat_power)
  moreover have "y < real (Suc ?n)" using assms by linarith
  ultimately show ?thesis by linarith
qed

lemma ulp_exp_lower:
  assumes "0 < ulp_exp y"
  shows "2 ^ (23 + ulp_exp y) \<le> y"
proof -
  let ?n = "nat \<lfloor>y\<rfloor>"
  have "24 + ulp_exp y \<le> floorlog 2 ?n" using assms by (simp add: ulp_exp_def)
  then have n: "2 ^ (23 + ulp_exp y) \<le> ?n" using floorlog_geD [of "24 + ulp_exp y" 2 ?n] by simp
  then have "(2::real) ^ (23 + ulp_exp y) \<le> real ?n"
    by (metis of_nat_le_iff of_nat_numeral of_nat_power)
  moreover have "real ?n \<le> y"
  proof -
    have "0 < ?n" using n by (metis gr0I not_less_zero le_zero_eq power_eq_0_iff zero_neq_numeral)
    then show ?thesis by linarith
  qed
  ultimately show ?thesis by linarith
qed

lemma ulp_exp_le:
  assumes "0 \<le> y" and "y < 2 ^ (24 + k)"
  shows "ulp_exp y \<le> k"
proof (rule ccontr)
  assume "\<not> ulp_exp y \<le> k"
  then have "0 < ulp_exp y" and k: "24 + k \<le> 23 + ulp_exp y" by auto
  have "(2::real) ^ (24 + k) \<le> 2 ^ (23 + ulp_exp y)" by (rule power_increasing [OF k]) simp
  with ulp_exp_lower [OF \<open>0 < ulp_exp y\<close>] assms(2) show False by linarith
qed


lemma round24_zero [simp]: "round24 0 = 0"
  using round_half_even_int [of 0] by (simp add: round24_def)

lemma pow2_shift: "j \<le> k \<Longrightarrow> a * 2 ^ k / 2 ^ j = (a * 2 ^ (k - j) :: real)"
  by (simp add: power_diff)

text \<open>A number of at most 24 bits, scaled by a power of two, is not changed.\<close>

lemma round24_exact:
  assumes "0 \<le> n" and "n \<le> 2 ^ 24"
  shows "round24 (of_int n * 2 ^ k) = of_int n * 2 ^ k"
proof (cases "n = 2 ^ 24")
  case False
  let ?y = "of_int n * 2 ^ k :: real"
  have "n < 2 ^ 24" using False assms by simp
  then have "(of_int n :: real) < of_int (2 ^ 24)" by (rule of_int_less_iff [THEN iffD2])
  then have "?y < 2 ^ (24 + k)" by (simp add: power_add)
  then have le: "ulp_exp ?y \<le> k" using assms by (intro ulp_exp_le) auto
  have "?y / 2 ^ ulp_exp ?y = of_int (n * 2 ^ (k - ulp_exp ?y))"
    by (simp add: pow2_shift [OF le])
  then have "round24 ?y = of_int (n * 2 ^ (k - ulp_exp ?y)) * 2 ^ ulp_exp ?y"
    by (simp only: round24_def round_half_even_int)
  also have "\<dots> = ?y" using le by (simp flip: power_add)
  finally show ?thesis .
next
  case True
  let ?y = "of_int n * 2 ^ k :: real"
  have y: "?y = 2 ^ (24 + k)" using True by (simp add: power_add)
  have "(2::real) ^ (24 + k) < 2 ^ (24 + Suc k)" by simp
  then have le: "ulp_exp ?y \<le> Suc k" unfolding y by (intro ulp_exp_le) auto
  have "?y / 2 ^ ulp_exp ?y = of_int (2 ^ (24 + k - ulp_exp ?y))"
    using pow2_shift [of "ulp_exp ?y" "24 + k" 1] le by (simp add: y)
  then have "round24 ?y = of_int (2 ^ (24 + k - ulp_exp ?y)) * 2 ^ ulp_exp ?y"
    by (simp only: round24_def round_half_even_int)
  also have "\<dots> = ?y" unfolding y using le [unfolded y] by (simp flip: power_add)
  finally show ?thesis .
qed

lemma round24_form:
  assumes "0 \<le> y"
  obtains n where "round24 y = of_int n * 2 ^ ulp_exp y" and "0 \<le> n" and "n \<le> 2 ^ 24"
proof
  let ?q = "y / 2 ^ ulp_exp y"
  show "round24 y = of_int (round_half_even ?q) * 2 ^ ulp_exp y" by (simp add: round24_def)
  show "0 \<le> round_half_even ?q" using assms by (intro round_half_even_ge) simp
  have "?q \<le> of_int (2 ^ 24)"
    using ulp_exp_upper [OF assms] by (simp add: divide_le_eq power_add)
  then show "round_half_even ?q \<le> 2 ^ 24" by (rule round_half_even_le)
qed

lemma round24_nonneg: "0 \<le> y \<Longrightarrow> 0 \<le> round24 y"
  by (rule round24_form) auto

lemma round24_idem: "0 \<le> y \<Longrightarrow> round24 (round24 y) = round24 y"
  by (rule round24_form [of y]) (simp_all add: round24_exact)

lemma round24_upper:
  assumes "0 \<le> y"
  shows "round24 y \<le> 2 ^ (24 + ulp_exp y)"
proof -
  obtain n where n: "round24 y = of_int n * 2 ^ ulp_exp y" "n \<le> 2 ^ 24"
    using assms by (rule round24_form)
  have "of_int n \<le> (2 ^ 24 :: real)" using n(2) by (metis of_int_le_iff of_int_numeral of_int_power)
  then show ?thesis by (simp add: n(1) power_add)
qed

lemma round24_lower:
  assumes "0 < ulp_exp y"
  shows "2 ^ (23 + ulp_exp y) \<le> round24 y"
proof -
  let ?q = "y / 2 ^ ulp_exp y"
  have "of_int (2 ^ 23) \<le> ?q"
    using ulp_exp_lower [OF assms] by (simp add: le_divide_eq power_add)
  then have "2 ^ 23 \<le> round_half_even ?q" by (rule round_half_even_ge)
  then have "(2 ^ 23 :: real) \<le> of_int (round_half_even ?q)"
    by (metis of_int_le_iff of_int_numeral of_int_power)
  then show ?thesis by (simp add: round24_def power_add)
qed

lemma round24_mono:
  assumes "0 \<le> x" and "x \<le> y"
  shows "round24 x \<le> round24 y"
proof (cases "ulp_exp x = ulp_exp y")
  case True
  have "x / 2 ^ ulp_exp y \<le> y / 2 ^ ulp_exp y" using assms by (simp add: divide_right_mono)
  then show ?thesis
    using True by (simp add: round24_def round_half_even_mono)
next
  case False
  with assms have less: "24 + ulp_exp x \<le> 23 + ulp_exp y" using ulp_exp_mono [of x y] by simp
  have "round24 x \<le> 2 ^ (24 + ulp_exp x)" by (rule round24_upper [OF assms(1)])
  also have "\<dots> \<le> (2::real) ^ (23 + ulp_exp y)" by (rule power_increasing [OF less]) simp
  also have "\<dots> \<le> round24 y" using less by (intro round24_lower) simp
  finally show ?thesis .
qed

subsection \<open>An interface for rounding\<close>

text \<open>
  What the value-level facts need from a rounding of magnitudes. The facts derived from it are
  the ones used below: a representable bound on the exact value is a bound on the rounded one.
\<close>

locale magnitude_rounding =
  fixes rnd :: "real \<Rightarrow> real"
  assumes rnd_mono: "0 \<le> x \<Longrightarrow> x \<le> y \<Longrightarrow> rnd x \<le> rnd y"
    and rnd_idem: "0 \<le> x \<Longrightarrow> rnd (rnd x) = rnd x"
    and rnd_zero: "rnd 0 = 0"
begin

definition representable :: "real \<Rightarrow> bool" where
  "representable x \<longleftrightarrow> 0 \<le> x \<and> rnd x = x"

lemma rnd_ge_zero: "0 \<le> x \<Longrightarrow> 0 \<le> rnd x"
  using rnd_mono [of 0 x] rnd_zero by simp

lemma representable_rnd: "0 \<le> x \<Longrightarrow> representable (rnd x)"
  by (simp add: representable_def rnd_idem rnd_ge_zero)

lemma rnd_le_representable: "representable b \<Longrightarrow> 0 \<le> x \<Longrightarrow> x \<le> b \<Longrightarrow> rnd x \<le> b"
  using rnd_mono [of x b] by (simp add: representable_def)

lemma rnd_ge_representable: "representable b \<Longrightarrow> b \<le> x \<Longrightarrow> b \<le> rnd x"
  using rnd_mono [of b x] by (simp add: representable_def)

end

interpretation r24: magnitude_rounding round24
  by unfold_locales (simp_all add: round24_mono round24_idem)

lemma representable_scaled:
  "0 \<le> n \<Longrightarrow> n \<le> 2 ^ 24 \<Longrightarrow> r24.representable (of_int n * 2 ^ k)"
  by (simp add: r24.representable_def round24_exact)

lemma representable_zero [simp]: "r24.representable 0"
  by (simp add: r24.representable_def)

subsection \<open>Values and operations\<close>

text \<open>The scale of the rounding, and the first scaled magnitude beyond the format.\<close>

definition f32_scale :: real where
  "f32_scale = 2 ^ 149"

definition f32_overflow :: real where
  "f32_overflow = 2 ^ 277"

lemma f32_scale_pos [simp]: "0 < f32_scale" "0 \<le> f32_scale" "f32_scale \<noteq> 0" "\<not> f32_scale \<le> 0"
  by (simp_all add: f32_scale_def)

lemma f32_overflow_pos [simp]: "0 < f32_overflow" "\<not> f32_overflow \<le> 0"
  by (simp_all add: f32_overflow_def)

lemma scale_cancel [simp]: "m * f32_scale / f32_scale = m" "m / f32_scale * f32_scale = m"
  by simp_all

text \<open>The flag of \<open>FInf\<close> and \<open>FFin\<close> is the sign bit (\<open>True\<close> for negative).\<close>

datatype float32 = FNaN | FInf bool | FFin bool real

fun f32_val :: "float32 \<Rightarrow> real" where
  "f32_val (FFin s m) = (if s then - m else m)"
| "f32_val _ = 0"

fun wf32 :: "float32 \<Rightarrow> bool" where
  "wf32 (FFin s m) \<longleftrightarrow> r24.representable (m * f32_scale) \<and> m * f32_scale < f32_overflow"
| "wf32 _ = True"

text \<open>Round a real; the first argument is the sign of an exact zero.\<close>

definition f32_of_real :: "bool \<Rightarrow> real \<Rightarrow> float32" where
  "f32_of_real z r =
     (let y = round24 (\<bar>r\<bar> * f32_scale)
      in if f32_overflow \<le> y then FInf (r < 0)
         else FFin (if r = 0 then z else r < 0) (y / f32_scale))"

definition f32_lit :: "real \<Rightarrow> float32" where
  "f32_lit r = f32_of_real False r"

abbreviation f32_zero :: float32 where
  "f32_zero \<equiv> FFin False 0"

fun f32_isfinite :: "float32 \<Rightarrow> bool" where
  "f32_isfinite (FFin s m) = True"
| "f32_isfinite _ = False"

fun f32_neg :: "float32 \<Rightarrow> float32" where
  "f32_neg FNaN = FNaN"
| "f32_neg (FInf s) = FInf (\<not> s)"
| "f32_neg (FFin s m) = FFin (\<not> s) m"

fun f32_abs :: "float32 \<Rightarrow> float32" where
  "f32_abs FNaN = FNaN"
| "f32_abs (FInf s) = FInf False"
| "f32_abs (FFin s m) = FFin False m"

fun f32_add :: "float32 \<Rightarrow> float32 \<Rightarrow> float32" where
  "f32_add FNaN y = FNaN"
| "f32_add x FNaN = FNaN"
| "f32_add (FInf s) (FInf t) = (if s = t then FInf s else FNaN)"
| "f32_add (FInf s) (FFin t n) = FInf s"
| "f32_add (FFin s m) (FInf t) = FInf t"
| "f32_add (FFin s m) (FFin t n) =
     f32_of_real (s \<and> t) (f32_val (FFin s m) + f32_val (FFin t n))"

definition f32_sub :: "float32 \<Rightarrow> float32 \<Rightarrow> float32" where
  "f32_sub x y = f32_add x (f32_neg y)"

fun f32_mul :: "float32 \<Rightarrow> float32 \<Rightarrow> float32" where
  "f32_mul FNaN y = FNaN"
| "f32_mul x FNaN = FNaN"
| "f32_mul (FInf s) (FInf t) = FInf (s \<noteq> t)"
| "f32_mul (FInf s) (FFin t n) = (if n = 0 then FNaN else FInf (s \<noteq> t))"
| "f32_mul (FFin s m) (FInf t) = (if m = 0 then FNaN else FInf (s \<noteq> t))"
| "f32_mul (FFin s m) (FFin t n) =
     f32_of_real (s \<noteq> t) (f32_val (FFin s m) * f32_val (FFin t n))"

fun f32_div :: "float32 \<Rightarrow> float32 \<Rightarrow> float32" where
  "f32_div FNaN y = FNaN"
| "f32_div x FNaN = FNaN"
| "f32_div (FInf s) (FInf t) = FNaN"
| "f32_div (FInf s) (FFin t n) = FInf (s \<noteq> t)"
| "f32_div (FFin s m) (FInf t) = FFin (s \<noteq> t) 0"
| "f32_div (FFin s m) (FFin t n) =
     (if n = 0 then (if m = 0 then FNaN else FInf (s \<noteq> t))
      else f32_of_real (s \<noteq> t) (f32_val (FFin s m) / f32_val (FFin t n)))"

fun f32_sqrt :: "float32 \<Rightarrow> float32" where
  "f32_sqrt FNaN = FNaN"
| "f32_sqrt (FInf s) = (if s then FNaN else FInf False)"
| "f32_sqrt (FFin s m) =
     (if m = 0 then FFin s 0 else if s then FNaN else f32_of_real False (sqrt m))"

text \<open>The order of the extended values; every comparison with NaN is false.\<close>

fun f32_rank :: "float32 \<Rightarrow> int \<times> real" where
  "f32_rank (FInf s) = (if s then -1 else 1, 0)"
| "f32_rank x = (0, f32_val x)"

definition f32_lt :: "float32 \<Rightarrow> float32 \<Rightarrow> bool" where
  "f32_lt x y \<longleftrightarrow> x \<noteq> FNaN \<and> y \<noteq> FNaN \<and> f32_rank x < f32_rank y"

definition f32_le :: "float32 \<Rightarrow> float32 \<Rightarrow> bool" where
  "f32_le x y \<longleftrightarrow> x \<noteq> FNaN \<and> y \<noteq> FNaN \<and> f32_rank x \<le> f32_rank y"

abbreviation f32_gt :: "float32 \<Rightarrow> float32 \<Rightarrow> bool" where
  "f32_gt x y \<equiv> f32_lt y x"

abbreviation f32_ge :: "float32 \<Rightarrow> float32 \<Rightarrow> bool" where
  "f32_ge x y \<equiv> f32_le y x"

text \<open>
  Conversions: an unsigned integer to \<^verbatim>\<open>float\<close> rounds to nearest; a \<^verbatim>\<open>float\<close> to an unsigned 64 bit
  integer truncates and is undefined (\<open>None\<close>) outside the target's range.
\<close>

definition f32_of_u64 :: "u64 \<Rightarrow> float32" where
  "f32_of_u64 n = f32_of_real False (real (unat n))"

fun f32_to_u64 :: "float32 \<Rightarrow> u64 option" where
  "f32_to_u64 (FFin s m) =
     (if s then (if m < 1 then Some 0 else None)
      else if m < 2 ^ 64 then Some (word_of_nat (nat \<lfloor>m\<rfloor>)) else None)"
| "f32_to_u64 _ = None"

subsection \<open>Well-formedness\<close>

lemma wf32_zero [simp, wf32_intros]: "wf32 (FFin s 0)"
  by simp

lemma wf32_mag_nonneg: "wf32 (FFin s m) \<Longrightarrow> 0 \<le> m"
  by (auto simp: r24.representable_def zero_le_mult_iff)

lemma round24_scaled_nonneg [simp]: "0 \<le> round24 (\<bar>r\<bar> * f32_scale)"
  by (simp add: round24_nonneg)

lemma f32_of_real_not_nan [simp]: "f32_of_real z r \<noteq> FNaN"
  by (simp add: f32_of_real_def Let_def)

lemma wf32_of_real [simp, wf32_intros]: "wf32 (f32_of_real z r)"
  using r24.representable_rnd [of "\<bar>r\<bar> * f32_scale"] by (simp add: f32_of_real_def Let_def)

lemma wf32_lit [simp, wf32_intros]: "wf32 (f32_lit r)"
  by (simp add: f32_lit_def)

lemma f32_lit_not_nan [simp]: "f32_lit r \<noteq> FNaN"
  by (simp add: f32_lit_def)

lemma wf32_neg [simp, wf32_intros]: "wf32 x \<Longrightarrow> wf32 (f32_neg x)"
  by (cases x) auto

lemma wf32_abs [simp, wf32_intros]: "wf32 x \<Longrightarrow> wf32 (f32_abs x)"
  by (cases x) auto

lemma wf32_add [simp, wf32_intros]: "wf32 (f32_add x y)"
  by (cases "(x, y)" rule: f32_add.cases) auto

lemma wf32_sub [simp, wf32_intros]: "wf32 (f32_sub x y)"
  by (simp add: f32_sub_def)

lemma wf32_mul [simp, wf32_intros]: "wf32 (f32_mul x y)"
  by (cases "(x, y)" rule: f32_mul.cases) auto

lemma wf32_div [simp, wf32_intros]: "wf32 (f32_div x y)"
  by (cases "(x, y)" rule: f32_div.cases) auto

lemma wf32_sqrt [simp, wf32_intros]: "wf32 (f32_sqrt x)"
  by (cases x) auto

lemma wf32_of_u64 [simp, wf32_intros]: "wf32 (f32_of_u64 n)"
  by (simp add: f32_of_u64_def)

subsection \<open>NaN\<close>

lemma f32_add_nan [simp, f32_nan]: "f32_add FNaN y = FNaN" "f32_add x FNaN = FNaN"
  by (simp, cases x) simp_all

lemma f32_neg_nan_iff [simp]: "f32_neg x = FNaN \<longleftrightarrow> x = FNaN"
  by (cases x) simp_all

lemma f32_sub_nan [simp, f32_nan]: "f32_sub FNaN y = FNaN" "f32_sub x FNaN = FNaN"
  by (simp_all add: f32_sub_def)

lemma f32_mul_nan [simp, f32_nan]: "f32_mul FNaN y = FNaN" "f32_mul x FNaN = FNaN"
  by (simp, cases x) simp_all

lemma f32_div_nan [simp, f32_nan]: "f32_div FNaN y = FNaN" "f32_div x FNaN = FNaN"
  by (simp, cases x) simp_all

lemma f32_lt_nan [simp, f32_nan]: "\<not> f32_lt FNaN y" "\<not> f32_lt x FNaN"
  by (simp_all add: f32_lt_def)

lemma f32_le_nan [simp, f32_nan]: "\<not> f32_le FNaN y" "\<not> f32_le x FNaN"
  by (simp_all add: f32_le_def)

lemma f32_isfinite_not_nan: "f32_isfinite x \<Longrightarrow> x \<noteq> FNaN"
  by (cases x) simp_all

lemma f32_isfinite_neg [simp]: "f32_isfinite (f32_neg x) = f32_isfinite x"
  by (cases x) simp_all

lemma f32_val_neg [simp]: "f32_val (f32_neg x) = - f32_val x"
  by (cases x) simp_all

lemma f32_neg_neg [simp]: "f32_neg (f32_neg x) = x"
  by (cases x) simp_all

subsection \<open>Order\<close>

lemma f32_le_refl [simp]: "x \<noteq> FNaN \<Longrightarrow> f32_le x x"
  by (simp add: f32_le_def)

lemma f32_le_trans: "f32_le x y \<Longrightarrow> f32_le y z \<Longrightarrow> f32_le x z"
  by (auto simp: f32_le_def)

lemma f32_not_lt: "x \<noteq> FNaN \<Longrightarrow> y \<noteq> FNaN \<Longrightarrow> \<not> f32_lt x y \<longleftrightarrow> f32_le y x"
  by (auto simp: f32_le_def f32_lt_def)

lemma f32_lt_imp_le: "f32_lt x y \<Longrightarrow> f32_le x y"
  by (auto simp: f32_le_def f32_lt_def)

lemma f32_le_lt_trans: "f32_le x y \<Longrightarrow> f32_lt y z \<Longrightarrow> f32_lt x z"
  by (auto simp: f32_le_def f32_lt_def)

lemma f32_lt_le_trans: "f32_lt x y \<Longrightarrow> f32_le y z \<Longrightarrow> f32_lt x z"
  by (auto simp: f32_le_def f32_lt_def)

lemma f32_lt_irrefl [simp]: "\<not> f32_lt x x"
  by (simp add: f32_lt_def)

lemma f32_le_fin [simp]: "f32_le (FFin s m) (FFin t n) \<longleftrightarrow> f32_val (FFin s m) \<le> f32_val (FFin t n)"
  by (simp add: f32_le_def less_eq_prod_def)

lemma f32_lt_fin [simp]: "f32_lt (FFin s m) (FFin t n) \<longleftrightarrow> f32_val (FFin s m) < f32_val (FFin t n)"
  by (simp add: f32_lt_def less_prod_def less_eq_prod_def)

lemma f32_le_finite:
  "f32_isfinite x \<Longrightarrow> f32_isfinite y \<Longrightarrow> f32_le x y \<longleftrightarrow> f32_val x \<le> f32_val y"
  by (cases x; cases y) (simp_all del: f32_val.simps)

lemma f32_lt_finite:
  "f32_isfinite x \<Longrightarrow> f32_isfinite y \<Longrightarrow> f32_lt x y \<longleftrightarrow> f32_val x < f32_val y"
  by (cases x; cases y) (simp_all del: f32_val.simps)

lemma f32_le_inf [simp]:
  "f32_le (FInf s) (FFin t n) \<longleftrightarrow> s" "f32_le (FFin t n) (FInf s) \<longleftrightarrow> \<not> s"
  by (auto simp: f32_le_def less_eq_prod_def)

lemma f32_between_finite:
  assumes "f32_le a x" and "f32_le x b" and "f32_isfinite a" and "f32_isfinite b"
  shows "f32_isfinite x"
  using assms by (cases x; cases a; cases b) (auto simp del: f32_le_fin)

subsection \<open>Rounding and order\<close>

lemma f32_of_real_mono:
  assumes "r \<le> r'"
  shows "f32_le (f32_of_real z r) (f32_of_real z' r')"
proof -
  let ?y = "\<lambda>r. round24 (\<bar>r\<bar> * f32_scale)"
  have mono: "?y a \<le> ?y b" if "\<bar>a\<bar> \<le> \<bar>b\<bar>" for a b
    using that by (intro round24_mono) (auto simp: mult_right_mono)
  have div: "?y a / f32_scale \<le> ?y b / f32_scale" if "\<bar>a\<bar> \<le> \<bar>b\<bar>" for a b
    using mono [OF that] by (simp add: divide_right_mono)
  have nn: "0 \<le> ?y a / f32_scale" for a by simp
  consider "0 \<le> r" | "r < 0" "0 < r'" | "r < 0" "r' = 0" | "r < 0" "r' < 0" using assms by linarith
  then show ?thesis
  proof cases
    case 1
    then show ?thesis
      using assms mono [of r r'] div [of r r'] by (auto simp: f32_of_real_def Let_def f32_le_def)
  next
    case 2
    then show ?thesis
      using nn [of r] nn [of r'] by (auto simp: f32_of_real_def Let_def f32_le_def)
  next
    case 3
    then show ?thesis
      using nn [of r] by (auto simp: f32_of_real_def Let_def f32_le_def)
  next
    case 4
    then show ?thesis
      using assms mono [of r' r] div [of r' r] by (auto simp: f32_of_real_def Let_def f32_le_def)
  qed
qed

lemma f32_of_real_exact:
  assumes "wf32 (FFin s m)"
  shows "f32_of_real z (f32_val (FFin s m)) = FFin (if m = 0 then z else s) m"
proof -
  have m: "0 \<le> m" using assms by (rule wf32_mag_nonneg)
  have rep: "round24 (m * f32_scale) = m * f32_scale" and big: "m * f32_scale < f32_overflow"
    using assms by (simp_all add: r24.representable_def)
  have "\<bar>f32_val (FFin s m)\<bar> = m" using m by simp
  then have "f32_of_real z (f32_val (FFin s m))
      = FFin (if f32_val (FFin s m) = 0 then z else f32_val (FFin s m) < 0) m"
    using rep big unfolding f32_of_real_def Let_def by (simp del: f32_val.simps)
  then show ?thesis using m by auto
qed

lemma f32_of_real_val:
  assumes "wf32 x" and "f32_isfinite x"
  shows "f32_val (f32_of_real z (f32_val x)) = f32_val x"
    and "f32_isfinite (f32_of_real z (f32_val x))"
proof -
  obtain s m where x: "x = FFin s m" using assms(2) by (cases x) auto
  have eq: "f32_of_real z (f32_val x) = FFin (if m = 0 then z else s) m"
    using f32_of_real_exact [of s m z] assms(1) unfolding x by blast
  show "f32_val (f32_of_real z (f32_val x)) = f32_val x" unfolding eq by (simp add: x)
  show "f32_isfinite (f32_of_real z (f32_val x))" unfolding eq by simp
qed

text \<open>A representable bound on the exact value bounds the rounded value.\<close>

lemma f32_of_real_le:
  assumes "wf32 b" and "f32_isfinite b" and "r \<le> f32_val b"
  shows "f32_le (f32_of_real z r) b"
proof -
  obtain s m where b: "b = FFin s m" using assms(2) by (cases b) auto
  have "f32_le (f32_of_real z r) (f32_of_real z (f32_val b))"
    by (rule f32_of_real_mono [OF assms(3)])
  moreover have "f32_le (f32_of_real z (f32_val b)) b"
    using f32_of_real_val [OF assms(1,2), of z] assms(2) by (simp add: f32_le_finite)
  ultimately show ?thesis by (rule f32_le_trans)
qed

lemma f32_of_real_ge:
  assumes "wf32 b" and "f32_isfinite b" and "f32_val b \<le> r"
  shows "f32_le b (f32_of_real z r)"
proof -
  have "f32_le (f32_of_real z (f32_val b)) (f32_of_real z r)"
    by (rule f32_of_real_mono [OF assms(3)])
  moreover have "f32_le b (f32_of_real z (f32_val b))"
    using f32_of_real_val [OF assms(1,2), of z] assms(2) by (simp add: f32_le_finite)
  ultimately show ?thesis using f32_le_trans by blast
qed

subsection \<open>Exact values\<close>

text \<open>A fraction with a 24 bit numerator and a power of two as denominator is represented exactly.\<close>

lemma wf32_dyadic:
  assumes "\<bar>n\<bar> \<le> 2 ^ 24" and "k \<le> 149"
  shows "wf32 (FFin s (of_int \<bar>n\<bar> / 2 ^ k))"
proof -
  have eq: "of_int \<bar>n\<bar> / 2 ^ k * f32_scale = of_int \<bar>n\<bar> * 2 ^ (149 - k)"
    using assms(2) by (simp add: f32_scale_def power_diff)
  have "of_int \<bar>n\<bar> \<le> (2 ^ 24 :: real)"
    using assms(1) by (metis of_int_le_iff of_int_numeral of_int_power)
  then have "of_int \<bar>n\<bar> * 2 ^ (149 - k) \<le> 2 ^ 24 * (2::real) ^ 149"
    by (intro mult_mono power_increasing) simp_all
  also have "(2::real) ^ 24 * 2 ^ 149 < f32_overflow" by (simp add: f32_overflow_def)
  finally show ?thesis
    using representable_scaled [OF _ assms(1), of "149 - k"] unfolding wf32.simps eq by simp
qed

lemma f32_of_real_dyadic:
  assumes "\<bar>n\<bar> \<le> 2 ^ 24" and "k \<le> 149"
  shows "f32_of_real z (of_int n / 2 ^ k) = FFin (if n = 0 then z else n < 0) (of_int \<bar>n\<bar> / 2 ^ k)"
  using f32_of_real_exact [OF wf32_dyadic [OF assms, of "n < 0"], of z] by (cases "n < 0") auto

lemma f32_of_real_int:
  "\<bar>n\<bar> \<le> 2 ^ 24 \<Longrightarrow> f32_of_real z (of_int n) = FFin (if n = 0 then z else n < 0) (of_int \<bar>n\<bar>)"
  using f32_of_real_dyadic [of n 0 z] by simp

lemma f32_of_real_0 [simp]: "f32_of_real z 0 = FFin z 0"
  using f32_of_real_int [of 0 z] by simp

lemma f32_of_real_1 [simp]: "f32_of_real z 1 = FFin False 1"
  using f32_of_real_int [of 1 z] by simp

lemma f32_of_real_m1 [simp]: "f32_of_real z (- 1) = FFin True 1"
  using f32_of_real_int [of "- 1" z] by simp

lemma f32_of_real_numeral:
  "numeral n \<le> (2 ^ 24 :: int) \<Longrightarrow> f32_of_real z (numeral n) = FFin False (numeral n)"
  using f32_of_real_int [of "numeral n" z] by simp

lemma f32_lit_0 [simp]: "f32_lit 0 = FFin False 0"
  by (simp add: f32_lit_def)

lemma f32_lit_1 [simp]: "f32_lit 1 = FFin False 1"
  by (simp add: f32_lit_def)

lemma f32_lit_m1 [simp]: "f32_lit (- 1) = FFin True 1"
  by (simp add: f32_lit_def)

lemma f32_lit_half [simp]: "f32_lit (1 / 2) = FFin False (1 / 2)"
  using f32_of_real_dyadic [of 1 1 False] by (simp add: f32_lit_def)

lemma f32_lit_numeral:
  "numeral n \<le> (2 ^ 24 :: int) \<Longrightarrow> f32_lit (numeral n) = FFin False (numeral n)"
  by (simp add: f32_lit_def f32_of_real_numeral)

lemma f32_lit_mono: "a \<le> b \<Longrightarrow> f32_le (f32_lit a) (f32_lit b)"
  by (simp add: f32_lit_def f32_of_real_mono)

lemma f32_lit_isfinite_small:
  assumes "0 \<le> r" and "r \<le> 2 ^ 24"
  shows "f32_isfinite (f32_lit r)"
proof -
  have "f32_le (f32_lit 0) (f32_lit r)" "f32_le (f32_lit r) (f32_lit (2 ^ 24))"
    using assms by (simp_all only: f32_lit_mono)
  moreover have "f32_lit (2 ^ 24) = FFin False (2 ^ 24)"
    using f32_of_real_int [of "2 ^ 24" False] by (simp add: f32_lit_def)
  ultimately show ?thesis by (intro f32_between_finite [of "f32_lit 0" "f32_lit r" "f32_lit (2 ^ 24)"]) simp_all
qed

subsection \<open>Signs and steps\<close>

lemma f32_nonneg_cases:
  assumes "f32_le f32_zero x"
  obtains (inf) "x = FInf False" | (fin) s m where "x = FFin s m" and "0 \<le> f32_val x"
  using assms by (cases x) auto

lemma f32_nonpos_cases:
  assumes "f32_le x f32_zero"
  obtains (inf) "x = FInf True" | (fin) s m where "x = FFin s m" and "f32_val x \<le> 0"
  using assms by (cases x) auto

lemma f32_of_real_nonneg: "0 \<le> r \<Longrightarrow> f32_le f32_zero (f32_of_real z r)"
  using f32_of_real_ge [of f32_zero r z] by simp

lemma f32_of_real_nonpos: "r \<le> 0 \<Longrightarrow> f32_le (f32_of_real z r) f32_zero"
  using f32_of_real_le [of f32_zero r z] by simp

text \<open>
  The sign of a product. The operands are representable, so that a zero magnitude is the only one
  that makes the product with an infinity a NaN.
\<close>

lemma f32_val_zero: "f32_val (FFin s 0) = 0"
  by simp

lemma f32_sign_val:
  assumes "wf32 (FFin s m)" and "m \<noteq> 0"
  shows "f32_val (FFin s m) < 0 \<longleftrightarrow> s" and "f32_val (FFin s m) \<le> 0 \<longleftrightarrow> s"
    and "0 \<le> f32_val (FFin s m) \<longleftrightarrow> \<not> s"
  using wf32_mag_nonneg [OF assms(1)] assms(2) by auto

lemma f32_mul_nonneg:
  assumes "wf32 x" and "wf32 y" and "f32_le f32_zero x" and "f32_le f32_zero y"
  shows "f32_mul x y = FNaN \<or> f32_le f32_zero (f32_mul x y)"
  using assms
  by (cases x; cases y) (auto simp: f32_val_zero f32_sign_val simp del: f32_val.simps wf32.simps
      intro: f32_of_real_nonneg)

lemma f32_mul_nonneg_nonpos:
  assumes "wf32 x" and "wf32 y" and "f32_le f32_zero x" and "f32_le y f32_zero"
  shows "f32_mul x y = FNaN \<or> f32_le (f32_mul x y) f32_zero"
  using assms
  by (cases x; cases y) (auto simp: f32_val_zero f32_sign_val mult_nonneg_nonpos
      simp del: f32_val.simps wf32.simps intro: f32_of_real_nonpos)

lemma f32_add_nonpos_le:
  assumes "wf32 x" and "f32_isfinite x" and "f32_le d f32_zero"
  shows "f32_le (f32_add x d) x"
  using assms
  by (cases x; cases d) (auto simp: f32_val_zero simp del: f32_val.simps wf32.simps intro!: f32_of_real_le)

lemma f32_add_nonneg_ge:
  assumes "wf32 x" and "f32_isfinite x" and "f32_le f32_zero d"
  shows "f32_le x (f32_add x d)"
  using assms
  by (cases x; cases d) (auto simp: f32_val_zero simp del: f32_val.simps wf32.simps intro!: f32_of_real_ge)

text \<open>Scaling by a factor of magnitude at most one does not leave the range of a bound.\<close>

lemma f32_mul_unit_bound:
  assumes "f32_le (FFin True 1) t" and "f32_le t (FFin False 1)"
    and "wf32 b" and "f32_isfinite b" and "f32_le f32_zero b"
  shows "f32_le (f32_neg b) (f32_mul t b)" and "f32_le (f32_mul t b) b"
proof -
  have "f32_isfinite t" by (rule f32_between_finite [OF assms(1,2)]) simp_all
  then obtain s m u n where tb: "t = FFin s m" "b = FFin u n" using assms(4) by (cases t; cases b) auto
  have t: "\<bar>f32_val t\<bar> \<le> 1" and b: "0 \<le> f32_val b" using assms(1,2,5) by (auto simp: tb)
  have "\<bar>f32_val t * f32_val b\<bar> \<le> f32_val b" using t b by (simp add: abs_mult mult_left_le_one_le)
  then have r: "f32_val t * f32_val b \<le> f32_val b" "f32_val (f32_neg b) \<le> f32_val t * f32_val b"
    by (simp_all add: abs_le_iff)
  have "wf32 (f32_neg b)" "f32_isfinite (f32_neg b)" using assms(3,4) by simp_all
  from f32_of_real_ge [OF this r(2), of "s \<noteq> u"] f32_of_real_le [OF assms(3,4) r(1), of "s \<noteq> u"]
  show "f32_le (f32_neg b) (f32_mul t b)" "f32_le (f32_mul t b) b"
    by (simp_all add: tb del: f32_val.simps)
qed

lemma wf32_power: "k \<le> 127 \<Longrightarrow> wf32 (FFin s (2 ^ k))"
proof -
  assume "k \<le> 127"
  have eq: "2 ^ k * f32_scale = of_int 1 * 2 ^ (k + 149)" by (simp add: f32_scale_def power_add)
  have "(2::real) ^ (k + 149) < 2 ^ 277" by (rule power_strict_increasing) (use \<open>k \<le> 127\<close> in simp_all)
  then show ?thesis
    using representable_scaled [of 1 "k + 149"] unfolding wf32.simps eq f32_overflow_def by simp
qed

lemma f32_of_u64_finite: "f32_isfinite (f32_of_u64 n)"
proof (rule f32_between_finite)
  show "f32_le f32_zero (f32_of_u64 n)" unfolding f32_of_u64_def by (rule f32_of_real_nonneg, rule of_nat_0_le_iff)
  have "unat n < 2 ^ 64" using unsigned_less [of n] by simp
  then have "real (unat n) < real (2 ^ 64)" by (simp only: of_nat_less_iff)
  then have "real (unat n) \<le> f32_val (FFin False (2 ^ 64))" by (simp del: of_nat_unat)
  then show "f32_le (f32_of_u64 n) (FFin False (2 ^ 64))"
    unfolding f32_of_u64_def by (intro f32_of_real_le wf32_power) simp_all
qed simp_all

lemma f32_mul_finite_not_nan: "f32_isfinite x \<Longrightarrow> f32_isfinite y \<Longrightarrow> f32_mul x y \<noteq> FNaN"
  by (cases x; cases y) simp_all

subsection \<open>Exact operations\<close>

text \<open>A finite representable value and the real it stands for.\<close>

definition denotes :: "float32 \<Rightarrow> real \<Rightarrow> bool" where
  "denotes x r \<longleftrightarrow> wf32 x \<and> f32_isfinite x \<and> f32_val x = r"

lemma denotes_cases:
  assumes "denotes x r"
  obtains s m where "x = FFin s m" and "wf32 (FFin s m)" and "r = f32_val (FFin s m)"
  using assms by (cases x) (auto simp: denotes_def)

lemma denotes_of_real: "denotes x r \<Longrightarrow> denotes (f32_of_real z r) r"
  using f32_of_real_val [of x z] by (auto simp: denotes_def)

lemma denotes_zero [simp]: "denotes (FFin s 0) 0"
  by (simp add: denotes_def)

lemma denotes_one [simp]: "denotes (FFin False 1) 1" "denotes (FFin True 1) (- 1)"
  using wf32_lit [of 1] wf32_lit [of "- 1"] by (simp_all add: denotes_def)

lemma denotes_neg: "denotes x r \<Longrightarrow> denotes (f32_neg x) (- r)"
  by (simp add: denotes_def)

text \<open>An operation whose exact result is representable does not round.\<close>

lemma denotes_mul:
  assumes "denotes x a" and "denotes y b" and "denotes z (a * b)"
  shows "denotes (f32_mul x y) (a * b)"
  using assms(1,2) denotes_of_real [OF assms(3)]
  by (auto elim!: denotes_cases simp del: f32_val.simps)

lemma denotes_add:
  assumes "denotes x a" and "denotes y b" and "denotes z (a + b)"
  shows "denotes (f32_add x y) (a + b)"
  using assms(1,2) denotes_of_real [OF assms(3)]
  by (auto elim!: denotes_cases simp del: f32_val.simps)

lemma denotes_mul_unit:
  assumes "denotes x r"
  shows "denotes (f32_mul (FFin s 0) x) 0" and "denotes (f32_mul x (FFin s 0)) 0"
    and "denotes (f32_mul (FFin False 1) x) r" and "denotes (f32_mul x (FFin False 1)) r"
    and "denotes (f32_mul (FFin True 1) x) (- r)" and "denotes (f32_mul x (FFin True 1)) (- r)"
  using denotes_mul [of "FFin s 0" 0 x r f32_zero] denotes_mul [of x r "FFin s 0" 0 f32_zero]
    denotes_mul [of "FFin False 1" 1 x r x] denotes_mul [of x r "FFin False 1" 1 x]
    denotes_mul [of "FFin True 1" "- 1" x r "f32_neg x"] denotes_mul [of x r "FFin True 1" "- 1" "f32_neg x"]
    assms denotes_neg [OF assms] by simp_all

lemma denotes_add_zero:
  assumes "denotes x r" and "denotes y 0"
  shows "denotes (f32_add x y) r" and "denotes (f32_add y x) r"
  using denotes_add [of x r y 0 x] denotes_add [of y 0 x r x] assms by simp_all

end
