(* ===== verification/Px4_Math.thy ===== *)
theory Px4_Math
  imports Binary32
begin

text \<open>
  The numeric helpers of \<^verbatim>\<open>src/lib/mathlib/math\<close> (\<^verbatim>\<open>Limits.hpp\<close>, \<^verbatim>\<open>Functions.hpp\<close>) on binary32,
  and the three-dimensional part of the matrix library \<^verbatim>\<open>src/lib/matrix/matrix\<close>: vectors with
  the element-wise operations, the cross product, matrix times vector and the inverse of a 3x3
  matrix, each with the evaluation order of the source.
\<close>

subsection \<open>Limits.hpp and Functions.hpp\<close>

definition math_min :: "float32 \<Rightarrow> float32 \<Rightarrow> float32" where
  "math_min a b = (if f32_lt a b then a else b)"

definition math_max :: "float32 \<Rightarrow> float32 \<Rightarrow> float32" where
  "math_max a b = (if f32_gt a b then a else b)"

definition constrain :: "float32 \<Rightarrow> float32 \<Rightarrow> float32 \<Rightarrow> float32" where
  "constrain val min_val max_val =
     (if f32_lt val min_val then min_val else if f32_gt val max_val then max_val else val)"

definition MATH_PI :: real where
  "MATH_PI = 3141592653589793238462643383280 / 10 ^ 30"

definition radians :: "float32 \<Rightarrow> float32" where
  "radians degrees = f32_mul degrees (f32_div (f32_lit MATH_PI) (f32_lit 180))"

definition FLT_EPSILON :: float32 where
  "FLT_EPSILON = f32_lit (1 / 2 ^ 23)"

definition sq :: "float32 \<Rightarrow> float32" where
  "sq val = f32_mul val val"

definition expo :: "float32 \<Rightarrow> float32 \<Rightarrow> float32" where
  "expo value e =
     (let x = constrain value (f32_lit (- 1)) (f32_lit 1);
          ec = constrain e (f32_lit 0) (f32_lit 1)
      in f32_add (f32_mul (f32_sub (f32_lit 1) ec) x)
                 (f32_mul (f32_mul (f32_mul ec x) x) x))"

definition superexpo :: "float32 \<Rightarrow> float32 \<Rightarrow> float32 \<Rightarrow> float32" where
  "superexpo value e g =
     (let x = constrain value (f32_lit (- 1)) (f32_lit 1);
          gc = constrain g (f32_lit 0) (f32_lit (99 / 100))
      in f32_div (f32_mul (expo x e) (f32_sub (f32_lit 1) gc))
                 (f32_sub (f32_lit 1) (f32_mul (f32_abs x) gc)))"

lemma wf32_minmax [simp, wf32_intros]:
  "wf32 a \<Longrightarrow> wf32 b \<Longrightarrow> wf32 (math_min a b)"
  "wf32 a \<Longrightarrow> wf32 b \<Longrightarrow> wf32 (math_max a b)"
  by (simp_all add: math_min_def math_max_def)

lemma wf32_constrain [simp, wf32_intros]:
  "wf32 x \<Longrightarrow> wf32 lo \<Longrightarrow> wf32 hi \<Longrightarrow> wf32 (constrain x lo hi)"
  by (simp add: constrain_def)

text \<open>
  \<open>constrain\<close> bounds every number, infinities included, and lets a NaN through.
\<close>

lemma constrain_nan [simp, f32_nan]: "constrain FNaN lo hi = FNaN"
  by (simp add: constrain_def)

lemma constrain_bounds:
  assumes "x \<noteq> FNaN" and "f32_le lo hi"
  shows "f32_le lo (constrain x lo hi)" and "f32_le (constrain x lo hi) hi"
proof -
  have "lo \<noteq> FNaN" "hi \<noteq> FNaN" using assms(2) by (auto simp: f32_le_def)
  then show "f32_le lo (constrain x lo hi)" "f32_le (constrain x lo hi) hi"
    using assms f32_not_lt [of x lo] f32_not_lt [of hi x] by (auto simp: constrain_def)
qed

lemma constrain_not_nan:
  "x \<noteq> FNaN \<Longrightarrow> f32_le lo hi \<Longrightarrow> constrain x lo hi \<noteq> FNaN"
  using constrain_bounds(1) [of x lo hi] by auto

lemma constrain_nan_iff: "f32_le lo hi \<Longrightarrow> constrain x lo hi = FNaN \<longleftrightarrow> x = FNaN"
  using constrain_not_nan [of x lo hi] by auto

lemma constrain_id: "f32_le lo x \<Longrightarrow> f32_le x hi \<Longrightarrow> constrain x lo hi = x"
  by (auto simp: constrain_def f32_le_def f32_lt_def)

lemma math_max_ge:
  assumes "b \<noteq> FNaN"
  shows "f32_le b (math_max a b)"
  using assms by (auto simp: math_max_def intro: f32_lt_imp_le)

lemma math_min_le:
  assumes "b \<noteq> FNaN"
  shows "f32_le (math_min a b) b"
  using assms by (auto simp: math_min_def intro: f32_lt_imp_le)

subsection \<open>Vectors and matrices of dimension three\<close>

datatype 'a vec3 = V3 (v0: 'a) (v1: 'a) (v2: 'a)

type_synonym vector3f = "float32 vec3"
type_synonym matrix3f = "float32 vec3 vec3"

fun v3_map2 :: "('a \<Rightarrow> 'b \<Rightarrow> 'c) \<Rightarrow> 'a vec3 \<Rightarrow> 'b vec3 \<Rightarrow> 'c vec3" where
  "v3_map2 f (V3 a b c) (V3 x y z) = V3 (f a x) (f b y) (f c z)"

definition v3_all :: "('a \<Rightarrow> bool) \<Rightarrow> 'a vec3 \<Rightarrow> bool" where
  "v3_all P v \<longleftrightarrow> P (v0 v) \<and> P (v1 v) \<and> P (v2 v)"

definition v3_zero :: vector3f where
  "v3_zero = V3 f32_zero f32_zero f32_zero"

definition v3_add :: "vector3f \<Rightarrow> vector3f \<Rightarrow> vector3f" where
  "v3_add a b = v3_map2 f32_add a b"

definition v3_sub :: "vector3f \<Rightarrow> vector3f \<Rightarrow> vector3f" where
  "v3_sub a b = v3_map2 f32_sub a b"

definition v3_neg :: "vector3f \<Rightarrow> vector3f" where
  "v3_neg a = map_vec3 f32_neg a"

definition v3_emult :: "vector3f \<Rightarrow> vector3f \<Rightarrow> vector3f" where
  "v3_emult a b = v3_map2 f32_mul a b"

definition v3_scale :: "vector3f \<Rightarrow> float32 \<Rightarrow> vector3f" where
  "v3_scale a s = map_vec3 (\<lambda>x. f32_mul x s) a"

definition v3_cross :: "vector3f \<Rightarrow> vector3f \<Rightarrow> vector3f" where
  "v3_cross a b =
     V3 (f32_sub (f32_mul (v1 a) (v2 b)) (f32_mul (v2 a) (v1 b)))
        (f32_add (f32_mul (f32_neg (v0 a)) (v2 b)) (f32_mul (v2 a) (v0 b)))
        (f32_sub (f32_mul (v0 a) (v1 b)) (f32_mul (v1 a) (v0 b)))"

definition v3_dot :: "vector3f \<Rightarrow> vector3f \<Rightarrow> float32" where
  "v3_dot a b =
     f32_add (f32_add (f32_add f32_zero (f32_mul (v0 a) (v0 b))) (f32_mul (v1 a) (v1 b)))
             (f32_mul (v2 a) (v2 b))"

definition m3_mulv :: "matrix3f \<Rightarrow> vector3f \<Rightarrow> vector3f" where
  "m3_mulv m v = map_vec3 (\<lambda>row. v3_dot row v) m"

definition m3_zero :: matrix3f where
  "m3_zero = V3 v3_zero v3_zero v3_zero"

definition m3_diag :: "vector3f \<Rightarrow> matrix3f" where
  "m3_diag d = V3 (V3 (v0 d) f32_zero f32_zero) (V3 f32_zero (v1 d) f32_zero)
                  (V3 f32_zero f32_zero (v2 d))"

definition m3_add :: "matrix3f \<Rightarrow> matrix3f \<Rightarrow> matrix3f" where
  "m3_add a b = v3_map2 v3_add a b"

definition m3_scale :: "matrix3f \<Rightarrow> float32 \<Rightarrow> matrix3f" where
  "m3_scale m s = map_vec3 (\<lambda>row. v3_scale row s) m"

text \<open>The inverse by the adjugate; \<open>None\<close> for the source's \<^verbatim>\<open>return false\<close>.\<close>

definition m3_inv :: "matrix3f \<Rightarrow> matrix3f option" where
  "m3_inv A =
     (let a00 = v0 (v0 A); a01 = v1 (v0 A); a02 = v2 (v0 A);
          a10 = v0 (v1 A); a11 = v1 (v1 A); a12 = v2 (v1 A);
          a20 = v0 (v2 A); a21 = v1 (v2 A); a22 = v2 (v2 A);
          minor = (\<lambda>p q r s. f32_sub (f32_mul p q) (f32_mul r s));
          det = f32_add (f32_sub (f32_mul a00 (minor a11 a22 a21 a12))
                                 (f32_mul a01 (minor a10 a22 a12 a20)))
                        (f32_mul a02 (minor a10 a21 a11 a20))
      in if f32_lt (f32_abs det) FLT_EPSILON \<or> \<not> f32_isfinite det then None
         else Some (m3_scale
           (V3 (V3 (minor a11 a22 a21 a12) (minor a02 a21 a01 a22) (minor a01 a12 a02 a11))
               (V3 (minor a12 a20 a10 a22) (minor a00 a22 a02 a20) (minor a10 a02 a00 a12))
               (V3 (minor a10 a21 a20 a11) (minor a20 a01 a00 a21) (minor a00 a11 a10 a01)))
           (f32_div (f32_lit 1) det)))"

lemma v3_map2_sel [simp]:
  "v0 (v3_map2 f a b) = f (v0 a) (v0 b)"
  "v1 (v3_map2 f a b) = f (v1 a) (v1 b)"
  "v2 (v3_map2 f a b) = f (v2 a) (v2 b)"
  by (cases a; cases b; simp)+

lemma v3_map_sel [simp]:
  "v0 (map_vec3 f a) = f (v0 a)" "v1 (map_vec3 f a) = f (v1 a)" "v2 (map_vec3 f a) = f (v2 a)"
  by (cases a; simp)+

lemmas v3_ops = v3_add_def v3_sub_def v3_neg_def v3_emult_def v3_scale_def v3_cross_def v3_zero_def

lemma v3_all_map2: "v3_all P (v3_map2 f a b) \<longleftrightarrow>
    P (f (v0 a) (v0 b)) \<and> P (f (v1 a) (v1 b)) \<and> P (f (v2 a) (v2 b))"
  by (simp add: v3_all_def)

lemma wf32_v3 [simp, wf32_intros]:
  "v3_all wf32 v3_zero" "v3_all wf32 (v3_add a b)" "v3_all wf32 (v3_sub a b)"
  "v3_all wf32 (v3_emult a b)" "v3_all wf32 (v3_scale a s)" "v3_all wf32 (v3_cross a b)"
  "v3_all wf32 (m3_mulv m a)"
  by (simp_all add: v3_all_def v3_ops m3_mulv_def v3_dot_def del: wf32.simps)

lemma wf32_v3_neg [simp, wf32_intros]: "v3_all wf32 a \<Longrightarrow> v3_all wf32 (v3_neg a)"
  by (simp add: v3_all_def v3_ops)

text \<open>A NaN in one component of a vector reaches every component of a matrix product.\<close>

lemma v3_dot_nan [f32_nan]:
  assumes "v0 b = FNaN \<or> v1 b = FNaN \<or> v2 b = FNaN"
  shows "v3_dot a b = FNaN"
  using assms by (auto simp: v3_dot_def)

lemma m3_mulv_nan [f32_nan]:
  assumes "v0 b = FNaN \<or> v1 b = FNaN \<or> v2 b = FNaN"
  shows "m3_mulv m b = V3 FNaN FNaN FNaN"
  using v3_dot_nan [OF assms] by (cases m) (simp add: m3_mulv_def)

end
