(* ===== verification/Arm_Kinematics.thy ===== *)
theory Arm_Kinematics
  imports Px4_Math
begin

text \<open>
  \<^verbatim>\<open>ArmKinematics\<close> (\<^verbatim>\<open>src/modules/eso_att_control/ArmKinematics.hpp\<close>) and the vehicle profiles of
  \<^verbatim>\<open>src/modules/eso_common/ESOModelProfile.hpp\<close>: centre of mass and inertia of the vehicle with its arm
  as functions of the joint angles, for both vehicle models, with the cache between the two
  computations. The C library functions \<^verbatim>\<open>cosf\<close> and \<^verbatim>\<open>sinf\<close> are parameters. Shown: the cache of the
  \<^verbatim>\<open>uam_v5\<close> model is coherent, the \<^verbatim>\<open>uam_v5\<close> results ignore the gripper joints, the frame conversion is an
  involution, and the \<^verbatim>\<open>uav_arm_v4\<close> model answers from an unfilled cache.
\<close>

subsection \<open>Vehicle profiles\<close>

datatype ModelProfile = UavArmV4 | UamV5

record DynamicsProfile =
  mass_total :: float32
  com :: vector3f
  arm_inertia_diag :: vector3f
  body_inertia_diag :: vector3f
  use_dynamic_arm_model :: bool

definition armInertiaMatrix :: "DynamicsProfile \<Rightarrow> matrix3f" where
  "armInertiaMatrix p = m3_diag (arm_inertia_diag p)"

definition bodyInertiaMatrix :: "DynamicsProfile \<Rightarrow> matrix3f" where
  "bodyInertiaMatrix p = m3_diag (body_inertia_diag p)"

definition staticSystemInertiaMatrix :: "DynamicsProfile \<Rightarrow> matrix3f" where
  "staticSystemInertiaMatrix p = m3_add (armInertiaMatrix p) (bodyInertiaMatrix p)"

definition kUavArmV4Profile :: DynamicsProfile where
  "kUavArmV4Profile =
     \<lparr>mass_total = f32_lit (1289 / 1000), com = V3 (f32_lit (- 1 / 100)) f32_zero (f32_lit (161 / 1000)),
      arm_inertia_diag = V3 (f32_lit (16 / 1000)) (f32_lit (16 / 1000)) (f32_lit (16 / 1000)),
      body_inertia_diag = V3 (f32_lit (45 / 1000)) (f32_lit (45 / 1000)) (f32_lit (8 / 100)),
      use_dynamic_arm_model = True\<rparr>"

definition kUamV5Profile :: DynamicsProfile where
  "kUamV5Profile =
     \<lparr>mass_total = f32_lit (48548 / 10000),
      com = V3 (f32_lit (405203 / 10 ^ 8)) f32_zero (f32_lit (6556744 / 10 ^ 8)),
      arm_inertia_diag = V3 (f32_lit (842308 / 10 ^ 8)) (f32_lit (4709706 / 10 ^ 8)) (f32_lit (4006098 / 10 ^ 8)),
      body_inertia_diag = V3 (f32_lit (49436 / 10 ^ 6)) (f32_lit (52665 / 10 ^ 6)) (f32_lit (86619 / 10 ^ 6)),
      use_dynamic_arm_model = True\<rparr>"

definition getDynamicsProfile :: "ModelProfile \<Rightarrow> DynamicsProfile" where
  "getDynamicsProfile profile = (case profile of UamV5 \<Rightarrow> kUamV5Profile | UavArmV4 \<Rightarrow> kUavArmV4Profile)"

definition resolveModelProfile :: "32 word \<Rightarrow> ModelProfile" where
  "resolveModelProfile raw_value = (if raw_value = 1 then UamV5 else UavArmV4)"

subsection \<open>Matrices\<close>

definition m3_transpose :: "matrix3f \<Rightarrow> matrix3f" where
  "m3_transpose m = V3 (map_vec3 v0 m) (map_vec3 v1 m) (map_vec3 v2 m)"

definition m3_mul :: "matrix3f \<Rightarrow> matrix3f \<Rightarrow> matrix3f" where
  "m3_mul a b = map_vec3 (\<lambda>row. map_vec3 (\<lambda>col. v3_dot row col) (m3_transpose b)) a"

text \<open>\<^verbatim>\<open>operator/\<close> multiplies by the reciprocal.\<close>

definition v3_div :: "vector3f \<Rightarrow> float32 \<Rightarrow> vector3f" where
  "v3_div v s = v3_scale v (f32_div (f32_lit 1) s)"

type_synonym trig = "(float32 \<Rightarrow> float32) \<times> (float32 \<Rightarrow> float32)"

abbreviation cosf :: "trig \<Rightarrow> float32 \<Rightarrow> float32" where
  "cosf \<equiv> fst"

abbreviation sinf :: "trig \<Rightarrow> float32 \<Rightarrow> float32" where
  "sinf \<equiv> snd"

definition M_PI_F :: float32 where
  "M_PI_F = f32_lit (314159265 / 10 ^ 8)"

definition M_PI_2_F :: float32 where
  "M_PI_2_F = f32_lit (157079632 / 10 ^ 8)"

definition skew :: "vector3f \<Rightarrow> matrix3f" where
  "skew v = V3 (V3 f32_zero (f32_neg (v2 v)) (v1 v))
               (V3 (v2 v) f32_zero (f32_neg (v0 v)))
               (V3 (f32_neg (v1 v)) (v0 v) f32_zero)"

definition rotZ :: "trig \<Rightarrow> float32 \<Rightarrow> matrix3f" where
  "rotZ tr angle =
     (let c = cosf tr angle; s = sinf tr angle
      in V3 (V3 c (f32_neg s) f32_zero) (V3 s c f32_zero) (V3 f32_zero f32_zero (f32_lit 1)))"

definition rotX :: "trig \<Rightarrow> float32 \<Rightarrow> matrix3f" where
  "rotX tr angle =
     (let c = cosf tr angle; s = sinf tr angle
      in V3 (V3 (f32_lit 1) f32_zero f32_zero) (V3 f32_zero c (f32_neg s)) (V3 f32_zero s c))"

definition rotY :: "trig \<Rightarrow> float32 \<Rightarrow> matrix3f" where
  "rotY tr angle =
     (let c = cosf tr angle; s = sinf tr angle
      in V3 (V3 c f32_zero s) (V3 f32_zero (f32_lit 1) f32_zero) (V3 (f32_neg s) f32_zero c))"

subsection \<open>Poses\<close>

record Pose3f =
  pose_R :: matrix3f
  pose_t :: vector3f

definition makePose :: "matrix3f \<Rightarrow> vector3f \<Rightarrow> Pose3f" where
  "makePose R t = \<lparr>pose_R = R, pose_t = t\<rparr>"

definition composePose :: "Pose3f \<Rightarrow> Pose3f \<Rightarrow> Pose3f" where
  "composePose parent child =
     \<lparr>pose_R = m3_mul (pose_R parent) (pose_R child),
      pose_t = v3_add (pose_t parent) (m3_mulv (pose_R parent) (pose_t child))\<rparr>"

definition transformPoint :: "Pose3f \<Rightarrow> vector3f \<Rightarrow> vector3f" where
  "transformPoint pose local_point = v3_add (pose_t pose) (m3_mulv (pose_R pose) local_point)"

definition fluToFrdVector :: "vector3f \<Rightarrow> vector3f" where
  "fluToFrdVector v_flu = V3 (v0 v_flu) (f32_neg (v1 v_flu)) (f32_neg (v2 v_flu))"

definition fluToFrdMatrix :: "matrix3f \<Rightarrow> matrix3f" where
  "fluToFrdMatrix m_flu =
     (let C = m3_diag (V3 (f32_lit 1) (f32_lit (- 1)) (f32_lit (- 1)))
      in m3_mul (m3_mul C m_flu) (m3_transpose C))"

definition makeMdhPose :: "trig \<Rightarrow> float32 \<Rightarrow> float32 \<Rightarrow> float32 \<Rightarrow> float32 \<Rightarrow> Pose3f" where
  "makeMdhPose tr alpha_prev a_prev theta_i d_i =
     \<lparr>pose_R = m3_mul (rotX tr alpha_prev) (rotZ tr theta_i),
      pose_t = m3_mulv (rotX tr alpha_prev) (V3 a_prev f32_zero d_i)\<rparr>"

subsection \<open>State\<close>

record arm_kinematics =
  ak_mass_total_system :: float32
  ak_base_com_offset :: vector3f
  ak_base_inertia_val :: matrix3f
  ak_model_profile :: ModelProfile
  ak_cached_p1 :: vector3f
  ak_cached_p2 :: vector3f
  ak_cached_p3 :: vector3f
  ak_cached_p4 :: vector3f
  ak_cached_com :: vector3f
  ak_cached_q :: "float32 list"
  ak_uam_v5_cache_valid :: bool

definition arm_kinematics_init :: arm_kinematics where
  "arm_kinematics_init =
     \<lparr>ak_mass_total_system = f32_lit (3 / 2), ak_base_com_offset = v3_zero,
      ak_base_inertia_val = m3_zero, ak_model_profile = UavArmV4,
      ak_cached_p1 = v3_zero, ak_cached_p2 = v3_zero, ak_cached_p3 = v3_zero, ak_cached_p4 = v3_zero,
      ak_cached_com = v3_zero, ak_cached_q = replicate 4 f32_zero, ak_uam_v5_cache_valid = False\<rparr>"

definition setModelProfile :: "ModelProfile \<Rightarrow> arm_kinematics \<Rightarrow> arm_kinematics" where
  "setModelProfile profile s = s\<lparr>ak_model_profile := profile, ak_uam_v5_cache_valid := False\<rparr>"

definition setParameters :: "float32 \<Rightarrow> vector3f \<Rightarrow> matrix3f \<Rightarrow> arm_kinematics \<Rightarrow> arm_kinematics" where
  "setParameters mass_tot base_com_offset base_inertia s =
     s\<lparr>ak_mass_total_system := mass_tot, ak_base_com_offset := base_com_offset,
       ak_base_inertia_val := base_inertia, ak_uam_v5_cache_valid := False\<rparr>"

subsection \<open>uav\_arm\_v4\<close>

text \<open>The positions of the four link centres of mass and of the system's.\<close>

definition com_points_UavArmV4 ::
  "trig \<Rightarrow> float32 list \<Rightarrow> vector3f \<times> vector3f \<times> vector3f \<times> vector3f \<times> vector3f" where
  "com_points_UavArmV4 tr q =
     (let m_base = f32_add (f32_lit (844401 / 10 ^ 6)) (f32_lit (15 / 1000));
          m1 = f32_lit (250494 / 10 ^ 6);
          m2 = f32_lit (20149 / 10 ^ 6);
          m3 = f32_lit (397105 / 10 ^ 7);
          m4 = f32_lit (631624 / 10 ^ 7);
          m_grip = f32_lit (16 / 1000);
          m_total = f32_add (f32_add (f32_add (f32_add (f32_add m_base m1) m2) m3) m4) m_grip;
          z_base_to_j1 = f32_lit (1745 / 10 ^ 4);
          L1 = f32_lit (132 / 1000);
          L2 = f32_lit (885 / 10 ^ 4);
          L3 = f32_lit (885 / 10 ^ 4);
          com1_z = f32_lit (43715 / 10 ^ 6);
          com2_x = f32_lit (4063 / 10 ^ 5);
          com3_x = f32_lit (25422 / 10 ^ 6);
          com4_x = f32_lit (30336 / 10 ^ 6);
          q0 = q ! 0; q1 = q ! 1; q2 = q ! 2; q3 = q ! 3;
          c0 = cosf tr q0; s0 = sinf tr q0;
          c1 = cosf tr q1; s1 = sinf tr q1;
          c12 = cosf tr (f32_add q1 q2); s12 = sinf tr (f32_add q1 q2);
          c123 = cosf tr (f32_add (f32_add q1 q2) q3); s123 = sinf tr (f32_add (f32_add q1 q2) q3);
          mul3 = (\<lambda>a b c. f32_mul (f32_mul a b) c);
          p_base_com = V3 (f32_lit (642 / 10 ^ 6)) f32_zero (f32_lit (- 193246 / 10 ^ 6));
          p_j1 = V3 f32_zero f32_zero z_base_to_j1;
          p1_com = v3_add p_j1 (V3 f32_zero f32_zero com1_z);
          p_j2 = v3_add p_j1 (V3 (mul3 c0 L1 s1) (mul3 s0 L1 s1) (f32_mul L1 c1));
          p2_com = v3_add p_j2 (V3 (mul3 c0 com2_x c1) (mul3 s0 com2_x c1) (f32_mul (f32_neg com2_x) s1));
          p_j3 = v3_add p_j2 (V3 (mul3 c0 L2 s12) (mul3 s0 L2 s12) (f32_mul L2 c12));
          p3_com = v3_add p_j3 (V3 (mul3 c0 com3_x c12) (mul3 s0 com3_x c12) (f32_mul (f32_neg com3_x) s12));
          p_j4 = v3_add p_j3 (V3 (mul3 c0 L3 s123) (mul3 s0 L3 s123) (f32_mul L3 c123));
          p4_com = v3_add p_j4
            (V3 (mul3 c0 com4_x c123) (mul3 s0 com4_x c123) (f32_mul (f32_neg com4_x) s123));
          p_sys_com = v3_div
            (v3_add (v3_add (v3_add (v3_add (v3_scale p_base_com m_base) (v3_scale p1_com m1))
               (v3_scale p2_com m2)) (v3_scale p3_com m3)) (v3_scale p4_com (f32_add m4 m_grip))) m_total
      in (p1_com, p2_com, p3_com, p4_com, p_sys_com))"

definition computeSystemCoM_UavArmV4 ::
  "trig \<Rightarrow> float32 list \<Rightarrow> arm_kinematics \<Rightarrow> vector3f \<times> arm_kinematics" where
  "computeSystemCoM_UavArmV4 tr q s =
     (case com_points_UavArmV4 tr q of (p1_com, p2_com, p3_com, p4_com, p_sys_com) \<Rightarrow>
        (p_sys_com,
         s\<lparr>ak_cached_p1 := p1_com, ak_cached_p2 := p2_com, ak_cached_p3 := p3_com,
           ak_cached_p4 := p4_com, ak_cached_com := p_sys_com,
           ak_cached_q := [q ! 0, q ! 1, q ! 2, q ! 3]\<rparr>))"

text \<open>One link of the parallel axis theorem: \<^verbatim>\<open>R * I * R.transpose() + S.transpose() * S * m\<close>.\<close>

definition steiner :: "matrix3f \<Rightarrow> matrix3f \<Rightarrow> vector3f \<Rightarrow> float32 \<Rightarrow> matrix3f" where
  "steiner R I_local r m =
     m3_add (m3_mul (m3_mul R I_local) (m3_transpose R))
            (m3_scale (m3_mul (m3_transpose (skew r)) (skew r)) m)"

definition inertia_UavArmV4 ::
  "trig \<Rightarrow> float32 list \<Rightarrow> matrix3f \<Rightarrow> vector3f \<times> vector3f \<times> vector3f \<times> vector3f \<times> vector3f \<Rightarrow> matrix3f" where
  "inertia_UavArmV4 tr q base_inertia points =
     (case points of (p1, p2, p3, p4, p_com) \<Rightarrow>
      let m1 = f32_lit (250494 / 10 ^ 6);
          m2 = f32_lit (20149 / 10 ^ 6);
          m3 = f32_lit (397105 / 10 ^ 7);
          m4 = f32_add (f32_lit (631624 / 10 ^ 7)) (f32_lit (16 / 1000));
          i5 = f32_lit (5 / 1000); i3 = f32_lit (3 / 1000);
          I1_local = m3_diag (V3 i5 i5 i5); I2_local = m3_diag (V3 i5 i5 i5);
          I3_local = m3_diag (V3 i3 i3 i3); I4_local = m3_diag (V3 i3 i3 i3);
          R1 = rotZ tr (q ! 0);
          R2 = m3_mul R1 (rotY tr (q ! 1));
          R3 = m3_mul R2 (rotY tr (q ! 2));
          R4 = m3_mul R3 (rotY tr (q ! 3));
          r1 = v3_sub p1 p_com; r2 = v3_sub p2 p_com; r3 = v3_sub p3 p_com; r4 = v3_sub p4 p_com
      in m3_add (m3_add (m3_add (m3_add base_inertia (steiner R1 I1_local r1 m1))
           (steiner R2 I2_local r2 m2)) (steiner R3 I3_local r3 m3)) (steiner R4 I4_local r4 m4))"

definition q_moved :: "float32 list \<Rightarrow> arm_kinematics \<Rightarrow> nat \<Rightarrow> bool" where
  "q_moved q s i \<longleftrightarrow> f32_gt (f32_abs (f32_sub (q ! i) (ak_cached_q s ! i))) (f32_lit (1 / 10 ^ 6))"

subsection \<open>uam\_v5\<close>

definition theta_UamV5 :: "float32 \<Rightarrow> float32" where
  "theta_UamV5 q_i = f32_mul (f32_lit 1) (f32_add q_i (f32_lit 0))"

definition T_B_1_UamV5 :: "trig \<Rightarrow> float32 list \<Rightarrow> Pose3f" where
  "T_B_1_UamV5 tr q =
     (let theta1 = theta_UamV5 (q ! 0);
          T_B_J1_mount = makePose (rotX tr (f32_neg M_PI_F))
            (V3 (f32_lit (115 / 1000)) f32_zero (f32_lit (- 9 / 100)));
          T_J1_var = makeMdhPose tr f32_zero f32_zero theta1 f32_zero
      in composePose T_B_J1_mount T_J1_var)"

definition T_B_2_UamV5 :: "trig \<Rightarrow> float32 list \<Rightarrow> Pose3f" where
  "T_B_2_UamV5 tr q =
     (let theta2 = theta_UamV5 (q ! 1);
          T_1_2_mount = makePose (rotX tr (f32_neg M_PI_2_F)) (V3 f32_zero f32_zero (f32_lit (72 / 1000)));
          T_2_var = makeMdhPose tr f32_zero f32_zero theta2 f32_zero
      in composePose (composePose (T_B_1_UamV5 tr q) T_1_2_mount) T_2_var)"

definition p_base_com_UamV5 :: vector3f where
  "p_base_com_UamV5 = V3 (f32_lit (- 44 / 1000)) f32_zero (f32_lit (- 46 / 1000))"

definition com_points_UamV5 :: "trig \<Rightarrow> float32 list \<Rightarrow> vector3f \<times> vector3f \<times> vector3f" where
  "com_points_UamV5 tr q =
     (let m_base = f32_lit (36678 / 10 ^ 4);
          m1 = f32_lit (593 / 1000);
          m2g = f32_lit (594 / 1000);
          m_total = f32_add (f32_add m_base m1) m2g;
          p1_com = transformPoint (T_B_1_UamV5 tr q) v3_zero;
          p2g_com = transformPoint (T_B_2_UamV5 tr q) (V3 (f32_lit (75 / 1000)) f32_zero f32_zero);
          p_sys_com = v3_div (v3_add (v3_add (v3_scale p_base_com_UamV5 m_base) (v3_scale p1_com m1))
            (v3_scale p2g_com m2g)) m_total
      in (p1_com, p2g_com, p_sys_com))"

definition computeSystemCoM_UamV5 ::
  "trig \<Rightarrow> float32 list \<Rightarrow> arm_kinematics \<Rightarrow> vector3f \<times> arm_kinematics" where
  "computeSystemCoM_UamV5 tr q s =
     (case com_points_UamV5 tr q of (p1_com, p2g_com, p_sys_com) \<Rightarrow>
        (fluToFrdVector p_sys_com,
         s\<lparr>ak_cached_p1 := p1_com, ak_cached_p2 := p2g_com, ak_cached_p3 := v3_zero,
           ak_cached_p4 := v3_zero, ak_cached_com := p_sys_com,
           ak_cached_q := [q ! 0, q ! 1, q ! 2, q ! 3], ak_uam_v5_cache_valid := True\<rparr>))"

definition inertia_UamV5 :: "trig \<Rightarrow> float32 list \<Rightarrow> vector3f \<times> vector3f \<times> vector3f \<Rightarrow> matrix3f" where
  "inertia_UamV5 tr q points =
     (case points of (p1, p2, p_com) \<Rightarrow>
      let m_base = f32_lit (36678 / 10 ^ 4);
          m1 = f32_lit (593 / 1000);
          m2g = f32_lit (594 / 1000);
          I_base_local = m3_diag (V3 (f32_lit (49436 / 10 ^ 6)) (f32_lit (52665 / 10 ^ 6)) (f32_lit (86619 / 10 ^ 6)));
          I1_local = m3_diag (V3 (f32_lit (839 / 10 ^ 6)) (f32_lit (791 / 10 ^ 6)) (f32_lit (943 / 10 ^ 6)));
          I2g_local = m3_diag (V3 (f32_lit (302 / 10 ^ 6)) (f32_lit (2811 / 10 ^ 6)) (f32_lit (2717 / 10 ^ 6)));
          r_base = v3_sub p_base_com_UamV5 p_com;
          r1 = v3_sub p1 p_com;
          r2g = v3_sub p2 p_com;
          S_base = skew r_base;
          I_total = m3_add I_base_local (m3_scale (m3_mul (m3_transpose S_base) S_base) m_base);
          I_total = m3_add I_total (steiner (pose_R (T_B_1_UamV5 tr q)) I1_local r1 m1);
          I_total = m3_add I_total (steiner (pose_R (T_B_2_UamV5 tr q)) I2g_local r2g m2g)
      in fluToFrdMatrix I_total)"

definition computeSystemInertia_UamV5 ::
  "trig \<Rightarrow> float32 list \<Rightarrow> arm_kinematics \<Rightarrow> matrix3f \<times> arm_kinematics" where
  "computeSystemInertia_UamV5 tr q s =
     (let s = (if q_moved q s 0 \<or> q_moved q s 1 \<or> \<not> ak_uam_v5_cache_valid s
               then snd (computeSystemCoM_UamV5 tr q s) else s)
      in (inertia_UamV5 tr q (ak_cached_p1 s, ak_cached_p2 s, ak_cached_com s), s))"

subsection \<open>Dispatch\<close>

definition computeSystemCoM :: "trig \<Rightarrow> float32 list \<Rightarrow> arm_kinematics \<Rightarrow> vector3f \<times> arm_kinematics" where
  "computeSystemCoM tr q s =
     (case ak_model_profile s of
        UamV5 \<Rightarrow> computeSystemCoM_UamV5 tr q s
      | UavArmV4 \<Rightarrow> computeSystemCoM_UavArmV4 tr q s)"

definition computeSystemInertia_UavArmV4 ::
  "trig \<Rightarrow> float32 list \<Rightarrow> arm_kinematics \<Rightarrow> matrix3f \<times> arm_kinematics" where
  "computeSystemInertia_UavArmV4 tr q s =
     (let s = (if q_moved q s 0 \<or> q_moved q s 1 \<or> q_moved q s 2 \<or> q_moved q s 3
               then snd (computeSystemCoM tr q s) else s)
      in (inertia_UavArmV4 tr q (ak_base_inertia_val s)
            (ak_cached_p1 s, ak_cached_p2 s, ak_cached_p3 s, ak_cached_p4 s, ak_cached_com s), s))"

definition computeSystemInertia :: "trig \<Rightarrow> float32 list \<Rightarrow> arm_kinematics \<Rightarrow> matrix3f \<times> arm_kinematics" where
  "computeSystemInertia tr q s =
     (case ak_model_profile s of
        UamV5 \<Rightarrow> computeSystemInertia_UamV5 tr q s
      | UavArmV4 \<Rightarrow> computeSystemInertia_UavArmV4 tr q s)"

subsection \<open>The cache of the uam\_v5 model\<close>

datatype kin_op =
    K_setModelProfile ModelProfile
  | K_setParameters float32 vector3f matrix3f
  | K_computeSystemCoM "float32 list"
  | K_computeSystemInertia "float32 list"

fun kin_step :: "trig \<Rightarrow> arm_kinematics \<Rightarrow> kin_op \<Rightarrow> arm_kinematics" where
  "kin_step tr s (K_setModelProfile p) = setModelProfile p s"
| "kin_step tr s (K_setParameters m c i) = setParameters m c i s"
| "kin_step tr s (K_computeSystemCoM q) = snd (computeSystemCoM tr q s)"
| "kin_step tr s (K_computeSystemInertia q) = snd (computeSystemInertia tr q s)"

definition v5_coherent :: "trig \<Rightarrow> arm_kinematics \<Rightarrow> bool" where
  "v5_coherent tr s \<longleftrightarrow> (ak_uam_v5_cache_valid s \<longrightarrow>
     ak_model_profile s = UamV5
     \<and> (ak_cached_p1 s, ak_cached_p2 s, ak_cached_com s) = com_points_UamV5 tr (ak_cached_q s))"

lemma T_B_UamV5_cong:
  assumes "q ! 0 = q' ! 0"
  shows "T_B_1_UamV5 tr q = T_B_1_UamV5 tr q'"
    and "q ! 1 = q' ! 1 \<Longrightarrow> T_B_2_UamV5 tr q = T_B_2_UamV5 tr q'"
  using assms by (simp_all add: T_B_1_UamV5_def T_B_2_UamV5_def)

lemma com_points_UamV5_cong:
  assumes "q ! 0 = q' ! 0" and "q ! 1 = q' ! 1"
  shows "com_points_UamV5 tr q = com_points_UamV5 tr q'"
  by (simp add: com_points_UamV5_def T_B_UamV5_cong [OF assms(1)] T_B_UamV5_cong(2) [OF assms])

lemma inertia_UamV5_cong:
  assumes "q ! 0 = q' ! 0" and "q ! 1 = q' ! 1"
  shows "inertia_UamV5 tr q pts = inertia_UamV5 tr q' pts"
  by (simp add: inertia_UamV5_def T_B_UamV5_cong [OF assms(1)] T_B_UamV5_cong(2) [OF assms]
      cong: prod.case_cong)

lemma com_UamV5_fills:
  "ak_uam_v5_cache_valid (snd (computeSystemCoM_UamV5 tr q s))"
  "ak_model_profile (snd (computeSystemCoM_UamV5 tr q s)) = ak_model_profile s"
  "ak_cached_q (snd (computeSystemCoM_UamV5 tr q s)) = [q ! 0, q ! 1, q ! 2, q ! 3]"
  "(ak_cached_p1 (snd (computeSystemCoM_UamV5 tr q s)), ak_cached_p2 (snd (computeSystemCoM_UamV5 tr q s)),
    ak_cached_com (snd (computeSystemCoM_UamV5 tr q s))) = com_points_UamV5 tr q"
  by (simp_all add: computeSystemCoM_UamV5_def split: prod.split)

lemma com_UavArmV4_frame [simp]:
  "ak_uam_v5_cache_valid (snd (computeSystemCoM_UavArmV4 tr q s)) = ak_uam_v5_cache_valid s"
  "ak_model_profile (snd (computeSystemCoM_UavArmV4 tr q s)) = ak_model_profile s"
  by (simp_all add: computeSystemCoM_UavArmV4_def split: prod.split)

lemma v5_coherent_fills: "ak_model_profile s = UamV5 \<Longrightarrow> v5_coherent tr (snd (computeSystemCoM_UamV5 tr q s))"
  using com_points_UamV5_cong [of "[q ! 0, q ! 1, q ! 2, q ! 3]" q tr]
  by (simp add: v5_coherent_def com_UamV5_fills del: prod.inject)

lemma v5_coherent_V4:
  "ak_model_profile s = UavArmV4 \<Longrightarrow> v5_coherent tr s \<longleftrightarrow> \<not> ak_uam_v5_cache_valid s"
  by (auto simp: v5_coherent_def)

lemma v5_coherent_step: "v5_coherent tr s \<Longrightarrow> v5_coherent tr (kin_step tr s k)"
proof (cases k)
  case (K_computeSystemCoM q)
  assume "v5_coherent tr s"
  then show ?thesis
    using v5_coherent_fills [of s tr q] v5_coherent_V4 [of s tr]
      v5_coherent_V4 [of "snd (computeSystemCoM_UavArmV4 tr q s)" tr]
    by (cases "ak_model_profile s") (simp_all add: K_computeSystemCoM computeSystemCoM_def)
next
  case (K_computeSystemInertia q)
  assume "v5_coherent tr s"
  then show ?thesis
    using v5_coherent_fills [of s tr q] v5_coherent_V4 [of s tr]
      v5_coherent_V4 [of "snd (computeSystemCoM_UavArmV4 tr q s)" tr]
    by (cases "ak_model_profile s") (simp_all add: K_computeSystemInertia computeSystemInertia_def
        computeSystemInertia_UamV5_def computeSystemInertia_UavArmV4_def computeSystemCoM_def Let_def)
qed (simp_all add: v5_coherent_def setModelProfile_def setParameters_def)

lemma f32_sub_self: "\<not> f32_gt (f32_abs (f32_sub x x)) (f32_lit (1 / 10 ^ 6))"
proof -
  have "f32_le (f32_lit 0) (f32_lit (1 / 10 ^ 6))" by (rule f32_lit_mono) simp
  then have "\<not> f32_lt (f32_lit (1 / 10 ^ 6)) (FFin False 0)"
    by (simp add: f32_not_lt)
  then show ?thesis by (cases x) (auto simp: f32_sub_def)
qed

text \<open>
  The inertia of the \<^verbatim>\<open>uam_v5\<close> model is computed from matching data. After any sequence of
  calls, the lever arms that enter the inertia for joint angles \<open>q\<close> are those of the centre of mass
  computation for angles \<open>q'\<close> whose first two components differ from \<open>q\<close> by no more than 1e-6.
\<close>

theorem arm_v5_inertia_coherent:
  assumes "s = foldl (kin_step tr) arm_kinematics_init ks" and "ak_model_profile s = UamV5"
  shows "\<exists>q'. fst (computeSystemInertia tr q s) = inertia_UamV5 tr q (com_points_UamV5 tr q')
    \<and> list_all (\<lambda>i. \<not> f32_gt (f32_abs (f32_sub (q ! i) (q' ! i))) (f32_lit (1 / 10 ^ 6))) [0, 1]"
proof -
  have "v5_coherent tr arm_kinematics_init" by (simp add: v5_coherent_def arm_kinematics_init_def)
  then have coh: "v5_coherent tr s" unfolding assms(1)
    by (rule foldl_invariant [where P = "v5_coherent tr"]) (rule v5_coherent_step)
  show ?thesis
  proof (cases "q_moved q s 0 \<or> q_moved q s 1 \<or> \<not> ak_uam_v5_cache_valid s")
    case True
    then have "fst (computeSystemInertia tr q s) = inertia_UamV5 tr q (com_points_UamV5 tr q)"
      using assms(2) by (simp add: computeSystemInertia_def computeSystemInertia_UamV5_def Let_def
          com_UamV5_fills)
    then show ?thesis by (intro exI [of _ q]) (simp add: f32_sub_self [simplified])
  next
    case False
    then have "fst (computeSystemInertia tr q s) = inertia_UamV5 tr q (com_points_UamV5 tr (ak_cached_q s))"
      using assms(2) coh by (simp add: computeSystemInertia_def computeSystemInertia_UamV5_def Let_def
          v5_coherent_def)
    then show ?thesis
      using False by (intro exI [of _ "ak_cached_q s"]) (simp add: q_moved_def)
  qed
qed

text \<open>
  In the \<^verbatim>\<open>uam_v5\<close> model the third and fourth joint (the gripper) influence neither the centre of
  mass nor the inertia.
\<close>

theorem arm_v5_ignores_gripper:
  assumes "q ! 0 = q' ! 0" and "q ! 1 = q' ! 1" and "ak_model_profile s = UamV5"
  shows "fst (computeSystemCoM tr q s) = fst (computeSystemCoM tr q' s)
    \<and> fst (computeSystemInertia tr q s) = fst (computeSystemInertia tr q' s)"
proof -
  have pts: "com_points_UamV5 tr q = com_points_UamV5 tr q'" by (rule com_points_UamV5_cong [OF assms(1,2)])
  have moved: "q_moved q s 0 = q_moved q' s 0" "q_moved q s 1 = q_moved q' s 1"
    using assms(1,2) by (simp_all add: q_moved_def)
  show ?thesis
    using assms(3) by (simp add: computeSystemCoM_def computeSystemInertia_def computeSystemCoM_UamV5_def
        computeSystemInertia_UamV5_def Let_def pts moved inertia_UamV5_cong [OF assms(1,2)]
        del: One_nat_def split: prod.split)
qed

theorem arm_v5_inertia_coherent_witness:
  "let tr = (\<lambda>_. f32_lit 1, \<lambda>_. f32_zero); q = replicate 4 f32_zero;
       s = foldl (kin_step tr) arm_kinematics_init [K_setModelProfile UamV5, K_computeSystemCoM q]
   in ak_model_profile s = UamV5 \<and>
      (\<exists>q'. fst (computeSystemInertia tr q s) = inertia_UamV5 tr q (com_points_UamV5 tr q')
        \<and> list_all (\<lambda>i. \<not> f32_gt (f32_abs (f32_sub (q ! i) (q' ! i))) (f32_lit (1 / 10 ^ 6))) [0, 1])"
proof -
  let ?tr = "(\<lambda>_. f32_lit 1, \<lambda>_. f32_zero)" and ?q = "replicate 4 f32_zero"
  let ?s = "foldl (kin_step ?tr) arm_kinematics_init [K_setModelProfile UamV5, K_computeSystemCoM ?q]"
  have "ak_model_profile ?s = UamV5"
    by (simp add: setModelProfile_def computeSystemCoM_def com_UamV5_fills)
  with arm_v5_inertia_coherent [OF refl this, of ?q] show ?thesis unfolding Let_def by blast
qed

theorem arm_v5_ignores_gripper_witness:
  "let tr = (\<lambda>_. f32_lit 1, \<lambda>_. f32_zero); s = setModelProfile UamV5 arm_kinematics_init;
       q = [f32_zero, f32_zero, f32_zero, f32_zero]; q' = [f32_zero, f32_zero, FNaN, f32_lit 1]
   in fst (computeSystemCoM tr q s) = fst (computeSystemCoM tr q' s)
      \<and> fst (computeSystemInertia tr q s) = fst (computeSystemInertia tr q' s)"
  unfolding Let_def by (rule arm_v5_ignores_gripper) (simp_all add: setModelProfile_def)

subsection \<open>The frame conversion\<close>

text \<open>The rows and columns of the conversion matrix pick one component and its sign.\<close>

lemma denotes_dot_pick:
  assumes "denotes a x" and "denotes b y" and "denotes c z"
  shows "denotes (v3_dot (V3 (FFin False 1) (FFin s 0) (FFin t 0)) (V3 a b c)) x"
    and "denotes (v3_dot (V3 (FFin s 0) (FFin True 1) (FFin t 0)) (V3 a b c)) (- y)"
    and "denotes (v3_dot (V3 (FFin s 0) (FFin t 0) (FFin True 1)) (V3 a b c)) (- z)"
    and "denotes (v3_dot (V3 a b c) (V3 (FFin False 1) (FFin s 0) (FFin t 0))) x"
    and "denotes (v3_dot (V3 a b c) (V3 (FFin s 0) (FFin True 1) (FFin t 0))) (- y)"
    and "denotes (v3_dot (V3 a b c) (V3 (FFin s 0) (FFin t 0) (FFin True 1))) (- z)"
  by (simp_all add: v3_dot_def denotes_mul_unit [OF assms(1)] denotes_mul_unit [OF assms(2)]
      denotes_mul_unit [OF assms(3)] denotes_add_zero)

text \<open>
  The conversion of an inertia matrix from FLU to FRD loses no precision: for a matrix of
  finite values it keeps the diagonal and the yz entries and negates the xy and xz entries, exactly.
\<close>

theorem flu_to_frd_exact:
  assumes "v3_all (v3_all (\<lambda>x. wf32 x \<and> f32_isfinite x)) m"
  shows "map_vec3 (map_vec3 f32_val) (fluToFrdMatrix m) =
    (let v = map_vec3 (map_vec3 f32_val) m in
     V3 (V3 (v0 (v0 v)) (- v1 (v0 v)) (- v2 (v0 v)))
        (V3 (- v0 (v1 v)) (v1 (v1 v)) (v2 (v1 v)))
        (V3 (- v0 (v2 v)) (v1 (v2 v)) (v2 (v2 v))))"
proof -
  obtain a b c d e f g h i where m: "m = V3 (V3 a b c) (V3 d e f) (V3 g h i)"
    by (metis vec3.exhaust)
  let ?d = "\<lambda>x. denotes x (f32_val x)"
  have d: "?d a" "?d b" "?d c" "?d d" "?d e" "?d f" "?d g" "?d h" "?d i"
    using assms by (simp_all add: m v3_all_def denotes_def)
  let ?C = "m3_diag (V3 (f32_lit 1) (f32_lit (- 1)) (f32_lit (- 1)))"
  obtain a' b' c' d' e' f' g' h' i' where cm: "m3_mul ?C m = V3 (V3 a' b' c') (V3 d' e' f') (V3 g' h' i')"
    by (metis vec3.exhaust)
  have d': "denotes a' (f32_val a)" "denotes b' (f32_val b)" "denotes c' (f32_val c)"
    "denotes d' (- f32_val d)" "denotes e' (- f32_val e)" "denotes f' (- f32_val f)"
    "denotes g' (- f32_val g)" "denotes h' (- f32_val h)" "denotes i' (- f32_val i)"
    using cm denotes_dot_pick [OF d(1) d(4) d(7)] denotes_dot_pick [OF d(2) d(5) d(8)]
      denotes_dot_pick [OF d(3) d(6) d(9)]
    by (auto simp: m3_mul_def m3_transpose_def m3_diag_def m)
  have "denotes (v0 (v0 (fluToFrdMatrix m))) (f32_val a)" "denotes (v1 (v0 (fluToFrdMatrix m))) (- f32_val b)"
    "denotes (v2 (v0 (fluToFrdMatrix m))) (- f32_val c)" "denotes (v0 (v1 (fluToFrdMatrix m))) (- f32_val d)"
    "denotes (v1 (v1 (fluToFrdMatrix m))) (f32_val e)" "denotes (v2 (v1 (fluToFrdMatrix m))) (f32_val f)"
    "denotes (v0 (v2 (fluToFrdMatrix m))) (- f32_val g)" "denotes (v1 (v2 (fluToFrdMatrix m))) (f32_val h)"
    "denotes (v2 (v2 (fluToFrdMatrix m))) (f32_val i)"
    using denotes_dot_pick [OF d'(1-3)] denotes_dot_pick [OF d'(4-6)] denotes_dot_pick [OF d'(7-9)]
    unfolding fluToFrdMatrix_def Let_def cm by (simp_all add: m3_mul_def m3_transpose_def m3_diag_def)
  then show ?thesis
    by (cases "fluToFrdMatrix m") (auto simp: m denotes_def intro!: vec3.expand)
qed

subsection \<open>The cache of the uav\_arm\_v4 model\<close>

text \<open>
  The \<^verbatim>\<open>uav_arm_v4\<close> model has no flag for a filled cache. Asked for the inertia at joint angles
  zero right after construction, it takes the zeros it was constructed with for the positions of
  the links, while the centre of mass computation for the same angles puts the first link at a
  nonzero height.
\<close>

theorem arm_v4_unfilled_cache:
  "fst (computeSystemInertia tr (replicate 4 f32_zero) arm_kinematics_init) =
     inertia_UavArmV4 tr (replicate 4 f32_zero) m3_zero (v3_zero, v3_zero, v3_zero, v3_zero, v3_zero)
   \<and> f32_gt (v2 (fst (com_points_UavArmV4 tr (replicate 4 f32_zero)))) f32_zero"
proof -
  have still: "\<not> q_moved (replicate 4 f32_zero) arm_kinematics_init i" if "i < 4" for i
    using that f32_sub_self [of f32_zero] by (simp add: q_moved_def arm_kinematics_init_def)
  have "f32_lt f32_zero (f32_lit (1 / 2 ^ 3))"
    using f32_of_real_dyadic [of 1 3 False] by (simp add: f32_lit_def)
  moreover have "f32_le (f32_lit (1 / 2 ^ 3)) (f32_lit (1745 / 10 ^ 4))" by (rule f32_lit_mono) simp
  moreover have "f32_le (f32_lit (1745 / 10 ^ 4)) (f32_add (f32_lit (1745 / 10 ^ 4)) (f32_lit (43715 / 10 ^ 6)))"
    using f32_lit_mono [of 0 "43715 / 10 ^ 6"]
    by (intro f32_add_nonneg_ge) (simp_all add: f32_lit_isfinite_small)
  ultimately have "f32_lt f32_zero (f32_add (f32_lit (1745 / 10 ^ 4)) (f32_lit (43715 / 10 ^ 6)))"
    by (blast intro: f32_lt_le_trans)
  then have "f32_gt (v2 (fst (com_points_UavArmV4 tr (replicate 4 f32_zero)))) f32_zero"
    by (simp add: com_points_UavArmV4_def Let_def v3_add_def)
  moreover have "computeSystemInertia tr (replicate 4 f32_zero) arm_kinematics_init
      = computeSystemInertia_UavArmV4 tr (replicate 4 f32_zero) arm_kinematics_init"
    by (simp add: computeSystemInertia_def arm_kinematics_init_def)
  ultimately show ?thesis
    by (simp add: computeSystemInertia_UavArmV4_def Let_def still) (simp add: arm_kinematics_init_def)
qed

theorem flu_to_frd_exact_witness:
  "map_vec3 (map_vec3 f32_val) (fluToFrdMatrix (V3 (V3 (f32_lit 1) (f32_lit 1) f32_zero)
      (V3 (f32_lit 1) (f32_lit 1) f32_zero) (V3 f32_zero f32_zero (f32_lit (- 1))))) =
   V3 (V3 1 (- 1) 0) (V3 (- 1) 1 0) (V3 0 0 (- 1))"
  using flu_to_frd_exact [of "V3 (V3 (f32_lit 1) (f32_lit 1) f32_zero)
      (V3 (f32_lit 1) (f32_lit 1) f32_zero) (V3 f32_zero f32_zero (f32_lit (- 1)))"]
    wf32_lit [of 1] wf32_lit [of "- 1"]
  by (simp add: v3_all_def Let_def)

end
