(* ===== verification/Rotations.thy ===== *)
theory Rotations
  imports Arm_Kinematics
begin

text \<open>
  Two-dimensional vectors, quaternions, direction cosine matrices and Euler angles of the matrix
  library (\<^verbatim>\<open>src/lib/matrix/matrix\<close>), with the evaluation order of the source. The functions of the C
  library are the fields of a record that every user passes on. Shown: how a NaN spreads through
  norms and normalisation, and that the rotation matrix and the Euler angles built from
  representable numbers are representable.
\<close>

record libm =
  lm_trig :: trig
  lm_acosf :: "float32 \<Rightarrow> float32"
  lm_asinf :: "float32 \<Rightarrow> float32"
  lm_atan2f :: "float32 \<Rightarrow> float32 \<Rightarrow> float32"

abbreviation lm_cosf :: "libm \<Rightarrow> float32 \<Rightarrow> float32" where
  "lm_cosf L \<equiv> cosf (lm_trig L)"

abbreviation lm_sinf :: "libm \<Rightarrow> float32 \<Rightarrow> float32" where
  "lm_sinf L \<equiv> sinf (lm_trig L)"

text \<open>\<^verbatim>\<open>floor\<close> on \<^verbatim>\<open>float\<close>: the result is exact, and a zero keeps its sign.\<close>

fun f32_floor :: "float32 \<Rightarrow> float32" where
  "f32_floor (FFin s m) = f32_of_real s (of_int \<lfloor>f32_val (FFin s m)\<rfloor>)"
| "f32_floor x = x"

subsection \<open>Vectors\<close>

datatype vector2f = V2 (x0: float32) (x1: float32)

definition v2_add :: "vector2f \<Rightarrow> vector2f \<Rightarrow> vector2f" where
  "v2_add a b = V2 (f32_add (x0 a) (x0 b)) (f32_add (x1 a) (x1 b))"

definition v2_sub :: "vector2f \<Rightarrow> vector2f \<Rightarrow> vector2f" where
  "v2_sub a b = V2 (f32_sub (x0 a) (x0 b)) (f32_sub (x1 a) (x1 b))"

definition v2_scale :: "vector2f \<Rightarrow> float32 \<Rightarrow> vector2f" where
  "v2_scale a s = V2 (f32_mul (x0 a) s) (f32_mul (x1 a) s)"

definition v2_dot :: "vector2f \<Rightarrow> vector2f \<Rightarrow> float32" where
  "v2_dot a b = f32_add (f32_add f32_zero (f32_mul (x0 a) (x0 b))) (f32_mul (x1 a) (x1 b))"

definition v2_norm :: "vector2f \<Rightarrow> float32" where
  "v2_norm a = f32_sqrt (v2_dot a a)"

definition v2_div :: "vector2f \<Rightarrow> float32 \<Rightarrow> vector2f" where
  "v2_div a s = v2_scale a (f32_div (f32_lit 1) s)"

definition v2_normalized :: "vector2f \<Rightarrow> vector2f" where
  "v2_normalized a = v2_div a (v2_norm a)"

definition v3_norm_squared :: "vector3f \<Rightarrow> float32" where
  "v3_norm_squared a = v3_dot a a"

definition v3_norm :: "vector3f \<Rightarrow> float32" where
  "v3_norm a = f32_sqrt (v3_dot a a)"

definition v3_normalized :: "vector3f \<Rightarrow> vector3f" where
  "v3_normalized a = v3_div a (v3_norm a)"

text \<open>The slice \<^verbatim>\<open>xy()\<close>, read and written.\<close>

definition v3_xy :: "vector3f \<Rightarrow> vector2f" where
  "v3_xy a = V2 (v0 a) (v1 a)"

definition v3_set_xy :: "vector3f \<Rightarrow> vector2f \<Rightarrow> vector3f" where
  "v3_set_xy a b = V3 (x0 b) (x1 b) (v2 a)"

subsection \<open>Quaternions\<close>

datatype quatf = Quat (qw: float32) (qx: float32) (qy: float32) (qz: float32)

definition q_unit :: quatf where
  "q_unit = Quat (f32_lit 1) f32_zero f32_zero f32_zero"

definition q_dot :: "quatf \<Rightarrow> quatf \<Rightarrow> float32" where
  "q_dot p q = f32_add (f32_add (f32_add (f32_add f32_zero (f32_mul (qw p) (qw q)))
     (f32_mul (qx p) (qx q))) (f32_mul (qy p) (qy q))) (f32_mul (qz p) (qz q))"

definition q_norm :: "quatf \<Rightarrow> float32" where
  "q_norm q = f32_sqrt (q_dot q q)"

definition q_scale :: "quatf \<Rightarrow> float32 \<Rightarrow> quatf" where
  "q_scale q s = Quat (f32_mul (qw q) s) (f32_mul (qx q) s) (f32_mul (qy q) s) (f32_mul (qz q) s)"

definition q_normalized :: "quatf \<Rightarrow> quatf" where
  "q_normalized q = q_scale q (f32_div (f32_lit 1) (q_norm q))"

definition q_mul :: "quatf \<Rightarrow> quatf \<Rightarrow> quatf" where
  "q_mul q p =
     Quat (f32_sub (f32_sub (f32_sub (f32_mul (qw q) (qw p)) (f32_mul (qx q) (qx p)))
             (f32_mul (qy q) (qy p))) (f32_mul (qz q) (qz p)))
          (f32_add (f32_sub (f32_add (f32_mul (qx q) (qw p)) (f32_mul (qw q) (qx p)))
             (f32_mul (qz q) (qy p))) (f32_mul (qy q) (qz p)))
          (f32_sub (f32_add (f32_add (f32_mul (qy q) (qw p)) (f32_mul (qz q) (qx p)))
             (f32_mul (qw q) (qy p))) (f32_mul (qx q) (qz p)))
          (f32_add (f32_add (f32_sub (f32_mul (qz q) (qw p)) (f32_mul (qy q) (qx p)))
             (f32_mul (qx q) (qy p))) (f32_mul (qw q) (qz p)))"

definition q_inversed :: "quatf \<Rightarrow> quatf" where
  "q_inversed q =
     (let normSq = q_dot q q
      in Quat (f32_div (qw q) normSq) (f32_div (f32_neg (qx q)) normSq)
           (f32_div (f32_neg (qy q)) normSq) (f32_div (f32_neg (qz q)) normSq))"

definition rotateVector :: "quatf \<Rightarrow> vector3f \<Rightarrow> vector3f" where
  "rotateVector q vec =
     (let v = Quat f32_zero (v0 vec) (v1 vec) (v2 vec);
          res = q_mul (q_mul q v) (q_inversed q)
      in V3 (qx res) (qy res) (qz res))"

subsection \<open>Conversions\<close>

definition Dcm_of_Quaternion :: "quatf \<Rightarrow> matrix3f" where
  "Dcm_of_Quaternion q =
     (let a = qw q; b = qx q; c = qy q; d = qz q;
          aa = f32_mul a a; ab = f32_mul a b; ac = f32_mul a c; ad = f32_mul a d;
          bb = f32_mul b b; bc = f32_mul b c; bd = f32_mul b d;
          cc = f32_mul c c; cd = f32_mul c d; dd = f32_mul d d; two = f32_lit 2
      in V3 (V3 (f32_sub (f32_sub (f32_add aa bb) cc) dd) (f32_mul two (f32_sub bc ad)) (f32_mul two (f32_add ac bd)))
            (V3 (f32_mul two (f32_add bc ad)) (f32_sub (f32_add (f32_sub aa bb) cc) dd) (f32_mul two (f32_sub cd ab)))
            (V3 (f32_mul two (f32_sub bd ac)) (f32_mul two (f32_add ab cd)) (f32_add (f32_sub (f32_sub aa bb) cc) dd)))"

definition m3_trace :: "matrix3f \<Rightarrow> float32" where
  "m3_trace m = f32_add (f32_add (f32_add f32_zero (v0 (v0 m))) (v1 (v1 m))) (v2 (v2 m))"

definition Quaternion_of_Dcm :: "matrix3f \<Rightarrow> quatf" where
  "Quaternion_of_Dcm R =
     (let r00 = v0 (v0 R); r01 = v1 (v0 R); r02 = v2 (v0 R);
          r10 = v0 (v1 R); r11 = v1 (v1 R); r12 = v2 (v1 R);
          r20 = v0 (v2 R); r21 = v1 (v2 R); r22 = v2 (v2 R);
          half = f32_lit (1 / 2); one = f32_lit 1; t = m3_trace R
      in if f32_gt t f32_zero then
           (let t = f32_sqrt (f32_add one t); h = f32_div half t
            in Quat (f32_mul half t) (f32_mul (f32_sub r21 r12) h)
                 (f32_mul (f32_sub r02 r20) h) (f32_mul (f32_sub r10 r01) h))
         else if f32_gt r00 r11 \<and> f32_gt r00 r22 then
           (let t = f32_sqrt (f32_sub (f32_sub (f32_add one r00) r11) r22); h = f32_div half t
            in Quat (f32_mul (f32_sub r21 r12) h) (f32_mul half t)
                 (f32_mul (f32_add r10 r01) h) (f32_mul (f32_add r02 r20) h))
         else if f32_gt r11 r22 then
           (let t = f32_sqrt (f32_sub (f32_add (f32_sub one r00) r11) r22); h = f32_div half t
            in Quat (f32_mul (f32_sub r02 r20) h) (f32_mul (f32_add r10 r01) h)
                 (f32_mul half t) (f32_mul (f32_add r21 r12) h))
         else
           (let t = f32_sqrt (f32_add (f32_sub (f32_sub one r00) r11) r22); h = f32_div half t
            in Quat (f32_mul (f32_sub r10 r01) h) (f32_mul (f32_add r02 r20) h)
                 (f32_mul (f32_add r21 r12) h) (f32_mul half t)))"

text \<open>Euler angles are the vector of \<^verbatim>\<open>phi\<close>, \<^verbatim>\<open>theta\<close>, \<^verbatim>\<open>psi\<close>.\<close>

definition Euler_of_Dcm :: "libm \<Rightarrow> matrix3f \<Rightarrow> vector3f" where
  "Euler_of_Dcm L dcm =
     (let theta = lm_asinf L (f32_neg (v0 (v2 dcm)));
          half_pi = f32_lit (MATH_PI / 2); eps = f32_lit (1 / 10 ^ 3)
      in if f32_lt (f32_abs (f32_sub theta half_pi)) eps then
           V3 f32_zero theta (lm_atan2f L (v2 (v1 dcm)) (v2 (v0 dcm)))
         else if f32_lt (f32_abs (f32_add theta half_pi)) eps then
           V3 f32_zero theta (lm_atan2f L (f32_neg (v2 (v1 dcm))) (f32_neg (v2 (v0 dcm))))
         else
           V3 (lm_atan2f L (v1 (v2 dcm)) (v2 (v2 dcm))) theta (lm_atan2f L (v0 (v1 dcm)) (v0 (v0 dcm))))"

definition Euler_of_Quaternion :: "libm \<Rightarrow> quatf \<Rightarrow> vector3f" where
  "Euler_of_Quaternion L q = Euler_of_Dcm L (Dcm_of_Quaternion q)"

definition Dcm_of_Euler :: "libm \<Rightarrow> vector3f \<Rightarrow> matrix3f" where
  "Dcm_of_Euler L euler =
     (let cosPhi = lm_cosf L (v0 euler); sinPhi = lm_sinf L (v0 euler);
          cosThe = lm_cosf L (v1 euler); sinThe = lm_sinf L (v1 euler);
          cosPsi = lm_cosf L (v2 euler); sinPsi = lm_sinf L (v2 euler)
      in V3 (V3 (f32_mul cosThe cosPsi)
                (f32_add (f32_mul (f32_neg cosPhi) sinPsi) (f32_mul (f32_mul sinPhi sinThe) cosPsi))
                (f32_add (f32_mul sinPhi sinPsi) (f32_mul (f32_mul cosPhi sinThe) cosPsi)))
            (V3 (f32_mul cosThe sinPsi)
                (f32_add (f32_mul cosPhi cosPsi) (f32_mul (f32_mul sinPhi sinThe) sinPsi))
                (f32_add (f32_mul (f32_neg sinPhi) cosPsi) (f32_mul (f32_mul cosPhi sinThe) sinPsi)))
            (V3 (f32_neg sinThe) (f32_mul sinPhi cosThe) (f32_mul cosPhi cosThe)))"

definition Quaternion_of_Euler :: "libm \<Rightarrow> vector3f \<Rightarrow> quatf" where
  "Quaternion_of_Euler L euler =
     (let two = f32_lit 2;
          cosPhi_2 = lm_cosf L (f32_div (v0 euler) two); cosTheta_2 = lm_cosf L (f32_div (v1 euler) two);
          cosPsi_2 = lm_cosf L (f32_div (v2 euler) two); sinPhi_2 = lm_sinf L (f32_div (v0 euler) two);
          sinTheta_2 = lm_sinf L (f32_div (v1 euler) two); sinPsi_2 = lm_sinf L (f32_div (v2 euler) two);
          mul3 = (\<lambda>a b c. f32_mul (f32_mul a b) c)
      in Quat (f32_add (mul3 cosPhi_2 cosTheta_2 cosPsi_2) (mul3 sinPhi_2 sinTheta_2 sinPsi_2))
           (f32_sub (mul3 sinPhi_2 cosTheta_2 cosPsi_2) (mul3 cosPhi_2 sinTheta_2 sinPsi_2))
           (f32_add (mul3 cosPhi_2 sinTheta_2 cosPsi_2) (mul3 sinPhi_2 cosTheta_2 sinPsi_2))
           (f32_sub (mul3 cosPhi_2 cosTheta_2 sinPsi_2) (mul3 sinPhi_2 sinTheta_2 cosPsi_2)))"

definition Quaternion_of_AxisAngle :: "libm \<Rightarrow> vector3f \<Rightarrow> quatf" where
  "Quaternion_of_AxisAngle L aa =
     (let angle = v3_norm aa; axis = v3_normalized aa
      in if f32_lt angle (f32_lit (1 / 10 ^ 10)) then q_unit
         else (let h = f32_div angle (f32_lit 2); magnitude = lm_sinf L h
               in Quat (lm_cosf L h) (f32_mul (v0 axis) magnitude) (f32_mul (v1 axis) magnitude)
                    (f32_mul (v2 axis) magnitude)))"

definition wrap_floating :: "float32 \<Rightarrow> float32 \<Rightarrow> float32 \<Rightarrow> float32" where
  "wrap_floating x low high =
     (if f32_le low x \<and> f32_lt x high then x
      else (let range = f32_sub high low;
                inv_range = f32_div (f32_lit 1) range;
                num_wraps = f32_floor (f32_mul (f32_sub x low) inv_range)
            in f32_sub x (f32_mul range num_wraps)))"

definition wrap_pi :: "float32 \<Rightarrow> float32" where
  "wrap_pi x = wrap_floating x (f32_lit (- MATH_PI)) (f32_lit MATH_PI)"

subsection \<open>Lemmas\<close>

lemma f32_sqrt_nan [simp, f32_nan]: "f32_sqrt FNaN = FNaN"
  by simp

lemma v2_sel [simp]:
  "x0 (v2_add a b) = f32_add (x0 a) (x0 b)" "x1 (v2_add a b) = f32_add (x1 a) (x1 b)"
  "x0 (v2_sub a b) = f32_sub (x0 a) (x0 b)" "x1 (v2_sub a b) = f32_sub (x1 a) (x1 b)"
  "x0 (v2_scale a s) = f32_mul (x0 a) s" "x1 (v2_scale a s) = f32_mul (x1 a) s"
  by (simp_all add: v2_add_def v2_sub_def v2_scale_def)

lemma v3_xy_sel [simp]:
  "x0 (v3_xy a) = v0 a" "x1 (v3_xy a) = v1 a"
  "v0 (v3_set_xy a b) = x0 b" "v1 (v3_set_xy a b) = x1 b" "v2 (v3_set_xy a b) = v2 a"
  by (simp_all add: v3_xy_def v3_set_xy_def)

definition v2_has_nan :: "vector2f \<Rightarrow> bool" where
  "v2_has_nan a \<longleftrightarrow> x0 a = FNaN \<or> x1 a = FNaN"

lemma v2_norm_nan [f32_nan]: "v2_has_nan a \<Longrightarrow> v2_norm a = FNaN"
  by (auto simp: v2_has_nan_def v2_norm_def v2_dot_def)

lemma v2_normalized_nan [f32_nan]: "v2_has_nan a \<Longrightarrow> v2_normalized a = V2 FNaN FNaN"
  by (simp add: v2_normalized_def v2_div_def v2_norm_nan v2_scale_def)

lemma v2_has_nan_add [simp]: "v2_has_nan a \<Longrightarrow> v2_has_nan (v2_add b a)"
  and v2_has_nan_sub [simp]: "v2_has_nan a \<Longrightarrow> v2_has_nan (v2_sub a b)"
  by (auto simp: v2_has_nan_def)

lemma v3_norm_nan [f32_nan]:
  "v0 a = FNaN \<or> v1 a = FNaN \<or> v2 a = FNaN \<Longrightarrow> v3_norm a = FNaN"
  by (simp add: v3_norm_def v3_dot_nan)

text \<open>Everything computed is representable.\<close>

definition v2_wf :: "vector2f \<Rightarrow> bool" where
  "v2_wf a \<longleftrightarrow> wf32 (x0 a) \<and> wf32 (x1 a)"

definition q_wf :: "quatf \<Rightarrow> bool" where
  "q_wf q \<longleftrightarrow> wf32 (qw q) \<and> wf32 (qx q) \<and> wf32 (qy q) \<and> wf32 (qz q)"

definition libm_wf :: "libm \<Rightarrow> bool" where
  "libm_wf L \<longleftrightarrow> (\<forall>x. wf32 (lm_cosf L x)) \<and> (\<forall>x. wf32 (lm_sinf L x)) \<and> (\<forall>x. wf32 (lm_acosf L x))
     \<and> (\<forall>x. wf32 (lm_asinf L x)) \<and> (\<forall>x y. wf32 (lm_atan2f L x y))"

lemma wf32_v2 [simp, wf32_intros]:
  "v2_wf (v2_add a b)" "v2_wf (v2_sub a b)" "v2_wf (v2_scale a s)" "v2_wf (v2_div a s)"
  "v2_wf (v2_normalized a)" "wf32 (v2_norm a)" "wf32 (v3_norm c)" "v3_all wf32 (v3_normalized c)"
  by (simp_all add: v2_wf_def v2_div_def v2_normalized_def v2_norm_def v3_norm_def v3_normalized_def v3_div_def
        del: wf32.simps)

lemma wf32_q [simp, wf32_intros]:
  "q_wf q_unit" "q_wf (q_scale q s)" "q_wf (q_normalized q)" "q_wf (q_mul p q)"
  by (simp_all add: q_wf_def q_unit_def q_scale_def q_normalized_def q_mul_def del: wf32.simps f32_lit_1)

lemma wf32_rotateVector [simp, wf32_intros]: "v3_all wf32 (rotateVector q v)"
  by (simp add: rotateVector_def Let_def v3_all_def q_mul_def del: wf32.simps)

lemma wf32_Dcm_of_Quaternion [wf32_intros]: "v3_all (v3_all wf32) (Dcm_of_Quaternion q)"
  by (simp add: Dcm_of_Quaternion_def Let_def v3_all_def del: wf32.simps)

lemma wf32_Quaternion_of_Dcm [wf32_intros]: "q_wf (Quaternion_of_Dcm R)"
  by (simp add: Quaternion_of_Dcm_def Let_def q_wf_def del: wf32.simps)

lemma wf32_Euler_of_Dcm [wf32_intros]:
  assumes "libm_wf L"
  shows "v3_all wf32 (Euler_of_Dcm L R)"
  using assms by (simp add: Euler_of_Dcm_def Let_def v3_all_def libm_wf_def del: wf32.simps)

end
