(* ===== verification/Eso_Observers.thy ===== *)
theory Eso_Observers
  imports Px4_Math
begin

text \<open>
  The extended state observers of the ESO controllers: \<^verbatim>\<open>AttitudeESO\<close>
  (\<^verbatim>\<open>src/modules/eso_rate_control/ESORateControl\<close>), second order on the body rates, and \<^verbatim>\<open>PositionESO\<close>
  (\<^verbatim>\<open>src/modules/eso_pos_control/ESOPositionControl\<close>), third order on the position. Shown: a NaN
  measurement stays in the estimates until a reset, and a reset clears them. Both observers are
  instances of one interface, in which this is proved once.
\<close>

subsection \<open>AttitudeESO\<close>

record attitude_eso =
  ae_bandwidth :: vector3f
  ae_beta1 :: vector3f
  ae_beta2 :: vector3f
  ae_z1_est_omega :: vector3f
  ae_z2_est_dist :: vector3f

definition AttitudeESO :: "float32 \<Rightarrow> float32 \<Rightarrow> float32 \<Rightarrow> attitude_eso" where
  "AttitudeESO wp_x wp_y wp_z =
     (let bandwidth = V3 wp_x wp_y wp_z
      in \<lparr>ae_bandwidth = bandwidth, ae_beta1 = v3_scale bandwidth (f32_lit 2),
          ae_beta2 = v3_emult bandwidth bandwidth,
          ae_z1_est_omega = v3_zero, ae_z2_est_dist = v3_zero\<rparr>)"

definition ae_reset :: "attitude_eso \<Rightarrow> attitude_eso" where
  "ae_reset e = e\<lparr>ae_z1_est_omega := v3_zero, ae_z2_est_dist := v3_zero\<rparr>"

definition ae_update :: "vector3f \<Rightarrow> vector3f \<Rightarrow> float32 \<Rightarrow> attitude_eso \<Rightarrow> vector3f \<times> attitude_eso" where
  "ae_update omega_meas u_input dt e =
     (let err = v3_sub omega_meas (ae_z1_est_omega e);
          z1_dot = v3_add (v3_add u_input (ae_z2_est_dist e)) (v3_emult (ae_beta1 e) err);
          z2_dot = v3_emult (ae_beta2 e) err;
          z1 = v3_add (ae_z1_est_omega e) (v3_scale z1_dot dt);
          z2 = v3_add (ae_z2_est_dist e) (v3_scale z2_dot dt)
      in (z2, e\<lparr>ae_z1_est_omega := z1, ae_z2_est_dist := z2\<rparr>))"

subsection \<open>PositionESO\<close>

record position_eso =
  pe_bw :: vector3f
  pe_beta1 :: vector3f
  pe_beta2 :: vector3f
  pe_beta3 :: vector3f
  pe_z1 :: vector3f
  pe_z2 :: vector3f
  pe_z3 :: vector3f

definition pe_setBandwidth :: "vector3f \<Rightarrow> position_eso \<Rightarrow> position_eso" where
  "pe_setBandwidth bw e =
     e\<lparr>pe_bw := bw, pe_beta1 := v3_scale bw (f32_lit 3),
       pe_beta2 := v3_scale (v3_emult bw bw) (f32_lit 3),
       pe_beta3 := v3_emult (v3_emult bw bw) bw\<rparr>"

definition pe_reset :: "position_eso \<Rightarrow> position_eso" where
  "pe_reset e = e\<lparr>pe_z1 := v3_zero, pe_z2 := v3_zero, pe_z3 := v3_zero\<rparr>"

definition pe_reset_to :: "vector3f \<Rightarrow> vector3f \<Rightarrow> position_eso \<Rightarrow> position_eso" where
  "pe_reset_to pos_meas vel_meas e = e\<lparr>pe_z1 := pos_meas, pe_z2 := vel_meas, pe_z3 := v3_zero\<rparr>"

definition PositionESO :: position_eso where
  "PositionESO =
     pe_setBandwidth (V3 (f32_lit 8) (f32_lit 8) (f32_lit 4))
       (pe_reset \<lparr>pe_bw = v3_zero, pe_beta1 = v3_zero, pe_beta2 = v3_zero, pe_beta3 = v3_zero,
                  pe_z1 = v3_zero, pe_z2 = v3_zero, pe_z3 = v3_zero\<rparr>)"

definition pe_update :: "vector3f \<Rightarrow> vector3f \<Rightarrow> float32 \<Rightarrow> position_eso \<Rightarrow> vector3f \<times> position_eso" where
  "pe_update pos_meas u_control dt e =
     (let err = v3_sub pos_meas (pe_z1 e);
          z1_dot = v3_add (pe_z2 e) (v3_emult (pe_beta1 e) err);
          z2_dot = v3_add (v3_add (pe_z3 e) u_control) (v3_emult (pe_beta2 e) err);
          z3_dot = v3_emult (pe_beta3 e) err;
          z1 = v3_add (pe_z1 e) (v3_scale z1_dot dt);
          z2 = v3_add (pe_z2 e) (v3_scale z2_dot dt);
          z3 = v3_add (pe_z3 e) (v3_scale z3_dot dt)
      in (z3, e\<lparr>pe_z1 := z1, pe_z2 := z2, pe_z3 := z3\<rparr>))"

subsection \<open>The interface of an observer\<close>

text \<open>
  What the controllers rely on: the estimate returned is the one stored, the estimated output and
  the estimated disturbance are poisoned for good by a NaN on an axis, and a reset clears them.
  \<open>out\<close> is the estimated measurement and \<open>dist\<close> the estimated disturbance on an axis, a selector
  of a vector.
\<close>

definition v3_axes :: "(vector3f \<Rightarrow> float32) list" where
  "v3_axes = [v0, v1, v2]"

locale extended_state_observer =
  fixes update :: "vector3f \<Rightarrow> vector3f \<Rightarrow> float32 \<Rightarrow> 's \<Rightarrow> vector3f \<times> 's"
    and reset :: "'s \<Rightarrow> 's"
    and out :: "'s \<Rightarrow> vector3f"
    and dist :: "'s \<Rightarrow> vector3f"
  assumes returned: "fst (update y u dt s) = dist (snd (update y u dt s))"
    and out_nan: "ax \<in> set v3_axes \<Longrightarrow> ax (out s) = FNaN \<Longrightarrow> ax (out (snd (update y u dt s))) = FNaN
                    \<and> ax (dist (snd (update y u dt s))) = FNaN"
    and meas_nan: "ax \<in> set v3_axes \<Longrightarrow> ax y = FNaN \<Longrightarrow> ax (out (snd (update y u dt s))) = FNaN"
    and reset_zero: "out (reset s) = v3_zero" "dist (reset s) = v3_zero"
begin

text \<open>One bad sample is in every estimate of the disturbance after the next sample.\<close>

lemma nan_run:
  assumes "ax \<in> set v3_axes" and "ax (out s) = FNaN"
  shows "ax (out (foldl (\<lambda>s (y, u, dt). snd (update y u dt s)) s xs)) = FNaN"
  using assms(2) by (induction xs arbitrary: s) (auto simp: out_nan [OF assms(1)])

lemma nan_sample_sticks:
  assumes "ax \<in> set v3_axes" and "ax y = FNaN"
  shows "ax (fst (update y' u' dt' (foldl (\<lambda>s (y, u, dt). snd (update y u dt s)) s
           ((y, u, dt) # xs)))) = FNaN"
  using nan_run [OF assms(1) meas_nan [OF assms], of u dt s xs] out_nan [OF assms(1)]
  by (simp add: returned)

end

lemma v3_axes_cases: "ax \<in> set v3_axes \<longleftrightarrow> ax = v0 \<or> ax = v1 \<or> ax = v2"
  by (auto simp: v3_axes_def)

interpretation att_eso: extended_state_observer ae_update ae_reset ae_z1_est_omega ae_z2_est_dist
  by unfold_locales (auto simp: ae_update_def ae_reset_def Let_def v3_axes_cases v3_ops)

interpretation pos_eso: extended_state_observer pe_update pe_reset pe_z1 pe_z3
  by unfold_locales (auto simp: pe_update_def pe_reset_def Let_def v3_axes_cases v3_ops)

lemma ae_update_gains [simp]:
  "ae_bandwidth (snd (ae_update y u dt e)) = ae_bandwidth e"
  "ae_beta1 (snd (ae_update y u dt e)) = ae_beta1 e"
  "ae_beta2 (snd (ae_update y u dt e)) = ae_beta2 e"
  by (simp_all add: ae_update_def Let_def)

end
