(* ===== verification/Hysteresis.thy ===== *)
theory Hysteresis
  imports Px4_Base
begin

text \<open>
  \<^verbatim>\<open>systemlib::Hysteresis\<close> (\<^verbatim>\<open>src/lib/hysteresis\<close>): a boolean whose change is delayed until the new
  value has been requested for a configured time. Shown: the output only moves to the value that
  is requested, it moves only after an uninterrupted run of such requests at least as long as the
  configured time, and it does move once the request has been held that long. The theory also
  states the interface that clients of a delayed flag use.
\<close>

record hysteresis =
  hy_last_time_to_change_state :: hrt_abstime
  hy_time_from_true_us :: hrt_abstime
  hy_time_from_false_us :: hrt_abstime
  hy_state :: bool
  hy_requested_state :: bool

definition hy_init :: "bool \<Rightarrow> hysteresis" where
  "hy_init init_state =
     \<lparr>hy_last_time_to_change_state = 0, hy_time_from_true_us = 0, hy_time_from_false_us = 0,
      hy_state = init_state, hy_requested_state = init_state\<rparr>"

definition set_hysteresis_time_from :: "bool \<Rightarrow> hrt_abstime \<Rightarrow> hysteresis \<Rightarrow> hysteresis" where
  "set_hysteresis_time_from from_state new_hysteresis_time_us h =
     (if from_state then h\<lparr>hy_time_from_true_us := new_hysteresis_time_us\<rparr>
      else h\<lparr>hy_time_from_false_us := new_hysteresis_time_us\<rparr>)"

definition hy_update :: "hrt_abstime \<Rightarrow> hysteresis \<Rightarrow> hysteresis" where
  "hy_update now_us h =
     (if hy_requested_state h \<noteq> hy_state h then
        let elapsed = now_us - hy_last_time_to_change_state h in
        if hy_state h \<and> \<not> hy_requested_state h then
          (if hy_time_from_true_us h \<le> elapsed then h\<lparr>hy_state := False\<rparr> else h)
        else if \<not> hy_state h \<and> hy_requested_state h then
          (if hy_time_from_false_us h \<le> elapsed then h\<lparr>hy_state := True\<rparr> else h)
        else h
      else h)"

definition set_state_and_update :: "bool \<Rightarrow> hrt_abstime \<Rightarrow> hysteresis \<Rightarrow> hysteresis" where
  "set_state_and_update new_state now_us h =
     hy_update now_us
       (if new_state \<noteq> hy_state h then
          (if new_state \<noteq> hy_requested_state h then
             h\<lparr>hy_requested_state := new_state, hy_last_time_to_change_state := now_us\<rparr>
           else h)
        else h\<lparr>hy_requested_state := hy_state h\<rparr>)"

text \<open>The delay that applies when the state is to leave its current value.\<close>

definition hy_delay :: "hysteresis \<Rightarrow> hrt_abstime" where
  "hy_delay h = (if hy_state h then hy_time_from_true_us h else hy_time_from_false_us h)"

lemmas hy_defs = set_state_and_update_def hy_update_def Let_def

lemma hy_times_unchanged [simp]:
  "hy_time_from_true_us (set_state_and_update b t h) = hy_time_from_true_us h"
  "hy_time_from_false_us (set_state_and_update b t h) = hy_time_from_false_us h"
  by (simp_all add: hy_defs)

lemma hy_no_spurious_change: "hy_state (set_state_and_update (hy_state h) t h) = hy_state h"
  by (simp add: hy_defs)

lemma hy_moves_to_request:
  "hy_state (set_state_and_update b t h) \<noteq> hy_state h \<Longrightarrow> hy_state (set_state_and_update b t h) = b"
  by (auto simp: hy_defs split: if_splits)

subsection \<open>Runs of requests\<close>

fun hy_run :: "hysteresis \<Rightarrow> (bool \<times> hrt_abstime) list \<Rightarrow> hysteresis" where
  "hy_run h [] = h"
| "hy_run h ((b, t) # xs) = hy_run (set_state_and_update b t h) xs"

lemma hy_run_append: "hy_run h (xs @ ys) = hy_run (hy_run h xs) ys"
  by (induction h xs rule: hy_run.induct) auto

text \<open>
  While a change is pending, the requests made since it was first asked for all ask for it, and
  the recorded time is the time of the first of them.
\<close>

definition pending_since :: "hysteresis \<Rightarrow> (bool \<times> hrt_abstime) list \<Rightarrow> bool" where
  "pending_since h xs \<longleftrightarrow>
     (hy_requested_state h \<noteq> hy_state h \<longrightarrow>
       (\<exists>pre suf. xs = pre @ suf \<and> suf \<noteq> [] \<and> snd (hd suf) = hy_last_time_to_change_state h
          \<and> (\<forall>x \<in> set suf. fst x = hy_requested_state h)))"

lemma pending_since_step:
  assumes "pending_since h xs"
  shows "pending_since (set_state_and_update b t h) (xs @ [(b, t)])"
proof (cases "b = hy_state h \<or> b \<noteq> hy_requested_state h")
  case True
  then show ?thesis
    unfolding pending_since_def
    by (intro impI exI [of _ xs] exI [of _ "[(b, t)]"]) (auto simp: hy_defs split: if_splits)
next
  case False
  then have req: "hy_requested_state h = b" and ne: "hy_requested_state h \<noteq> hy_state h" by auto
  from assms ne obtain pre suf where
    "xs = pre @ suf" "suf \<noteq> []" "snd (hd suf) = hy_last_time_to_change_state h"
    "\<forall>x \<in> set suf. fst x = hy_requested_state h"
    unfolding pending_since_def by blast
  then show ?thesis
    using req ne unfolding pending_since_def
    by (intro impI exI [of _ pre] exI [of _ "suf @ [(b, t)]"]) (auto simp: hy_defs split: if_splits)
qed

lemma pending_since_run: "hy_requested_state h = hy_state h \<Longrightarrow> pending_since (hy_run h xs) xs"
proof (induction xs rule: rev_induct)
  case Nil
  then show ?case by (simp add: pending_since_def)
next
  case (snoc x xs)
  obtain b t where "x = (b, t)" by fastforce
  with snoc show ?case by (simp add: hy_run_append pending_since_step)
qed

lemma hy_change_elapsed:
  assumes "hy_state (set_state_and_update b t h) \<noteq> hy_state h"
  shows "b \<noteq> hy_state h"
    and "hy_delay h \<le> t - (if b = hy_requested_state h then hy_last_time_to_change_state h else t)"
  using assms by (auto simp: hy_defs hy_delay_def split: if_splits)

lemma hy_run_times [simp]:
  "hy_time_from_true_us (hy_run h xs) = hy_time_from_true_us h"
  "hy_time_from_false_us (hy_run h xs) = hy_time_from_false_us h"
  by (induction h xs rule: hy_run.induct) simp_all

text \<open>A change at the end of a run was requested without interruption for the whole delay.\<close>

lemma hy_change_history:
  assumes settled: "hy_requested_state h = hy_state h"
    and change: "hy_state (set_state_and_update b t (hy_run h xs)) \<noteq> hy_state (hy_run h xs)"
  shows "\<exists>pre suf. xs @ [(b, t)] = pre @ suf \<and> suf \<noteq> [] \<and> (\<forall>x \<in> set suf. fst x = b)
     \<and> hy_delay (hy_run h xs) \<le> t - snd (hd suf)"
proof (cases "b = hy_requested_state (hy_run h xs)")
  case True
  let ?h = "hy_run h xs"
  have "hy_requested_state ?h \<noteq> hy_state ?h" using True hy_change_elapsed(1) [OF change] by simp
  then obtain pre suf where
    "xs = pre @ suf" "suf \<noteq> []" "snd (hd suf) = hy_last_time_to_change_state ?h"
    "\<forall>x \<in> set suf. fst x = hy_requested_state ?h"
    using pending_since_run [OF settled, of xs] unfolding pending_since_def by blast
  then show ?thesis
    using True hy_change_elapsed(2) [OF change]
    by (intro exI [of _ pre] exI [of _ "suf @ [(b, t)]"]) auto
next
  case False
  then show ?thesis
    using hy_change_elapsed(2) [OF change]
    by (intro exI [of _ xs] exI [of _ "[(b, t)]"]) simp
qed

lemma hy_undelayed_drop:
  "hy_time_from_true_us h = 0 \<Longrightarrow> \<not> hy_state (set_state_and_update False t h)"
  by (simp add: hy_defs)

text \<open>With no delay on the way down, the flag is up only within an uninterrupted request.\<close>

lemma hy_true_history:
  assumes "\<not> hy_state h" and "\<not> hy_requested_state h" and "hy_time_from_true_us h = 0"
    and "hy_state (hy_run h xs)"
  shows "\<exists>pre mid suf. xs = pre @ mid @ suf \<and> mid \<noteq> [] \<and> (\<forall>x \<in> set (mid @ suf). fst x)
     \<and> hy_time_from_false_us h \<le> snd (last mid) - snd (hd mid)"
  using assms(4)
proof (induction xs rule: rev_induct)
  case Nil
  with assms show ?case by simp
next
  case (snoc x xs)
  obtain b t where x: "x = (b, t)" by fastforce
  show ?case
  proof (cases "hy_state (hy_run h xs)")
    case True
    have b using snoc.prems hy_undelayed_drop [of "hy_run h xs" t] assms(3)
      by (cases b) (simp_all add: x hy_run_append)
    moreover from snoc.IH [OF True] obtain pre mid suf where
      "xs = pre @ mid @ suf" "mid \<noteq> []" "\<forall>x \<in> set (mid @ suf). fst x"
      "hy_time_from_false_us h \<le> snd (last mid) - snd (hd mid)" by blast
    ultimately have "xs @ [x] = pre @ mid @ (suf @ [x]) \<and> mid \<noteq> [] \<and> (\<forall>x \<in> set (mid @ suf @ [x]). fst x)
        \<and> hy_time_from_false_us h \<le> snd (last mid) - snd (hd mid)" by (auto simp: x)
    then show ?thesis by blast
  next
    case False
    have change: "hy_state (set_state_and_update b t (hy_run h xs)) \<noteq> hy_state (hy_run h xs)"
      using False snoc.prems by (simp add: x hy_run_append)
    have b using False hy_change_elapsed(1) [OF change] by simp
    have settled: "hy_requested_state h = hy_state h" using assms(1,2) by simp
    obtain pre suf where suf: "xs @ [(b, t)] = pre @ suf" "suf \<noteq> []" "\<forall>x \<in> set suf. fst x = b"
      "hy_delay (hy_run h xs) \<le> t - snd (hd suf)"
      using hy_change_history [OF settled change] by blast
    moreover have "last suf = (b, t)" using suf(1,2) by (metis last_append last_snoc)
    ultimately show ?thesis
      using False \<open>b\<close> by (intro exI [of _ pre] exI [of _ suf] exI [of _ "[]"]) (auto simp: x hy_delay_def)
  qed
qed

text \<open>A request that is held for the delay takes effect.\<close>

lemma hy_held_request:
  assumes "\<forall>x \<in> set xs. fst x = b"
    and "hy_state h = b \<or> hy_requested_state h = b \<and> hy_last_time_to_change_state h = t0"
  shows "hy_state (hy_run h xs) = b
    \<or> hy_requested_state (hy_run h xs) = b \<and> hy_last_time_to_change_state (hy_run h xs) = t0"
  using assms
proof (induction h xs rule: hy_run.induct)
  case (2 h c t xs)
  then have "c = b" by simp
  with "2.prems"(2) have "hy_state (set_state_and_update c t h) = b
    \<or> hy_requested_state (set_state_and_update c t h) = b
      \<and> hy_last_time_to_change_state (set_state_and_update c t h) = t0"
    by (auto simp: hy_defs)
  with 2 show ?case by simp
qed simp

subsection \<open>The interface of a delayed flag\<close>

locale delayed_flag =
  fixes update :: "bool \<Rightarrow> hrt_abstime \<Rightarrow> 's \<Rightarrow> 's"
    and flag :: "'s \<Rightarrow> bool"
  assumes keep: "flag (update (flag s) t s) = flag s"
    and follow: "flag (update b t s) \<noteq> flag s \<Longrightarrow> flag (update b t s) = b"
begin

fun run :: "'s \<Rightarrow> (bool \<times> hrt_abstime) list \<Rightarrow> 's" where
  "run s [] = s"
| "run s ((b, t) # xs) = run (update b t s) xs"

lemma flag_up: "flag (update b t s) \<Longrightarrow> \<not> flag s \<Longrightarrow> b"
  using follow [of b t s] by auto

lemma run_stays_down: "\<not> flag s \<Longrightarrow> \<forall>x \<in> set xs. \<not> fst x \<Longrightarrow> \<not> flag (run s xs)"
  by (induction s xs rule: run.induct) (auto dest: flag_up)

end

interpretation hyst: delayed_flag set_state_and_update hy_state
  by unfold_locales (rule hy_no_spurious_change, rule hy_moves_to_request)

end
