(* ===== verification/Eso_Takeoff.thy ===== *)
theory Eso_Takeoff
  imports Px4_Math Hysteresis
begin

text \<open>
  \<^verbatim>\<open>ESOTakeoff\<close> (\<^verbatim>\<open>src/modules/eso_pos_control/ESOTakeoff\<close>): the take-off state machine and the ramp of
  the climb rate limit. Shown: disarming always leads to \<open>disarmed\<close>, every call is one of a small
  set of transitions, the motors are never ramped up before the spool-up delay has passed, flight
  is entered only with a finished ramp or a skipped take-off, and the ramp ends.
\<close>

datatype ESOTakeoffState = disarmed | spoolup | ready_for_takeoff | rampup | flight

text \<open>The values of \<^verbatim>\<open>takeoff_status_s\<close>, used by the comparison in \<^verbatim>\<open>updateRamp\<close>.\<close>

fun takeoff_state_value :: "ESOTakeoffState \<Rightarrow> u8" where
  "takeoff_state_value disarmed = 1"
| "takeoff_state_value spoolup = 2"
| "takeoff_state_value ready_for_takeoff = 3"
| "takeoff_state_value rampup = 4"
| "takeoff_state_value flight = 5"

record eso_takeoff =
  to_state :: ESOTakeoffState
  to_spoolup_time_hysteresis :: hysteresis
  to_ramp_time :: float32
  to_ramp_vz_init :: float32
  to_ramp_progress :: float32

definition eso_takeoff_init :: eso_takeoff where
  "eso_takeoff_init =
     \<lparr>to_state = disarmed, to_spoolup_time_hysteresis = hy_init False, to_ramp_time = f32_zero,
      to_ramp_vz_init = f32_zero, to_ramp_progress = f32_zero\<rparr>"

text \<open>\<^verbatim>\<open>seconds * 1_s\<close> is a \<^verbatim>\<open>float\<close> converted to \<^verbatim>\<open>hrt_abstime\<close>; \<open>None\<close> where that is undefined.\<close>

definition setSpoolupTime :: "float32 \<Rightarrow> eso_takeoff \<Rightarrow> eso_takeoff option" where
  "setSpoolupTime seconds s =
     (case f32_to_u64 (f32_mul seconds (f32_of_u64 1000000)) of
        None \<Rightarrow> None
      | Some t \<Rightarrow> Some (s\<lparr>to_spoolup_time_hysteresis :=
          set_hysteresis_time_from False t (to_spoolup_time_hysteresis s)\<rparr>))"

definition setTakeoffRampTime :: "float32 \<Rightarrow> eso_takeoff \<Rightarrow> eso_takeoff" where
  "setTakeoffRampTime seconds s = s\<lparr>to_ramp_time := seconds\<rparr>"

definition CONSTANTS_ONE_G :: float32 where
  "CONSTANTS_ONE_G = f32_lit (980665 / 100000)"

definition generateInitialRampValue :: "float32 \<Rightarrow> eso_takeoff \<Rightarrow> eso_takeoff" where
  "generateInitialRampValue velocity_p_gain s =
     (let gain = math_max velocity_p_gain (f32_lit (1 / 100))
      in s\<lparr>to_ramp_vz_init := f32_div (f32_neg CONSTANTS_ONE_G) gain\<rparr>)"

text \<open>The cases of the switch, from the last to the first, each falling through to the next.\<close>

definition case_flight :: "bool \<Rightarrow> eso_takeoff \<Rightarrow> eso_takeoff" where
  "case_flight landed s = (if landed then s\<lparr>to_state := ready_for_takeoff\<rparr> else s)"

definition case_rampup :: "bool \<Rightarrow> eso_takeoff \<Rightarrow> eso_takeoff" where
  "case_rampup landed s =
     (if f32_ge (to_ramp_progress s) (f32_lit 1)
      then case_flight landed (s\<lparr>to_state := flight\<rparr>) else s)"

definition case_ready :: "bool \<Rightarrow> bool \<Rightarrow> eso_takeoff \<Rightarrow> eso_takeoff" where
  "case_ready landed want_takeoff s =
     (if want_takeoff
      then case_rampup landed (s\<lparr>to_state := rampup, to_ramp_progress := f32_zero\<rparr>) else s)"

definition case_spoolup :: "bool \<Rightarrow> bool \<Rightarrow> eso_takeoff \<Rightarrow> eso_takeoff" where
  "case_spoolup landed want_takeoff s =
     (if hy_state (to_spoolup_time_hysteresis s)
      then case_ready landed want_takeoff (s\<lparr>to_state := ready_for_takeoff\<rparr>) else s)"

definition case_disarmed :: "bool \<Rightarrow> bool \<Rightarrow> bool \<Rightarrow> eso_takeoff \<Rightarrow> eso_takeoff" where
  "case_disarmed armed landed want_takeoff s =
     (if armed then case_spoolup landed want_takeoff (s\<lparr>to_state := spoolup\<rparr>) else s)"

definition updateTakeoffState ::
  "bool \<Rightarrow> bool \<Rightarrow> bool \<Rightarrow> float32 \<Rightarrow> bool \<Rightarrow> hrt_abstime \<Rightarrow> eso_takeoff \<Rightarrow> eso_takeoff" where
  "updateTakeoffState armed landed want_takeoff takeoff_desired_vz skip_takeoff now_us s =
     (let s = s\<lparr>to_spoolup_time_hysteresis :=
                  set_state_and_update armed now_us (to_spoolup_time_hysteresis s)\<rparr>;
          s = (case to_state s of
                 disarmed \<Rightarrow> case_disarmed armed landed want_takeoff s
               | spoolup \<Rightarrow> case_spoolup landed want_takeoff s
               | ready_for_takeoff \<Rightarrow> case_ready landed want_takeoff s
               | rampup \<Rightarrow> case_rampup landed s
               | flight \<Rightarrow> case_flight landed s);
          s = (if armed \<and> skip_takeoff then s\<lparr>to_state := flight\<rparr> else s)
      in if \<not> armed then s\<lparr>to_state := disarmed\<rparr> else s)"

definition updateRamp :: "float32 \<Rightarrow> float32 \<Rightarrow> eso_takeoff \<Rightarrow> float32 \<times> eso_takeoff" where
  "updateRamp dt takeoff_desired_vz s =
     (let limit = (if takeoff_state_value (to_state s) < takeoff_state_value rampup
                   then to_ramp_vz_init s else takeoff_desired_vz)
      in if to_state s = rampup then
           let s = s\<lparr>to_ramp_progress :=
                 (if f32_gt (to_ramp_time s) dt
                  then f32_add (to_ramp_progress s) (f32_div dt (to_ramp_time s))
                  else f32_lit 1)\<rparr>
           in (if f32_lt (to_ramp_progress s) (f32_lit 1)
               then f32_add (to_ramp_vz_init s)
                      (f32_mul (to_ramp_progress s) (f32_sub takeoff_desired_vz (to_ramp_vz_init s)))
               else limit, s)
         else (limit, s))"

lemmas takeoff_cases =
  case_disarmed_def case_spoolup_def case_ready_def case_rampup_def case_flight_def

subsection \<open>Transitions\<close>

text \<open>The steps one call can make, by the arming state and the skip request.\<close>

inductive takeoff_transition :: "bool \<Rightarrow> bool \<Rightarrow> ESOTakeoffState \<Rightarrow> ESOTakeoffState \<Rightarrow> bool" where
  disarm: "takeoff_transition False skip x disarmed"
| skip: "takeoff_transition True True x flight"
| arm: "takeoff_transition True False disarmed spoolup"
| wait: "takeoff_transition True False spoolup spoolup"
| spooled: "x \<in> {disarmed, spoolup} \<Longrightarrow> takeoff_transition True False x ready_for_takeoff"
| ground: "takeoff_transition True False ready_for_takeoff ready_for_takeoff"
| start: "x \<in> {disarmed, spoolup, ready_for_takeoff} \<Longrightarrow> takeoff_transition True False x rampup"
| ramp: "takeoff_transition True False rampup rampup"
| lift: "x \<in> {rampup, flight} \<Longrightarrow> takeoff_transition True False x flight"
| land: "x \<in> {rampup, flight} \<Longrightarrow> takeoff_transition True False x ready_for_takeoff"

inductive_cases takeoff_transition_flightE: "takeoff_transition armed skip x flight"

text \<open>The ramp just started is not finished.\<close>

lemma ramp_restart: "\<not> f32_ge f32_zero (f32_lit 1)"
  by simp

lemma case_ready_state:
  "to_state (case_ready landed want (s\<lparr>to_state := ready_for_takeoff\<rparr>))
     = (if want then rampup else ready_for_takeoff)"
  by (simp add: takeoff_cases ramp_restart)

lemma updateTakeoffState_state:
  "to_state (updateTakeoffState armed landed want vz skip now s) =
     (let h = set_state_and_update armed now (to_spoolup_time_hysteresis s)
      in if \<not> armed then disarmed
         else if skip then flight
         else case to_state s of
             flight \<Rightarrow> if landed then ready_for_takeoff else flight
           | rampup \<Rightarrow> if f32_ge (to_ramp_progress s) (f32_lit 1)
                      then (if landed then ready_for_takeoff else flight) else rampup
           | ready_for_takeoff \<Rightarrow> if want then rampup else ready_for_takeoff
           | _ \<Rightarrow> if hy_state h then (if want then rampup else ready_for_takeoff) else spoolup)"
  by (cases "to_state s") (simp_all add: updateTakeoffState_def Let_def takeoff_cases ramp_restart)

lemma updateTakeoffState_hyst [simp]:
  "to_spoolup_time_hysteresis (updateTakeoffState armed landed want vz skip now s)
     = set_state_and_update armed now (to_spoolup_time_hysteresis s)"
  by (cases "to_state s") (simp_all add: updateTakeoffState_def Let_def takeoff_cases)

lemma updateTakeoffState_transition:
  "takeoff_transition armed skip (to_state s)
     (to_state (updateTakeoffState armed landed want vz skip now s))"
  by (cases "to_state s"; cases armed; cases skip)
     (simp_all add: updateTakeoffState_state Let_def takeoff_transition.intros)

subsection \<open>Runs\<close>

record takeoff_input =
  ti_armed :: bool
  ti_landed :: bool
  ti_want :: bool
  ti_vz :: float32
  ti_skip :: bool
  ti_now :: hrt_abstime

fun takeoff_run :: "eso_takeoff \<Rightarrow> takeoff_input list \<Rightarrow> eso_takeoff" where
  "takeoff_run s [] = s"
| "takeoff_run s (i # is) =
     takeoff_run (updateTakeoffState (ti_armed i) (ti_landed i) (ti_want i) (ti_vz i) (ti_skip i)
       (ti_now i) s) is"

definition arming_history :: "takeoff_input list \<Rightarrow> (bool \<times> hrt_abstime) list" where
  "arming_history is = map (\<lambda>i. (ti_armed i, ti_now i)) is"

lemma takeoff_run_hyst:
  "to_spoolup_time_hysteresis (takeoff_run s is)
     = hy_run (to_spoolup_time_hysteresis s) (arming_history is)"
  by (induction s "is" rule: takeoff_run.induct) (simp_all add: arming_history_def)

text \<open>Past the spool-up states the delayed arming flag is up.\<close>

definition spooled_up :: "eso_takeoff \<Rightarrow> bool" where
  "spooled_up s \<longleftrightarrow> (to_state s \<in> {ready_for_takeoff, rampup, flight} \<longrightarrow>
     hy_state (to_spoolup_time_hysteresis s))"

lemma spooled_up_step:
  assumes "spooled_up s"
  shows "spooled_up (updateTakeoffState armed landed want vz False now s)"
proof (cases armed)
  case False
  then show ?thesis by (simp add: spooled_up_def updateTakeoffState_state Let_def)
next
  case True
  have "hy_state (to_spoolup_time_hysteresis s) \<Longrightarrow>
      hy_state (set_state_and_update True now (to_spoolup_time_hysteresis s))"
    using hyst.keep [of "to_spoolup_time_hysteresis s" now] by simp
  with True assms show ?thesis
    by (cases "to_state s") (auto simp: spooled_up_def updateTakeoffState_state Let_def)
qed

lemma spooled_up_run:
  "spooled_up s \<Longrightarrow> \<forall>i \<in> set is. \<not> ti_skip i \<Longrightarrow> spooled_up (takeoff_run s is)"
  by (induction s "is" rule: takeoff_run.induct) (simp_all add: spooled_up_step)

text \<open>C27: without a skipped take-off, the vehicle is past spool-up only if it has been armed
  without interruption up to the latest call, and that for at least the configured spool-up time
  before it left the spool-up state.\<close>

theorem takeoff_spoolup_delay:
  assumes "setSpoolupTime sec eso_takeoff_init = Some s"
    and "\<forall>i \<in> set is. \<not> ti_skip i"
    and "to_state (takeoff_run s is) \<in> {ready_for_takeoff, rampup, flight}"
  shows "\<exists>pre mid suf. is = pre @ mid @ suf \<and> mid \<noteq> [] \<and> list_all ti_armed (mid @ suf)
    \<and> hy_time_from_false_us (to_spoolup_time_hysteresis s) \<le> ti_now (last mid) - ti_now (hd mid)"
proof -
  let ?h = "to_spoolup_time_hysteresis s"
  have h: "\<not> hy_state ?h" "\<not> hy_requested_state ?h" "hy_time_from_true_us ?h = 0"
    and "to_state s = disarmed"
    using assms(1) by (auto simp: setSpoolupTime_def eso_takeoff_init_def hy_init_def
        set_hysteresis_time_from_def split: option.splits)
  then have "spooled_up (takeoff_run s is)"
    using assms(2) by (intro spooled_up_run) (simp_all add: spooled_up_def)
  then have "hy_state (hy_run ?h (arming_history is))"
    using assms(3) by (auto simp: spooled_up_def takeoff_run_hyst)
  then obtain pre mid suf where m: "arming_history is = pre @ mid @ suf" "mid \<noteq> []"
      "\<forall>x \<in> set (mid @ suf). fst x" "hy_time_from_false_us ?h \<le> snd (last mid) - snd (hd mid)"
    using hy_true_history [OF h] by blast
  obtain p m' q where "is = p @ m' @ q" "mid = map (\<lambda>i. (ti_armed i, ti_now i)) m'"
    "suf = map (\<lambda>i. (ti_armed i, ti_now i)) q"
    by (rule map_eq_append3 [OF m(1) [unfolded arming_history_def]])
  with m have "is = p @ m' @ q \<and> m' \<noteq> [] \<and> list_all ti_armed (m' @ q)
      \<and> hy_time_from_false_us ?h \<le> ti_now (last m') - ti_now (hd m')"
    by (simp add: last_map hd_map list_all_iff ball_Un)
  then show ?thesis by blast
qed

definition takeoff_inputs :: "takeoff_input list" where
  "takeoff_inputs = map (\<lambda>t. \<lparr>ti_armed = True, ti_landed = True, ti_want = True, ti_vz = f32_lit 1,
     ti_skip = False, ti_now = t\<rparr>) [10, 500010, 1000010]"

theorem takeoff_spoolup_delay_witness:
  "\<exists>s. setSpoolupTime (f32_lit 1) eso_takeoff_init = Some s
    \<and> to_state (takeoff_run s (take 2 takeoff_inputs)) = spoolup
    \<and> to_state (takeoff_run s takeoff_inputs) = rampup
    \<and> (\<exists>pre mid suf. takeoff_inputs = pre @ mid @ suf \<and> mid \<noteq> [] \<and> list_all ti_armed (mid @ suf)
         \<and> 1000000 \<le> ti_now (last mid) - ti_now (hd mid))"
proof -
  have us: "f32_of_u64 1000000 = FFin False 1000000"
    by (simp add: f32_of_u64_def f32_of_real_numeral)
  have "f32_mul (f32_lit 1) (f32_of_u64 1000000) = FFin False 1000000"
    by (simp add: us f32_of_real_numeral)
  moreover define s where "s = eso_takeoff_init\<lparr>to_spoolup_time_hysteresis :=
      (hy_init False)\<lparr>hy_time_from_false_us := 1000000\<rparr>\<rparr>"
  ultimately have s: "setSpoolupTime (f32_lit 1) eso_takeoff_init = Some s"
    by (simp add: setSpoolupTime_def set_hysteresis_time_from_def eso_takeoff_init_def)
  have run: "to_state (takeoff_run s (take 2 takeoff_inputs)) = spoolup"
      "to_state (takeoff_run s takeoff_inputs) = rampup"
    by (simp_all add: s_def takeoff_inputs_def eso_takeoff_init_def hy_init_def updateTakeoffState_def
        takeoff_cases hy_defs)
  have "\<forall>i \<in> set takeoff_inputs. \<not> ti_skip i" by (simp add: takeoff_inputs_def)
  from takeoff_spoolup_delay [OF s this] run(2)
  have "\<exists>pre mid suf. takeoff_inputs = pre @ mid @ suf \<and> mid \<noteq> [] \<and> list_all ti_armed (mid @ suf)
         \<and> 1000000 \<le> ti_now (last mid) - ti_now (hd mid)"
    by (simp add: s_def)
  with s run show ?thesis by (intro exI [of _ s] conjI)
qed

text \<open>Every call of the state machine makes one of the listed transitions; in particular a
  disarmed vehicle is in state \<open>disarmed\<close> after the call, and flight is entered only from a
  finished ramp, from flight, or by an explicit skip.\<close>

theorem takeoff_step_sound:
  "takeoff_transition armed skip (to_state s)
     (to_state (updateTakeoffState armed landed want vz skip now s))
   \<and> (\<not> armed \<longrightarrow> to_state (updateTakeoffState armed landed want vz skip now s) = disarmed)
   \<and> (to_state (updateTakeoffState armed landed want vz skip now s) = flight \<longrightarrow>
        skip \<or> to_state s = flight
        \<or> to_state s = rampup \<and> f32_ge (to_ramp_progress s) (f32_lit 1))"
  using updateTakeoffState_transition [of armed skip s landed want vz now]
  by (cases "to_state s") (auto simp: updateTakeoffState_state Let_def)

theorem takeoff_step_sound_witness:
  "let s = eso_takeoff_init\<lparr>to_state := rampup, to_ramp_progress := f32_lit 1\<rparr> in
   to_state (updateTakeoffState True False True (f32_lit 1) False 5 s) = flight
   \<and> takeoff_transition True False rampup flight"
  using takeoff_step_sound [of True False "eso_takeoff_init\<lparr>to_state := rampup, to_ramp_progress := f32_lit 1\<rparr>"
      False True "f32_lit 1" 5]
  by (simp add: Let_def updateTakeoffState_state)

subsection \<open>The ramp\<close>

fun ramp_run :: "eso_takeoff \<Rightarrow> (float32 \<times> float32) list \<Rightarrow> eso_takeoff" where
  "ramp_run s [] = s"
| "ramp_run s ((dt, vz) # xs) = ramp_run (snd (updateRamp dt vz s)) xs"

lemma updateRamp_frame [simp]:
  "to_state (snd (updateRamp dt vz s)) = to_state s"
  "to_ramp_time (snd (updateRamp dt vz s)) = to_ramp_time s"
  by (simp_all add: updateRamp_def Let_def)

text \<open>Steps of the ramp in units of \<open>2^-j\<close>, which the format represents exactly.\<close>

definition ramp_unit :: "nat \<Rightarrow> nat \<Rightarrow> float32" where
  "ramp_unit j k = FFin False (real k / 2 ^ j)"

lemma ramp_unit_wf:
  assumes "k \<le> 2 ^ j" and "j \<le> 24"
  shows "wf32 (ramp_unit j k)"
proof -
  have "int k \<le> 2 ^ 24"
    using assms power_increasing [of j 24 "2::nat"] by (simp flip: of_nat_power)
  then have "r24.representable (of_int (int k) * 2 ^ (149 - j))" by (intro representable_scaled) simp_all
  moreover have eq: "real k / 2 ^ j * f32_scale = of_int (int k) * 2 ^ (149 - j)"
    using assms(2) by (simp add: f32_scale_def power_diff)
  moreover have "real k / 2 ^ j * f32_scale < f32_overflow"
  proof -
    have "real k \<le> 2 ^ j" using assms(1) by (metis of_nat_le_iff of_nat_numeral of_nat_power)
    then have "real k / 2 ^ j * f32_scale \<le> 1 * f32_scale" by (intro mult_right_mono) (simp_all add: divide_le_eq)
    also have "1 * f32_scale < f32_overflow" by (simp add: f32_scale_def f32_overflow_def)
    finally show ?thesis .
  qed
  ultimately show ?thesis by (simp add: ramp_unit_def)
qed

lemma ramp_unit_step:
  assumes "Suc k \<le> 2 ^ j" and "j \<le> 24"
    and "f32_le (ramp_unit j k) p" and "f32_le (ramp_unit j 1) d"
  shows "f32_le (ramp_unit j (Suc k)) (f32_add p d)"
proof (cases "f32_isfinite p \<and> f32_isfinite d")
  case True
  then obtain s m t n where pd: "p = FFin s m" "d = FFin t n" by (cases p; cases d) auto
  have "f32_val (ramp_unit j (Suc k)) \<le> f32_val p + f32_val d"
    using assms(3,4) by (simp add: pd ramp_unit_def add_divide_distrib split: if_splits)
  then have "f32_le (ramp_unit j (Suc k)) (f32_of_real (s \<and> t) (f32_val p + f32_val d))"
    using ramp_unit_wf [OF assms(1,2)] by (intro f32_of_real_ge) (simp_all add: ramp_unit_def)
  then show ?thesis by (simp add: pd del: f32_val.simps)
next
  case False
  then show ?thesis
    using assms(3,4) by (cases p; cases d) (auto simp: ramp_unit_def)
qed

lemma ramp_unit_lit: "j \<le> 24 \<Longrightarrow> k \<le> 2 ^ j \<Longrightarrow> f32_lit (real k / 2 ^ j) = ramp_unit j k"
  using f32_of_real_exact [OF ramp_unit_wf [of k j, unfolded ramp_unit_def], of False]
  by (cases "k = 0") (simp_all add: ramp_unit_def f32_lit_def)

lemma ramp_unit_mono: "k \<le> l \<Longrightarrow> f32_le (ramp_unit j k) (ramp_unit j l)"
  by (simp add: ramp_unit_def divide_right_mono)

lemma ramp_progress_step:
  assumes "to_state s = rampup" and "j \<le> 24" and "0 < m" and "m \<le> 2 ^ j"
    and "f32_le (ramp_unit j 1) (f32_div dt (to_ramp_time s))"
    and "f32_le (ramp_unit j (m - 1)) (to_ramp_progress s)"
  shows "f32_le (ramp_unit j m) (to_ramp_progress (snd (updateRamp dt vz s)))"
proof (cases "f32_gt (to_ramp_time s) dt")
  case True
  then show ?thesis
    using ramp_unit_step [of "m - 1" j "to_ramp_progress s" "f32_div dt (to_ramp_time s)"] assms
    by (simp add: updateRamp_def Let_def)
next
  case False
  have "f32_le (ramp_unit j m) (ramp_unit j (2 ^ j))" using assms(4) by (rule ramp_unit_mono)
  moreover have "ramp_unit j (2 ^ j) = f32_lit 1" by (simp add: ramp_unit_def)
  ultimately show ?thesis using False assms(1) by (simp add: updateRamp_def Let_def)
qed

lemma ramp_progress_run:
  assumes "to_state s = rampup" and "j \<le> 24" and "k \<le> 2 ^ j"
    and "\<forall>x \<in> set xs. f32_le (ramp_unit j 1) (f32_div (fst x) (to_ramp_time s))"
    and "f32_le (ramp_unit j k) (to_ramp_progress s)"
  shows "f32_le (ramp_unit j (min (k + length xs) (2 ^ j))) (to_ramp_progress (ramp_run s xs))"
  using assms
proof (induction s xs arbitrary: k rule: ramp_run.induct)
  case (1 s)
  then show ?case by (simp add: min_def)
next
  case (2 s dt vz xs)
  let ?m = "min (Suc k) (2 ^ j)"
  have "0 < ?m" by simp
  have "f32_le (ramp_unit j (?m - 1)) (ramp_unit j k)" by (rule ramp_unit_mono) auto
  then have "f32_le (ramp_unit j (?m - 1)) (to_ramp_progress s)"
    using "2.prems"(5) f32_le_trans by blast
  then have "f32_le (ramp_unit j ?m) (to_ramp_progress (snd (updateRamp dt vz s)))"
    using "2.prems" by (intro ramp_progress_step [OF _ _ \<open>0 < ?m\<close>]) simp_all
  from "2.IH" [OF _ _ _ _ this] "2.prems"
  have "f32_le (ramp_unit j (min (?m + length xs) (2 ^ j)))
      (to_ramp_progress (ramp_run (snd (updateRamp dt vz s)) xs))" by simp
  moreover have "min (?m + length xs) (2 ^ j) = min (k + length ((dt, vz) # xs)) (2 ^ j)" by auto
  ultimately show ?case by simp
qed

text \<open>C33: the ramp finishes. Whatever the rounding, if every cycle advances the ramp by at least
  \<open>2^-j\<close> of its duration then \<open>2^j\<close> cycles bring the progress to one, so the next update of the
  state machine leaves \<open>rampup\<close>.\<close>

theorem takeoff_ramp_finishes:
  assumes "to_state s = rampup" and "j \<le> 24"
    and "f32_le f32_zero (to_ramp_progress s)"
    and "\<forall>x \<in> set xs. f32_le (f32_lit (1 / 2 ^ j)) (f32_div (fst x) (to_ramp_time s))"
    and "2 ^ j \<le> length xs"
  shows "f32_ge (to_ramp_progress (ramp_run s xs)) (f32_lit 1)
    \<and> to_state (updateTakeoffState True landed want vz False now (ramp_run s xs)) \<noteq> rampup"
proof -
  have u1: "ramp_unit j (Suc 0) = f32_lit (1 / 2 ^ j)"
    using ramp_unit_lit [of j "Suc 0"] assms(2) by simp
  have "f32_le (ramp_unit j (min (0 + length xs) (2 ^ j))) (to_ramp_progress (ramp_run s xs))"
    using assms by (intro ramp_progress_run) (simp_all add: u1 ramp_unit_def [of j 0])
  moreover have "ramp_unit j (min (0 + length xs) (2 ^ j)) = f32_lit 1"
    using assms(5) by (simp add: min_def ramp_unit_def)
  ultimately have fin: "f32_ge (to_ramp_progress (ramp_run s xs)) (f32_lit 1)" by simp
  have "to_state (ramp_run s xs) = rampup"
    using assms(1) by (induction s xs rule: ramp_run.induct) simp_all
  with fin show ?thesis by (simp add: updateTakeoffState_state Let_def)
qed

theorem takeoff_ramp_finishes_witness:
  "let s = eso_takeoff_init\<lparr>to_state := rampup, to_ramp_time := f32_lit 2\<rparr>;
       xs = replicate 4 (f32_lit (1 / 2), f32_lit 1)
   in f32_ge (to_ramp_progress (ramp_run s xs)) (f32_lit 1)
     \<and> to_state (updateTakeoffState True False True (f32_lit 1) False 7 (ramp_run s xs)) \<noteq> rampup"
proof -
  have q: "f32_of_real False (1 / 4) = FFin False (1 / 4)"
    using f32_of_real_dyadic [of 1 2 False] by simp
  then have "f32_lit (1 / 4) = FFin False (1 / 4)" by (simp add: f32_lit_def)
  then have "f32_div (f32_lit (1 / 2)) (f32_lit 2) = f32_lit (1 / 2 ^ 2)"
    using q by (simp add: f32_lit_numeral)
  then show ?thesis
    unfolding Let_def by (intro takeoff_ramp_finishes [of _ 2])
      (simp_all add: eso_takeoff_init_def f32_le_refl)
qed

end
