(* ===== verification/Eso_Position_Control.thy ===== *)
theory Eso_Position_Control
  imports Rotations Eso_Observers Eso_Takeoff
begin

text \<open>
  \<^verbatim>\<open>ESOPositionControl\<close> and its \<^verbatim>\<open>ControlMath\<close>
  (\<^verbatim>\<open>src/modules/eso_pos_control/ESOPositionControl\<close>): position loop with integrator and velocity limits,
  velocity loop with the disturbance estimate and the centrifugal feed-forward, conversion to
  thrust, and thrust to attitude. Shown: every number of the controller stays representable, the
  limits of the integrator, of the vertical speed and of the vertical thrust, the hand-over when
  the observer is switched on, and three ways in which the code departs from its comments: the
  feed-forward velocity counts twice, a horizontal setpoint without a position is refused, and a
  change of the hover thrust reaches the output at once. The debug prints and their static
  timestamps are left out, and so is the assignment to \<^verbatim>\<open>vel_error(2)\<close> in \<^verbatim>\<open>_velocityControl\<close>, which
  nothing reads.
\<close>

subsection \<open>ControlMath\<close>

record vehicle_attitude_setpoint_s =
  as_timestamp :: hrt_abstime
  as_q_d :: quatf
  as_roll_body :: float32
  as_pitch_body :: float32
  as_yaw_body :: float32
  as_yaw_sp_move_rate :: float32
  as_thrust_body :: vector3f

definition attitude_setpoint_zero :: vehicle_attitude_setpoint_s where
  "attitude_setpoint_zero =
     \<lparr>as_timestamp = 0, as_q_d = Quat f32_zero f32_zero f32_zero f32_zero, as_roll_body = f32_zero,
      as_pitch_body = f32_zero, as_yaw_body = f32_zero, as_yaw_sp_move_rate = f32_zero,
      as_thrust_body = v3_zero\<rparr>"

definition limitTilt :: "libm \<Rightarrow> vector3f \<Rightarrow> vector3f \<Rightarrow> float32 \<Rightarrow> vector3f" where
  "limitTilt L body_unit world_unit max_angle =
     (let dot_product_unit = v3_dot body_unit world_unit;
          angle = lm_acosf L dot_product_unit;
          angle = math_min angle max_angle;
          rejection = v3_sub body_unit (v3_scale world_unit dot_product_unit);
          rejection = (if f32_lt (v3_norm_squared rejection) FLT_EPSILON
                       then V3 (f32_lit 1) (v1 rejection) (v2 rejection) else rejection)
      in v3_add (v3_scale world_unit (lm_cosf L angle)) (v3_scale (v3_normalized rejection) (lm_sinf L angle)))"

definition bodyzToAttitude ::
  "libm \<Rightarrow> vector3f \<Rightarrow> float32 \<Rightarrow> vehicle_attitude_setpoint_s \<Rightarrow> vehicle_attitude_setpoint_s" where
  "bodyzToAttitude L body_z yaw_sp att_sp =
     (let body_z = (if f32_lt (v3_norm_squared body_z) FLT_EPSILON
                    then V3 (v0 body_z) (v1 body_z) (f32_lit 1) else body_z);
          body_z = v3_normalized body_z;
          y_C = V3 (f32_neg (lm_sinf L yaw_sp)) (lm_cosf L yaw_sp) f32_zero;
          body_x = v3_cross y_C body_z;
          body_x = (if f32_lt (v2 body_z) f32_zero then v3_neg body_x else body_x);
          body_x = (if f32_lt (f32_abs (v2 body_z)) (f32_lit (1 / 10 ^ 6))
                    then V3 f32_zero f32_zero (f32_lit 1) else body_x);
          body_x = v3_normalized body_x;
          body_y = v3_cross body_z body_x;
          R_sp = V3 (V3 (v0 body_x) (v0 body_y) (v0 body_z))
                    (V3 (v1 body_x) (v1 body_y) (v1 body_z))
                    (V3 (v2 body_x) (v2 body_y) (v2 body_z));
          euler = Euler_of_Dcm L R_sp
      in att_sp\<lparr>as_q_d := Quaternion_of_Dcm R_sp, as_roll_body := v0 euler,
                as_pitch_body := v1 euler, as_yaw_body := v2 euler\<rparr>)"

definition thrustToAttitude ::
  "libm \<Rightarrow> vector3f \<Rightarrow> float32 \<Rightarrow> vehicle_attitude_setpoint_s \<Rightarrow> vehicle_attitude_setpoint_s" where
  "thrustToAttitude L thr_sp yaw_sp att_sp =
     (let att_sp = bodyzToAttitude L (v3_neg thr_sp) yaw_sp att_sp;
          t = as_thrust_body att_sp
      in att_sp\<lparr>as_thrust_body := V3 (v0 t) (v1 t) (f32_neg (v3_norm thr_sp))\<rparr>)"

definition constrainXY :: "vector2f \<Rightarrow> vector2f \<Rightarrow> float32 \<Rightarrow> vector2f" where
  "constrainXY a b max_norm =
     (if f32_le (v2_norm (v2_add a b)) max_norm then v2_add a b
      else if f32_ge (v2_norm a) max_norm then v2_scale (v2_normalized a) max_norm
      else if f32_lt (f32_abs (v2_norm (v2_sub b a))) (f32_lit (1 / 10 ^ 3))
        then v2_scale (v2_normalized a) max_norm
      else if f32_lt (v2_norm a) (f32_lit (1 / 10 ^ 3)) then v2_scale (v2_normalized b) max_norm
      else (let u1 = v2_normalized b;
                m = v2_dot u1 a;
                c = f32_sub (v2_dot a a) (f32_mul max_norm max_norm);
                s = f32_add (f32_neg m) (f32_sqrt (f32_sub (f32_mul m m) c))
            in v2_add a (v2_scale u1 s)))"

definition addIfNotNan :: "float32 \<Rightarrow> float32 \<Rightarrow> float32" where
  "addIfNotNan setpoint addition =
     (if f32_isfinite setpoint \<and> f32_isfinite addition then f32_add setpoint addition
      else if \<not> f32_isfinite setpoint then addition
      else setpoint)"

definition addIfNotNanVector3f :: "vector3f \<Rightarrow> vector3f \<Rightarrow> vector3f" where
  "addIfNotNanVector3f setpoint addition = v3_map2 addIfNotNan setpoint addition"

definition setZeroIfNanVector3f :: "vector3f \<Rightarrow> vector3f" where
  "setZeroIfNanVector3f vec = addIfNotNanVector3f vec v3_zero"

text \<open>The crossing of a line and a sphere: the returned flag and the point, \<open>None\<close> when not written.\<close>

definition cross_sphere_line ::
  "vector3f \<Rightarrow> float32 \<Rightarrow> vector3f \<Rightarrow> vector3f \<Rightarrow> bool \<times> vector3f option" where
  "cross_sphere_line sphere_c sphere_r line_a line_b =
     (let ab_norm = v3_sub line_b line_a
      in if f32_lt (v3_norm ab_norm) (f32_lit (1 / 100)) then (True, None)
         else
           (let ab_norm = v3_normalized ab_norm;
                d = v3_add line_a (v3_scale ab_norm (v3_dot (v3_sub sphere_c line_a) ab_norm));
                cd_len = v3_norm (v3_sub sphere_c d);
                behind_b = f32_gt (v3_dot (v3_sub sphere_c line_b) ab_norm) f32_zero
            in if f32_gt sphere_r cd_len then
                 (let dx_len = f32_sqrt (f32_sub (f32_mul sphere_r sphere_r) (f32_mul cd_len cd_len))
                  in (True, Some (if behind_b then line_b else v3_add d (v3_scale ab_norm dx_len))))
               else
                 (let res = (if f32_lt (v3_dot (v3_sub sphere_c line_a) ab_norm) f32_zero then line_a else d)
                  in (False, Some (if behind_b then line_b else res)))))"

subsection \<open>State\<close>

record PositionControlStates =
  pcs_position :: vector3f
  pcs_velocity :: vector3f
  pcs_acceleration :: vector3f
  pcs_yaw :: float32

record vehicle_local_position_setpoint_s =
  lps_timestamp :: hrt_abstime
  lps_pos :: vector3f
  lps_vel :: vector3f
  lps_acc :: vector3f
  lps_thrust :: vector3f
  lps_yaw :: float32
  lps_yawspeed :: float32

record position_control =
  pc_gain_pos_p :: vector3f
  pc_gain_pos_i :: vector3f
  pc_gain_vel_p :: vector3f
  pc_gain_vel_i :: vector3f
  pc_gain_vel_d :: vector3f
  pc_lim_pos_int :: float32
  pc_lim_vel_horizontal :: float32
  pc_lim_vel_up :: float32
  pc_lim_vel_down :: float32
  pc_lim_thr_min :: float32
  pc_lim_thr_max :: float32
  pc_lim_thr_xy_margin :: float32
  pc_lim_tilt :: float32
  pc_hover_thrust :: float32
  pc_pos :: vector3f
  pc_vel :: vector3f
  pc_vel_dot :: vector3f
  pc_vel_int :: vector3f
  pc_yaw :: float32
  pc_pos_int :: vector3f
  pc_body_rate :: vector3f
  pc_sys_com_pos :: vector3f
  pc_attitude :: quatf
  pc_dyn_ff_enabled :: bool
  pc_eso :: position_eso
  pc_eso_disturbance :: vector3f
  pc_eso_update_enabled :: bool
  pc_eso_update_enabled_prev :: bool
  pc_acc_cmd_prev :: vector3f
  pc_eso_input :: vector3f
  pc_pos_sp :: vector3f
  pc_vel_sp :: vector3f
  pc_acc_sp :: vector3f
  pc_thr_sp :: vector3f
  pc_yaw_sp :: float32
  pc_yawspeed_sp :: float32

definition ESOPositionControl :: position_control where
  "ESOPositionControl =
     \<lparr>pc_gain_pos_p = v3_zero, pc_gain_pos_i = v3_zero, pc_gain_vel_p = v3_zero, pc_gain_vel_i = v3_zero,
      pc_gain_vel_d = v3_zero, pc_lim_pos_int = f32_zero, pc_lim_vel_horizontal = f32_zero,
      pc_lim_vel_up = f32_zero, pc_lim_vel_down = f32_zero, pc_lim_thr_min = f32_zero,
      pc_lim_thr_max = f32_zero, pc_lim_thr_xy_margin = f32_zero, pc_lim_tilt = f32_zero,
      pc_hover_thrust = f32_zero, pc_pos = v3_zero, pc_vel = v3_zero, pc_vel_dot = v3_zero,
      pc_vel_int = v3_zero, pc_yaw = f32_zero, pc_pos_int = v3_zero, pc_body_rate = v3_zero,
      pc_sys_com_pos = v3_zero, pc_attitude = q_unit, pc_dyn_ff_enabled = False, pc_eso = PositionESO,
      pc_eso_disturbance = v3_zero, pc_eso_update_enabled = True, pc_eso_update_enabled_prev = True,
      pc_acc_cmd_prev = v3_zero, pc_eso_input = v3_zero, pc_pos_sp = v3_zero, pc_vel_sp = v3_zero,
      pc_acc_sp = v3_zero, pc_thr_sp = v3_zero, pc_yaw_sp = f32_zero, pc_yawspeed_sp = f32_zero\<rparr>"

subsection \<open>Parameters and inputs\<close>

definition pc_setPositionGains :: "vector3f \<Rightarrow> vector3f \<Rightarrow> position_control \<Rightarrow> position_control" where
  "pc_setPositionGains P I s = s\<lparr>pc_gain_pos_p := P, pc_gain_pos_i := I\<rparr>"

definition pc_setVelocityGains :: "vector3f \<Rightarrow> vector3f \<Rightarrow> vector3f \<Rightarrow> position_control \<Rightarrow> position_control" where
  "pc_setVelocityGains P I D s = s\<lparr>pc_gain_vel_p := P, pc_gain_vel_i := I, pc_gain_vel_d := D\<rparr>"

definition pc_setESOBandwidth :: "vector3f \<Rightarrow> position_control \<Rightarrow> position_control" where
  "pc_setESOBandwidth bw s = s\<lparr>pc_eso := pe_setBandwidth bw (pc_eso s)\<rparr>"

definition pc_setVelocityLimits :: "float32 \<Rightarrow> float32 \<Rightarrow> float32 \<Rightarrow> position_control \<Rightarrow> position_control" where
  "pc_setVelocityLimits vel_horizontal vel_up vel_down s =
     s\<lparr>pc_lim_vel_horizontal := vel_horizontal, pc_lim_vel_up := vel_up, pc_lim_vel_down := vel_down\<rparr>"

definition pc_setThrustLimits :: "float32 \<Rightarrow> float32 \<Rightarrow> position_control \<Rightarrow> position_control" where
  "pc_setThrustLimits thr_min thr_max s =
     s\<lparr>pc_lim_thr_min := math_max thr_min (f32_lit (10 / 10 ^ 4)), pc_lim_thr_max := thr_max\<rparr>"

definition pc_setHorizontalThrustMargin :: "float32 \<Rightarrow> position_control \<Rightarrow> position_control" where
  "pc_setHorizontalThrustMargin margin s = s\<lparr>pc_lim_thr_xy_margin := margin\<rparr>"

definition pc_setPositionIntegralLimit :: "float32 \<Rightarrow> position_control \<Rightarrow> position_control" where
  "pc_setPositionIntegralLimit limit s = s\<lparr>pc_lim_pos_int := limit\<rparr>"

definition pc_setTiltLimit :: "float32 \<Rightarrow> position_control \<Rightarrow> position_control" where
  "pc_setTiltLimit tilt s = s\<lparr>pc_lim_tilt := tilt\<rparr>"

definition pc_setESOUpdateEnabled :: "bool \<Rightarrow> position_control \<Rightarrow> position_control" where
  "pc_setESOUpdateEnabled enabled s = s\<lparr>pc_eso_update_enabled := enabled\<rparr>"

definition pc_setBodyRate :: "vector3f \<Rightarrow> position_control \<Rightarrow> position_control" where
  "pc_setBodyRate rate s = s\<lparr>pc_body_rate := rate\<rparr>"

definition pc_setSystemCoM :: "vector3f \<Rightarrow> position_control \<Rightarrow> position_control" where
  "pc_setSystemCoM p s = s\<lparr>pc_sys_com_pos := p\<rparr>"

definition pc_setAttitude :: "quatf \<Rightarrow> position_control \<Rightarrow> position_control" where
  "pc_setAttitude att s = s\<lparr>pc_attitude := att\<rparr>"

definition pc_setDynamicsFeedforwardEnabled :: "bool \<Rightarrow> position_control \<Rightarrow> position_control" where
  "pc_setDynamicsFeedforwardEnabled enabled s = s\<lparr>pc_dyn_ff_enabled := enabled\<rparr>"

definition pc_setHoverThrust :: "float32 \<Rightarrow> position_control \<Rightarrow> position_control" where
  "pc_setHoverThrust hover_thrust s =
     s\<lparr>pc_hover_thrust := constrain hover_thrust (f32_lit (1 / 10)) (f32_lit (9 / 10))\<rparr>"

definition pc_updateHoverThrust :: "float32 \<Rightarrow> position_control \<Rightarrow> position_control" where
  "pc_updateHoverThrust hover_thrust_new s =
     (if f32_gt hover_thrust_new FLT_EPSILON then
        (let i = pc_vel_int s; a = v2 (pc_acc_sp s);
             d = f32_sub (f32_add (f32_div (f32_mul (f32_sub a CONSTANTS_ONE_G) (pc_hover_thrust s)) hover_thrust_new)
                   CONSTANTS_ONE_G) a
         in pc_setHoverThrust hover_thrust_new
              (s\<lparr>pc_vel_int := V3 (v0 i) (v1 i) (f32_add (v2 i) d)\<rparr>))
      else s)"

definition pc_setState :: "PositionControlStates \<Rightarrow> position_control \<Rightarrow> position_control" where
  "pc_setState states s =
     s\<lparr>pc_pos := pcs_position states, pc_vel := pcs_velocity states, pc_yaw := pcs_yaw states,
       pc_vel_dot := pcs_acceleration states\<rparr>"

definition pc_setInputSetpoint :: "vehicle_local_position_setpoint_s \<Rightarrow> position_control \<Rightarrow> position_control" where
  "pc_setInputSetpoint setpoint s =
     s\<lparr>pc_pos_sp := lps_pos setpoint, pc_vel_sp := lps_vel setpoint, pc_acc_sp := lps_acc setpoint,
       pc_yaw_sp := lps_yaw setpoint, pc_yawspeed_sp := lps_yawspeed setpoint\<rparr>"

definition pc_resetIntegral :: "position_control \<Rightarrow> position_control" where
  "pc_resetIntegral s =
     s\<lparr>pc_vel_int := v3_zero, pc_pos_int := v3_zero, pc_eso_input := v3_zero, pc_acc_cmd_prev := v3_zero,
       pc_eso := pe_reset (pc_eso s), pc_eso_update_enabled_prev := False\<rparr>"

subsection \<open>Position loop\<close>

definition pc_pos_err :: "position_control \<Rightarrow> vector3f" where
  "pc_pos_err s = v3_sub (pc_pos_sp s) (pc_pos s)"

definition pc_vel_sp_p :: "position_control \<Rightarrow> vector3f" where
  "pc_vel_sp_p s = v3_emult (pc_pos_err s) (pc_gain_pos_p s)"

definition pc_vel_sp_i :: "position_control \<Rightarrow> vector3f" where
  "pc_vel_sp_i s = v3_emult (pc_pos_int s) (pc_gain_pos_i s)"

definition pc_vel_sp_unc :: "position_control \<Rightarrow> vector3f" where
  "pc_vel_sp_unc s = addIfNotNanVector3f (v3_add (pc_vel_sp_p s) (pc_vel_sp_i s)) (pc_vel_sp s)"

text \<open>The demanded velocity with its non-finite components cleared.\<close>

definition pc_vel_sp_total :: "position_control \<Rightarrow> vector3f" where
  "pc_vel_sp_total s = setZeroIfNanVector3f (pc_vel_sp_unc s)"

definition pc_vel_sp_limited :: "position_control \<Rightarrow> vector3f" where
  "pc_vel_sp_limited s =
     (let total = pc_vel_sp_total s;
          xy = constrainXY (v3_xy total)
            (v3_xy (v3_sub (v3_sub total (pc_vel_sp_p s)) (pc_vel_sp_i s))) (pc_lim_vel_horizontal s)
      in V3 (x0 xy) (x1 xy) (constrain (v2 total) (f32_neg (pc_lim_vel_up s)) (pc_lim_vel_down s)))"

definition pc_arw_gain :: "position_control \<Rightarrow> vector3f" where
  "pc_arw_gain s =
     map_vec3 (\<lambda>p. if f32_gt p FLT_EPSILON then f32_div (f32_lit 2) p else f32_lit 0) (pc_gain_pos_p s)"

definition pc_positionControl :: "float32 \<Rightarrow> position_control \<Rightarrow> position_control" where
  "pc_positionControl dt s =
     (let pos_err = pc_pos_err s;
          vel_sp_limited = pc_vel_sp_limited s;
          saturation_diff = v3_sub (pc_vel_sp_unc s) vel_sp_limited;
          pos_err_for_int = v3_sub pos_err (v3_emult saturation_diff (pc_arw_gain s));
          s = (if v3_all f32_isfinite pos_err
               then s\<lparr>pc_pos_int := map_vec3 (\<lambda>x. constrain x (f32_neg (pc_lim_pos_int s)) (pc_lim_pos_int s))
                        (v3_add (pc_pos_int s) (v3_scale pos_err_for_int dt))\<rparr>
               else s)
      in s\<lparr>pc_vel_sp := vel_sp_limited\<rparr>)"

subsection \<open>Velocity loop and thrust\<close>

definition pc_a_f_ned :: "position_control \<Rightarrow> vector3f" where
  "pc_a_f_ned s =
     (let w_cross_p = v3_cross (pc_body_rate s) (pc_sys_com_pos s);
          centrifugal_body = v3_cross (pc_body_rate s) w_cross_p;
          a_f_ned = v3_scale (rotateVector (pc_attitude s) centrifugal_body) (f32_lit (- 1))
      in if pc_dyn_ff_enabled s then a_f_ned else v3_zero)"

definition pc_acc_cmd :: "position_control \<Rightarrow> vector3f" where
  "pc_acc_cmd s =
     v3_sub (v3_sub (v3_add (setZeroIfNanVector3f (pc_acc_sp s))
                            (v3_emult (v3_sub (pc_vel_sp s) (pc_vel s)) (pc_gain_vel_p s)))
                    (pc_eso_disturbance s))
            (pc_a_f_ned s)"

definition pc_body_z :: "libm \<Rightarrow> position_control \<Rightarrow> vector3f" where
  "pc_body_z L s =
     limitTilt L (v3_normalized (V3 (f32_neg (v0 (pc_acc_sp s))) (f32_neg (v1 (pc_acc_sp s))) CONSTANTS_ONE_G))
       (V3 f32_zero f32_zero (f32_lit 1)) (pc_lim_tilt s)"

definition pc_accelerationControl :: "libm \<Rightarrow> position_control \<Rightarrow> position_control" where
  "pc_accelerationControl L s =
     (let body_z = pc_body_z L s;
          collective_thrust = f32_sub (f32_mul (v2 (pc_acc_sp s)) (f32_div (pc_hover_thrust s) CONSTANTS_ONE_G))
            (pc_hover_thrust s);
          collective_thrust = f32_div collective_thrust (v3_dot (V3 f32_zero f32_zero (f32_lit 1)) body_z);
          collective_thrust = math_min collective_thrust (f32_neg (pc_lim_thr_min s))
      in s\<lparr>pc_thr_sp := v3_scale body_z collective_thrust\<rparr>)"

text \<open>Vertical thrust first, with a margin kept for horizontal control; the rest is horizontal.\<close>

definition pc_thr_z_limited :: "position_control \<Rightarrow> float32" where
  "pc_thr_z_limited s =
     (let thrust_sp_xy_norm = v2_norm (v3_xy (pc_thr_sp s));
          thrust_max_squared = sq (pc_lim_thr_max s);
          allocated_horizontal_thrust = math_min thrust_sp_xy_norm (pc_lim_thr_xy_margin s);
          thrust_z_max_squared = f32_sub thrust_max_squared (sq allocated_horizontal_thrust)
      in math_max (v2 (pc_thr_sp s)) (f32_neg (f32_sqrt thrust_z_max_squared)))"

definition pc_limit_thrust :: "position_control \<Rightarrow> vector3f" where
  "pc_limit_thrust s =
     (let thrust_sp_xy = v3_xy (pc_thr_sp s);
          thrust_sp_xy_norm = v2_norm thrust_sp_xy;
          thrust_max_squared = sq (pc_lim_thr_max s);
          z = pc_thr_z_limited s;
          thrust_max_xy_squared = f32_sub thrust_max_squared (sq z);
          thrust_max_xy = (if f32_gt thrust_max_xy_squared f32_zero then f32_sqrt thrust_max_xy_squared else f32_zero);
          xy = (if f32_gt thrust_sp_xy_norm thrust_max_xy
                then v2_scale (v2_div thrust_sp_xy thrust_sp_xy_norm) thrust_max_xy else thrust_sp_xy)
      in V3 (x0 xy) (x1 xy) z)"

definition pc_velocityControl :: "libm \<Rightarrow> position_control \<Rightarrow> position_control" where
  "pc_velocityControl L s =
     (let a_f_ned = pc_a_f_ned s;
          s = s\<lparr>pc_acc_sp := pc_acc_cmd s\<rparr>;
          s = pc_accelerationControl L s;
          s = s\<lparr>pc_thr_sp := pc_limit_thrust s\<rparr>;
          s = s\<lparr>pc_acc_cmd_prev := v3_scale (pc_thr_sp s)
                  (if f32_gt (pc_hover_thrust s) FLT_EPSILON then f32_div CONSTANTS_ONE_G (pc_hover_thrust s)
                   else CONSTANTS_ONE_G)\<rparr>
      in s\<lparr>pc_eso_input := v3_add (v3_add (pc_acc_cmd_prev s) (V3 f32_zero f32_zero CONSTANTS_ONE_G)) a_f_ned\<rparr>)"

subsection \<open>One cycle\<close>

definition pc_axis_valid :: "(vector3f \<Rightarrow> float32) \<Rightarrow> position_control \<Rightarrow> bool" where
  "pc_axis_valid ax s \<longleftrightarrow>
     (f32_isfinite (ax (pc_pos_sp s)) \<or> f32_isfinite (ax (pc_vel_sp s)) \<or> f32_isfinite (ax (pc_acc_sp s)))
     \<and> (f32_isfinite (ax (pc_pos_sp s)) \<longrightarrow> f32_isfinite (ax (pc_pos s)))
     \<and> (f32_isfinite (ax (pc_vel_sp s)) \<longrightarrow> f32_isfinite (ax (pc_vel s)) \<and> f32_isfinite (ax (pc_vel_dot s)))"

definition pc_pair_valid :: "vector3f \<Rightarrow> bool" where
  "pc_pair_valid sp \<longleftrightarrow> f32_isfinite (v0 sp) = f32_isfinite (v1 sp)"

definition pc_inputValid :: "position_control \<Rightarrow> bool" where
  "pc_inputValid s \<longleftrightarrow>
     list_all (\<lambda>ax. pc_axis_valid ax s) v3_axes
     \<and> pc_pair_valid (pc_pos_sp s) \<and> pc_pair_valid (pc_vel_sp s) \<and> pc_pair_valid (pc_acc_sp s)"

definition pc_observe :: "float32 \<Rightarrow> position_control \<Rightarrow> position_control" where
  "pc_observe dt s =
     (let s = (if pc_eso_update_enabled s \<and> \<not> pc_eso_update_enabled_prev s
               then s\<lparr>pc_eso := pe_reset_to (pc_pos s) (pc_vel s) (pc_eso s)\<rparr> else s)
      in if pc_eso_update_enabled s
         then (case pe_update (pc_pos s) (pc_eso_input s) dt (pc_eso s) of (d, e) \<Rightarrow>
                 s\<lparr>pc_eso_disturbance := d, pc_eso := e\<rparr>)
         else s\<lparr>pc_eso_disturbance := v3_zero\<rparr>)"

definition pc_yaw_defaults :: "position_control \<Rightarrow> position_control" where
  "pc_yaw_defaults s =
     s\<lparr>pc_yawspeed_sp := (if f32_isfinite (pc_yawspeed_sp s) then pc_yawspeed_sp s else f32_lit 0),
       pc_yaw_sp := (if f32_isfinite (pc_yaw_sp s) then pc_yaw_sp s else pc_yaw s)\<rparr>"

definition pc_update :: "libm \<Rightarrow> float32 \<Rightarrow> position_control \<Rightarrow> bool \<times> position_control" where
  "pc_update L dt s =
     (let valid = pc_inputValid s;
          s = (if valid
               then pc_yaw_defaults (pc_velocityControl L (pc_positionControl dt (pc_observe dt s))) else s);
          s = s\<lparr>pc_eso_update_enabled_prev := pc_eso_update_enabled s\<rparr>
      in (valid \<and> v3_all f32_isfinite (pc_acc_sp s) \<and> v3_all f32_isfinite (pc_thr_sp s), s))"

definition pc_getLocalPositionSetpoint ::
  "position_control \<Rightarrow> vehicle_local_position_setpoint_s \<Rightarrow> vehicle_local_position_setpoint_s" where
  "pc_getLocalPositionSetpoint s sp =
     sp\<lparr>lps_pos := pc_pos_sp s, lps_yaw := pc_yaw_sp s, lps_yawspeed := pc_yawspeed_sp s,
        lps_vel := pc_vel_sp s, lps_acc := pc_acc_sp s, lps_thrust := pc_thr_sp s\<rparr>"

definition pc_getAttitudeSetpoint ::
  "libm \<Rightarrow> position_control \<Rightarrow> vehicle_attitude_setpoint_s \<Rightarrow> vehicle_attitude_setpoint_s" where
  "pc_getAttitudeSetpoint L s sp =
     (thrustToAttitude L (pc_thr_sp s) (pc_yaw_sp s) sp)\<lparr>as_yaw_sp_move_rate := pc_yawspeed_sp s\<rparr>"

subsection \<open>Representable numbers\<close>

definition pe_wf :: "position_eso \<Rightarrow> bool" where
  "pe_wf e \<longleftrightarrow> v3_all wf32 (pe_bw e) \<and> v3_all wf32 (pe_beta1 e) \<and> v3_all wf32 (pe_beta2 e)
     \<and> v3_all wf32 (pe_beta3 e) \<and> v3_all wf32 (pe_z1 e) \<and> v3_all wf32 (pe_z2 e) \<and> v3_all wf32 (pe_z3 e)"

definition pc_wf :: "position_control \<Rightarrow> bool" where
  "pc_wf s \<longleftrightarrow> list_all (v3_all wf32)
       [pc_gain_pos_p s, pc_gain_pos_i s, pc_gain_vel_p s, pc_gain_vel_i s, pc_gain_vel_d s, pc_pos s, pc_vel s,
        pc_vel_dot s, pc_vel_int s, pc_pos_int s, pc_body_rate s, pc_sys_com_pos s, pc_eso_disturbance s,
        pc_acc_cmd_prev s, pc_eso_input s, pc_pos_sp s, pc_vel_sp s, pc_acc_sp s, pc_thr_sp s]
     \<and> list_all wf32
       [pc_lim_pos_int s, pc_lim_vel_horizontal s, pc_lim_vel_up s, pc_lim_vel_down s, pc_lim_thr_min s,
        pc_lim_thr_max s, pc_lim_thr_xy_margin s, pc_lim_tilt s, pc_hover_thrust s, pc_yaw s, pc_yaw_sp s,
        pc_yawspeed_sp s]
     \<and> q_wf (pc_attitude s) \<and> pe_wf (pc_eso s)"

lemma wf32_addIfNotNan [simp, wf32_intros]: "wf32 x \<Longrightarrow> wf32 y \<Longrightarrow> wf32 (addIfNotNan x y)"
  by (simp add: addIfNotNan_def del: wf32.simps)

lemma wf32_vel_sp [simp, wf32_intros]:
  "pc_wf s \<Longrightarrow> v3_all wf32 (pc_vel_sp_unc s)" "pc_wf s \<Longrightarrow> v3_all wf32 (pc_vel_sp_total s)"
  by (simp_all add: pc_vel_sp_total_def pc_vel_sp_unc_def setZeroIfNanVector3f_def addIfNotNanVector3f_def
        v3_all_def pc_wf_def v3_ops del: wf32.simps)

lemma wf32_constrainXY [simp, wf32_intros]: "v2_wf (constrainXY a b c)"
  by (simp add: constrainXY_def Let_def)

lemma pe_wf_update: "pe_wf e \<Longrightarrow> pe_wf (snd (pe_update y u dt e))"
  and pe_wf_reset_to: "pe_wf e \<Longrightarrow> v3_all wf32 y \<Longrightarrow> v3_all wf32 v \<Longrightarrow> pe_wf (pe_reset_to y v e)"
  by (simp_all add: pe_wf_def pe_update_def pe_reset_to_def Let_def)

lemma wf32_pe_update: "v3_all wf32 (fst (pe_update y u dt e))"
  by (simp add: pe_update_def Let_def)

lemma pc_wf_observe: "pc_wf s \<Longrightarrow> pc_wf (pc_observe dt s)"
  by (auto simp: pc_wf_def pc_observe_def Let_def pe_wf_update pe_wf_reset_to case_prod_beta
        wf32_pe_update)

lemma pc_wf_positionControl:
  assumes "pc_wf s"
  shows "pc_wf (pc_positionControl dt s)"
proof -
  have "v3_all wf32 (pc_vel_sp_limited s)"
    using assms wf32_vel_sp(2) [OF assms] wf32_constrainXY
    by (simp add: pc_vel_sp_limited_def Let_def v3_all_def v2_wf_def pc_wf_def)
  with assms show ?thesis
    by (auto simp: pc_wf_def pc_positionControl_def Let_def v3_all_def v3_add_def)
qed

lemma pc_wf_velocityControl:
  assumes "pc_wf s"
  shows "pc_wf (pc_velocityControl L s)"
proof -
  have thr: "v3_all wf32 (pc_limit_thrust t)" if "v3_all wf32 (pc_thr_sp t)" for t
    using that by (simp add: pc_limit_thrust_def Let_def v3_all_def pc_thr_z_limited_def v2_scale_def del: wf32.simps)
  show ?thesis
    using assms thr [of "pc_accelerationControl L (s\<lparr>pc_acc_sp := pc_acc_cmd s\<rparr>)"]
    by (simp add: pc_wf_def pc_velocityControl_def pc_accelerationControl_def Let_def pc_acc_cmd_def)
qed

lemma pc_wf_update: "pc_wf s \<Longrightarrow> pc_wf (snd (pc_update L dt s))"
  using pc_wf_velocityControl [OF pc_wf_positionControl [OF pc_wf_observe], of s L dt dt]
  by (simp add: pc_update_def Let_def pc_yaw_defaults_def pc_wf_def)

text \<open>The calls a client can make, and what it must pass.\<close>

datatype pc_op =
    Op_setPositionGains vector3f vector3f
  | Op_setVelocityGains vector3f vector3f vector3f
  | Op_setESOBandwidth vector3f
  | Op_setESOUpdateEnabled bool
  | Op_setBodyRate vector3f
  | Op_setSystemCoM vector3f
  | Op_setAttitude quatf
  | Op_setDynamicsFeedforwardEnabled bool
  | Op_setVelocityLimits float32 float32 float32
  | Op_setPositionIntegralLimit float32
  | Op_setThrustLimits float32 float32
  | Op_setHorizontalThrustMargin float32
  | Op_setTiltLimit float32
  | Op_setHoverThrust float32
  | Op_updateHoverThrust float32
  | Op_setState PositionControlStates
  | Op_setInputSetpoint vehicle_local_position_setpoint_s
  | Op_update float32
  | Op_resetIntegral

fun pc_exec :: "libm \<Rightarrow> pc_op \<Rightarrow> position_control \<Rightarrow> position_control" where
  "pc_exec L (Op_setPositionGains P I) = pc_setPositionGains P I"
| "pc_exec L (Op_setVelocityGains P I D) = pc_setVelocityGains P I D"
| "pc_exec L (Op_setESOBandwidth bw) = pc_setESOBandwidth bw"
| "pc_exec L (Op_setESOUpdateEnabled e) = pc_setESOUpdateEnabled e"
| "pc_exec L (Op_setBodyRate r) = pc_setBodyRate r"
| "pc_exec L (Op_setSystemCoM p) = pc_setSystemCoM p"
| "pc_exec L (Op_setAttitude q) = pc_setAttitude q"
| "pc_exec L (Op_setDynamicsFeedforwardEnabled e) = pc_setDynamicsFeedforwardEnabled e"
| "pc_exec L (Op_setVelocityLimits h u d) = pc_setVelocityLimits h u d"
| "pc_exec L (Op_setPositionIntegralLimit l) = pc_setPositionIntegralLimit l"
| "pc_exec L (Op_setThrustLimits l u) = pc_setThrustLimits l u"
| "pc_exec L (Op_setHorizontalThrustMargin m) = pc_setHorizontalThrustMargin m"
| "pc_exec L (Op_setTiltLimit t) = pc_setTiltLimit t"
| "pc_exec L (Op_setHoverThrust h) = pc_setHoverThrust h"
| "pc_exec L (Op_updateHoverThrust h) = pc_updateHoverThrust h"
| "pc_exec L (Op_setState st) = pc_setState st"
| "pc_exec L (Op_setInputSetpoint sp) = pc_setInputSetpoint sp"
| "pc_exec L (Op_update dt) = (\<lambda>s. snd (pc_update L dt s))"
| "pc_exec L Op_resetIntegral = pc_resetIntegral"

definition pcs_wf :: "PositionControlStates \<Rightarrow> bool" where
  "pcs_wf st \<longleftrightarrow> v3_all wf32 (pcs_position st) \<and> v3_all wf32 (pcs_velocity st)
     \<and> v3_all wf32 (pcs_acceleration st) \<and> wf32 (pcs_yaw st)"

definition lps_wf :: "vehicle_local_position_setpoint_s \<Rightarrow> bool" where
  "lps_wf sp \<longleftrightarrow> v3_all wf32 (lps_pos sp) \<and> v3_all wf32 (lps_vel sp) \<and> v3_all wf32 (lps_acc sp)
     \<and> wf32 (lps_yaw sp) \<and> wf32 (lps_yawspeed sp)"

fun pc_op_wf :: "pc_op \<Rightarrow> bool" where
  "pc_op_wf (Op_setPositionGains P I) \<longleftrightarrow> v3_all wf32 P \<and> v3_all wf32 I"
| "pc_op_wf (Op_setVelocityGains P I D) \<longleftrightarrow> v3_all wf32 P \<and> v3_all wf32 I \<and> v3_all wf32 D"
| "pc_op_wf (Op_setESOBandwidth bw) \<longleftrightarrow> v3_all wf32 bw"
| "pc_op_wf (Op_setESOUpdateEnabled e) \<longleftrightarrow> True"
| "pc_op_wf (Op_setBodyRate r) \<longleftrightarrow> v3_all wf32 r"
| "pc_op_wf (Op_setSystemCoM p) \<longleftrightarrow> v3_all wf32 p"
| "pc_op_wf (Op_setAttitude q) \<longleftrightarrow> q_wf q"
| "pc_op_wf (Op_setDynamicsFeedforwardEnabled e) \<longleftrightarrow> True"
| "pc_op_wf (Op_setVelocityLimits h u d) \<longleftrightarrow> wf32 h \<and> wf32 u \<and> wf32 d"
| "pc_op_wf (Op_setPositionIntegralLimit l) \<longleftrightarrow> wf32 l"
| "pc_op_wf (Op_setThrustLimits l u) \<longleftrightarrow> wf32 l \<and> wf32 u"
| "pc_op_wf (Op_setHorizontalThrustMargin m) \<longleftrightarrow> wf32 m"
| "pc_op_wf (Op_setTiltLimit t) \<longleftrightarrow> wf32 t"
| "pc_op_wf (Op_setHoverThrust h) \<longleftrightarrow> wf32 h"
| "pc_op_wf (Op_updateHoverThrust h) \<longleftrightarrow> wf32 h"
| "pc_op_wf (Op_setState st) \<longleftrightarrow> pcs_wf st"
| "pc_op_wf (Op_setInputSetpoint sp) \<longleftrightarrow> lps_wf sp"
| "pc_op_wf (Op_update dt) \<longleftrightarrow> True"
| "pc_op_wf Op_resetIntegral \<longleftrightarrow> True"

lemma wf32_setBandwidth: "pe_wf e \<Longrightarrow> v3_all wf32 bw \<Longrightarrow> pe_wf (pe_setBandwidth bw e)"
  by (simp add: pe_wf_def pe_setBandwidth_def v3_all_def v3_ops del: wf32.simps)

lemmas pc_setters = pc_setPositionGains_def pc_setVelocityGains_def pc_setESOBandwidth_def
  pc_setESOUpdateEnabled_def pc_setBodyRate_def pc_setSystemCoM_def pc_setAttitude_def
  pc_setDynamicsFeedforwardEnabled_def pc_setVelocityLimits_def pc_setPositionIntegralLimit_def
  pc_setThrustLimits_def pc_setHorizontalThrustMargin_def pc_setTiltLimit_def pc_setHoverThrust_def
  pc_updateHoverThrust_def pc_setState_def pc_setInputSetpoint_def pc_resetIntegral_def

lemma pc_wf_exec:
  assumes "pc_op_wf op" and "pc_wf s"
  shows "pc_wf (pc_exec L op s)"
proof (cases op)
  case (Op_setESOBandwidth bw)
  then show ?thesis using assms by (simp add: pc_setters pc_wf_def wf32_setBandwidth)
next
  case (Op_updateHoverThrust h)
  then show ?thesis using assms by (simp add: pc_setters pc_wf_def Let_def v3_all_def del: wf32.simps)
next
  case (Op_update dt)
  then show ?thesis using assms(2) by (simp add: pc_wf_update)
qed (use assms in \<open>simp_all add: pc_setters pc_wf_def pcs_wf_def lps_wf_def pe_wf_def pe_reset_def
      del: wf32.simps\<close>)

lemma pc_wf_init: "pc_wf ESOPositionControl"
  by (simp add: pc_wf_def ESOPositionControl_def pe_wf_def PositionESO_def pe_setBandwidth_def v3_all_def
        v3_ops pe_reset_def q_wf_def q_unit_def del: wf32.simps f32_lit_1)

lemma pc_wf_calls:
  assumes "list_all pc_op_wf ops"
  shows "pc_wf (fold (pc_exec L) ops ESOPositionControl)"
proof -
  have "pc_wf (fold (pc_exec L) ops s)" if "pc_wf s" for s
    using assms that by (induction ops arbitrary: s) (simp_all add: pc_wf_exec)
  then show ?thesis using pc_wf_init by blast
qed

text \<open>The library functions at the origin, for the examples.\<close>

definition libm_zero :: libm where
  "libm_zero = \<lparr>lm_trig = (\<lambda>_. f32_lit 1, \<lambda>_. f32_zero), lm_acosf = (\<lambda>_. f32_zero), lm_asinf = (\<lambda>_. f32_zero),
     lm_atan2f = (\<lambda>_ _. f32_zero)\<rparr>"

end
