(* ===== verification/Binary32_Filter.thy ===== *)
theory Binary32_Filter
  imports Binary32
begin

text \<open>
  Rounding in a first order low pass filter on binary32 values: the step \<open>x + a * (y - x)\<close> with three
  roundings. Shown: with a weight of at most one half the step stays within any symmetric range
  that holds the state and the input.
\<close>

subsection \<open>Rounding in a low pass filter\<close>

lemma round24_half:
  assumes "y = of_nat n"
  shows "round24 (round24 y / 2) \<le> y"
proof (cases "ulp_exp y = 0")
  case True
  have "y \<le> 2 ^ 24" using ulp_exp_upper [of y] True assms by simp
  then have "int n \<le> 2 ^ 24" using assms by (metis of_nat_le_iff of_nat_numeral of_nat_power of_int_of_nat_eq of_int_le_iff of_int_numeral of_int_power)
  then have r: "round24 y = y" using round24_exact [of "int n" 0] assms by simp
  then have "r24.representable y" using assms by (simp add: r24.representable_def)
  then show ?thesis unfolding r using assms by (intro r24.rnd_le_representable) simp_all
next
  case False
  let ?b = "2 ^ (23 + ulp_exp y) :: real"
  have y: "0 \<le> y" using assms by simp
  have "round24 y / 2 \<le> ?b" using round24_upper [OF y] by (simp add: power_add)
  moreover have "r24.representable ?b"
    using representable_scaled [of 1 "23 + ulp_exp y"] by simp
  ultimately have "round24 (round24 y / 2) \<le> ?b"
    using round24_nonneg [OF y] by (intro r24.rnd_le_representable) simp_all
  also have "?b \<le> y" using False by (intro ulp_exp_lower) simp
  finally show ?thesis .
qed

lemma round24_double:
  assumes "0 \<le> y" and "round24 y = y"
  shows "round24 (2 * y) = 2 * y"
proof -
  obtain n where n: "round24 y = of_int n * 2 ^ ulp_exp y" "0 \<le> n" "n \<le> 2 ^ 24"
    using assms(1) by (rule round24_form)
  then have e: "2 * y = of_int n * 2 ^ Suc (ulp_exp y)" using assms(2) by simp
  show ?thesis unfolding e by (rule round24_exact [OF n(2,3)])
qed

lemma wf32_scaled_int:
  assumes "wf32 x" and "f32_isfinite x"
  shows "\<exists>k::int. f32_val x * f32_scale = of_int k"
proof -
  obtain s m where x: "x = FFin s m" using assms(2) by (cases x) auto
  have m: "0 \<le> m * f32_scale" and r: "round24 (m * f32_scale) = m * f32_scale"
    using assms(1) by (simp_all add: x r24.representable_def)
  obtain n where "round24 (m * f32_scale) = of_int n * 2 ^ ulp_exp (m * f32_scale)"
    using m by (rule round24_form)
  then have "m * f32_scale = of_int (n * 2 ^ ulp_exp (m * f32_scale))" using r by simp
  then have "f32_val x * f32_scale = of_int (if s then - (n * 2 ^ ulp_exp (m * f32_scale))
      else n * 2 ^ ulp_exp (m * f32_scale))"
    by (cases s) (simp_all add: x)
  then show ?thesis ..
qed

lemma f32_of_real_small:
  assumes "\<bar>r\<bar> \<le> 2 ^ 120"
  shows "f32_isfinite (f32_of_real z r)"
    and "f32_val (f32_of_real z r) = (if r < 0 then - 1 else 1) * (round24 (\<bar>r\<bar> * f32_scale) / f32_scale)"
proof -
  have "r24.representable (2 ^ 269)" using representable_scaled [of 1 269] by simp
  moreover have "\<bar>r\<bar> * f32_scale \<le> 2 ^ 120 * f32_scale" using assms by (intro mult_right_mono) simp_all
  then have "\<bar>r\<bar> * f32_scale \<le> 2 ^ 269" by (simp add: f32_scale_def)
  ultimately have "round24 (\<bar>r\<bar> * f32_scale) \<le> 2 ^ 269" by (intro r24.rnd_le_representable) simp_all
  also have "(2::real) ^ 269 < f32_overflow" by (simp add: f32_overflow_def)
  finally have "\<not> f32_overflow \<le> round24 (\<bar>r\<bar> * f32_scale)" by simp
  then show "f32_isfinite (f32_of_real z r)"
    "f32_val (f32_of_real z r) = (if r < 0 then - 1 else 1) * (round24 (\<bar>r\<bar> * f32_scale) / f32_scale)"
    by (simp_all add: f32_of_real_def Let_def)
qed

lemma f32_sub_of_real:
  assumes "f32_isfinite a" and "f32_isfinite b"
  shows "\<exists>z. f32_sub a b = f32_of_real z (f32_val a - f32_val b)"
proof -
  obtain s m t n where ab: "a = FFin s m" "b = FFin t n" using assms by (cases a; cases b) auto
  have "(if s then - m else m) + (if \<not> t then - n else n) = (if s then - m else m) - (if t then - n else n)"
    by (cases t) simp_all
  then have "f32_sub a b = f32_of_real (s \<and> \<not> t) (f32_val a - f32_val b)" by (simp add: ab f32_sub_def)
  then show ?thesis ..
qed

text \<open>A filter step with a weight of at most one half does not leave the range of its inputs.\<close>

lemma f32_filter_step:
  assumes x: "wf32 x" "f32_isfinite x" and y: "wf32 y" "f32_isfinite y" and a: "f32_isfinite a"
    and "0 \<le> f32_val a" and "f32_val a \<le> 1 / 2" and M: "wf32 M" "f32_isfinite M" and "f32_val M \<le> 2 ^ 100"
    and "\<bar>f32_val x\<bar> \<le> f32_val M" and "\<bar>f32_val y\<bar> \<le> f32_val M"
  defines "z \<equiv> f32_add x (f32_mul a (f32_sub y x))"
  shows "f32_isfinite z" and "f32_le (f32_neg M) z" and "f32_le z M"
proof -
  define r where "r = f32_val y - f32_val x"
  define e where "e = f32_sub y x"
  define p where "p = f32_mul a e"
  obtain zs where e: "e = f32_of_real zs r"
    using f32_sub_of_real [OF y(2) x(2)] unfolding e_def r_def by blast
  have "(2::real) ^ 100 \<le> 2 ^ 118" by (rule power_increasing) simp_all
  then have r: "\<bar>r\<bar> \<le> 2 ^ 120" using assms(10-12) unfolding r_def by simp
  note e' = f32_of_real_small [OF r, of zs, folded e]
  obtain k l :: int where "f32_val y * f32_scale = of_int k" "f32_val x * f32_scale = of_int l"
    using wf32_scaled_int [OF x] wf32_scaled_int [OF y] by blast
  then have n: "\<bar>r\<bar> * f32_scale = of_nat (nat \<bar>k - l\<bar>)"
    unfolding r_def by (simp add: abs_mult_pos left_diff_distrib)
  let ?R = "round24 (\<bar>r\<bar> * f32_scale)"
  have R: "0 \<le> ?R" by simp
  have ve: "\<bar>f32_val e\<bar> * f32_scale = ?R" using e'(2) by (simp add: abs_mult)
  have prod: "\<bar>f32_val a * f32_val e\<bar> * f32_scale = f32_val a * ?R"
    using ve assms(6) by (simp add: abs_mult mult.assoc)
  have "f32_val a * ?R \<le> ?R / 2" using assms(7) R mult_right_mono [of "f32_val a" "1 / 2" ?R] by simp
  then have "round24 (f32_val a * ?R) \<le> round24 (?R / 2)" using assms(6) R by (intro round24_mono) simp_all
  also have "\<dots> \<le> \<bar>r\<bar> * f32_scale" by (rule round24_half [OF n])
  finally have small: "round24 (f32_val a * ?R) / f32_scale \<le> \<bar>r\<bar>" by (simp add: divide_le_eq)
  have "\<bar>f32_val a * f32_val e\<bar> \<le> 2 ^ 120"
  proof -
    have "?R \<le> 2 ^ 120 * f32_scale"
      using r representable_scaled [of 1 269] mult_right_mono [OF r, of f32_scale]
      by (intro r24.rnd_le_representable) (simp_all add: f32_scale_def)
    then have "f32_val a * ?R \<le> 2 ^ 120 * f32_scale"
      using \<open>f32_val a * ?R \<le> ?R / 2\<close> R by linarith
    then show ?thesis using prod by (metis f32_scale_pos(1) mult_le_cancel_right_pos)
  qed
  note p' = f32_of_real_small [OF this]
  obtain zt where p: "p = f32_of_real zt (f32_val a * f32_val e)"
    using a e'(1) unfolding p_def by (cases a; cases e) auto
  have fin: "f32_isfinite p" unfolding p by (rule p'(1))
  have sign: "f32_val p = 0 \<or> (0 < f32_val p \<longleftrightarrow> 0 < r)" and mag: "\<bar>f32_val p\<bar> \<le> \<bar>r\<bar>"
  proof -
    have v: "f32_val p = (if f32_val a * f32_val e < 0 then - 1 else 1) * (round24 (f32_val a * ?R) / f32_scale)"
      unfolding p p'(2) prod ..
    have nn: "0 \<le> round24 (f32_val a * ?R) / f32_scale" using assms(6) R by (simp add: round24_nonneg)
    show "\<bar>f32_val p\<bar> \<le> \<bar>r\<bar>" using v small nn by (simp add: abs_mult)
    obtain t where t: "0 \<le> t" "f32_val e = (if r < 0 then - 1 else 1) * t"
      using e'(2) R by (meson divide_nonneg_nonneg f32_scale_pos(1) less_imp_le)
    have "f32_val p = 0" if "f32_val a = 0 \<or> t = 0"
    proof -
      have "f32_val a * ?R = 0" using that ve t(2) by auto
      then show ?thesis unfolding v by (simp only:) simp
    qed
    moreover have "t = 0" if "r = 0" using that e'(2) t(2) by simp
    moreover have "f32_val p \<le> 0" if "r < 0" "0 < f32_val a" "0 < t"
    proof -
      have "f32_val a * f32_val e < 0" using that t(2) by simp
      then show ?thesis using v nn by simp
    qed
    moreover have "0 \<le> f32_val p" if "0 < r" "0 < f32_val a" "0 < t"
    proof -
      have "\<not> f32_val a * f32_val e < 0" using that t(2) by (simp add: not_less)
      then show ?thesis using v nn by simp
    qed
    ultimately show "f32_val p = 0 \<or> (0 < f32_val p \<longleftrightarrow> 0 < r)"
      using assms(6) t(1) by (metis antisym_conv3 leD less_eq_real_def)
  qed
  have "- f32_val M \<le> f32_val x + f32_val p" "f32_val x + f32_val p \<le> f32_val M"
    using sign mag assms(11,12) unfolding r_def by linarith+
  moreover obtain zu where z: "z = f32_of_real zu (f32_val x + f32_val p)"
    using x(2) fin unfolding z_def p_def [symmetric] e_def [symmetric] by (cases x; cases p) auto
  ultimately show le: "f32_le (f32_neg M) z" "f32_le z M"
    using f32_of_real_le [OF M, of "f32_val x + f32_val p" zu]
      f32_of_real_ge [of "f32_neg M" "f32_val x + f32_val p" zu] M by simp_all
  show "f32_isfinite z" using le M(2) by (intro f32_between_finite [of "f32_neg M" z M]) simp_all
qed

subsection \<open>The weight of the filter\<close>

lemma f32_add_of_real:
  assumes "f32_isfinite a" and "f32_isfinite b"
  shows "\<exists>z. f32_add a b = f32_of_real z (f32_val a + f32_val b)"
  using assms by (cases a; cases b) auto

lemma f32_div_of_real:
  assumes "f32_isfinite a" and "f32_isfinite b" and "f32_val b \<noteq> 0"
  shows "\<exists>z. f32_div a b = f32_of_real z (f32_val a / f32_val b)"
proof -
  obtain s m t n where ab: "a = FFin s m" "b = FFin t n" using assms by (cases a; cases b) auto
  have "n \<noteq> 0" using assms(3) by (simp add: ab split: if_splits)
  then have "f32_div a b = f32_of_real (s \<noteq> t) (f32_val a / f32_val b)" by (simp add: ab del: f32_val.simps)
  then show ?thesis ..
qed

lemma wf32_double:
  assumes "wf32 (FFin False m)" and "m \<le> 1"
  shows "wf32 (FFin False (2 * m))"
proof -
  have m: "0 \<le> m" "round24 (m * f32_scale) = m * f32_scale"
    using assms(1) wf32_mag_nonneg [OF assms(1)] by (simp_all add: r24.representable_def)
  then have "round24 (2 * (m * f32_scale)) = 2 * (m * f32_scale)" by (intro round24_double) simp_all
  moreover have "2 * m * f32_scale \<le> 2 * 1 * f32_scale" using assms(2) by (intro mult_right_mono) simp_all
  then have "2 * m * f32_scale < f32_overflow" by (simp add: f32_scale_def f32_overflow_def)
  ultimately show ?thesis using m(1) by (simp add: r24.representable_def mult.assoc)
qed

text \<open>\<^verbatim>\<open>dt / (tau + dt)\<close> is at most one half for a time step of at most the time constant.\<close>

lemma filter_weight_half:
  assumes dt: "wf32 dt" "f32_isfinite dt" "0 < f32_val dt" and c: "f32_isfinite c" "f32_val c \<le> 1"
    and le: "f32_val dt \<le> f32_val c"
  defines "w \<equiv> f32_div dt (f32_add c dt)"
  shows "f32_isfinite w" and "f32_le f32_zero w" and "f32_val w \<le> 1 / 2" and "f32_le w (f32_lit 1)"
proof -
  obtain m where m: "dt = FFin False m" "0 < m"
    using dt wf32_mag_nonneg by (cases dt) (fastforce split: if_splits simp del: wf32.simps)+
  have m1: "m \<le> 1" using m le c(2) by simp
  obtain z where a: "f32_add c dt = f32_of_real z (f32_val c + f32_val dt)" using f32_add_of_real [OF c(1) dt(2)] ..
  have "\<bar>f32_val c + f32_val dt\<bar> \<le> 2 ^ 120"
  proof -
    have "\<bar>f32_val c + f32_val dt\<bar> \<le> 2" using le c(2) dt(3) by linarith
    also have "(2::real) \<le> 2 ^ 120" by (rule self_le_power) simp_all
    finally show ?thesis .
  qed
  then have fin: "f32_isfinite (f32_add c dt)" unfolding a by (rule f32_of_real_small(1))
  have "f32_le (FFin False (2 * m)) (f32_add c dt)"
    unfolding a using wf32_double [of m] dt(1) m m1 le by (intro f32_of_real_ge) simp_all
  then have ge: "2 * f32_val dt \<le> f32_val (f32_add c dt)" using fin m by (simp add: f32_le_finite)
  then have pos: "0 < f32_val (f32_add c dt)" using dt(3) by simp
  obtain u where w: "w = f32_of_real u (f32_val dt / f32_val (f32_add c dt))"
    using f32_div_of_real [OF dt(2) fin] pos unfolding w_def by auto
  have q: "0 \<le> f32_val dt / f32_val (f32_add c dt)" "f32_val dt / f32_val (f32_add c dt) \<le> 1 / 2"
    using ge pos dt(3) by (simp_all add: divide_le_eq)
  have h: "f32_le w (FFin False (1 / 2))"
    unfolding w using q(2) wf32_lit [of "1 / 2"] by (intro f32_of_real_le) (simp_all del: wf32.simps)
  show n: "f32_le f32_zero w" unfolding w using q(1) by (rule f32_of_real_nonneg)
  show f: "f32_isfinite w" by (rule f32_between_finite [OF n h]) simp_all
  show "f32_val w \<le> 1 / 2" using h f by (simp add: f32_le_finite)
  show "f32_le w (f32_lit 1)" using h by (rule f32_le_trans) simp
qed

end
