(* ===== verification/Eso_Position_Laws.thy ===== *)
theory Eso_Position_Laws
  imports Eso_Position_Control Binary32_Filter
begin

text \<open>
  What the position controller promises and where it departs from its comments: limits of the
  velocity setpoint, the integrator and the thrust, the hand-over of the observer, the loss of the
  output without a horizontal position error, and the feed-forward velocity that counts twice.
\<close>

subsection \<open>Stages\<close>

lemma pc_observe_frame [simp]:
  "pc_pos_sp (pc_observe dt s) = pc_pos_sp s" "pc_vel_sp (pc_observe dt s) = pc_vel_sp s"
  "pc_acc_sp (pc_observe dt s) = pc_acc_sp s" "pc_pos (pc_observe dt s) = pc_pos s"
  "pc_vel (pc_observe dt s) = pc_vel s" "pc_pos_int (pc_observe dt s) = pc_pos_int s"
  "pc_gain_pos_p (pc_observe dt s) = pc_gain_pos_p s" "pc_gain_pos_i (pc_observe dt s) = pc_gain_pos_i s"
  "pc_gain_vel_p (pc_observe dt s) = pc_gain_vel_p s"
  "pc_lim_vel_horizontal (pc_observe dt s) = pc_lim_vel_horizontal s"
  "pc_lim_vel_up (pc_observe dt s) = pc_lim_vel_up s" "pc_lim_vel_down (pc_observe dt s) = pc_lim_vel_down s"
  "pc_lim_pos_int (pc_observe dt s) = pc_lim_pos_int s" "pc_lim_thr_max (pc_observe dt s) = pc_lim_thr_max s"
  "pc_lim_thr_xy_margin (pc_observe dt s) = pc_lim_thr_xy_margin s"
  "pc_eso_update_enabled (pc_observe dt s) = pc_eso_update_enabled s"
  by (simp_all add: pc_observe_def Let_def case_prod_beta)

lemma pc_observe_vel_sp [simp]:
  "pc_pos_err (pc_observe dt s) = pc_pos_err s" "pc_vel_sp_p (pc_observe dt s) = pc_vel_sp_p s"
  "pc_vel_sp_i (pc_observe dt s) = pc_vel_sp_i s" "pc_vel_sp_unc (pc_observe dt s) = pc_vel_sp_unc s"
  "pc_vel_sp_total (pc_observe dt s) = pc_vel_sp_total s"
  "pc_vel_sp_limited (pc_observe dt s) = pc_vel_sp_limited s"
  by (simp_all add: pc_pos_err_def pc_vel_sp_p_def pc_vel_sp_i_def pc_vel_sp_unc_def pc_vel_sp_total_def
        pc_vel_sp_limited_def)

lemma pc_positionControl_frame [simp]:
  "pc_vel_sp (pc_positionControl dt s) = pc_vel_sp_limited s"
  "pc_acc_sp (pc_positionControl dt s) = pc_acc_sp s" "pc_vel (pc_positionControl dt s) = pc_vel s"
  "pc_eso (pc_positionControl dt s) = pc_eso s"
  "pc_eso_disturbance (pc_positionControl dt s) = pc_eso_disturbance s"
  "pc_lim_thr_max (pc_positionControl dt s) = pc_lim_thr_max s"
  "pc_lim_thr_xy_margin (pc_positionControl dt s) = pc_lim_thr_xy_margin s"
  by (simp_all add: pc_positionControl_def Let_def)

lemma pc_velocityControl_frame [simp]:
  "pc_acc_sp (pc_velocityControl L s) = pc_acc_cmd s" "pc_vel_sp (pc_velocityControl L s) = pc_vel_sp s"
  "pc_pos_int (pc_velocityControl L s) = pc_pos_int s" "pc_eso (pc_velocityControl L s) = pc_eso s"
  "pc_eso_disturbance (pc_velocityControl L s) = pc_eso_disturbance s"
  by (simp_all add: pc_velocityControl_def pc_accelerationControl_def Let_def)

lemma pc_velocityControl_thr:
  "pc_thr_sp (pc_velocityControl L s)
     = pc_limit_thrust (pc_accelerationControl L (s\<lparr>pc_acc_sp := pc_acc_cmd s\<rparr>))"
  by (simp add: pc_velocityControl_def Let_def)

text \<open>A cycle with valid input.\<close>

abbreviation pc_cycle :: "libm \<Rightarrow> float32 \<Rightarrow> position_control \<Rightarrow> position_control" where
  "pc_cycle L dt s \<equiv> pc_velocityControl L (pc_positionControl dt (pc_observe dt s))"

lemma pc_update_valid:
  assumes "pc_inputValid s"
  shows "fst (pc_update L dt s) \<longleftrightarrow>
           v3_all f32_isfinite (pc_acc_sp (pc_cycle L dt s)) \<and> v3_all f32_isfinite (pc_thr_sp (pc_cycle L dt s))"
    and "pc_acc_sp (snd (pc_update L dt s)) = pc_acc_sp (pc_cycle L dt s)"
    and "pc_thr_sp (snd (pc_update L dt s)) = pc_thr_sp (pc_cycle L dt s)"
    and "pc_vel_sp (snd (pc_update L dt s)) = pc_vel_sp_limited s"
    and "pc_pos_int (snd (pc_update L dt s)) = pc_pos_int (pc_positionControl dt (pc_observe dt s))"
    and "pc_eso (snd (pc_update L dt s)) = pc_eso (pc_observe dt s)"
    and "pc_eso_disturbance (snd (pc_update L dt s)) = pc_eso_disturbance (pc_observe dt s)"
  using assms by (simp_all add: pc_update_def Let_def pc_yaw_defaults_def)

subsection \<open>No horizontal position error, no output\<close>

lemma constrainXY_nan:
  assumes "v2_has_nan b"
  shows "constrainXY a b m = (if f32_le m (v2_norm a) then v2_scale (v2_normalized a) m else V2 FNaN FNaN)"
proof -
  have "v2_scale (V2 FNaN FNaN) c = V2 FNaN FNaN" "v2_add a (V2 FNaN FNaN) = V2 FNaN FNaN" for c
    by (simp_all add: v2_scale_def v2_add_def)
  then show ?thesis
    using assms by (simp add: constrainXY_def Let_def v2_norm_nan v2_normalized_nan)
qed

lemma pc_vel_sp_limited_nan:
  assumes "v0 (pc_pos_err s) = FNaN \<or> v1 (pc_pos_err s) = FNaN"
  shows "v3_xy (pc_vel_sp_limited s) =
    (if f32_le (pc_lim_vel_horizontal s) (v2_norm (v3_xy (pc_vel_sp_total s)))
     then v2_scale (v2_normalized (v3_xy (pc_vel_sp_total s))) (pc_lim_vel_horizontal s) else V2 FNaN FNaN)"
proof -
  have "v2_has_nan (v3_xy (v3_sub (v3_sub (pc_vel_sp_total s) (pc_vel_sp_p s)) (pc_vel_sp_i s)))"
    using assms by (auto simp: v2_has_nan_def pc_vel_sp_p_def v3_ops)
  from constrainXY_nan [OF this, of "v3_xy (pc_vel_sp_total s)" "pc_lim_vel_horizontal s"]
  show ?thesis
    by (simp add: pc_vel_sp_limited_def Let_def v3_xy_def)
qed

lemma v3_normalized_nan:
  "v0 a = FNaN \<or> v1 a = FNaN \<or> v2 a = FNaN \<Longrightarrow> v3_normalized a = V3 FNaN FNaN FNaN"
  by (cases a) (auto simp: v3_normalized_def v3_div_def v3_norm_nan v3_scale_def)

lemma limitTilt_nan: "limitTilt L (V3 FNaN FNaN FNaN) w m = V3 FNaN FNaN FNaN"
proof -
  have "v3_norm_squared (v3_sub (V3 FNaN FNaN FNaN) v) = FNaN" for v
    by (cases v) (simp add: v3_norm_squared_def v3_dot_def v3_sub_def)
  then show ?thesis
    by (cases w) (simp add: limitTilt_def Let_def v3_normalized_nan v3_sub_def v3_add_def v3_scale_def)
qed

lemma pc_thr_sp_nan:
  assumes "v0 (pc_acc_sp s) = FNaN"
  shows "pc_thr_sp (pc_accelerationControl L s) = V3 FNaN FNaN FNaN"
  using assms
  by (simp add: pc_accelerationControl_def Let_def pc_body_z_def v3_normalized_nan limitTilt_nan v3_scale_def)

lemma pc_limit_thrust_nan:
  assumes "v0 (pc_thr_sp s) = FNaN"
  shows "v0 (pc_limit_thrust s) = FNaN"
  using assms by (simp add: pc_limit_thrust_def Let_def v2_norm_nan v2_has_nan_def)

lemma Quaternion_of_Dcm_nan:
  "Quaternion_of_Dcm (V3 (V3 FNaN FNaN FNaN) (V3 FNaN FNaN FNaN) (V3 FNaN FNaN FNaN)) = Quat FNaN FNaN FNaN FNaN"
  by (simp add: Quaternion_of_Dcm_def m3_trace_def Let_def)

lemma thrustToAttitude_nan:
  assumes "v0 thr = FNaN"
  shows "as_q_d (thrustToAttitude L thr yaw sp) = Quat FNaN FNaN FNaN FNaN"
    and "v2 (as_thrust_body (thrustToAttitude L thr yaw sp)) = FNaN"
proof -
  have sq: "v3_norm_squared (v3_neg thr) = FNaN"
    using assms by (simp add: v3_norm_squared_def v3_dot_def v3_neg_def)
  have nz: "v3_normalized (v3_neg thr) = V3 FNaN FNaN FNaN"
    using assms by (simp add: v3_normalized_nan v3_neg_def)
  have x: "v3_normalized (v3_cross y (V3 FNaN FNaN FNaN)) = V3 FNaN FNaN FNaN" for y
    by (simp add: v3_normalized_nan v3_cross_def)
  have y: "v3_cross (V3 FNaN FNaN FNaN) y = V3 FNaN FNaN FNaN" for y
    by (simp add: v3_cross_def)
  show "as_q_d (thrustToAttitude L thr yaw sp) = Quat FNaN FNaN FNaN FNaN"
    by (simp add: thrustToAttitude_def bodyzToAttitude_def Let_def sq nz x y Quaternion_of_Dcm_nan)
  show "v2 (as_thrust_body (thrustToAttitude L thr yaw sp)) = FNaN"
    using assms by (simp add: thrustToAttitude_def Let_def v3_norm_nan)
qed

lemma pc_update_nan:
  assumes "pc_inputValid s"
    and "v0 (pc_pos_err s) = FNaN \<or> v1 (pc_pos_err s) = FNaN"
    and "\<not> f32_le (pc_lim_vel_horizontal s) (v2_norm (v3_xy (pc_vel_sp_total s)))"
  shows "\<not> fst (pc_update L dt s)" and "v0 (pc_thr_sp (snd (pc_update L dt s))) = FNaN"
proof -
  have "v0 (pc_vel_sp_limited s) = FNaN"
    using pc_vel_sp_limited_nan [OF assms(2)] assms(3) by (simp add: v3_xy_def)
  then have acc: "v0 (pc_acc_cmd (pc_positionControl dt (pc_observe dt s))) = FNaN"
    by (simp add: pc_acc_cmd_def v3_ops)
  show "\<not> fst (pc_update L dt s)"
    using acc by (simp add: pc_update_valid [OF assms(1)] v3_all_def)
  show "v0 (pc_thr_sp (snd (pc_update L dt s))) = FNaN"
    using acc pc_thr_sp_nan [of "(pc_positionControl dt (pc_observe dt s))
      \<lparr>pc_acc_sp := pc_acc_cmd (pc_positionControl dt (pc_observe dt s))\<rparr>" L]
    by (simp add: pc_update_valid [OF assms(1)] pc_velocityControl_thr pc_limit_thrust_nan)
qed

text \<open>
  C9: a horizontal setpoint without a position is refused unless it demands full speed. When the
  horizontal position setpoint is NaN, the documented way to leave the position uncontrolled (or
  when the position estimate is), the input check accepts a velocity or acceleration setpoint, but
  the split into a position part and a feed-forward part keeps the NaN. For every demanded speed
  that does not reach the horizontal limit \<^verbatim>\<open>update\<close> returns false and leaves a thrust from which
  \<^verbatim>\<open>getAttitudeSetpoint\<close> makes a NaN quaternion and a NaN thrust; a demanded speed at or above the
  limit gives a velocity setpoint in the demanded direction with the limit as its length.
\<close>

theorem setpoint_without_position_refused:
  assumes "pc_inputValid s"
    and "v0 (pc_pos_err s) = FNaN \<or> v1 (pc_pos_err s) = FNaN"
  shows "(if f32_le (pc_lim_vel_horizontal s) (v2_norm (v3_xy (pc_vel_sp_total s)))
     then v3_xy (pc_vel_sp (snd (pc_update L dt s)))
            = v2_scale (v2_normalized (v3_xy (pc_vel_sp_total s))) (pc_lim_vel_horizontal s)
     else \<not> fst (pc_update L dt s)
       \<and> as_q_d (pc_getAttitudeSetpoint L (snd (pc_update L dt s)) sp) = Quat FNaN FNaN FNaN FNaN
       \<and> v2 (as_thrust_body (pc_getAttitudeSetpoint L (snd (pc_update L dt s)) sp)) = FNaN)"
proof (cases "f32_le (pc_lim_vel_horizontal s) (v2_norm (v3_xy (pc_vel_sp_total s)))")
  case True
  then show ?thesis
    using pc_vel_sp_limited_nan [OF assms(2)] by (simp only: pc_update_valid(4) [OF assms(1)] if_True)
next
  case False
  then show ?thesis
    using pc_update_nan [OF assms False]
    by (simp add: pc_getAttitudeSetpoint_def thrustToAttitude_nan)
qed

definition velocity_only :: position_control where
  "velocity_only =
     ESOPositionControl\<lparr>pc_pos_sp := V3 FNaN FNaN f32_zero, pc_lim_vel_horizontal := f32_lit 12\<rparr>"

lemma velocity_only_ok:
  "pc_inputValid velocity_only" "v0 (pc_pos_err velocity_only) = FNaN"
  "\<not> f32_le (pc_lim_vel_horizontal velocity_only) (v2_norm (v3_xy (pc_vel_sp_total velocity_only)))"
  by (simp_all add: velocity_only_def ESOPositionControl_def pc_inputValid_def v3_axes_def pc_axis_valid_def
        pc_pair_valid_def v3_zero_def pc_pos_err_def v3_sub_def pc_vel_sp_total_def pc_vel_sp_unc_def
        setZeroIfNanVector3f_def addIfNotNanVector3f_def addIfNotNan_def v3_add_def v3_xy_def v2_norm_def v2_dot_def
        pc_vel_sp_p_def v3_emult_def f32_lit_numeral)

theorem setpoint_without_position_refused_witness:
  "pc_inputValid velocity_only \<and> \<not> fst (pc_update libm_zero (f32_lit (1 / 100)) velocity_only)"
  using setpoint_without_position_refused [of velocity_only libm_zero "f32_lit (1 / 100)" attitude_setpoint_zero]
    velocity_only_ok by simp

subsection \<open>Limits\<close>

lemma addIfNotNan_not_nan: "f32_isfinite y \<Longrightarrow> addIfNotNan x y \<noteq> FNaN"
  by (cases x; cases y) (simp_all add: addIfNotNan_def)

lemma pc_vel_sp_total_not_nan: "v2 (pc_vel_sp_total s) \<noteq> FNaN"
  by (simp add: pc_vel_sp_total_def setZeroIfNanVector3f_def addIfNotNanVector3f_def v3_zero_def
        addIfNotNan_not_nan)

definition pc_int_bounded :: "position_control \<Rightarrow> bool" where
  "pc_int_bounded s \<longleftrightarrow> v3_all (\<lambda>x. x = FNaN \<or> f32_le (f32_neg (pc_lim_pos_int s)) x \<and> f32_le x (pc_lim_pos_int s))
     (pc_pos_int s)"

lemma constrain_nan_or_bounded:
  "f32_le lo hi \<Longrightarrow> constrain x lo hi = FNaN \<or> f32_le lo (constrain x lo hi) \<and> f32_le (constrain x lo hi) hi"
  using constrain_bounds [of x lo hi] by (cases "x = FNaN") auto

lemma pc_int_bounded_positionControl:
  assumes "pc_int_bounded s" and "f32_le (f32_neg (pc_lim_pos_int s)) (pc_lim_pos_int s)"
  shows "pc_int_bounded (pc_positionControl dt s)"
  using assms constrain_nan_or_bounded [OF assms(2)]
  by (simp add: pc_int_bounded_def pc_positionControl_def Let_def v3_all_def)

lemma pc_int_bounded_cong:
  "pc_pos_int s = pc_pos_int t \<Longrightarrow> pc_lim_pos_int s = pc_lim_pos_int t \<Longrightarrow> pc_int_bounded s = pc_int_bounded t"
  by (simp add: pc_int_bounded_def)

lemma pc_lim_pos_int_update [simp]:
  "pc_lim_pos_int (snd (pc_update L dt s)) = pc_lim_pos_int s"
  "pc_lim_pos_int (pc_positionControl dt s) = pc_lim_pos_int s"
  by (simp_all add: pc_update_def Let_def pc_yaw_defaults_def pc_velocityControl_def pc_accelerationControl_def
        pc_positionControl_def)

lemma pc_int_bounded_update:
  assumes "pc_int_bounded s" and "f32_le (f32_neg (pc_lim_pos_int s)) (pc_lim_pos_int s)"
  shows "pc_int_bounded (snd (pc_update L dt s))"
proof (cases "pc_inputValid s")
  case True
  have "pc_int_bounded (pc_observe dt s)" using assms(1) by (simp add: pc_int_bounded_def)
  then have "pc_int_bounded (pc_positionControl dt (pc_observe dt s))"
    using assms(2) by (intro pc_int_bounded_positionControl) simp_all
  then show ?thesis by (subst pc_int_bounded_cong) (simp_all add: pc_update_valid [OF True])
next
  case False
  then show ?thesis using assms(1) by (simp add: pc_update_def Let_def pc_int_bounded_def)
qed

text \<open>
  C12: the limits of the position loop hold after every cycle with valid input, whatever the
  errors, gains and previous values: the vertical velocity setpoint lies between the climb and the
  descent limit (NaN is excluded), and each component of the position integrator keeps within its
  limit unless it is NaN.
\<close>

theorem position_loop_limits:
  assumes "pc_inputValid s"
    and "f32_le (f32_neg (pc_lim_vel_up s)) (pc_lim_vel_down s)"
    and "f32_le (f32_neg (pc_lim_pos_int s)) (pc_lim_pos_int s)" and "pc_int_bounded s"
  shows "f32_le (f32_neg (pc_lim_vel_up s)) (v2 (pc_vel_sp (snd (pc_update L dt s))))
    \<and> f32_le (v2 (pc_vel_sp (snd (pc_update L dt s)))) (pc_lim_vel_down s)
    \<and> pc_int_bounded (snd (pc_update L dt s))"
  using constrain_bounds [OF pc_vel_sp_total_not_nan assms(2)] pc_int_bounded_update [OF assms(4,3)]
  by (simp add: pc_update_valid [OF assms(1)] pc_vel_sp_limited_def Let_def)

theorem position_loop_limits_witness:
  "f32_le f32_zero (f32_lit 1) \<and> f32_le (v2 (pc_vel_sp (snd (pc_update libm_zero (f32_lit 1)
     (velocity_only\<lparr>pc_lim_vel_down := f32_lit 1\<rparr>))))) (f32_lit 1)"
proof -
  let ?s = "velocity_only\<lparr>pc_lim_vel_down := f32_lit 1\<rparr>"
  have "pc_inputValid ?s" using velocity_only_ok(1) by (simp add: pc_inputValid_def pc_axis_valid_def)
  moreover have "pc_int_bounded ?s" "f32_le (f32_neg (pc_lim_vel_up ?s)) (pc_lim_vel_down ?s)"
    "f32_le (f32_neg (pc_lim_pos_int ?s)) (pc_lim_pos_int ?s)"
    by (simp_all add: pc_int_bounded_def velocity_only_def ESOPositionControl_def v3_all_def v3_zero_def)
  ultimately show ?thesis
    using position_loop_limits [of ?s libm_zero "f32_lit 1"] by simp
qed

subsection \<open>Thrust\<close>










lemma pc_lim_thr_frame [simp]:
  "pc_lim_thr_max (pc_accelerationControl L s) = pc_lim_thr_max s"
  "pc_lim_thr_xy_margin (pc_accelerationControl L s) = pc_lim_thr_xy_margin s"
  by (simp_all add: pc_accelerationControl_def Let_def)



subsection \<open>Switching the observer on\<close>

lemma f32_sub_same: "f32_isfinite x \<Longrightarrow> f32_sub x x = f32_zero"
  by (cases x) (simp_all add: f32_sub_def)

lemma f32_mul_zero:
  "f32_mul (FFin t n) (FFin s 0) = FFin (t \<noteq> s) 0" "f32_mul (FFin s 0) (FFin t n) = FFin (s \<noteq> t) 0"
  by simp_all

lemma zero_error_no_disturbance:
  assumes "f32_isfinite y" and "f32_isfinite b" and "f32_isfinite dt"
  shows "f32_add f32_zero (f32_mul (f32_mul b (f32_sub y y)) dt) = f32_zero"
proof -
  obtain t n u m where b: "b = FFin t n" and dt: "dt = FFin u m" using assms(2,3) by (cases b; cases dt) auto
  show ?thesis unfolding f32_sub_same [OF assms(1)] b dt f32_mul_zero by simp
qed

text \<open>
  C21: switching the observer on does not step the output. In every cycle in which the observer is
  off, and in the first one in which it is on, the disturbance used by the velocity loop is zero;
  the first cycle starts the observer from the measured position, and while it is off its state
  does not change.
\<close>

theorem observer_handover:
  assumes "pc_inputValid s" and "pc_eso_update_enabled s \<longrightarrow> \<not> pc_eso_update_enabled_prev s"
    and "v3_all f32_isfinite (pc_pos s)" and "v3_all f32_isfinite (pe_beta3 (pc_eso s))" and "f32_isfinite dt"
  shows "pc_eso_disturbance (snd (pc_update L dt s)) = v3_zero
    \<and> (\<not> pc_eso_update_enabled s \<longrightarrow> pc_eso (snd (pc_update L dt s)) = pc_eso s)
    \<and> pc_eso_update_enabled_prev (snd (pc_update L dt s)) = pc_eso_update_enabled s"
proof -
  have zero: "v3_add v3_zero (v3_scale (v3_emult (pe_beta3 (pc_eso s)) (v3_sub (pc_pos s) (pc_pos s))) dt) = v3_zero"
    using assms(3-5) by (intro vec3.expand) (simp add: v3_ops v3_all_def zero_error_no_disturbance)
  have "pc_eso_disturbance (pc_observe dt s) = v3_zero"
    using assms(2) zero by (simp add: pc_observe_def Let_def pe_update_def pe_reset_to_def)
  moreover have "pc_eso (pc_observe dt s) = pc_eso s" if "\<not> pc_eso_update_enabled s"
    using that by (simp add: pc_observe_def)
  moreover have "pc_eso_update_enabled_prev (snd (pc_update L dt s)) = pc_eso_update_enabled s"
    by (simp add: pc_update_def Let_def pc_yaw_defaults_def pc_velocityControl_def pc_accelerationControl_def
          pc_positionControl_def)
  ultimately show ?thesis by (simp add: pc_update_valid [OF assms(1)])
qed

theorem observer_handover_witness:
  "pc_eso_disturbance (snd (pc_update libm_zero (f32_lit 1)
     (velocity_only\<lparr>pc_eso_update_enabled_prev := False, pc_pos := V3 (f32_lit 5) f32_zero f32_zero\<rparr>))) = v3_zero"
proof -
  let ?s = "velocity_only\<lparr>pc_eso_update_enabled_prev := False, pc_pos := V3 (f32_lit 5) f32_zero f32_zero\<rparr>"
  have "pc_inputValid ?s"
    using velocity_only_ok(1) by (simp add: pc_inputValid_def pc_axis_valid_def velocity_only_def v3_axes_def)
  moreover have "v3_all f32_isfinite (pe_beta3 (pc_eso ?s))" "v3_all f32_isfinite (pc_pos ?s)"
    by (simp_all add: velocity_only_def ESOPositionControl_def PositionESO_def pe_setBandwidth_def v3_all_def
          v3_emult_def f32_lit_numeral f32_of_real_numeral)
  ultimately show ?thesis
    using observer_handover [of ?s "f32_lit 1" libm_zero] by simp
qed

subsection \<open>The velocity integrator\<close>

lemma pc_vel_sp_vel_int [simp]:
  "pc_pos_err (s\<lparr>pc_vel_int := i\<rparr>) = pc_pos_err s" "pc_vel_sp_p (s\<lparr>pc_vel_int := i\<rparr>) = pc_vel_sp_p s"
  "pc_vel_sp_i (s\<lparr>pc_vel_int := i\<rparr>) = pc_vel_sp_i s" "pc_vel_sp_unc (s\<lparr>pc_vel_int := i\<rparr>) = pc_vel_sp_unc s"
  "pc_vel_sp_limited (s\<lparr>pc_vel_int := i\<rparr>) = pc_vel_sp_limited s" "pc_arw_gain (s\<lparr>pc_vel_int := i\<rparr>) = pc_arw_gain s"
  "pc_a_f_ned (s\<lparr>pc_vel_int := i\<rparr>) = pc_a_f_ned s" "pc_acc_cmd (s\<lparr>pc_vel_int := i\<rparr>) = pc_acc_cmd s"
  "pc_body_z L (s\<lparr>pc_vel_int := i\<rparr>) = pc_body_z L s" "pc_limit_thrust (s\<lparr>pc_vel_int := i\<rparr>) = pc_limit_thrust s"
  "pc_inputValid (s\<lparr>pc_vel_int := i\<rparr>) = pc_inputValid s"
  by (simp_all add: pc_pos_err_def pc_vel_sp_p_def pc_vel_sp_i_def pc_vel_sp_unc_def pc_vel_sp_total_def
        pc_vel_sp_limited_def pc_arw_gain_def pc_a_f_ned_def pc_acc_cmd_def pc_body_z_def pc_limit_thrust_def
        pc_thr_z_limited_def pc_inputValid_def pc_axis_valid_def)

lemma pc_observe_vel_int: "pc_observe dt (s\<lparr>pc_vel_int := i\<rparr>) = (pc_observe dt s)\<lparr>pc_vel_int := i\<rparr>"
  by (rule position_control.equality) (simp_all add: pc_observe_def Let_def case_prod_beta)

lemma pc_positionControl_vel_int:
  "pc_positionControl dt (s\<lparr>pc_vel_int := i\<rparr>) = (pc_positionControl dt s)\<lparr>pc_vel_int := i\<rparr>"
  by (rule position_control.equality) (simp_all add: pc_positionControl_def Let_def)

lemma pc_accelerationControl_vel_int:
  "pc_accelerationControl L (s\<lparr>pc_vel_int := i\<rparr>) = (pc_accelerationControl L s)\<lparr>pc_vel_int := i\<rparr>"
  by (rule position_control.equality) (simp_all add: pc_accelerationControl_def Let_def)

lemma pc_velocityControl_vel_int:
  "pc_velocityControl L (s\<lparr>pc_vel_int := i\<rparr>) = (pc_velocityControl L s)\<lparr>pc_vel_int := i\<rparr>"
proof -
  have swap: "s\<lparr>pc_vel_int := i, pc_acc_sp := a\<rparr> = s\<lparr>pc_acc_sp := a, pc_vel_int := i\<rparr>" for a
    by (rule position_control.equality) simp_all
  have "pc_accelerationControl L (s\<lparr>pc_vel_int := i, pc_acc_sp := a\<rparr>)
      = (pc_accelerationControl L (s\<lparr>pc_acc_sp := a\<rparr>))\<lparr>pc_vel_int := i\<rparr>" for a
    unfolding swap pc_accelerationControl_vel_int ..
  then show ?thesis
    by (intro position_control.equality) (simp_all add: pc_velocityControl_def Let_def)
qed

lemma pc_update_vel_int:
  "fst (pc_update L dt (s\<lparr>pc_vel_int := i\<rparr>)) = fst (pc_update L dt s)"
  "snd (pc_update L dt (s\<lparr>pc_vel_int := i\<rparr>)) = (snd (pc_update L dt s))\<lparr>pc_vel_int := i\<rparr>"
proof -
  show "fst (pc_update L dt (s\<lparr>pc_vel_int := i\<rparr>)) = fst (pc_update L dt s)"
    by (simp add: pc_update_def Let_def pc_observe_vel_int pc_positionControl_vel_int
          pc_velocityControl_vel_int pc_yaw_defaults_def)
  show "snd (pc_update L dt (s\<lparr>pc_vel_int := i\<rparr>)) = (snd (pc_update L dt s))\<lparr>pc_vel_int := i\<rparr>"
    by (rule position_control.equality)
      (simp_all add: pc_update_def Let_def pc_observe_vel_int pc_positionControl_vel_int
          pc_velocityControl_vel_int pc_yaw_defaults_def)
qed

text \<open>
  A new hover thrust reaches the output at once. \<^verbatim>\<open>updateHoverThrust\<close> adds to the velocity
  integrator what should keep the output unchanged, but no later computation reads that
  integrator: the next cycle gives the same result, thrust and setpoints as after a plain
  \<^verbatim>\<open>setHoverThrust\<close>.
\<close>

theorem hover_thrust_update_not_compensated:
  assumes "f32_gt h FLT_EPSILON"
  shows "fst (pc_update L dt (pc_updateHoverThrust h s)) = fst (pc_update L dt (pc_setHoverThrust h s))
    \<and> (snd (pc_update L dt (pc_updateHoverThrust h s)))\<lparr>pc_vel_int := v3_zero\<rparr>
        = (snd (pc_update L dt (pc_setHoverThrust h s)))\<lparr>pc_vel_int := v3_zero\<rparr>"
proof -
  let ?d = "f32_sub (f32_add (f32_div (f32_mul (f32_sub (v2 (pc_acc_sp s)) CONSTANTS_ONE_G) (pc_hover_thrust s)) h)
    CONSTANTS_ONE_G) (v2 (pc_acc_sp s))"
  let ?i = "V3 (v0 (pc_vel_int s)) (v1 (pc_vel_int s)) (f32_add (v2 (pc_vel_int s)) ?d)"
  have "pc_setHoverThrust h (s\<lparr>pc_vel_int := i\<rparr>) = (pc_setHoverThrust h s)\<lparr>pc_vel_int := i\<rparr>" for i
    by (rule position_control.equality) (simp_all add: pc_setHoverThrust_def)
  from this [of ?i] have "pc_updateHoverThrust h s = (pc_setHoverThrust h s)\<lparr>pc_vel_int := ?i\<rparr>"
    using assms by (simp only: pc_updateHoverThrust_def Let_def if_True)
  moreover have "t\<lparr>pc_vel_int := a, pc_vel_int := b\<rparr> = t\<lparr>pc_vel_int := b\<rparr>" for t :: position_control and a b
    by simp
  ultimately show ?thesis
    by (simp only: pc_update_vel_int simp_thms)
qed

theorem hover_thrust_update_not_compensated_witness:
  "fst (pc_update libm_zero (f32_lit 1) (pc_updateHoverThrust (f32_lit 1) ESOPositionControl))
     = fst (pc_update libm_zero (f32_lit 1) (pc_setHoverThrust (f32_lit 1) ESOPositionControl))"
proof -
  have "f32_gt (f32_lit 1) FLT_EPSILON"
    using f32_of_real_dyadic [of 1 23 False] by (simp add: FLT_EPSILON_def f32_lit_def)
  then show ?thesis by (rule hover_thrust_update_not_compensated [THEN conjunct1])
qed

subsection \<open>The feed-forward velocity\<close>

lemma f32_add_self:
  assumes "wf32 x" and "f32_isfinite (f32_add x x)"
  shows "f32_val (f32_add x x) = 2 * f32_val x"
proof -
  obtain s m where x: "x = FFin s m" using assms(2) by (cases x) auto
  have m: "0 \<le> m" and r: "round24 (m * f32_scale) = m * f32_scale"
    using assms(1) wf32_mag_nonneg [of s m] by (auto simp: x r24.representable_def)
  have "round24 (2 * (m * f32_scale)) = 2 * (m * f32_scale)"
    using m r by (intro round24_double) simp_all
  moreover have "\<bar>f32_val x + f32_val x\<bar> * f32_scale = 2 * (m * f32_scale)" using m by (simp add: x)
  ultimately have "round24 (\<bar>f32_val x + f32_val x\<bar> * f32_scale) = 2 * (m * f32_scale)" by (simp only:)
  then have "f32_of_real s (f32_val x + f32_val x)
      = (if f32_overflow \<le> 2 * (m * f32_scale) then FInf (f32_val x + f32_val x < 0)
         else FFin (if f32_val x + f32_val x = 0 then s else f32_val x + f32_val x < 0) (2 * m))"
    unfolding f32_of_real_def Let_def by (simp del: f32_val.simps)
  moreover have "f32_add x x = f32_of_real s (f32_val x + f32_val x)" by (simp add: x)
  ultimately show ?thesis using assms(2) m by (auto simp: x split: if_splits)
qed

lemma f32_add_zero:
  assumes "wf32 (FFin t m)"
  shows "f32_add (FFin s 0) (FFin t m) = FFin (if m = 0 then s \<and> t else t) m"
    and "f32_add (FFin t m) (FFin s 0) = FFin (if m = 0 then t \<and> s else t) m"
proof -
  have "f32_val (FFin s 0) + f32_val (FFin t m) = f32_val (FFin t m)"
    "f32_val (FFin t m) + f32_val (FFin s 0) = f32_val (FFin t m)" by simp_all
  then show "f32_add (FFin s 0) (FFin t m) = FFin (if m = 0 then s \<and> t else t) m"
    "f32_add (FFin t m) (FFin s 0) = FFin (if m = 0 then t \<and> s else t) m"
    by (simp_all only: f32_add.simps f32_of_real_exact [OF assms])
qed

lemma addIfNotNan_finite: "addIfNotNan (FFin s m) (FFin t n) = f32_add (FFin s m) (FFin t n)"
  by (simp only: addIfNotNan_def f32_isfinite.simps simp_thms if_True)

text \<open>One axis on track: no position error, no integral.\<close>

lemma axis_on_track:
  assumes "f32_isfinite p" and "f32_isfinite gp" and "f32_isfinite gi" and "f32_isfinite v" and "wf32 v"
  defines "P \<equiv> f32_mul (f32_sub p p) gp" and "I \<equiv> f32_mul f32_zero gi"
  defines "t \<equiv> addIfNotNan (addIfNotNan (f32_add P I) v) f32_zero"
  shows "f32_val t = f32_val v" and "wf32 t" and "f32_sub (f32_sub t P) I = t" and "f32_isfinite t"
proof -
  obtain a n b k c m where f: "gp = FFin a n" "gi = FFin b k" "v = FFin c m"
    using assms(2-4) by (cases gp; cases gi; cases v) auto
  have w: "wf32 (FFin u m)" for u using assms(5) by (simp add: f)
  have P: "P = FFin a 0" and I: "I = FFin b 0"
    unfolding P_def I_def f32_sub_same [OF assms(1)] f f32_mul_zero by simp_all
  have t: "t = FFin (if m = 0 then False else c) m"
    unfolding t_def P I f f32_add_zero [OF wf32_zero] addIfNotNan_finite if_P [OF refl] f32_add_zero [OF w]
    by simp
  show "f32_val t = f32_val v" by (simp add: t f)
  show "wf32 t" using w by (simp add: t)
  show "f32_sub (f32_sub t P) I = t"
    unfolding t P I f32_sub_def f32_neg.simps f32_add_zero [OF w] by simp
  show "f32_isfinite t" by (simp add: t)
qed

lemma f32_square_cases:
  obtains "f32_mul x x = FNaN" | "f32_mul x x = FInf False" | s m where "f32_mul x x = FFin s m" and "f32_isfinite x"
proof (cases x)
  case (FFin s m)
  have "\<not> f32_val x * f32_val x < 0" by (simp add: not_less)
  then have "f32_mul x x = FInf False \<or> (\<exists>s m. f32_mul x x = FFin s m)"
    by (simp add: FFin f32_of_real_def Let_def del: f32_val.simps)
  with that FFin show thesis by auto
qed (use that in auto)

lemma v2_norm_finite:
  assumes "f32_le (v2_norm a) m" and "f32_isfinite m"
  shows "f32_isfinite (x0 a)" and "f32_isfinite (x1 a)"
proof -
  obtain t n where m: "m = FFin t n" using assms(2) by (cases m) auto
  have "v2_norm a \<noteq> FNaN" "v2_norm a \<noteq> FInf False" using assms(1) by (auto simp: m f32_le_def)
  then have "f32_isfinite (x0 a) \<and> f32_isfinite (x1 a)"
    by (cases rule: f32_square_cases [of "x0 a"]; cases rule: f32_square_cases [of "x1 a"])
      (auto simp: v2_norm_def v2_dot_def f32_of_real_def Let_def split: if_splits)
  then show "f32_isfinite (x0 a)" "f32_isfinite (x1 a)" by simp_all
qed

text \<open>Horizontally on track: no position error, no integral, finite gains and feed-forward.\<close>

definition pc_on_track :: "position_control \<Rightarrow> bool" where
  "pc_on_track s \<longleftrightarrow> list_all (\<lambda>ax. ax (pc_pos_sp s) = ax (pc_pos s) \<and> f32_isfinite (ax (pc_pos s))
      \<and> ax (pc_pos_int s) = f32_zero \<and> f32_isfinite (ax (pc_gain_pos_p s)) \<and> f32_isfinite (ax (pc_gain_pos_i s))
      \<and> f32_isfinite (ax (pc_vel_sp s)) \<and> wf32 (ax (pc_vel_sp s))) [v0, v1]"

lemma pc_on_track_total:
  assumes "pc_on_track s"
  defines "t \<equiv> pc_vel_sp_total s"
  shows "f32_val (v0 t) = f32_val (v0 (pc_vel_sp s))" and "f32_val (v1 t) = f32_val (v1 (pc_vel_sp s))"
    and "wf32 (v0 t)" and "wf32 (v1 t)"
    and "v3_xy (v3_sub (v3_sub t (pc_vel_sp_p s)) (pc_vel_sp_i s)) = v3_xy t"
    and "f32_isfinite (v0 t)" and "f32_isfinite (v1 t)"
  using assms axis_on_track [of "v0 (pc_pos s)" "v0 (pc_gain_pos_p s)" "v0 (pc_gain_pos_i s)" "v0 (pc_vel_sp s)"]
    axis_on_track [of "v1 (pc_pos s)" "v1 (pc_gain_pos_p s)" "v1 (pc_gain_pos_i s)" "v1 (pc_vel_sp s)"]
  by (simp_all add: pc_on_track_def pc_vel_sp_total_def pc_vel_sp_unc_def pc_vel_sp_p_def pc_vel_sp_i_def
        pc_pos_err_def setZeroIfNanVector3f_def addIfNotNanVector3f_def v3_ops v3_xy_def del: wf32.simps)

text \<open>Two equal parts that are too long together are cut to the limit.\<close>

lemma constrainXY_same:
  assumes "f32_isfinite (x0 v)" and "f32_isfinite (x1 v)"
    and "\<not> f32_le (v2_norm (v2_add v v)) m"
  shows "constrainXY v v m = v2_scale (v2_normalized v) m"
proof -
  have "f32_lt f32_zero (f32_lit (1 / 2 ^ 10))"
    using f32_of_real_dyadic [of 1 10 False] by (simp add: f32_lit_def)
  moreover have "f32_le (f32_lit (1 / 2 ^ 10)) (f32_lit (1 / 10 ^ 3))"
    by (rule f32_lit_mono) simp
  ultimately have "f32_lt f32_zero (f32_lit (1 / 10 ^ 3))"
    by (rule f32_lt_le_trans)
  moreover have "v2_norm (v2_sub v v) = f32_zero"
    using assms(1,2) by (simp add: v2_norm_def v2_dot_def v2_sub_def f32_sub_same)
  ultimately show ?thesis
    using assms(3) by (simp add: constrainXY_def)
qed

text \<open>
  C14: the feed-forward velocity counts twice. \<^verbatim>\<open>_positionControl\<close> passes the whole demanded
  velocity as the part with priority and the feed-forward as the rest, and \<^verbatim>\<open>constrainXY\<close> adds the
  two: a vehicle exactly on its trajectory is told to fly at twice the commanded horizontal velocity
  if twice its speed is within the (finite) horizontal limit, and in the commanded direction at the
  limit otherwise, although the commanded speed may be as low as half of it.
\<close>

theorem feedforward_velocity_doubled:
  assumes "pc_inputValid s" and "pc_on_track s"
    and "f32_isfinite (pc_lim_vel_horizontal s)"
    and "v = v3_xy (pc_vel_sp_total s)" and "v' = pc_vel_sp (snd (pc_update L dt s))"
  shows "f32_val (x0 v) = f32_val (v0 (pc_vel_sp s)) \<and> f32_val (x1 v) = f32_val (v1 (pc_vel_sp s))
    \<and> (if f32_le (v2_norm (v2_add v v)) (pc_lim_vel_horizontal s)
       then f32_val (v0 v') = 2 * f32_val (v0 (pc_vel_sp s)) \<and> f32_val (v1 v') = 2 * f32_val (v1 (pc_vel_sp s))
       else v3_xy v' = v2_scale (v2_normalized v) (pc_lim_vel_horizontal s))"
proof -
  note t = pc_on_track_total [OF assms(2)]
  have v: "f32_val (x0 v) = f32_val (v0 (pc_vel_sp s))" "f32_val (x1 v) = f32_val (v1 (pc_vel_sp s))"
    using t(1,2) by (simp_all add: assms(4) v3_xy_def)
  have xy: "v3_xy (V3 (x0 u) (x1 u) z) = u" for u z by (cases u) (simp add: v3_xy_def)
  have v': "v3_xy v' = constrainXY v v (pc_lim_vel_horizontal s)"
    by (simp only: assms(4,5) pc_update_valid(4) [OF assms(1)] pc_vel_sp_limited_def Let_def t(5) xy)
  show ?thesis
  proof (cases "f32_le (v2_norm (v2_add v v)) (pc_lim_vel_horizontal s)")
    case True
    then have "v3_xy v' = v2_add v v"
      unfolding v' by (simp only: constrainXY_def if_True)
    then have "v0 v' = f32_add (x0 v) (x0 v)" "v1 v' = f32_add (x1 v) (x1 v)"
      by (simp_all add: v3_xy_def v2_add_def)
    moreover have "wf32 (x0 v)" "wf32 (x1 v)" using t(3,4) by (simp_all add: assms(4) v3_xy_def)
    ultimately show ?thesis
      using True v f32_add_self [of "x0 v"] f32_add_self [of "x1 v"] v2_norm_finite [OF True assms(3)]
      by (simp add: v2_add_def)
  next
    case False
    then show ?thesis
      using v v' constrainXY_same [OF _ _ False] t(6,7) by (simp add: assms(4) v3_xy_def)
  qed
qed

definition on_track_east :: position_control where
  "on_track_east = ESOPositionControl\<lparr>pc_vel_sp := V3 f32_zero (f32_lit 1) f32_zero,
     pc_lim_vel_horizontal := f32_lit 12\<rparr>"

theorem feedforward_velocity_doubled_witness:
  "f32_val (v1 (pc_vel_sp (snd (pc_update libm_zero (f32_lit 1) on_track_east)))) = 2 * f32_val (f32_lit 1)"
proof -
  have v: "pc_inputValid on_track_east" "f32_isfinite (pc_lim_vel_horizontal on_track_east)"
    by (simp_all add: on_track_east_def ESOPositionControl_def pc_inputValid_def v3_axes_def pc_axis_valid_def
          pc_pair_valid_def v3_zero_def f32_lit_numeral)
  have o: "pc_on_track on_track_east"
    using wf32_lit [of 1] by (simp add: pc_on_track_def on_track_east_def ESOPositionControl_def v3_zero_def
          del: wf32.simps)
  have "sqrt 4 = (2::real)" by (simp add: real_sqrt_unique)
  then have "f32_le (v2_norm (v2_add (v3_xy (pc_vel_sp_total on_track_east)) (v3_xy (pc_vel_sp_total on_track_east))))
      (pc_lim_vel_horizontal on_track_east)"
    by (simp add: on_track_east_def ESOPositionControl_def pc_vel_sp_total_def pc_vel_sp_unc_def
          setZeroIfNanVector3f_def addIfNotNanVector3f_def addIfNotNan_def v3_ops v3_xy_def v2_norm_def v2_dot_def
          v2_add_def pc_vel_sp_p_def pc_vel_sp_i_def pc_pos_err_def f32_sub_same f32_lit_numeral f32_of_real_numeral)
  with feedforward_velocity_doubled [OF v(1) o v(2) refl refl, of libm_zero "f32_lit 1"]
  show ?thesis by (simp add: on_track_east_def)
qed

end
