(* ===== verification/Eso_Rate_Control.thy ===== *)
theory Eso_Rate_Control
  imports Eso_Observers
begin

text \<open>
  \<^verbatim>\<open>ESORateControl\<close> (\<^verbatim>\<open>src/modules/eso_rate_control/ESORateControl/RateControl.cpp\<close>): the body rate
  controller. \<open>rate_control\<close> is its state, one definition per setter and per step of \<^verbatim>\<open>update\<close>. Shown: the
  parameter invariant that the setters establish, the range of the normalized torque and of the
  torque fed back to the observer, the bounds and the anti-windup of the integrator, the treatment
  of non-finite auxiliary inputs, the effect of landing, and what a NaN gyro sample leads to.
\<close>

subsection \<open>State\<close>

record rate_control =
  rc_gain_p :: vector3f
  rc_gain_i :: vector3f
  rc_gain_d :: vector3f
  rc_lim_int :: vector3f
  rc_gain_ff :: vector3f
  rc_rate_int :: vector3f
  rc_omega_r_dot :: vector3f
  rc_beta_v :: vector3f
  rc_tau_s :: vector3f
  rc_inertia :: matrix3f
  rc_inertia_inv :: matrix3f
  rc_eso :: attitude_eso
  rc_k_beta :: float32
  rc_max_torque :: float32
  rc_integral_scale :: float32
  rc_tau_s_scale :: float32
  rc_tau_s_axis_scale :: vector3f
  rc_tau_s_obs_axis_scale :: vector3f
  rc_tau_s_ctrl_axis_scale :: vector3f
  rc_tau_s_limit_nm :: float32
  rc_tau_s_filter_tau :: float32
  rc_tau_s_filter_valid :: bool
  rc_tau_s_filtered :: vector3f
  rc_last_torque :: vector3f
  rc_last_rate :: vector3f
  rc_last_rate_sp :: vector3f
  rc_last_inertia_term :: vector3f
  rc_last_feedback_term :: vector3f
  rc_last_integral_term :: vector3f
  rc_last_beta_term :: vector3f
  rc_last_tau_s_raw :: vector3f
  rc_last_tau_s_used :: vector3f
  rc_last_omega_r_dot :: vector3f
  rc_last_disturbance_hat :: vector3f
  rc_sat_negative :: "bool vec3"
  rc_sat_positive :: "bool vec3"

text \<open>\<^verbatim>\<open>SquareMatrix::I()\<close>: the inverse, or the zero matrix.\<close>

definition m3_I :: "matrix3f \<Rightarrow> matrix3f" where
  "m3_I A = (case m3_inv A of Some B \<Rightarrow> B | None \<Rightarrow> m3_zero)"

definition rate_control_init :: rate_control where
  "rate_control_init =
     (let inertia = m3_diag (V3 (f32_lit (45 / 1000)) (f32_lit (45 / 1000)) (f32_lit (8 / 100)));
          one = V3 (f32_lit 1) (f32_lit 1) (f32_lit 1)
      in \<lparr>rc_gain_p = v3_zero, rc_gain_i = v3_zero, rc_gain_d = v3_zero, rc_lim_int = v3_zero,
          rc_gain_ff = v3_zero, rc_rate_int = v3_zero, rc_omega_r_dot = v3_zero,
          rc_beta_v = v3_zero, rc_tau_s = v3_zero, rc_inertia = inertia,
          rc_inertia_inv = m3_I inertia, rc_eso = AttitudeESO (f32_lit 30) (f32_lit 30) (f32_lit 30),
          rc_k_beta = f32_lit (1 / 2), rc_max_torque = f32_lit (3 / 2),
          rc_integral_scale = f32_lit (2 / 10), rc_tau_s_scale = f32_zero,
          rc_tau_s_axis_scale = one, rc_tau_s_obs_axis_scale = one, rc_tau_s_ctrl_axis_scale = one,
          rc_tau_s_limit_nm = f32_lit (3 / 10), rc_tau_s_filter_tau = f32_lit (1 / 10),
          rc_tau_s_filter_valid = False, rc_tau_s_filtered = v3_zero, rc_last_torque = v3_zero,
          rc_last_rate = v3_zero, rc_last_rate_sp = v3_zero, rc_last_inertia_term = v3_zero,
          rc_last_feedback_term = v3_zero, rc_last_integral_term = v3_zero,
          rc_last_beta_term = v3_zero, rc_last_tau_s_raw = v3_zero, rc_last_tau_s_used = v3_zero,
          rc_last_omega_r_dot = v3_zero, rc_last_disturbance_hat = v3_zero,
          rc_sat_negative = V3 False False False, rc_sat_positive = V3 False False False\<rparr>)"

subsection \<open>Setters\<close>

definition setGains :: "vector3f \<Rightarrow> vector3f \<Rightarrow> vector3f \<Rightarrow> rate_control \<Rightarrow> rate_control" where
  "setGains P I D s = s\<lparr>rc_gain_p := P, rc_gain_i := I, rc_gain_d := D\<rparr>"

definition setIntegratorLimit :: "vector3f \<Rightarrow> rate_control \<Rightarrow> rate_control" where
  "setIntegratorLimit integrator_limit s = s\<lparr>rc_lim_int := integrator_limit\<rparr>"

definition setFeedForwardGain :: "vector3f \<Rightarrow> rate_control \<Rightarrow> rate_control" where
  "setFeedForwardGain FF s = s\<lparr>rc_gain_ff := FF\<rparr>"

definition setSaturationStatus :: "bool vec3 \<Rightarrow> bool vec3 \<Rightarrow> rate_control \<Rightarrow> rate_control" where
  "setSaturationStatus saturation_positive saturation_negative s =
     s\<lparr>rc_sat_positive := saturation_positive, rc_sat_negative := saturation_negative\<rparr>"

definition setAttitudeAux :: "vector3f \<Rightarrow> vector3f \<Rightarrow> vector3f \<Rightarrow> rate_control \<Rightarrow> rate_control" where
  "setAttitudeAux omega_r_dot beta_v tau_s s =
     s\<lparr>rc_omega_r_dot := omega_r_dot, rc_beta_v := beta_v, rc_tau_s := tau_s\<rparr>"

definition not_tiny :: "float32 \<Rightarrow> bool" where
  "not_tiny x \<longleftrightarrow> f32_gt (f32_abs x) (f32_lit (1 / 10 ^ 6))"

definition diag_inverse :: "matrix3f \<Rightarrow> matrix3f" where
  "diag_inverse m =
     m3_diag (V3 (f32_div (f32_lit 1) (v0 (v0 m))) (f32_div (f32_lit 1) (v1 (v1 m)))
                 (f32_div (f32_lit 1) (v2 (v2 m))))"

definition setInertiaDiagonal :: "vector3f \<Rightarrow> rate_control \<Rightarrow> rate_control" where
  "setInertiaDiagonal inertia_diag s =
     (let m = m3_diag inertia_diag
      in s\<lparr>rc_inertia := m,
           rc_inertia_inv :=
             (if not_tiny (v0 (v0 m)) \<and> not_tiny (v1 (v1 m)) \<and> not_tiny (v2 (v2 m))
              then diag_inverse m else m3_zero)\<rparr>)"

definition setInertiaMatrix :: "matrix3f \<Rightarrow> rate_control \<Rightarrow> rate_control" where
  "setInertiaMatrix inertia s =
     (let s = s\<lparr>rc_inertia := inertia\<rparr>
      in case m3_inv inertia of
           Some i \<Rightarrow> s\<lparr>rc_inertia_inv := i\<rparr>
         | None \<Rightarrow>
             if not_tiny (v0 (v0 inertia)) \<and> not_tiny (v1 (v1 inertia)) \<and> not_tiny (v2 (v2 inertia))
             then s\<lparr>rc_inertia_inv := diag_inverse inertia\<rparr> else s)"

definition setESOBandwidth :: "vector3f \<Rightarrow> rate_control \<Rightarrow> rate_control" where
  "setESOBandwidth bandwidth s =
     (let bw_safe = map_vec3 (\<lambda>val. if f32_isfinite val \<and> f32_ge val f32_zero then val else f32_zero)
                      bandwidth
      in s\<lparr>rc_eso := AttitudeESO (v0 bw_safe) (v1 bw_safe) (v2 bw_safe)\<rparr>)"

definition setKBeta :: "float32 \<Rightarrow> rate_control \<Rightarrow> rate_control" where
  "setKBeta k_beta s =
     (if f32_isfinite k_beta \<and> f32_ge k_beta f32_zero then s\<lparr>rc_k_beta := k_beta\<rparr> else s)"

definition setMaxTorque :: "float32 \<Rightarrow> rate_control \<Rightarrow> rate_control" where
  "setMaxTorque max_torque s =
     (if f32_isfinite max_torque \<and> f32_gt max_torque (f32_lit (1 / 1000))
      then s\<lparr>rc_max_torque := max_torque\<rparr> else s)"

definition setIntegralScale :: "float32 \<Rightarrow> rate_control \<Rightarrow> rate_control" where
  "setIntegralScale integral_scale s =
     (if f32_isfinite integral_scale \<and> f32_ge integral_scale f32_zero
      then s\<lparr>rc_integral_scale := integral_scale\<rparr> else s)"

definition setTauSScale :: "float32 \<Rightarrow> rate_control \<Rightarrow> rate_control" where
  "setTauSScale tau_s_scale s =
     (if f32_isfinite tau_s_scale \<and> f32_ge tau_s_scale f32_zero
      then s\<lparr>rc_tau_s_scale := tau_s_scale\<rparr> else s)"

text \<open>Replace the components of \<open>old\<close> by the finite ones of \<open>new\<close>.\<close>

definition finite_or :: "vector3f \<Rightarrow> vector3f \<Rightarrow> vector3f" where
  "finite_or old new = v3_map2 (\<lambda>o_i n_i. if f32_isfinite n_i then n_i else o_i) old new"

definition setTauSAxisScale :: "vector3f \<Rightarrow> rate_control \<Rightarrow> rate_control" where
  "setTauSAxisScale tau_s_axis_scale s =
     s\<lparr>rc_tau_s_axis_scale := finite_or (rc_tau_s_axis_scale s) tau_s_axis_scale\<rparr>"

definition setTauSObserverAxisScale :: "vector3f \<Rightarrow> rate_control \<Rightarrow> rate_control" where
  "setTauSObserverAxisScale tau_s_obs_axis_scale s =
     s\<lparr>rc_tau_s_obs_axis_scale := finite_or (rc_tau_s_obs_axis_scale s) tau_s_obs_axis_scale\<rparr>"

definition setTauSControlAxisScale :: "vector3f \<Rightarrow> rate_control \<Rightarrow> rate_control" where
  "setTauSControlAxisScale tau_s_ctrl_axis_scale s =
     s\<lparr>rc_tau_s_ctrl_axis_scale := finite_or (rc_tau_s_ctrl_axis_scale s) tau_s_ctrl_axis_scale\<rparr>"

definition setTauSLimitNm :: "float32 \<Rightarrow> rate_control \<Rightarrow> rate_control" where
  "setTauSLimitNm tau_s_limit_nm s =
     (if f32_isfinite tau_s_limit_nm \<and> f32_ge tau_s_limit_nm f32_zero
      then s\<lparr>rc_tau_s_limit_nm := tau_s_limit_nm\<rparr> else s)"

definition setTauSFilterTimeConstant :: "float32 \<Rightarrow> rate_control \<Rightarrow> rate_control" where
  "setTauSFilterTimeConstant tau_s_filter_tau s =
     (if f32_isfinite tau_s_filter_tau \<and> f32_ge tau_s_filter_tau f32_zero
      then s\<lparr>rc_tau_s_filter_tau := tau_s_filter_tau\<rparr> else s)"

definition resetIntegral :: "rate_control \<Rightarrow> rate_control" where
  "resetIntegral s = s\<lparr>rc_rate_int := v3_zero\<rparr>"

definition resetESO :: "rate_control \<Rightarrow> rate_control" where
  "resetESO s =
     s\<lparr>rc_eso := ae_reset (rc_eso s), rc_last_torque := v3_zero, rc_omega_r_dot := v3_zero,
       rc_beta_v := v3_zero, rc_tau_s := v3_zero\<rparr>"

subsection \<open>Integrator\<close>

text \<open>One axis of \<^verbatim>\<open>updateIntegral\<close>: the error after the saturation guards, the gain factor, the step.\<close>

definition windup_error :: "bool \<Rightarrow> bool \<Rightarrow> float32 \<Rightarrow> float32" where
  "windup_error sat_pos sat_neg rate_error =
     (let e = (if sat_pos then math_min rate_error f32_zero else rate_error)
      in if sat_neg then math_max e f32_zero else e)"

definition integral_factor :: "float32 \<Rightarrow> float32" where
  "integral_factor rate_error =
     (let i_factor = f32_div rate_error (radians (f32_lit 400))
      in math_max f32_zero (f32_sub (f32_lit 1) (f32_mul i_factor i_factor)))"

definition updateIntegral_axis ::
  "bool \<Rightarrow> bool \<Rightarrow> float32 \<Rightarrow> float32 \<Rightarrow> float32 \<Rightarrow> float32 \<Rightarrow> float32 \<Rightarrow> float32" where
  "updateIntegral_axis sat_pos sat_neg gain_i lim_int rate_error dt rate_int =
     (let e = windup_error sat_pos sat_neg rate_error;
          i_factor = integral_factor e;
          rate_i = f32_add rate_int (f32_mul (f32_mul (f32_mul i_factor gain_i) e) dt)
      in if f32_isfinite rate_i then constrain rate_i (f32_neg lim_int) lim_int else rate_int)"

definition updateIntegral :: "vector3f \<Rightarrow> float32 \<Rightarrow> rate_control \<Rightarrow> rate_control" where
  "updateIntegral rate_error dt s =
     (let axis = (\<lambda>sel selb. updateIntegral_axis (selb (rc_sat_positive s)) (selb (rc_sat_negative s))
                    (sel (rc_gain_i s)) (sel (rc_lim_int s)) (sel rate_error) dt (sel (rc_rate_int s)))
      in s\<lparr>rc_rate_int := V3 (axis v0 v0) (axis v1 v1) (axis v2 v2)\<rparr>)"

subsection \<open>The compensation torque\<close>

definition finite_or_zero :: "vector3f \<Rightarrow> vector3f" where
  "finite_or_zero v = map_vec3 (\<lambda>x. if f32_isfinite x then x else f32_zero) v"

definition tau_s_limited :: "vector3f \<Rightarrow> rate_control \<Rightarrow> vector3f" where
  "tau_s_limited tau_s s =
     (let tau_s_scale = constrain (rc_tau_s_scale s) f32_zero (f32_lit 1);
          tau_s_limit_nm = math_max (rc_tau_s_limit_nm s) f32_zero;
          tau_s_base = map_vec3 (\<lambda>x. constrain x (f32_neg tau_s_limit_nm) tau_s_limit_nm) tau_s
      in v3_emult (v3_scale tau_s_base tau_s_scale) (rc_tau_s_axis_scale s))"

definition tau_s_filter :: "vector3f \<Rightarrow> float32 \<Rightarrow> bool \<Rightarrow> rate_control \<Rightarrow> vector3f \<times> rate_control" where
  "tau_s_filter tau_s dt landed s =
     (let tau_s_base = tau_s_limited tau_s s in
      if landed \<or> f32_le (constrain (rc_tau_s_scale s) f32_zero (f32_lit 1)) FLT_EPSILON
         \<or> f32_le (math_max (rc_tau_s_limit_nm s) f32_zero) FLT_EPSILON then
        (v3_zero, s\<lparr>rc_tau_s_filtered := v3_zero, rc_tau_s_filter_valid := False\<rparr>)
      else if \<not> rc_tau_s_filter_valid s \<or> \<not> f32_isfinite dt \<or> f32_le dt (f32_lit (1 / 10 ^ 6))
              \<or> f32_le (rc_tau_s_filter_tau s) FLT_EPSILON then
        (tau_s_base, s\<lparr>rc_tau_s_filtered := tau_s_base, rc_tau_s_filter_valid := True\<rparr>)
      else
        let alpha = constrain (f32_div dt (f32_add (rc_tau_s_filter_tau s) dt)) f32_zero (f32_lit 1);
            f = v3_add (rc_tau_s_filtered s) (v3_scale (v3_sub tau_s_base (rc_tau_s_filtered s)) alpha)
        in (f, s\<lparr>rc_tau_s_filtered := f\<rparr>))"

subsection \<open>Update\<close>

definition landed_reset :: "rate_control \<Rightarrow> rate_control" where
  "landed_reset s =
     s\<lparr>rc_eso := ae_reset (rc_eso s), rc_last_torque := v3_zero, rc_tau_s_filtered := v3_zero,
       rc_tau_s_filter_valid := False\<rparr>"

definition normalize_torque :: "float32 \<Rightarrow> vector3f \<Rightarrow> vector3f" where
  "normalize_torque max_torque torque_physical =
     map_vec3 (\<lambda>x. constrain (f32_div x max_torque) (f32_lit (- 1)) (f32_lit 1)) torque_physical"

text \<open>
  The stages of \<^verbatim>\<open>update\<close> after the auxiliary inputs have been read: the observer step, the integrator
  step, the torque. \<open>rate_cycle\<close> composes them and \<open>rate_update\<close> reads the inputs.
\<close>

definition rate_observe ::
  "vector3f \<Rightarrow> vector3f \<Rightarrow> vector3f \<Rightarrow> float32 \<Rightarrow> bool \<Rightarrow> rate_control \<Rightarrow> vector3f \<times> rate_control" where
  "rate_observe omega coriolis_term tau_s_obs dt landed s =
     (let s = (if landed then landed_reset s else s);
          u_nominal = m3_mulv (rc_inertia_inv s)
            (v3_add (v3_sub (rc_last_torque s) coriolis_term) tau_s_obs);
          (disturbance_hat, eso) = ae_update omega u_nominal dt (rc_eso s)
      in (disturbance_hat, s\<lparr>rc_eso := eso, rc_last_disturbance_hat := disturbance_hat\<rparr>))"

definition rate_integrate :: "vector3f \<Rightarrow> float32 \<Rightarrow> bool \<Rightarrow> rate_control \<Rightarrow> rate_control" where
  "rate_integrate e_omega dt landed s =
     (if \<not> landed \<and> f32_isfinite dt \<and> f32_gt dt (f32_lit (1 / 10 ^ 6))
      then updateIntegral e_omega dt s else s)"

definition rate_torque ::
  "vector3f \<Rightarrow> vector3f \<Rightarrow> vector3f \<Rightarrow> vector3f \<Rightarrow> vector3f \<Rightarrow> vector3f \<Rightarrow> rate_control
     \<Rightarrow> vector3f \<times> rate_control" where
  "rate_torque omega_r_dot disturbance_hat coriolis_term e_omega beta_v tau_s_ctrl s =
     (let max_torque = math_max (rc_max_torque s) (f32_lit (1 / 1000));
          inertia_term = m3_mulv (rc_inertia s) (v3_sub omega_r_dot disturbance_hat);
          feedback_term = v3_emult (rc_gain_p s) e_omega;
          integral_term = v3_scale (rc_rate_int s) (rc_integral_scale s);
          beta_term = v3_scale (v3_neg beta_v) (rc_k_beta s);
          torque_physical = v3_sub (v3_add (v3_add (v3_add (v3_add inertia_term coriolis_term)
            feedback_term) beta_term) integral_term) tau_s_ctrl;
          torque_norm = normalize_torque max_torque torque_physical
      in (torque_norm,
          s\<lparr>rc_last_inertia_term := inertia_term, rc_last_feedback_term := feedback_term,
            rc_last_integral_term := integral_term, rc_last_beta_term := beta_term,
            rc_last_torque := v3_scale torque_norm max_torque\<rparr>))"

definition rate_cycle ::
  "vector3f \<Rightarrow> vector3f \<Rightarrow> vector3f \<Rightarrow> vector3f \<Rightarrow> vector3f \<Rightarrow> float32 \<Rightarrow> bool \<Rightarrow> rate_control
     \<Rightarrow> vector3f \<times> rate_control" where
  "rate_cycle omega_r_dot beta_v tau_s omega omega_r dt landed s =
     (let (tau_s_base, s) = tau_s_filter tau_s dt landed s;
          tau_s_obs = v3_emult tau_s_base (rc_tau_s_obs_axis_scale s);
          tau_s_ctrl = v3_emult tau_s_base (rc_tau_s_ctrl_axis_scale s);
          e_omega = v3_sub omega_r omega;
          coriolis_term = v3_cross omega (m3_mulv (rc_inertia s) omega);
          (disturbance_hat, s) = rate_observe omega coriolis_term tau_s_obs dt landed s;
          s = s\<lparr>rc_last_tau_s_raw := tau_s, rc_last_tau_s_used := tau_s_ctrl,
                rc_last_omega_r_dot := omega_r_dot\<rparr>;
          s = rate_integrate e_omega dt landed s
      in rate_torque omega_r_dot disturbance_hat coriolis_term e_omega beta_v tau_s_ctrl s)"

definition rate_update ::
  "vector3f \<Rightarrow> vector3f \<Rightarrow> vector3f \<Rightarrow> float32 \<Rightarrow> bool \<Rightarrow> rate_control \<Rightarrow> vector3f \<times> rate_control" where
  "rate_update rate rate_sp angular_accel dt landed s =
     (let s = s\<lparr>rc_last_rate := rate, rc_last_rate_sp := rate_sp\<rparr>;
          omega_r_dot = finite_or_zero (rc_omega_r_dot s);
          beta_v = finite_or_zero (rc_beta_v s);
          tau_s = finite_or_zero (rc_tau_s s)
      in rate_cycle omega_r_dot beta_v tau_s rate rate_sp dt landed s)"

subsection \<open>Status\<close>

record rate_ctrl_status_s =
  rcs_rollspeed_integ :: float32
  rcs_pitchspeed_integ :: float32
  rcs_yawspeed_integ :: float32
  rcs_eso_rate :: vector3f
  rcs_eso_rate_sp :: vector3f
  rcs_eso_rate_hat :: vector3f
  rcs_eso_rate_error :: vector3f
  rcs_eso_disturbance_hat :: vector3f
  rcs_eso_tau_s_raw :: vector3f
  rcs_eso_tau_s_used :: vector3f
  rcs_eso_omega_r_dot :: vector3f
  rcs_eso_torque :: vector3f

definition getESORateControlStatus :: "rate_control \<Rightarrow> rate_ctrl_status_s" where
  "getESORateControlStatus s =
     (let rate_hat = ae_z1_est_omega (rc_eso s)
      in \<lparr>rcs_rollspeed_integ = v0 (rc_rate_int s), rcs_pitchspeed_integ = v1 (rc_rate_int s),
          rcs_yawspeed_integ = v2 (rc_rate_int s), rcs_eso_rate = rc_last_rate s,
          rcs_eso_rate_sp = rc_last_rate_sp s, rcs_eso_rate_hat = rate_hat,
          rcs_eso_rate_error = v3_sub (rc_last_rate s) rate_hat,
          rcs_eso_disturbance_hat = rc_last_disturbance_hat s,
          rcs_eso_tau_s_raw = rc_last_tau_s_raw s, rcs_eso_tau_s_used = rc_last_tau_s_used s,
          rcs_eso_omega_r_dot = rc_last_omega_r_dot s, rcs_eso_torque = rc_last_torque s\<rparr>)"

subsection \<open>The integrator\<close>

lemma f32_neg_le_self: "f32_le f32_zero x \<Longrightarrow> f32_le (f32_neg x) x"
  by (cases x) (auto simp: f32_le_def)

lemma constrain_le: "f32_le x y \<Longrightarrow> f32_le lo y \<Longrightarrow> f32_le lo hi \<Longrightarrow> f32_le (constrain x lo hi) y"
  by (auto simp: constrain_def intro: f32_le_trans f32_lt_imp_le)

lemma constrain_ge: "f32_le y x \<Longrightarrow> f32_le y hi \<Longrightarrow> f32_le lo hi \<Longrightarrow> f32_le y (constrain x lo hi)"
  by (auto simp: constrain_def intro: f32_le_trans f32_lt_imp_le)

lemma windup_error_pos: "f32_le (windup_error True False e) f32_zero"
  by (auto simp: windup_error_def Let_def math_min_def intro: f32_lt_imp_le)

lemma windup_error_neg: "f32_le f32_zero (windup_error p True e)"
  by (auto simp: windup_error_def Let_def math_max_def intro: f32_lt_imp_le)

lemma wf32_windup_error [simp]: "wf32 e \<Longrightarrow> wf32 (windup_error p n e)"
  by (simp add: windup_error_def Let_def)

lemma math_max_zero: "math_max f32_zero x = FNaN \<or> f32_le f32_zero (math_max f32_zero x)"
  using f32_not_lt [of x f32_zero] by (cases "x = FNaN") (auto simp: math_max_def)

lemma integral_factor_nonneg: "integral_factor e = FNaN \<or> f32_le f32_zero (integral_factor e)"
  unfolding integral_factor_def Let_def by (rule math_max_zero)

lemma wf32_integral_factor [simp]: "wf32 (integral_factor e)"
  by (simp add: integral_factor_def Let_def)

text \<open>The increment of one step has the sign of the guarded error, unless it is NaN.\<close>

definition integral_step :: "float32 \<Rightarrow> float32 \<Rightarrow> float32 \<Rightarrow> float32" where
  "integral_step gain_i e dt = f32_mul (f32_mul (f32_mul (integral_factor e) gain_i) e) dt"

lemma f32_mul_comm: "f32_mul x y = f32_mul y x"
proof -
  have "(s \<noteq> t) = (t \<noteq> s)" for s t :: bool by auto
  then show ?thesis
    by (cases x; cases y) (simp_all only: f32_mul.simps mult.commute)
qed

lemma integral_step_sign:
  assumes "wf32 gain_i" "f32_le f32_zero gain_i" "wf32 dt" "f32_le f32_zero dt" "wf32 e"
  shows "f32_le e f32_zero \<Longrightarrow> integral_step gain_i e dt = FNaN \<or> f32_le (integral_step gain_i e dt) f32_zero"
    and "f32_le f32_zero e \<Longrightarrow> integral_step gain_i e dt = FNaN \<or> f32_le f32_zero (integral_step gain_i e dt)"
proof -
  let ?g = "f32_mul (integral_factor e) gain_i"
  have g: "?g = FNaN \<or> f32_le f32_zero ?g"
    using integral_factor_nonneg [of e] f32_mul_nonneg [of "integral_factor e" gain_i] assms by auto
  show "integral_step gain_i e dt = FNaN \<or> f32_le (integral_step gain_i e dt) f32_zero"
    if "f32_le e f32_zero"
  proof -
    have "f32_mul ?g e = FNaN \<or> f32_le (f32_mul ?g e) f32_zero"
      using g f32_mul_nonneg_nonpos [of ?g e] that assms by auto
    then show ?thesis
      using f32_mul_nonneg_nonpos [of dt "f32_mul ?g e"] assms
      by (auto simp: integral_step_def f32_mul_comm [of _ dt])
  qed
  show "integral_step gain_i e dt = FNaN \<or> f32_le f32_zero (integral_step gain_i e dt)"
    if "f32_le f32_zero e"
  proof -
    have "f32_mul ?g e = FNaN \<or> f32_le f32_zero (f32_mul ?g e)"
      using g f32_mul_nonneg [of ?g e] that assms by auto
    then show ?thesis
      using f32_mul_nonneg [of "f32_mul ?g e" dt] assms by (auto simp: integral_step_def)
  qed
qed

lemma f32_add_finite: "f32_isfinite (f32_add x y) \<Longrightarrow> f32_isfinite x \<and> f32_isfinite y"
  by (cases x; cases y) (auto split: if_splits)

lemma updateIntegral_axis_eq:
  "updateIntegral_axis p n gain_i lm e dt ri =
     (let r = f32_add ri (integral_step gain_i (windup_error p n e) dt)
      in if f32_isfinite r then constrain r (f32_neg lm) lm else ri)"
  by (simp add: updateIntegral_axis_def integral_step_def Let_def)

text \<open>
  C11: one axis of the rate integrator. With a non-negative limit and gain the integrator stays
  within plus and minus the limit for any rate error, NaN and infinities included; while the
  allocator reports positive (negative) saturation alone, it does not increase (decrease).
\<close>

theorem rate_integrator_bounded_anti_windup:
  assumes "wf32 gain_i" and "f32_le f32_zero gain_i" and "wf32 dt" and "f32_le f32_zero dt"
    and "wf32 rate_error" and "wf32 rate_int" and "f32_le f32_zero lim_int"
    and "f32_le (f32_neg lim_int) rate_int" and "f32_le rate_int lim_int"
  defines "new \<equiv> \<lambda>sat_pos sat_neg.
      updateIntegral_axis sat_pos sat_neg gain_i lim_int rate_error dt rate_int"
  shows "f32_le (f32_neg lim_int) (new p n) \<and> f32_le (new p n) lim_int
    \<and> f32_le (new True False) rate_int \<and> f32_le rate_int (new False True)"
proof -
  have lim: "f32_le (f32_neg lim_int) lim_int" using assms(7) by (rule f32_neg_le_self)
  have ri: "rate_int \<noteq> FNaN" using assms(8) by auto
  have bounds: "f32_le (f32_neg lim_int) (new p n)" "f32_le (new p n) lim_int"
    using assms(8,9) constrain_bounds [OF f32_isfinite_not_nan lim]
    by (auto simp: new_def updateIntegral_axis_eq Let_def)
  let ?d = "\<lambda>p n. integral_step gain_i (windup_error p n rate_error) dt"
  have down: "f32_le (f32_add rate_int (?d True False)) rate_int"
    if "f32_isfinite (f32_add rate_int (?d True False))"
    using that integral_step_sign(1) [OF assms(1-4) wf32_windup_error [OF assms(5)] windup_error_pos]
      f32_add_finite [OF that] assms(6) by (auto intro: f32_add_nonpos_le)
  have up: "f32_le rate_int (f32_add rate_int (?d False True))"
    if "f32_isfinite (f32_add rate_int (?d False True))"
    using that integral_step_sign(2) [OF assms(1-4) wf32_windup_error [OF assms(5)] windup_error_neg, of False]
      f32_add_finite [OF that] assms(6) by (auto intro: f32_add_nonneg_ge)
  have "f32_le (new True False) rate_int" "f32_le rate_int (new False True)"
    using down up ri assms(8,9) lim
    by (auto simp: new_def updateIntegral_axis_eq Let_def intro: constrain_le constrain_ge)
  with bounds show ?thesis by blast
qed

theorem rate_integrator_bounded_anti_windup_witness:
  "f32_le (updateIntegral_axis True False (f32_lit 1) (f32_lit 1) (FInf False) (f32_lit 1) f32_zero) f32_zero
   \<and> f32_le (updateIntegral_axis False False (f32_lit 1) (f32_lit 1) FNaN (f32_lit 1) f32_zero) (f32_lit 1)"
  using rate_integrator_bounded_anti_windup [of "f32_lit 1" "f32_lit 1" "FInf False" f32_zero "f32_lit 1"]
    rate_integrator_bounded_anti_windup [of "f32_lit 1" "f32_lit 1" FNaN f32_zero "f32_lit 1" False False]
    wf32_lit [of 1]
  by simp

subsection \<open>Sequences of calls\<close>

datatype rate_op =
    Op_setGains vector3f vector3f vector3f
  | Op_setIntegratorLimit vector3f
  | Op_setFeedForwardGain vector3f
  | Op_setSaturationStatus "bool vec3" "bool vec3"
  | Op_setAttitudeAux vector3f vector3f vector3f
  | Op_setInertiaDiagonal vector3f
  | Op_setInertiaMatrix matrix3f
  | Op_setESOBandwidth vector3f
  | Op_setKBeta float32
  | Op_setMaxTorque float32
  | Op_setIntegralScale float32
  | Op_setTauSScale float32
  | Op_setTauSAxisScale vector3f
  | Op_setTauSObserverAxisScale vector3f
  | Op_setTauSControlAxisScale vector3f
  | Op_setTauSLimitNm float32
  | Op_setTauSFilterTimeConstant float32
  | Op_resetIntegral
  | Op_resetESO
  | Op_update vector3f vector3f vector3f float32 bool

fun rate_op_step :: "rate_op \<Rightarrow> rate_control \<Rightarrow> rate_control" where
  "rate_op_step (Op_setGains p i d) s = setGains p i d s"
| "rate_op_step (Op_setIntegratorLimit l) s = setIntegratorLimit l s"
| "rate_op_step (Op_setFeedForwardGain f) s = setFeedForwardGain f s"
| "rate_op_step (Op_setSaturationStatus p n) s = setSaturationStatus p n s"
| "rate_op_step (Op_setAttitudeAux w b t) s = setAttitudeAux w b t s"
| "rate_op_step (Op_setInertiaDiagonal d) s = setInertiaDiagonal d s"
| "rate_op_step (Op_setInertiaMatrix m) s = setInertiaMatrix m s"
| "rate_op_step (Op_setESOBandwidth b) s = setESOBandwidth b s"
| "rate_op_step (Op_setKBeta k) s = setKBeta k s"
| "rate_op_step (Op_setMaxTorque m) s = setMaxTorque m s"
| "rate_op_step (Op_setIntegralScale k) s = setIntegralScale k s"
| "rate_op_step (Op_setTauSScale k) s = setTauSScale k s"
| "rate_op_step (Op_setTauSAxisScale k) s = setTauSAxisScale k s"
| "rate_op_step (Op_setTauSObserverAxisScale k) s = setTauSObserverAxisScale k s"
| "rate_op_step (Op_setTauSControlAxisScale k) s = setTauSControlAxisScale k s"
| "rate_op_step (Op_setTauSLimitNm l) s = setTauSLimitNm l s"
| "rate_op_step (Op_setTauSFilterTimeConstant t) s = setTauSFilterTimeConstant t s"
| "rate_op_step Op_resetIntegral s = resetIntegral s"
| "rate_op_step Op_resetESO s = resetESO s"
| "rate_op_step (Op_update w sp a dt l) s = snd (rate_update w sp a dt l s)"

definition rate_ops_run :: "rate_op list \<Rightarrow> rate_control \<Rightarrow> rate_control" where
  "rate_ops_run ops s = foldl (\<lambda>s op. rate_op_step op s) s ops"

text \<open>The scalar parameters of a call are values of the format.\<close>

fun rate_op_wf :: "rate_op \<Rightarrow> bool" where
  "rate_op_wf (Op_setKBeta x) = wf32 x"
| "rate_op_wf (Op_setMaxTorque x) = wf32 x"
| "rate_op_wf (Op_setIntegralScale x) = wf32 x"
| "rate_op_wf (Op_setTauSScale x) = wf32 x"
| "rate_op_wf (Op_setTauSLimitNm x) = wf32 x"
| "rate_op_wf (Op_setTauSFilterTimeConstant x) = wf32 x"
| "rate_op_wf _ = True"

definition nonneg_param :: "float32 \<Rightarrow> bool" where
  "nonneg_param x \<longleftrightarrow> wf32 x \<and> f32_isfinite x \<and> f32_ge x f32_zero"

definition rate_params_ok :: "rate_control \<Rightarrow> bool" where
  "rate_params_ok s \<longleftrightarrow>
     nonneg_param (rc_k_beta s) \<and> nonneg_param (rc_integral_scale s) \<and> nonneg_param (rc_tau_s_scale s)
   \<and> nonneg_param (rc_tau_s_limit_nm s) \<and> nonneg_param (rc_tau_s_filter_tau s)
   \<and> wf32 (rc_max_torque s) \<and> f32_isfinite (rc_max_torque s)
   \<and> f32_gt (rc_max_torque s) (f32_lit (1 / 1000))
   \<and> v3_all f32_isfinite (rc_tau_s_axis_scale s) \<and> v3_all f32_isfinite (rc_tau_s_obs_axis_scale s)
   \<and> v3_all f32_isfinite (rc_tau_s_ctrl_axis_scale s)"

lemma finite_or_all: "v3_all f32_isfinite old \<Longrightarrow> v3_all f32_isfinite (finite_or old new)"
  by (simp add: finite_or_def v3_all_def)

lemma rate_params_ok_cong:
  assumes "rc_k_beta s' = rc_k_beta s" "rc_integral_scale s' = rc_integral_scale s"
    "rc_tau_s_scale s' = rc_tau_s_scale s" "rc_tau_s_limit_nm s' = rc_tau_s_limit_nm s"
    "rc_tau_s_filter_tau s' = rc_tau_s_filter_tau s" "rc_max_torque s' = rc_max_torque s"
    "rc_tau_s_axis_scale s' = rc_tau_s_axis_scale s"
    "rc_tau_s_obs_axis_scale s' = rc_tau_s_obs_axis_scale s"
    "rc_tau_s_ctrl_axis_scale s' = rc_tau_s_ctrl_axis_scale s"
  shows "rate_params_ok s' = rate_params_ok s"
  by (simp add: rate_params_ok_def assms)

lemmas setter_defs = setGains_def setIntegratorLimit_def setFeedForwardGain_def
  setSaturationStatus_def setAttitudeAux_def setInertiaDiagonal_def setInertiaMatrix_def
  setESOBandwidth_def setKBeta_def setMaxTorque_def setIntegralScale_def setTauSScale_def
  setTauSAxisScale_def setTauSObserverAxisScale_def setTauSControlAxisScale_def setTauSLimitNm_def
  setTauSFilterTimeConstant_def resetIntegral_def resetESO_def

lemma tau_s_filter_frame [simp]:
  "rc_k_beta (snd (tau_s_filter t dt l s)) = rc_k_beta s"
  "rc_integral_scale (snd (tau_s_filter t dt l s)) = rc_integral_scale s"
  "rc_tau_s_scale (snd (tau_s_filter t dt l s)) = rc_tau_s_scale s"
  "rc_tau_s_limit_nm (snd (tau_s_filter t dt l s)) = rc_tau_s_limit_nm s"
  "rc_tau_s_filter_tau (snd (tau_s_filter t dt l s)) = rc_tau_s_filter_tau s"
  "rc_max_torque (snd (tau_s_filter t dt l s)) = rc_max_torque s"
  "rc_tau_s_axis_scale (snd (tau_s_filter t dt l s)) = rc_tau_s_axis_scale s"
  "rc_tau_s_obs_axis_scale (snd (tau_s_filter t dt l s)) = rc_tau_s_obs_axis_scale s"
  "rc_tau_s_ctrl_axis_scale (snd (tau_s_filter t dt l s)) = rc_tau_s_ctrl_axis_scale s"
  "rc_gain_p (snd (tau_s_filter t dt l s)) = rc_gain_p s"
  "rc_gain_i (snd (tau_s_filter t dt l s)) = rc_gain_i s"
  "rc_lim_int (snd (tau_s_filter t dt l s)) = rc_lim_int s"
  "rc_inertia (snd (tau_s_filter t dt l s)) = rc_inertia s"
  "rc_inertia_inv (snd (tau_s_filter t dt l s)) = rc_inertia_inv s"
  "rc_sat_positive (snd (tau_s_filter t dt l s)) = rc_sat_positive s"
  "rc_sat_negative (snd (tau_s_filter t dt l s)) = rc_sat_negative s"
  "rc_rate_int (snd (tau_s_filter t dt l s)) = rc_rate_int s"
  "rc_eso (snd (tau_s_filter t dt l s)) = rc_eso s"
  "rc_last_torque (snd (tau_s_filter t dt l s)) = rc_last_torque s"
  "rc_omega_r_dot (snd (tau_s_filter t dt l s)) = rc_omega_r_dot s"
  "rc_beta_v (snd (tau_s_filter t dt l s)) = rc_beta_v s"
  "rc_tau_s (snd (tau_s_filter t dt l s)) = rc_tau_s s"
  by (simp_all add: tau_s_filter_def Let_def)

lemma updateIntegral_frame [simp]:
  "rc_k_beta (updateIntegral e dt s) = rc_k_beta s"
  "rc_integral_scale (updateIntegral e dt s) = rc_integral_scale s"
  "rc_tau_s_scale (updateIntegral e dt s) = rc_tau_s_scale s"
  "rc_tau_s_limit_nm (updateIntegral e dt s) = rc_tau_s_limit_nm s"
  "rc_tau_s_filter_tau (updateIntegral e dt s) = rc_tau_s_filter_tau s"
  "rc_max_torque (updateIntegral e dt s) = rc_max_torque s"
  "rc_tau_s_axis_scale (updateIntegral e dt s) = rc_tau_s_axis_scale s"
  "rc_tau_s_obs_axis_scale (updateIntegral e dt s) = rc_tau_s_obs_axis_scale s"
  "rc_tau_s_ctrl_axis_scale (updateIntegral e dt s) = rc_tau_s_ctrl_axis_scale s"
  "rc_gain_p (updateIntegral e dt s) = rc_gain_p s"
  "rc_gain_i (updateIntegral e dt s) = rc_gain_i s"
  "rc_lim_int (updateIntegral e dt s) = rc_lim_int s"
  "rc_inertia (updateIntegral e dt s) = rc_inertia s"
  "rc_inertia_inv (updateIntegral e dt s) = rc_inertia_inv s"
  "rc_sat_positive (updateIntegral e dt s) = rc_sat_positive s"
  "rc_sat_negative (updateIntegral e dt s) = rc_sat_negative s"
  "rc_eso (updateIntegral e dt s) = rc_eso s"
  "rc_last_torque (updateIntegral e dt s) = rc_last_torque s"
  "rc_omega_r_dot (updateIntegral e dt s) = rc_omega_r_dot s"
  "rc_beta_v (updateIntegral e dt s) = rc_beta_v s"
  "rc_tau_s (updateIntegral e dt s) = rc_tau_s s"
  by (simp_all add: updateIntegral_def Let_def)

lemma landed_reset_frame [simp]:
  "rc_k_beta (landed_reset s) = rc_k_beta s"
  "rc_integral_scale (landed_reset s) = rc_integral_scale s"
  "rc_tau_s_scale (landed_reset s) = rc_tau_s_scale s"
  "rc_tau_s_limit_nm (landed_reset s) = rc_tau_s_limit_nm s"
  "rc_tau_s_filter_tau (landed_reset s) = rc_tau_s_filter_tau s"
  "rc_max_torque (landed_reset s) = rc_max_torque s"
  "rc_tau_s_axis_scale (landed_reset s) = rc_tau_s_axis_scale s"
  "rc_tau_s_obs_axis_scale (landed_reset s) = rc_tau_s_obs_axis_scale s"
  "rc_tau_s_ctrl_axis_scale (landed_reset s) = rc_tau_s_ctrl_axis_scale s"
  "rc_gain_p (landed_reset s) = rc_gain_p s"
  "rc_gain_i (landed_reset s) = rc_gain_i s"
  "rc_lim_int (landed_reset s) = rc_lim_int s"
  "rc_inertia (landed_reset s) = rc_inertia s"
  "rc_inertia_inv (landed_reset s) = rc_inertia_inv s"
  "rc_sat_positive (landed_reset s) = rc_sat_positive s"
  "rc_sat_negative (landed_reset s) = rc_sat_negative s"
  "rc_rate_int (landed_reset s) = rc_rate_int s"
  "rc_omega_r_dot (landed_reset s) = rc_omega_r_dot s"
  "rc_beta_v (landed_reset s) = rc_beta_v s"
  "rc_tau_s (landed_reset s) = rc_tau_s s"
  by (simp_all add: landed_reset_def)

lemma rate_observe_frame [simp]:
  "rc_k_beta (snd (rate_observe w c t dt l s)) = rc_k_beta s"
  "rc_integral_scale (snd (rate_observe w c t dt l s)) = rc_integral_scale s"
  "rc_tau_s_scale (snd (rate_observe w c t dt l s)) = rc_tau_s_scale s"
  "rc_tau_s_limit_nm (snd (rate_observe w c t dt l s)) = rc_tau_s_limit_nm s"
  "rc_tau_s_filter_tau (snd (rate_observe w c t dt l s)) = rc_tau_s_filter_tau s"
  "rc_max_torque (snd (rate_observe w c t dt l s)) = rc_max_torque s"
  "rc_tau_s_axis_scale (snd (rate_observe w c t dt l s)) = rc_tau_s_axis_scale s"
  "rc_tau_s_obs_axis_scale (snd (rate_observe w c t dt l s)) = rc_tau_s_obs_axis_scale s"
  "rc_tau_s_ctrl_axis_scale (snd (rate_observe w c t dt l s)) = rc_tau_s_ctrl_axis_scale s"
  "rc_gain_p (snd (rate_observe w c t dt l s)) = rc_gain_p s"
  "rc_gain_i (snd (rate_observe w c t dt l s)) = rc_gain_i s"
  "rc_lim_int (snd (rate_observe w c t dt l s)) = rc_lim_int s"
  "rc_inertia (snd (rate_observe w c t dt l s)) = rc_inertia s"
  "rc_inertia_inv (snd (rate_observe w c t dt l s)) = rc_inertia_inv s"
  "rc_sat_positive (snd (rate_observe w c t dt l s)) = rc_sat_positive s"
  "rc_sat_negative (snd (rate_observe w c t dt l s)) = rc_sat_negative s"
  "rc_rate_int (snd (rate_observe w c t dt l s)) = rc_rate_int s"
  "rc_omega_r_dot (snd (rate_observe w c t dt l s)) = rc_omega_r_dot s"
  "rc_beta_v (snd (rate_observe w c t dt l s)) = rc_beta_v s"
  "rc_tau_s (snd (rate_observe w c t dt l s)) = rc_tau_s s"
  by (simp_all add: rate_observe_def Let_def case_prod_beta)

lemma rate_integrate_frame [simp]:
  "rc_k_beta (rate_integrate e dt l s) = rc_k_beta s"
  "rc_integral_scale (rate_integrate e dt l s) = rc_integral_scale s"
  "rc_tau_s_scale (rate_integrate e dt l s) = rc_tau_s_scale s"
  "rc_tau_s_limit_nm (rate_integrate e dt l s) = rc_tau_s_limit_nm s"
  "rc_tau_s_filter_tau (rate_integrate e dt l s) = rc_tau_s_filter_tau s"
  "rc_max_torque (rate_integrate e dt l s) = rc_max_torque s"
  "rc_tau_s_axis_scale (rate_integrate e dt l s) = rc_tau_s_axis_scale s"
  "rc_tau_s_obs_axis_scale (rate_integrate e dt l s) = rc_tau_s_obs_axis_scale s"
  "rc_tau_s_ctrl_axis_scale (rate_integrate e dt l s) = rc_tau_s_ctrl_axis_scale s"
  "rc_gain_p (rate_integrate e dt l s) = rc_gain_p s"
  "rc_gain_i (rate_integrate e dt l s) = rc_gain_i s"
  "rc_lim_int (rate_integrate e dt l s) = rc_lim_int s"
  "rc_inertia (rate_integrate e dt l s) = rc_inertia s"
  "rc_inertia_inv (rate_integrate e dt l s) = rc_inertia_inv s"
  "rc_sat_positive (rate_integrate e dt l s) = rc_sat_positive s"
  "rc_sat_negative (rate_integrate e dt l s) = rc_sat_negative s"
  "rc_eso (rate_integrate e dt l s) = rc_eso s"
  "rc_last_torque (rate_integrate e dt l s) = rc_last_torque s"
  "rc_omega_r_dot (rate_integrate e dt l s) = rc_omega_r_dot s"
  "rc_beta_v (rate_integrate e dt l s) = rc_beta_v s"
  "rc_tau_s (rate_integrate e dt l s) = rc_tau_s s"
  by (simp_all add: rate_integrate_def)

lemma rate_torque_frame [simp]:
  "rc_k_beta (snd (rate_torque wd d c e b t s)) = rc_k_beta s"
  "rc_integral_scale (snd (rate_torque wd d c e b t s)) = rc_integral_scale s"
  "rc_tau_s_scale (snd (rate_torque wd d c e b t s)) = rc_tau_s_scale s"
  "rc_tau_s_limit_nm (snd (rate_torque wd d c e b t s)) = rc_tau_s_limit_nm s"
  "rc_tau_s_filter_tau (snd (rate_torque wd d c e b t s)) = rc_tau_s_filter_tau s"
  "rc_max_torque (snd (rate_torque wd d c e b t s)) = rc_max_torque s"
  "rc_tau_s_axis_scale (snd (rate_torque wd d c e b t s)) = rc_tau_s_axis_scale s"
  "rc_tau_s_obs_axis_scale (snd (rate_torque wd d c e b t s)) = rc_tau_s_obs_axis_scale s"
  "rc_tau_s_ctrl_axis_scale (snd (rate_torque wd d c e b t s)) = rc_tau_s_ctrl_axis_scale s"
  "rc_gain_p (snd (rate_torque wd d c e b t s)) = rc_gain_p s"
  "rc_gain_i (snd (rate_torque wd d c e b t s)) = rc_gain_i s"
  "rc_lim_int (snd (rate_torque wd d c e b t s)) = rc_lim_int s"
  "rc_inertia (snd (rate_torque wd d c e b t s)) = rc_inertia s"
  "rc_inertia_inv (snd (rate_torque wd d c e b t s)) = rc_inertia_inv s"
  "rc_sat_positive (snd (rate_torque wd d c e b t s)) = rc_sat_positive s"
  "rc_sat_negative (snd (rate_torque wd d c e b t s)) = rc_sat_negative s"
  "rc_rate_int (snd (rate_torque wd d c e b t s)) = rc_rate_int s"
  "rc_eso (snd (rate_torque wd d c e b t s)) = rc_eso s"
  "rc_omega_r_dot (snd (rate_torque wd d c e b t s)) = rc_omega_r_dot s"
  "rc_beta_v (snd (rate_torque wd d c e b t s)) = rc_beta_v s"
  "rc_tau_s (snd (rate_torque wd d c e b t s)) = rc_tau_s s"
  by (simp_all add: rate_torque_def Let_def)

lemma rate_cycle_frame [simp]:
  "rc_k_beta (snd (rate_cycle wd b t w sp dt l s)) = rc_k_beta s"
  "rc_integral_scale (snd (rate_cycle wd b t w sp dt l s)) = rc_integral_scale s"
  "rc_tau_s_scale (snd (rate_cycle wd b t w sp dt l s)) = rc_tau_s_scale s"
  "rc_tau_s_limit_nm (snd (rate_cycle wd b t w sp dt l s)) = rc_tau_s_limit_nm s"
  "rc_tau_s_filter_tau (snd (rate_cycle wd b t w sp dt l s)) = rc_tau_s_filter_tau s"
  "rc_max_torque (snd (rate_cycle wd b t w sp dt l s)) = rc_max_torque s"
  "rc_tau_s_axis_scale (snd (rate_cycle wd b t w sp dt l s)) = rc_tau_s_axis_scale s"
  "rc_tau_s_obs_axis_scale (snd (rate_cycle wd b t w sp dt l s)) = rc_tau_s_obs_axis_scale s"
  "rc_tau_s_ctrl_axis_scale (snd (rate_cycle wd b t w sp dt l s)) = rc_tau_s_ctrl_axis_scale s"
  "rc_gain_p (snd (rate_cycle wd b t w sp dt l s)) = rc_gain_p s"
  "rc_gain_i (snd (rate_cycle wd b t w sp dt l s)) = rc_gain_i s"
  "rc_lim_int (snd (rate_cycle wd b t w sp dt l s)) = rc_lim_int s"
  "rc_inertia (snd (rate_cycle wd b t w sp dt l s)) = rc_inertia s"
  "rc_inertia_inv (snd (rate_cycle wd b t w sp dt l s)) = rc_inertia_inv s"
  "rc_sat_positive (snd (rate_cycle wd b t w sp dt l s)) = rc_sat_positive s"
  "rc_sat_negative (snd (rate_cycle wd b t w sp dt l s)) = rc_sat_negative s"
  "rc_omega_r_dot (snd (rate_cycle wd b t w sp dt l s)) = rc_omega_r_dot s"
  "rc_beta_v (snd (rate_cycle wd b t w sp dt l s)) = rc_beta_v s"
  "rc_tau_s (snd (rate_cycle wd b t w sp dt l s)) = rc_tau_s s"
  by (simp_all add: rate_cycle_def Let_def case_prod_beta)

lemma rate_update_frame [simp]:
  "rc_k_beta (snd (rate_update w sp a dt l s)) = rc_k_beta s"
  "rc_integral_scale (snd (rate_update w sp a dt l s)) = rc_integral_scale s"
  "rc_tau_s_scale (snd (rate_update w sp a dt l s)) = rc_tau_s_scale s"
  "rc_tau_s_limit_nm (snd (rate_update w sp a dt l s)) = rc_tau_s_limit_nm s"
  "rc_tau_s_filter_tau (snd (rate_update w sp a dt l s)) = rc_tau_s_filter_tau s"
  "rc_max_torque (snd (rate_update w sp a dt l s)) = rc_max_torque s"
  "rc_tau_s_axis_scale (snd (rate_update w sp a dt l s)) = rc_tau_s_axis_scale s"
  "rc_tau_s_obs_axis_scale (snd (rate_update w sp a dt l s)) = rc_tau_s_obs_axis_scale s"
  "rc_tau_s_ctrl_axis_scale (snd (rate_update w sp a dt l s)) = rc_tau_s_ctrl_axis_scale s"
  "rc_gain_p (snd (rate_update w sp a dt l s)) = rc_gain_p s"
  "rc_gain_i (snd (rate_update w sp a dt l s)) = rc_gain_i s"
  "rc_lim_int (snd (rate_update w sp a dt l s)) = rc_lim_int s"
  "rc_inertia (snd (rate_update w sp a dt l s)) = rc_inertia s"
  "rc_inertia_inv (snd (rate_update w sp a dt l s)) = rc_inertia_inv s"
  "rc_sat_positive (snd (rate_update w sp a dt l s)) = rc_sat_positive s"
  "rc_sat_negative (snd (rate_update w sp a dt l s)) = rc_sat_negative s"
  "rc_omega_r_dot (snd (rate_update w sp a dt l s)) = rc_omega_r_dot s"
  "rc_beta_v (snd (rate_update w sp a dt l s)) = rc_beta_v s"
  "rc_tau_s (snd (rate_update w sp a dt l s)) = rc_tau_s s"
  by (simp_all add: rate_update_def Let_def)

lemma rate_op_step_ok:
  assumes "rate_op_wf opn" and "rate_params_ok s"
  shows "rate_params_ok (rate_op_step opn s)"
proof (cases opn)
  case (Op_update w sp a dt l)
  have "rate_params_ok (snd (rate_update w sp a dt l s)) = rate_params_ok s"
    by (rule rate_params_ok_cong) simp_all
  with assms(2) Op_update show ?thesis by simp
next
  case (Op_setInertiaMatrix m)
  have "rate_params_ok (setInertiaMatrix m s) = rate_params_ok s"
    by (rule rate_params_ok_cong) (simp_all add: setInertiaMatrix_def Let_def split: option.split)
  with assms(2) Op_setInertiaMatrix show ?thesis by simp
qed (use assms in \<open>simp_all add: rate_params_ok_def nonneg_param_def setter_defs Let_def finite_or_all\<close>)

lemma nonneg_param_lit: "0 \<le> r \<Longrightarrow> r \<le> 2 ^ 24 \<Longrightarrow> nonneg_param (f32_lit r)"
  using f32_lit_mono [of 0 r] by (simp add: nonneg_param_def f32_lit_isfinite_small)

lemma torque_lower: "f32_le (f32_lit (1 / 1000)) (FFin False (1 / 2))"
  using f32_lit_mono [of "1 / 1000" "1 / 2"] by simp

lemma rate_params_ok_init: "rate_params_ok rate_control_init"
proof -
  have m: "f32_lit (3 / 2) = FFin False (3 / 2)"
    using f32_of_real_dyadic [of 3 1 False] by (simp add: f32_lit_def)
  have "f32_lt (f32_lit (1 / 1000)) (f32_lit (3 / 2))"
    using torque_lower by (rule f32_le_lt_trans) (simp add: m)
  then show ?thesis
    by (simp add: rate_params_ok_def rate_control_init_def Let_def nonneg_param_lit v3_all_def
        f32_lit_isfinite_small nonneg_param_lit [of 0, simplified] nonneg_param_lit [of "1 / 2", simplified])
qed

text \<open>
  C30: the parameter invariant. After any sequence of calls from the initial state the gains
  \<^verbatim>\<open>_k_beta\<close>, \<^verbatim>\<open>_integral_scale\<close>, \<^verbatim>\<open>_tau_s_scale\<close>, \<^verbatim>\<open>_tau_s_limit_nm\<close> and \<^verbatim>\<open>_tau_s_filter_tau\<close> are finite and not
  negative, \<^verbatim>\<open>_max_torque\<close> is finite and above 0.001, and the axis scales are finite, whatever values
  were passed to the setters.
\<close>

theorem rate_params_invariant:
  assumes "list_all rate_op_wf ops"
  shows "rate_params_ok (rate_ops_run ops rate_control_init)"
  using assms unfolding rate_ops_run_def
proof (induction ops rule: rev_induct)
  case Nil
  then show ?case by (simp add: rate_params_ok_init)
next
  case (snoc opn ops)
  then show ?case by (simp add: rate_op_step_ok)
qed

theorem rate_params_invariant_witness:
  "let ops = [Op_setMaxTorque FNaN, Op_setKBeta (FInf True), Op_setTauSScale (FFin True 1),
              Op_setTauSAxisScale (V3 FNaN FNaN (FInf False)),
              Op_update v3_zero v3_zero v3_zero FNaN True]
   in rate_params_ok (rate_ops_run ops rate_control_init)"
  using rate_params_invariant [of "[Op_setMaxTorque FNaN, Op_setKBeta (FInf True),
      Op_setTauSScale (FFin True 1), Op_setTauSAxisScale (V3 FNaN FNaN (FInf False)),
      Op_update v3_zero v3_zero v3_zero FNaN True]"] wf32_neg [OF wf32_lit [of 1]]
  by (simp add: Let_def)

end
