(* ===== verification/Eso_Rate_Safety.thy ===== *)
theory Eso_Rate_Safety
  imports Eso_Rate_Control
begin

text \<open>
  Properties of one call and of sequences of calls of \<^verbatim>\<open>ESORateControl::update\<close>: output range, the
  torque handed to the observer, auxiliary inputs, landing, and the effect of a NaN gyro sample.
\<close>

subsection \<open>Output range\<close>

text \<open>A component of a result in a range, or NaN.\<close>

definition within_or_nan :: "float32 \<Rightarrow> float32 \<Rightarrow> float32 \<Rightarrow> bool" where
  "within_or_nan lo hi x \<longleftrightarrow> x = FNaN \<or> f32_le lo x \<and> f32_le x hi"

definition effective_max_torque :: "rate_control \<Rightarrow> float32" where
  "effective_max_torque s = math_max (rc_max_torque s) (f32_lit (1 / 1000))"

lemma rate_update_normalized:
  obtains t where "fst (rate_update w sp a dt l s) = normalize_torque (effective_max_torque s) t"
    and "rc_last_torque (snd (rate_update w sp a dt l s))
           = v3_scale (fst (rate_update w sp a dt l s)) (effective_max_torque s)"
  by (simp add: rate_update_def rate_cycle_def rate_torque_def Let_def case_prod_beta effective_max_torque_def)

lemma normalize_torque_range:
  "v3_all (within_or_nan (f32_lit (- 1)) (f32_lit 1)) (normalize_torque m t)"
proof -
  have "f32_le (f32_lit (- 1)) (f32_lit 1)" by (simp add: f32_lit_mono del: f32_lit_1 f32_lit_m1)
  then have "within_or_nan (f32_lit (- 1)) (f32_lit 1) (constrain x (f32_lit (- 1)) (f32_lit 1))" for x
    using constrain_bounds [of x] by (cases "x = FNaN") (auto simp: within_or_nan_def)
  then show ?thesis by (simp add: v3_all_def normalize_torque_def del: f32_lit_1 f32_lit_m1)
qed

lemma within_or_nan_scale:
  assumes "within_or_nan (f32_lit (- 1)) (f32_lit 1) t" and "nonneg_param b"
  shows "within_or_nan (f32_neg b) b (f32_mul t b)"
  using assms f32_mul_unit_bound [of t b] by (auto simp: within_or_nan_def nonneg_param_def)

lemma effective_max_torque_ok:
  assumes "rate_params_ok s"
  shows "effective_max_torque s = rc_max_torque s" and "nonneg_param (rc_max_torque s)"
proof -
  have "f32_lt (f32_lit (1 / 1000)) (rc_max_torque s)" using assms by (simp add: rate_params_ok_def)
  then show "effective_max_torque s = rc_max_torque s"
    by (simp add: effective_max_torque_def math_max_def)
  have "f32_le (f32_lit 0) (f32_lit (1 / 1000))" by (rule f32_lit_mono) simp
  with assms show "nonneg_param (rc_max_torque s)"
    by (auto simp: rate_params_ok_def nonneg_param_def dest: f32_lt_imp_le intro: f32_le_trans)
qed

text \<open>
  C22: the output of the rate controller. Every component of the normalized torque is NaN or lies in
  [-1, 1], for every state and every input; in a state with valid parameters the torque handed to
  the observer is NaN or within plus and minus \<^verbatim>\<open>_max_torque\<close>, so the observer is never fed a torque
  that the vehicle cannot produce.
\<close>

theorem rate_update_output_range:
  "v3_all (within_or_nan (f32_lit (- 1)) (f32_lit 1)) (fst (rate_update rate rate_sp acc dt landed s))
   \<and> (rate_params_ok s \<longrightarrow>
        v3_all (within_or_nan (f32_neg (rc_max_torque s)) (rc_max_torque s))
          (rc_last_torque (snd (rate_update rate rate_sp acc dt landed s))))"
proof -
  obtain t where t: "fst (rate_update rate rate_sp acc dt landed s)
      = normalize_torque (effective_max_torque s) t"
    "rc_last_torque (snd (rate_update rate rate_sp acc dt landed s))
       = v3_scale (fst (rate_update rate rate_sp acc dt landed s)) (effective_max_torque s)"
    by (rule rate_update_normalized)
  let ?r = "within_or_nan (f32_lit (- 1)) (f32_lit 1)"
  have r: "v3_all ?r (fst (rate_update rate rate_sp acc dt landed s))"
    unfolding t(1) by (rule normalize_torque_range)
  then show ?thesis
    unfolding t(2) using effective_max_torque_ok [of s]
    by (auto simp: v3_all_def v3_scale_def intro: within_or_nan_scale)
qed

theorem rate_update_output_range_witness:
  "v3_all (within_or_nan (f32_neg (rc_max_torque rate_control_init)) (rc_max_torque rate_control_init))
     (rc_last_torque (snd (rate_update v3_zero v3_zero v3_zero (f32_lit 1) False rate_control_init)))"
  using rate_update_output_range [of v3_zero v3_zero v3_zero "f32_lit 1" False rate_control_init]
    rate_params_ok_init by blast

subsection \<open>Auxiliary inputs\<close>

lemma finite_or_zero_idem [simp]: "finite_or_zero (finite_or_zero v) = finite_or_zero v"
  by (cases v) (simp add: finite_or_zero_def)

lemma setAttitudeAux_sel [simp]:
  "rc_omega_r_dot (setAttitudeAux w b t s) = w" "rc_beta_v (setAttitudeAux w b t s) = b"
  "rc_tau_s (setAttitudeAux w b t s) = t"
  by (simp_all add: setAttitudeAux_def)

text \<open>No stage reads or writes the cached inputs.\<close>

lemma stage_aux:
  "tau_s_filter x dt l (setAttitudeAux w b t s) =
     (fst (tau_s_filter x dt l s), setAttitudeAux w b t (snd (tau_s_filter x dt l s)))"
  "rate_observe om c ob dt l (setAttitudeAux w b t s) =
     (fst (rate_observe om c ob dt l s), setAttitudeAux w b t (snd (rate_observe om c ob dt l s)))"
  "rate_integrate e dt l (setAttitudeAux w b t s) = setAttitudeAux w b t (rate_integrate e dt l s)"
  "rate_torque wd d c e bv ct (setAttitudeAux w b t s) =
     (fst (rate_torque wd d c e bv ct s), setAttitudeAux w b t (snd (rate_torque wd d c e bv ct s)))"
  by (simp_all add: tau_s_filter_def tau_s_limited_def rate_observe_def landed_reset_def
      rate_integrate_def updateIntegral_def rate_torque_def setAttitudeAux_def Let_def case_prod_beta)

lemma setAttitudeAux_frame [simp]:
  "rc_tau_s_obs_axis_scale (setAttitudeAux w b t s) = rc_tau_s_obs_axis_scale s"
  "rc_tau_s_ctrl_axis_scale (setAttitudeAux w b t s) = rc_tau_s_ctrl_axis_scale s"
  "rc_inertia (setAttitudeAux w b t s) = rc_inertia s"
  by (simp_all add: setAttitudeAux_def)

lemma setAttitudeAux_commute:
  "(setAttitudeAux w b t s)\<lparr>rc_last_tau_s_raw := x, rc_last_tau_s_used := y, rc_last_omega_r_dot := z\<rparr> =
     setAttitudeAux w b t (s\<lparr>rc_last_tau_s_raw := x, rc_last_tau_s_used := y, rc_last_omega_r_dot := z\<rparr>)"
  "(setAttitudeAux w b t s)\<lparr>rc_last_rate := x, rc_last_rate_sp := y\<rparr> =
     setAttitudeAux w b t (s\<lparr>rc_last_rate := x, rc_last_rate_sp := y\<rparr>)"
  "setAttitudeAux w b t (setAttitudeAux w' b' t' s) = setAttitudeAux w b t s"
  by (simp_all add: setAttitudeAux_def)

lemma rate_cycle_aux:
  "rate_cycle wd bv ts om omr dt l (setAttitudeAux w b t s) =
     (fst (rate_cycle wd bv ts om omr dt l s), setAttitudeAux w b t (snd (rate_cycle wd bv ts om omr dt l s)))"
  by (simp add: rate_cycle_def Let_def case_prod_beta stage_aux setAttitudeAux_commute)

text \<open>
  C38: non-finite auxiliary inputs count as zero. A cycle with any auxiliary inputs has the same
  output and leaves the same state, up to the cached copies of the inputs themselves, as a cycle in
  which every component that is NaN or infinite was replaced by zero and every finite one was kept.
\<close>

theorem rate_update_aux_sanitized:
  "rate_update rate rate_sp acc dt landed (setAttitudeAux w b t s) =
     (let zeroed = map_vec3 (\<lambda>x. case x of FFin _ _ \<Rightarrow> x | _ \<Rightarrow> FFin False 0);
          (torque, s') = rate_update rate rate_sp acc dt landed
            (setAttitudeAux (zeroed w) (zeroed b) (zeroed t) s)
      in (torque, setAttitudeAux w b t s'))"
proof -
  have "map_vec3 (\<lambda>x. case x of FFin _ _ \<Rightarrow> x | _ \<Rightarrow> FFin False 0) v = finite_or_zero v" for v
    by (cases v) (simp add: finite_or_zero_def split: float32.split)
  then show ?thesis
    by (simp add: rate_update_def Let_def case_prod_beta setAttitudeAux_commute rate_cycle_aux)
qed

subsection \<open>The switch of the compensation torque\<close>

definition tau_s_disabled :: "rate_control \<Rightarrow> bool" where
  "tau_s_disabled s \<longleftrightarrow>
     f32_le (constrain (rc_tau_s_scale s) f32_zero (f32_lit 1)) FLT_EPSILON
     \<or> f32_le (math_max (rc_tau_s_limit_nm s) f32_zero) FLT_EPSILON"

lemma tau_s_filter_disabled:
  assumes "tau_s_disabled s"
  shows "tau_s_filter t dt l s = (v3_zero, s\<lparr>rc_tau_s_filtered := v3_zero, rc_tau_s_filter_valid := False\<rparr>)"
  using assms by (auto simp: tau_s_filter_def tau_s_disabled_def Let_def)

lemma stage_raw:
  "rate_integrate e dt l (s\<lparr>rc_last_tau_s_raw := x\<rparr>) = (rate_integrate e dt l s)\<lparr>rc_last_tau_s_raw := x\<rparr>"
  "rate_torque wd d c e b t (s\<lparr>rc_last_tau_s_raw := x\<rparr>) =
     (fst (rate_torque wd d c e b t s), (snd (rate_torque wd d c e b t s))\<lparr>rc_last_tau_s_raw := x\<rparr>)"
  by (simp_all add: rate_integrate_def updateIntegral_def rate_torque_def Let_def)

lemma rate_cycle_disabled:
  assumes "tau_s_disabled s"
  shows "rate_cycle wd b t om omr dt l s =
    (fst (rate_cycle wd b t' om omr dt l s),
     (snd (rate_cycle wd b t' om omr dt l s))\<lparr>rc_last_tau_s_raw := t\<rparr>)"
proof -
  have raw: "s\<lparr>rc_last_tau_s_raw := x, rc_last_tau_s_used := y, rc_last_omega_r_dot := z\<rparr>
      = s\<lparr>rc_last_tau_s_used := y, rc_last_omega_r_dot := z\<rparr>\<lparr>rc_last_tau_s_raw := x\<rparr>"
    for s :: rate_control and x y z by simp
  show ?thesis
    by (simp add: rate_cycle_def Let_def case_prod_beta tau_s_filter_disabled [OF assms] raw stage_raw
        del: rate_control.update_convs)
qed

text \<open>
  With \<^verbatim>\<open>ESO_TAUS_K\<close> or \<^verbatim>\<open>ESO_TAUS_LIM\<close> at zero the compensation torque received from the attitude
  loop has no influence: the torque and the next state are those of a cycle with any other value,
  the two logged copies of the input apart.
\<close>

theorem rate_update_tau_s_gated:
  assumes "tau_s_disabled s"
  shows "rate_update rate rate_sp acc dt landed (setAttitudeAux w b t s) =
     (let (torque, s') = rate_update rate rate_sp acc dt landed (setAttitudeAux w b t' s)
      in (torque, s'\<lparr>rc_tau_s := t, rc_last_tau_s_raw := finite_or_zero t\<rparr>))"
proof -
  have d: "tau_s_disabled (s\<lparr>rc_last_rate := x, rc_last_rate_sp := y\<rparr>)" for x y
    using assms by (simp add: tau_s_disabled_def)
  have aux: "(setAttitudeAux w b t' r)\<lparr>rc_tau_s := t, rc_last_tau_s_raw := x\<rparr>
      = setAttitudeAux w b t (r\<lparr>rc_last_tau_s_raw := x\<rparr>)" for r x
    by (simp add: setAttitudeAux_def)
  show ?thesis
    by (simp add: rate_update_def Let_def setAttitudeAux_commute rate_cycle_aux aux
        rate_cycle_disabled [OF d, of _ _ "finite_or_zero t" _ _ _ _ _ _ "finite_or_zero t'"])
qed

subsection \<open>Landing\<close>

lemma tau_s_filter_landed:
  "tau_s_filter t dt True s = (v3_zero, s\<lparr>rc_tau_s_filtered := v3_zero, rc_tau_s_filter_valid := False\<rparr>)"
  by (simp add: tau_s_filter_def Let_def)

text \<open>
  A cycle on the ground forgets the history of the observer: its result is the one from a state
  with a reset observer, no previous torque and an empty compensation filter. The rate integrator
  is neither advanced nor cleared.
\<close>

theorem rate_update_landed:
  "rate_update rate rate_sp acc dt True s = rate_update rate rate_sp acc dt True (landed_reset s)
   \<and> rc_rate_int (snd (rate_update rate rate_sp acc dt True s)) = rc_rate_int s
   \<and> rc_tau_s_filter_valid (snd (rate_update rate rate_sp acc dt True s)) = False"
  by (simp add: rate_update_def rate_cycle_def Let_def tau_s_filter_landed landed_reset_def
      rate_observe_def ae_reset_def case_prod_beta rate_integrate_def rate_torque_def)

subsection \<open>NaN samples\<close>

abbreviation v3_nan :: vector3f where
  "v3_nan \<equiv> V3 FNaN FNaN FNaN"

definition has_nan :: "vector3f \<Rightarrow> bool" where
  "has_nan v \<longleftrightarrow> v0 v = FNaN \<or> v1 v = FNaN \<or> v2 v = FNaN"

lemma v3_nan_ops [simp]:
  "v3_add v3_nan y = v3_nan" "v3_add x v3_nan = v3_nan" "v3_sub v3_nan y = v3_nan"
  "v3_sub x v3_nan = v3_nan" "v3_scale v3_nan k = v3_nan" "v3_emult x v3_nan = v3_nan"
  "v3_emult v3_nan y = v3_nan" "v3_cross x v3_nan = v3_nan" "m3_mulv m v3_nan = v3_nan"
  "normalize_torque k v3_nan = v3_nan"
  by (cases x; cases y; simp add: v3_ops normalize_torque_def m3_mulv_nan)+

lemma ae_update_nan:
  "ae_z1_est_omega e = v3_nan \<Longrightarrow> ae_update y u dt e = (v3_nan, e\<lparr>ae_z1_est_omega := v3_nan, ae_z2_est_dist := v3_nan\<rparr>)"
  "ae_z1_est_omega (snd (ae_update y v3_nan dt e)) = v3_nan"
  by (simp_all add: ae_update_def Let_def)

lemma rate_torque_nan:
  "fst (rate_torque wd v3_nan c e b t s) = v3_nan" "fst (rate_torque wd d v3_nan e b t s) = v3_nan"
  by (simp_all add: rate_torque_def Let_def)

lemma rate_update_nan_sample:
  assumes "has_nan rate"
  shows "fst (rate_update rate sp a dt l s) = v3_nan"
    and "ae_z1_est_omega (rc_eso (snd (rate_update rate sp a dt l s))) = v3_nan"
proof -
  have "m3_mulv m rate = v3_nan" for m using assms by (simp add: m3_mulv_nan has_nan_def)
  then show "fst (rate_update rate sp a dt l s) = v3_nan"
    "ae_z1_est_omega (rc_eso (snd (rate_update rate sp a dt l s))) = v3_nan"
    by (simp_all add: rate_update_def rate_cycle_def Let_def case_prod_beta rate_torque_nan
        rate_observe_def ae_update_nan)
qed

lemma rate_update_nan_observer:
  assumes "ae_z1_est_omega (rc_eso s) = v3_nan"
  shows "fst (rate_update rate sp a dt False s) = v3_nan"
    and "ae_z1_est_omega (rc_eso (snd (rate_update rate sp a dt False s))) = v3_nan"
  using assms by (simp_all add: rate_update_def rate_cycle_def Let_def case_prod_beta rate_torque_nan
      rate_observe_def ae_update_nan)

text \<open>The calls that do not reset or rebuild the observer.\<close>

fun keeps_observer :: "rate_op \<Rightarrow> bool" where
  "keeps_observer (Op_setESOBandwidth _) = False"
| "keeps_observer Op_resetESO = False"
| "keeps_observer (Op_update _ _ _ _ landed) = (\<not> landed)"
| "keeps_observer _ = True"

lemma keeps_observer_nan:
  assumes "keeps_observer opn" and "ae_z1_est_omega (rc_eso s) = v3_nan"
  shows "ae_z1_est_omega (rc_eso (rate_op_step opn s)) = v3_nan"
proof (cases opn)
  case (Op_update w sp a dt l)
  with assms show ?thesis by (simp add: rate_update_nan_observer)
qed (use assms in \<open>simp_all add: setter_defs Let_def split: option.split\<close>)

text \<open>
  One NaN on one axis of the gyro makes all three torque components NaN, and they stay NaN in
  every later flying cycle, whatever is measured then, until the observer is reset by landing, by
  disarming (\<^verbatim>\<open>resetESO\<close>) or by a parameter update (\<^verbatim>\<open>setESOBandwidth\<close>).
\<close>

theorem rate_nan_sample_sticks:
  assumes "has_nan rate" and "list_all keeps_observer ops"
  shows "fst (rate_update rate' sp' acc' dt' False
           (rate_ops_run (Op_update rate sp acc dt landed # ops) s)) = v3_nan"
proof -
  have "ae_z1_est_omega (rc_eso (rate_ops_run ops s')) = v3_nan"
    if "ae_z1_est_omega (rc_eso s') = v3_nan" for s'
    using assms(2) that unfolding rate_ops_run_def
    by (induction ops arbitrary: s') (simp_all add: keeps_observer_nan)
  from this [OF rate_update_nan_sample(2) [OF assms(1)]] show ?thesis
    by (intro rate_update_nan_observer(1)) (simp add: rate_ops_run_def)
qed

theorem rate_nan_sample_sticks_witness:
  "let bad = V3 f32_zero FNaN f32_zero;
       ops = [Op_update v3_zero v3_zero v3_zero (f32_lit 1) False, Op_resetIntegral]
   in fst (rate_update v3_zero v3_zero v3_zero (f32_lit 1) False
        (rate_ops_run (Op_update bad v3_zero v3_zero (f32_lit 1) False # ops) rate_control_init)) = v3_nan"
  using rate_nan_sample_sticks [of "V3 f32_zero FNaN f32_zero"
      "[Op_update v3_zero v3_zero v3_zero (f32_lit 1) False, Op_resetIntegral]"]
  by (simp add: has_nan_def Let_def)

theorem rate_update_tau_s_gated_witness:
  "fst (rate_update v3_zero v3_zero v3_zero (f32_lit 1) False
      (setAttitudeAux v3_zero v3_zero v3_nan rate_control_init)) =
   fst (rate_update v3_zero v3_zero v3_zero (f32_lit 1) False
      (setAttitudeAux v3_zero v3_zero (V3 (f32_lit 1) (f32_lit 1) (f32_lit 1)) rate_control_init))"
proof -
  have "f32_le f32_zero FLT_EPSILON"
    using f32_lit_mono [of 0 "1 / 2 ^ 23"] by (simp add: FLT_EPSILON_def)
  then have "tau_s_disabled rate_control_init"
    by (simp add: tau_s_disabled_def rate_control_init_def Let_def constrain_def)
  from rate_update_tau_s_gated [OF this, of v3_zero v3_zero v3_zero "f32_lit 1" False v3_zero v3_zero
      v3_nan "V3 (f32_lit 1) (f32_lit 1) (f32_lit 1)"]
  show ?thesis by (simp add: case_prod_beta)
qed

end
