(* ===== verification/Arm_Joint_Bridge.thy ===== *)
theory Arm_Joint_Bridge
  imports Binary32
begin

text \<open>
  \<^verbatim>\<open>ArmJointBridge\<close> (\<^verbatim>\<open>src/modules/arm_joint_bridge\<close>): collects the joint angles, joint rates and the
  validity flag of the manipulator from named debug values and publishes them as one
  \<^verbatim>\<open>arm_joint_states\<close> message. Shown: which key writes which field and that every other key writes
  nothing, that a message is marked valid exactly if all nine fields are fresh and the flag is
  set, that the published values are the last ones received, and the pacing of publications.
\<close>

subsection \<open>Messages and state\<close>

text \<open>The key is the C string in a 10 byte array: a list of bytes, read up to the first zero.\<close>

record debug_key_value_s =
  dkv_timestamp :: hrt_abstime
  dkv_key :: "u8 list"
  dkv_value :: float32

record arm_joint_states_s =
  ajs_timestamp :: hrt_abstime
  ajs_q :: "float32 list"
  ajs_dq :: "float32 list"
  ajs_valid :: bool

record bridge =
  br_q :: "float32 list"
  br_dq :: "float32 list"
  br_q_timestamp :: "hrt_abstime list"
  br_dq_timestamp :: "hrt_abstime list"
  br_valid_value :: float32
  br_valid_timestamp :: hrt_abstime
  br_last_publish :: hrt_abstime

definition bridge_init :: bridge where
  "bridge_init =
     \<lparr>br_q = replicate 4 f32_zero, br_dq = replicate 4 f32_zero,
      br_q_timestamp = replicate 4 0, br_dq_timestamp = replicate 4 0,
      br_valid_value = f32_zero, br_valid_timestamp = 0, br_last_publish = 0\<rparr>"

definition PUBLISH_INTERVAL :: hrt_abstime where
  "PUBLISH_INTERVAL = 20000"

definition FIELD_TIMEOUT :: hrt_abstime where
  "FIELD_TIMEOUT = 200000"

subsection \<open>Operations\<close>

text \<open>
  The byte of a C string at index \<open>i\<close>: reading stops at the terminator, and the array of the
  message is ten bytes long, so an index past the end of the list reads as the terminator.
\<close>

definition c_string :: "u8 list \<Rightarrow> u8 list" where
  "c_string key = takeWhile (\<lambda>c. c \<noteq> 0) key"

definition key_byte :: "u8 list \<Rightarrow> nat \<Rightarrow> u8" where
  "key_byte key i = (if i < length (c_string key) then c_string key ! i else 0)"

definition bytes :: "string \<Rightarrow> u8 list" where
  "bytes s = map (\<lambda>c. of_nat (of_char c)) s"

definition fieldFresh :: "hrt_abstime \<Rightarrow> hrt_abstime \<Rightarrow> bool" where
  "fieldFresh timestamp now \<longleftrightarrow> timestamp \<noteq> 0 \<and> now - timestamp \<le> FIELD_TIMEOUT"

definition joint_key :: "string \<Rightarrow> u8 list \<Rightarrow> bool" where
  "joint_key prefix key \<longleftrightarrow> take 3 (c_string key) = bytes prefix
     \<and> 48 \<le> key_byte key 3 \<and> key_byte key 3 \<le> 51 \<and> key_byte key 4 = 0"

definition processDebugMessage :: "debug_key_value_s \<Rightarrow> bridge \<Rightarrow> bridge" where
  "processDebugMessage msg s =
     (let key = dkv_key msg; index = unat (key_byte key 3 - 48) in
      if joint_key ''AJQ'' key then
        s\<lparr>br_q := (br_q s)[index := dkv_value msg],
          br_q_timestamp := (br_q_timestamp s)[index := dkv_timestamp msg]\<rparr>
      else if joint_key ''AJD'' key then
        s\<lparr>br_dq := (br_dq s)[index := dkv_value msg],
          br_dq_timestamp := (br_dq_timestamp s)[index := dkv_timestamp msg]\<rparr>
      else if c_string key = bytes ''AJVAL'' then
        s\<lparr>br_valid_value := dkv_value msg, br_valid_timestamp := dkv_timestamp msg\<rparr>
      else s)"

definition publishJointStates :: "hrt_abstime \<Rightarrow> bridge \<Rightarrow> arm_joint_states_s \<times> bridge" where
  "publishJointStates now s =
     (let fresh = fieldFresh (br_valid_timestamp s) now \<and> f32_gt (br_valid_value s) (f32_lit (1 / 2));
          fresh = foldl (\<lambda>fr i. (fr \<and> fieldFresh (br_q_timestamp s ! i) now)
                              \<and> fieldFresh (br_dq_timestamp s ! i) now) fresh [0..<4];
          msg = \<lparr>ajs_timestamp = now, ajs_q = map (\<lambda>i. br_q s ! i) [0..<4],
                 ajs_dq = map (\<lambda>i. br_dq s ! i) [0..<4], ajs_valid = fresh\<rparr>
      in (msg, s\<lparr>br_last_publish := now\<rparr>))"

text \<open>
  One run of the work item: at most one queued debug message is taken (\<open>None\<close> when the
  subscription has no update); \<open>now\<close> is the time read before the interval test and \<open>now'\<close> the one
  read inside \<^verbatim>\<open>publishJointStates\<close>.
\<close>

definition bridge_Run :: "debug_key_value_s option \<Rightarrow> hrt_abstime \<Rightarrow> hrt_abstime \<Rightarrow> bridge
    \<Rightarrow> arm_joint_states_s option \<times> bridge" where
  "bridge_Run update now now' s =
     (let s = (case update of None \<Rightarrow> s | Some m \<Rightarrow> processDebugMessage m s)
      in if br_last_publish s = 0 \<or> PUBLISH_INTERVAL \<le> now - br_last_publish s
         then (case publishJointStates now' s of (msg, s) \<Rightarrow> (Some msg, s))
         else (None, s))"

definition bridge_inv :: "bridge \<Rightarrow> bool" where
  "bridge_inv s \<longleftrightarrow> length (br_q s) = 4 \<and> length (br_dq s) = 4
     \<and> length (br_q_timestamp s) = 4 \<and> length (br_dq_timestamp s) = 4"

subsection \<open>Keys\<close>

definition joint_name :: "string \<Rightarrow> nat \<Rightarrow> u8 list" where
  "joint_name prefix i = bytes prefix @ [48 + of_nat i]"

lemma length_bytes [simp]: "length (bytes s) = length s"
  by (simp add: bytes_def)

lemma c_string_nonzero: "i < length (c_string key) \<Longrightarrow> c_string key ! i \<noteq> 0"
  unfolding c_string_def by (drule nth_mem, drule set_takeWhileD) simp

lemma digit_index:
  assumes "48 \<le> (c :: u8)" and "c \<le> 51"
  shows "c = 48 + of_nat (unat (c - 48))" and "unat (c - 48) < 4"
proof -
  show "c = 48 + of_nat (unat (c - 48))" by simp
  have "unat c \<le> 51" and "48 \<le> unat c" using assms by (simp_all add: word_le_nat_alt)
  then show "unat (c - 48) < 4" using assms(1) by (simp add: unat_sub)
qed

lemma joint_name_digit:
  assumes "i < 4"
  shows "unat (48 + of_nat i - 48 :: u8) = i" and "(48 :: u8) \<le> 48 + of_nat i"
    and "48 + of_nat i \<le> (51 :: u8)"
proof -
  have "unat (48 + of_nat i :: u8) = 48 + i" using assms by (simp add: unat_word_ariths unat_of_nat)
  then show "(48 :: u8) \<le> 48 + of_nat i" and "48 + of_nat i \<le> (51 :: u8)"
    using assms by (simp_all only: word_le_nat_alt) simp_all
  show "unat (48 + of_nat i - 48 :: u8) = i" using assms by (simp add: unat_of_nat)
qed

lemma joint_keyD:
  assumes "joint_key prefix key" and "length prefix = 3"
  shows "c_string key = joint_name prefix (unat (key_byte key 3 - 48))"
    and "unat (key_byte key 3 - 48) < 4"
proof -
  let ?s = "c_string key"
  have d: "48 \<le> key_byte key 3" "key_byte key 3 \<le> 51" and 4: "key_byte key 4 = 0"
    and pre: "take 3 ?s = bytes prefix" using assms(1) by (auto simp: joint_key_def)
  have 3: "3 < length ?s" using d(1) by (auto simp: key_byte_def split: if_splits)
  have "\<not> 4 < length ?s" using 4 c_string_nonzero [of 4 key] by (auto simp: key_byte_def)
  with 3 have "length ?s = Suc 3" by simp
  then have "?s = take 3 ?s @ [?s ! 3]" by (metis lessI order_refl take_Suc_conv_app_nth take_all)
  with pre have "?s = bytes prefix @ [key_byte key 3]" using 3 by (simp add: key_byte_def)
  then show "c_string key = joint_name prefix (unat (key_byte key 3 - 48))"
    using digit_index(1) [OF d] by (simp add: joint_name_def)
  show "unat (key_byte key 3 - 48) < 4" by (rule digit_index(2) [OF d])
qed

lemma joint_keyI:
  assumes "c_string key = joint_name prefix i" and "length prefix = 3" and "i < 4"
  shows "joint_key prefix key" and "unat (key_byte key 3 - 48) = i"
proof -
  have k: "key_byte key 3 = 48 + of_nat i" "key_byte key 4 = 0"
    using assms(1,2) by (simp_all add: key_byte_def joint_name_def nth_append)
  show "joint_key prefix key"
    using assms joint_name_digit [OF assms(3)] by (simp add: joint_key_def k) (simp add: joint_name_def)
  show "unat (key_byte key 3 - 48) = i" unfolding k by (rule joint_name_digit(1) [OF assms(3)])
qed

lemma unat_byte: "unat (of_nat (of_char c) :: u8) = of_char c"
  by (simp add: unat_of_nat)

lemma c_string_bytes:
  assumes "list_all (\<lambda>c. of_char c \<noteq> (0::nat)) k"
  shows "c_string (bytes k) = bytes k"
proof -
  have "(of_nat (of_char c) :: u8) \<noteq> 0" if "of_char c \<noteq> (0::nat)" for c
    using that unat_byte [of c] by (metis unat_0)
  then show ?thesis using assms by (auto simp: c_string_def bytes_def takeWhile_eq_all_conv list_all_iff)
qed

lemma bytes_eq_iff: "bytes s = bytes t \<longleftrightarrow> s = t"
proof -
  have "inj (\<lambda>c. of_nat (of_char c) :: u8)"
  proof (rule injI)
    fix x y :: char
    assume "(of_nat (of_char x) :: u8) = of_nat (of_char y)"
    then have "unat (of_nat (of_char x) :: u8) = unat (of_nat (of_char y) :: u8)" by simp
    then have "(of_char x :: nat) = of_char y" by (simp add: unat_of_nat)
    then show "x = y" by simp
  qed
  then show ?thesis by (simp add: bytes_def inj_map_eq_map)
qed

lemma joint_names_distinct [simp]:
  "i < 4 \<Longrightarrow> j < 4 \<Longrightarrow> joint_name p i = joint_name p j \<longleftrightarrow> i = j"
  "length p = 3 \<Longrightarrow> length q = 3 \<Longrightarrow> p \<noteq> q \<Longrightarrow> joint_name p i \<noteq> joint_name q j"
  "length p = 3 \<Longrightarrow> joint_name p i \<noteq> bytes ''AJVAL''"
proof -
  show "i < 4 \<Longrightarrow> j < 4 \<Longrightarrow> joint_name p i = joint_name p j \<longleftrightarrow> i = j"
    unfolding joint_name_def using joint_name_digit(1) [of i] joint_name_digit(1) [of j]
    by (metis append1_eq_conv)
  show "length p = 3 \<Longrightarrow> length q = 3 \<Longrightarrow> p \<noteq> q \<Longrightarrow> joint_name p i \<noteq> joint_name q j"
    by (simp add: joint_name_def bytes_eq_iff)
  show "length p = 3 \<Longrightarrow> joint_name p i \<noteq> bytes ''AJVAL''"
    by (rule notI, drule arg_cong [where f = length]) (simp add: joint_name_def)
qed

subsection \<open>Histories\<close>

text \<open>A run of the work item: one event per call, with the update taken and the two clock readings.\<close>

type_synonym bridge_event = "debug_key_value_s option \<times> hrt_abstime \<times> hrt_abstime"

fun bridge_run :: "bridge_event list \<Rightarrow> bridge \<Rightarrow> arm_joint_states_s list \<times> bridge" where
  "bridge_run [] s = ([], s)"
| "bridge_run ((upd, now, now') # evs) s =
     (case bridge_Run upd now now' s of (out, s1) \<Rightarrow>
        case bridge_run evs s1 of (outs, s2) \<Rightarrow>
          ((case out of None \<Rightarrow> outs | Some m \<Rightarrow> m # outs), s2))"

definition received :: "bridge_event list \<Rightarrow> debug_key_value_s list" where
  "received evs = concat (map (\<lambda>(upd, _). case upd of None \<Rightarrow> [] | Some m \<Rightarrow> [m]) evs)"

definition last_with :: "u8 list \<Rightarrow> debug_key_value_s list \<Rightarrow> debug_key_value_s option" where
  "last_with name ms = foldl (\<lambda>acc m. if c_string (dkv_key m) = name then Some m else acc) None ms"

definition last_value :: "u8 list \<Rightarrow> debug_key_value_s list \<Rightarrow> float32" where
  "last_value name ms = (case last_with name ms of None \<Rightarrow> f32_zero | Some m \<Rightarrow> dkv_value m)"

definition last_time :: "u8 list \<Rightarrow> debug_key_value_s list \<Rightarrow> hrt_abstime" where
  "last_time name ms = (case last_with name ms of None \<Rightarrow> 0 | Some m \<Rightarrow> dkv_timestamp m)"

lemma last_with_snoc:
  "last_with name (ms @ [m]) = (if c_string (dkv_key m) = name then Some m else last_with name ms)"
  by (simp add: last_with_def)

lemma last_value_snoc:
  "last_value name (ms @ [m])
     = (if c_string (dkv_key m) = name then dkv_value m else last_value name ms)"
  by (simp add: last_value_def last_with_snoc)

lemma last_time_snoc:
  "last_time name (ms @ [m])
     = (if c_string (dkv_key m) = name then dkv_timestamp m else last_time name ms)"
  by (simp add: last_time_def last_with_snoc)

lemmas last_snoc = last_value_snoc last_time_snoc

text \<open>The state holds, for each of the nine fields, the last message that names it.\<close>

definition tracks :: "debug_key_value_s list \<Rightarrow> bridge \<Rightarrow> bool" where
  "tracks ms s \<longleftrightarrow>
     br_q s = map (\<lambda>i. last_value (joint_name ''AJQ'' i) ms) [0..<4]
   \<and> br_q_timestamp s = map (\<lambda>i. last_time (joint_name ''AJQ'' i) ms) [0..<4]
   \<and> br_dq s = map (\<lambda>i. last_value (joint_name ''AJD'' i) ms) [0..<4]
   \<and> br_dq_timestamp s = map (\<lambda>i. last_time (joint_name ''AJD'' i) ms) [0..<4]
   \<and> br_valid_value s = last_value (bytes ''AJVAL'') ms
   \<and> br_valid_timestamp s = last_time (bytes ''AJVAL'') ms"

lemma map_upd_upt:
  assumes "k < n" and "\<And>i. i < n \<Longrightarrow> f i = (if i = k then v else g i)"
  shows "(map g [0..<n])[k := v] = map f [0..<n]"
  by (rule nth_equalityI) (auto simp: assms nth_list_update)

lemma map_same_upt:
  assumes "\<And>i. i < n \<Longrightarrow> f i = g i"
  shows "map f [0..<n] = map g [0..<n]"
  using assms by simp

lemma processDebugMessage_cases:
  obtains (Q) i where "i < 4" "c_string (dkv_key m) = joint_name ''AJQ'' i"
      "processDebugMessage m s = s\<lparr>br_q := (br_q s)[i := dkv_value m],
          br_q_timestamp := (br_q_timestamp s)[i := dkv_timestamp m]\<rparr>"
  | (D) i where "i < 4" "c_string (dkv_key m) = joint_name ''AJD'' i"
      "processDebugMessage m s = s\<lparr>br_dq := (br_dq s)[i := dkv_value m],
          br_dq_timestamp := (br_dq_timestamp s)[i := dkv_timestamp m]\<rparr>"
  | (V) "c_string (dkv_key m) = bytes ''AJVAL''"
      "processDebugMessage m s = s\<lparr>br_valid_value := dkv_value m, br_valid_timestamp := dkv_timestamp m\<rparr>"
  | (Other) "\<And>i. i < 4 \<Longrightarrow> c_string (dkv_key m) \<noteq> joint_name ''AJQ'' i"
      "\<And>i. i < 4 \<Longrightarrow> c_string (dkv_key m) \<noteq> joint_name ''AJD'' i"
      "c_string (dkv_key m) \<noteq> bytes ''AJVAL''" "processDebugMessage m s = s"
proof (cases "joint_key ''AJQ'' (dkv_key m)")
  case True
  from joint_keyD [OF True] show thesis
    by (intro Q [of "unat (key_byte (dkv_key m) 3 - 48)"]) (simp_all add: processDebugMessage_def Let_def True)
next
  case nq: False
  show thesis
  proof (cases "joint_key ''AJD'' (dkv_key m)")
    case True
    from joint_keyD [OF True] show thesis
      by (intro D [of "unat (key_byte (dkv_key m) 3 - 48)"])
         (simp_all add: processDebugMessage_def Let_def True nq)
  next
    case nd: False
    have "c_string (dkv_key m) \<noteq> joint_name ''AJQ'' i" "c_string (dkv_key m) \<noteq> joint_name ''AJD'' i"
      if "i < 4" for i using joint_keyI(1) [OF _ _ that] nq nd by force+
    then show thesis
      by (cases "c_string (dkv_key m) = bytes ''AJVAL''")
         (rule V Other; simp add: processDebugMessage_def Let_def nq nd)+
  qed
qed

lemma tracks_init: "tracks [] bridge_init"
  by (simp add: tracks_def bridge_init_def last_value_def last_time_def last_with_def map_replicate_const)

lemma tracks_step:
  assumes "tracks ms s"
  shows "tracks (ms @ [m]) (processDebugMessage m s)"
proof (cases rule: processDebugMessage_cases [of m s])
  case (Q i)
  show ?thesis using assms Q(1) unfolding tracks_def Q(3)
    by (auto simp: last_snoc Q(2) intro!: map_upd_upt map_same_upt)
next
  case (D i)
  show ?thesis using assms D(1) unfolding tracks_def D(3)
    by (auto simp: last_snoc D(2) intro!: map_upd_upt map_same_upt)
next
  case V
  show ?thesis using assms unfolding tracks_def V(2)
    by (auto simp: last_snoc V(1) intro!: map_same_upt dest: sym)
next
  case Other
  show ?thesis using assms Other(1-3) unfolding tracks_def Other(4)
    by (auto simp: last_snoc intro!: map_same_upt)
qed

subsection \<open>Properties\<close>

lemma bridge_Run_simp:
  "bridge_Run upd now now' s =
     (let s = (case upd of None \<Rightarrow> s | Some m \<Rightarrow> processDebugMessage m s)
      in if br_last_publish s = 0 \<or> PUBLISH_INTERVAL \<le> now - br_last_publish s
         then (Some (fst (publishJointStates now' s)), s\<lparr>br_last_publish := now'\<rparr>)
         else (None, s))"
  by (simp add: bridge_Run_def publishJointStates_def Let_def)

lemma tracks_last_publish [simp]: "tracks ms (s\<lparr>br_last_publish := t\<rparr>) = tracks ms s"
  by (simp add: tracks_def)

lemma processDebugMessage_last_publish [simp]:
  "br_last_publish (processDebugMessage m s) = br_last_publish s"
  by (simp add: processDebugMessage_def Let_def)

lemma bridge_Run_None:
  "fst (bridge_Run upd now now' s) = None \<longleftrightarrow>
     \<not> (br_last_publish s = 0 \<or> PUBLISH_INTERVAL \<le> now - br_last_publish s)"
  by (cases upd) (simp_all add: bridge_Run_simp Let_def)

lemma last_publish_Run:
  "br_last_publish (snd (bridge_Run upd now now' s)) =
     (if br_last_publish s = 0 \<or> PUBLISH_INTERVAL \<le> now - br_last_publish s then now'
      else br_last_publish s)"
  by (cases upd) (simp_all add: bridge_Run_simp Let_def)

lemma last_publish_run:
  "br_last_publish (snd (bridge_run evs s)) =
     foldl (\<lambda>l (_, now, now'). if l = 0 \<or> PUBLISH_INTERVAL \<le> now - l then now' else l)
       (br_last_publish s) evs"
proof (induction evs arbitrary: s)
  case (Cons e evs)
  obtain upd now now' where "e = (upd, now, now')" by (cases e)
  with Cons.IH [of "snd (bridge_Run upd now now' s)"] show ?case
    by (simp add: case_prod_beta last_publish_Run)
qed simp

lemma tracks_Run:
  assumes "tracks ms s"
  shows "tracks (ms @ (case upd of None \<Rightarrow> [] | Some m \<Rightarrow> [m])) (snd (bridge_Run upd now now' s))"
  using assms by (cases upd) (simp_all add: bridge_Run_simp Let_def tracks_step)

lemma tracks_run:
  "tracks ms s \<Longrightarrow> tracks (ms @ received evs) (snd (bridge_run evs s))"
proof (induction evs arbitrary: ms s)
  case Nil
  then show ?case by (simp add: received_def)
next
  case (Cons e evs)
  obtain upd now now' where e: "e = (upd, now, now')" by (cases e)
  from Cons.IH [OF tracks_Run [OF Cons.prems, of upd now now']] show ?case
    by (simp add: e received_def case_prod_beta)
qed

lemma publish_tracks:
  assumes "tracks ms s"
  shows "fst (publishJointStates now s) =
    \<lparr>ajs_timestamp = now,
     ajs_q = map (\<lambda>i. last_value (joint_name ''AJQ'' i) ms) [0..<4],
     ajs_dq = map (\<lambda>i. last_value (joint_name ''AJD'' i) ms) [0..<4],
     ajs_valid = (fieldFresh (last_time (bytes ''AJVAL'') ms) now
        \<and> f32_gt (last_value (bytes ''AJVAL'') ms) (f32_lit (1 / 2))
        \<and> list_all (\<lambda>i. fieldFresh (last_time (joint_name ''AJQ'' i) ms) now
              \<and> fieldFresh (last_time (joint_name ''AJD'' i) ms) now) [0..<4])\<rparr>"
  using assms by (simp add: publishJointStates_def Let_def tracks_def upt_rec numeral_eq_Suc conj_ac)

text \<open>
  C8: after any sequence of runs from the start state, a message published by the next run carries,
  for every joint, the value of the last debug message named \<^verbatim>\<open>AJQ<i>\<close> and \<^verbatim>\<open>AJD<i>\<close> that was
  received (zero if there was none), and it is marked valid exactly if the last \<^verbatim>\<open>AJVAL\<close> message is
  greater than 0.5 and all nine last messages are at most 200 ms old at the time of publication.
\<close>

theorem bridge_publishes_last_received:
  assumes "fst (bridge_Run upd now now' (snd (bridge_run evs bridge_init))) = Some msg"
  defines "ms \<equiv> received (evs @ [(upd, now, now')])"
  shows "msg = \<lparr>ajs_timestamp = now',
     ajs_q = map (\<lambda>i. last_value (joint_name ''AJQ'' i) ms) [0..<4],
     ajs_dq = map (\<lambda>i. last_value (joint_name ''AJD'' i) ms) [0..<4],
     ajs_valid = (fieldFresh (last_time (bytes ''AJVAL'') ms) now'
        \<and> f32_gt (last_value (bytes ''AJVAL'') ms) (f32_lit (1 / 2))
        \<and> list_all (\<lambda>i. fieldFresh (last_time (joint_name ''AJQ'' i) ms) now'
              \<and> fieldFresh (last_time (joint_name ''AJD'' i) ms) now') [0..<4])\<rparr>"
proof -
  let ?prev = "snd (bridge_run evs bridge_init)"
  let ?s = "case upd of None \<Rightarrow> ?prev | Some m \<Rightarrow> processDebugMessage m ?prev"
  have "tracks (received evs) ?prev" using tracks_run [OF tracks_init, of evs] by simp
  then have "tracks ms ?s"
    unfolding ms_def by (auto simp: received_def intro: tracks_step split: option.split)
  moreover have "msg = fst (publishJointStates now' ?s)"
    using assms(1) by (simp add: bridge_Run_simp Let_def split: if_splits)
  ultimately show ?thesis by (simp only: publish_tracks)
qed

text \<open>
  The witness receives the nine fields in nine runs, 100 us apart, and publishes a valid message
  21 ms after the first run.
\<close>

theorem bridge_publishes_last_received_witness:
  "let m = (\<lambda>k v t. \<lparr>dkv_timestamp = t, dkv_key = bytes k, dkv_value = f32_lit v\<rparr>);
       evs = map (\<lambda>(k, v, t). (Some (m k v t), t, t))
         [(''AJVAL'', 1, 1000), (''AJQ0'', 1, 1100), (''AJQ1'', 2, 1200), (''AJQ2'', 3, 1300),
          (''AJQ3'', 4, 1400), (''AJD0'', 5, 1500), (''AJD1'', 6, 1600), (''AJD2'', 7, 1700)]
   in fst (bridge_Run (Some (m ''AJD3'' 8 1800)) 22000 22001 (snd (bridge_run evs bridge_init)))
      = Some \<lparr>ajs_timestamp = 22001, ajs_q = map f32_lit [1, 2, 3, 4], ajs_dq = map f32_lit [5, 6, 7, 8],
              ajs_valid = True\<rparr>"
proof -
  let ?m = "\<lambda>k v t. \<lparr>dkv_timestamp = t, dkv_key = bytes k, dkv_value = f32_lit v\<rparr>"
  let ?evs = "map (\<lambda>(k, v, t). (Some (?m k v t), t, t))
         [(''AJVAL'', 1, 1000), (''AJQ0'', 1, 1100), (''AJQ1'', 2, 1200), (''AJQ2'', 3, 1300),
          (''AJQ3'', 4, 1400), (''AJD0'', 5, 1500), (''AJD1'', 6, 1600), (''AJD2'', 7, 1700)]"
  let ?last = "?m ''AJD3'' 8 1800"
  let ?ms = "received (?evs @ [(Some ?last, 22000, 22001)])"
  have pub: "br_last_publish (snd (bridge_run ?evs bridge_init)) = 1000"
    unfolding last_publish_run by (simp add: bridge_init_def PUBLISH_INTERVAL_def)
  have "fst (bridge_Run (Some ?last) 22000 22001 (snd (bridge_run ?evs bridge_init))) \<noteq> None"
    unfolding bridge_Run_None pub by (simp add: PUBLISH_INTERVAL_def)
  then obtain msg where
    msg: "fst (bridge_Run (Some ?last) 22000 22001 (snd (bridge_run ?evs bridge_init))) = Some msg"
    unfolding not_None_eq by (rule exE)
  have lits: "joint_name ''AJQ'' 0 = bytes ''AJQ0''" "joint_name ''AJQ'' 1 = bytes ''AJQ1''"
    "joint_name ''AJQ'' 2 = bytes ''AJQ2''" "joint_name ''AJQ'' 3 = bytes ''AJQ3''"
    "joint_name ''AJD'' 0 = bytes ''AJD0''" "joint_name ''AJD'' 1 = bytes ''AJD1''"
    "joint_name ''AJD'' 2 = bytes ''AJD2''" "joint_name ''AJD'' 3 = bytes ''AJD3''"
    by (simp_all add: joint_name_def bytes_def)
  have cs: "c_string (bytes ''AJVAL'') = bytes ''AJVAL''"
    "c_string (bytes ''AJQ0'') = bytes ''AJQ0''"
    "c_string (bytes ''AJQ1'') = bytes ''AJQ1''"
    "c_string (bytes ''AJQ2'') = bytes ''AJQ2''"
    "c_string (bytes ''AJQ3'') = bytes ''AJQ3''"
    "c_string (bytes ''AJD0'') = bytes ''AJD0''"
    "c_string (bytes ''AJD1'') = bytes ''AJD1''"
    "c_string (bytes ''AJD2'') = bytes ''AJD2''"
    "c_string (bytes ''AJD3'') = bytes ''AJD3''"
    by (simp_all add: c_string_bytes)
  let ?ms9 = "[?m ''AJVAL'' 1 1000, ?m ''AJQ0'' 1 1100, ?m ''AJQ1'' 2 1200, ?m ''AJQ2'' 3 1300, 
      ?m ''AJQ3'' 4 1400, ?m ''AJD0'' 5 1500, ?m ''AJD1'' 6 1600, ?m ''AJD2'' 7 1700, 
      ?m ''AJD3'' 8 1800]"
  have ms: "?ms = ?ms9"
    by (simp add: received_def)
  have last: "last_with (bytes ''AJVAL'') ?ms9 = Some (?m ''AJVAL'' 1 1000)"
    "last_with (bytes ''AJQ0'') ?ms9 = Some (?m ''AJQ0'' 1 1100)"
    "last_with (bytes ''AJQ1'') ?ms9 = Some (?m ''AJQ1'' 2 1200)"
    "last_with (bytes ''AJQ2'') ?ms9 = Some (?m ''AJQ2'' 3 1300)"
    "last_with (bytes ''AJQ3'') ?ms9 = Some (?m ''AJQ3'' 4 1400)"
    "last_with (bytes ''AJD0'') ?ms9 = Some (?m ''AJD0'' 5 1500)"
    "last_with (bytes ''AJD1'') ?ms9 = Some (?m ''AJD1'' 6 1600)"
    "last_with (bytes ''AJD2'') ?ms9 = Some (?m ''AJD2'' 7 1700)"
    "last_with (bytes ''AJD3'') ?ms9 = Some (?m ''AJD3'' 8 1800)"
    unfolding last_with_def by (simp_all add: cs bytes_eq_iff)
  have upt: "[0..<4] = [0, 1, 2, 3]" by (simp add: upt_rec numeral_eq_Suc)
  have "msg = \<lparr>ajs_timestamp = 22001, ajs_q = map f32_lit [1, 2, 3, 4],
      ajs_dq = map f32_lit [5, 6, 7, 8], ajs_valid = True\<rparr>"
    unfolding bridge_publishes_last_received [OF msg] upt ms
    by (simp add: lits last_value_def last_time_def last fieldFresh_def FIELD_TIMEOUT_def
          del: One_nat_def f32_lit_1) simp
  with msg show ?thesis by (simp only: Let_def)
qed

text \<open>A clock that never runs backwards over a run and does not read zero.\<close>

definition event_times :: "bridge_event list \<Rightarrow> hrt_abstime list" where
  "event_times evs = concat (map (\<lambda>(_, now, now'). [now, now']) evs)"

lemma word_sub_mono_left: "(a :: hrt_abstime) \<le> b \<Longrightarrow> b \<le> c \<Longrightarrow> b - a \<le> c - a"
  by (simp add: word_le_nat_alt unat_sub)

lemma word_sub_mono_right: "(a :: hrt_abstime) \<le> b \<Longrightarrow> b \<le> c \<Longrightarrow> c - b \<le> c - a"
  by (simp add: word_le_nat_alt unat_sub)

lemma bridge_spacing_step:
  assumes "sorted (br_last_publish s # event_times evs)" and "list_all (\<lambda>t. t \<noteq> 0) (event_times evs)"
  shows "sorted_wrt (\<lambda>a b. a \<le> b \<and> PUBLISH_INTERVAL \<le> b - a)
           ((if br_last_publish s = 0 then [] else [br_last_publish s])
            @ map ajs_timestamp (fst (bridge_run evs s)))"
  using assms
proof (induction evs arbitrary: s)
  case Nil
  then show ?case by simp
next
  case (Cons e evs)
  obtain upd now now' where e: "e = (upd, now, now')" by (cases e)
  let ?L = "br_last_publish s"
  have le: "?L \<le> now" "now \<le> now'" and tl: "sorted (now' # event_times evs)" "now' \<noteq> 0"
    using Cons.prems by (auto simp: e event_times_def)
  have tl': "sorted (?L # event_times evs)" "list_all (\<lambda>t. t \<noteq> 0) (event_times evs)"
    using Cons.prems by (auto simp: e event_times_def)
  let ?s = "case upd of None \<Rightarrow> s | Some m \<Rightarrow> processDebugMessage m s"
  have L: "br_last_publish ?s = ?L" by (simp split: option.split)
  show ?case
  proof (cases "?L = 0 \<or> PUBLISH_INTERVAL \<le> now - ?L")
    case True
    have "PUBLISH_INTERVAL \<le> now' - ?L" if "?L \<noteq> 0"
      using True that word_sub_mono_left [OF le] by (auto intro: order_trans)
    moreover have "PUBLISH_INTERVAL \<le> t - ?L" if "now' \<le> t" "PUBLISH_INTERVAL \<le> t - now'" for t
      using that word_sub_mono_right [of ?L now' t] le by (auto intro: order_trans)
    moreover have "bridge_Run upd now now' s
        = (Some (fst (publishJointStates now' ?s)), ?s\<lparr>br_last_publish := now'\<rparr>)"
      using True by (simp add: bridge_Run_simp Let_def L)
    moreover note Cons.IH [of "?s\<lparr>br_last_publish := now'\<rparr>"]
    ultimately show ?thesis using tl tl'(2) le
      by (auto simp: e case_prod_beta publishJointStates_def Let_def)
  next
    case False
    then have "bridge_Run upd now now' s = (None, ?s)" by (simp add: bridge_Run_simp Let_def L)
    moreover have "sorted_wrt (\<lambda>a b. a \<le> b \<and> PUBLISH_INTERVAL \<le> b - a)
        ((if ?L = 0 then [] else [?L]) @ map ajs_timestamp (fst (bridge_run evs ?s)))"
      using Cons.IH [of ?s] tl' unfolding L by blast
    ultimately show ?thesis by (simp add: e case_prod_beta)
  qed
qed

text \<open>
  As long as the clock does not run backwards, any two messages published in a run of the work
  item are at least 20 ms apart, whatever debug messages arrive in between.
\<close>

theorem bridge_publications_spaced:
  assumes "sorted (event_times evs)" and "list_all (\<lambda>t. t \<noteq> 0) (event_times evs)"
  shows "sorted_wrt (\<lambda>a b. a \<le> b \<and> PUBLISH_INTERVAL \<le> b - a)
           (map ajs_timestamp (fst (bridge_run evs bridge_init)))"
proof -
  have "sorted (br_last_publish bridge_init # event_times evs)" using assms(1) by (simp add: bridge_init_def)
  from bridge_spacing_step [OF this assms(2)] show ?thesis by (simp add: bridge_init_def)
qed

theorem bridge_publications_spaced_witness:
  "let evs = [(None, 1000, 1001), (None, 5000, 5000), (None, 21001, 21002)]
   in map ajs_timestamp (fst (bridge_run evs bridge_init)) = [1001, 21002]
      \<and> sorted_wrt (\<lambda>a b. a \<le> b \<and> PUBLISH_INTERVAL \<le> b - a)
           (map ajs_timestamp (fst (bridge_run evs bridge_init)))"
  using bridge_publications_spaced [of "[(None, 1000, 1001), (None, 5000, 5000), (None, 21001, 21002)]"]
  by (simp add: event_times_def bridge_Run_simp publishJointStates_def bridge_init_def PUBLISH_INTERVAL_def)

end
