(* ===== verification/Commander_Types.thy ===== *)
theory Commander_Types
  imports Binary32
begin

text \<open>
  The data of the commander (\<^verbatim>\<open>src/modules/commander\<close>): the uORB messages it keeps as its state
  (\<^verbatim>\<open>vehicle_status\<close>, \<^verbatim>\<open>vehicle_status_flags\<close>, \<^verbatim>\<open>actuator_armed\<close>, \<^verbatim>\<open>commander_state\<close>, \<^verbatim>\<open>safety\<close> and
  \<^verbatim>\<open>vehicle_control_mode\<close>), the enumerations of \<^verbatim>\<open>state_machine_helper.h\<close>, and the fields that the
  modelled handlers read or write. An enumeration that is cast from an integer parameter has the
  constructor \<^verbatim>\<open>..._unlisted\<close> for the integers that name no enumerator.
\<close>

subsection \<open>Enumerations\<close>

datatype transition_result = TRANSITION_DENIED | TRANSITION_NOT_CHANGED | TRANSITION_CHANGED

datatype main_state_t =
    MAIN_STATE_MANUAL | MAIN_STATE_ALTCTL | MAIN_STATE_POSCTL | MAIN_STATE_AUTO_MISSION
  | MAIN_STATE_AUTO_LOITER | MAIN_STATE_AUTO_RTL | MAIN_STATE_ACRO | MAIN_STATE_OFFBOARD
  | MAIN_STATE_STAB | MAIN_STATE_AUTO_TAKEOFF | MAIN_STATE_AUTO_LAND
  | MAIN_STATE_AUTO_FOLLOW_TARGET | MAIN_STATE_AUTO_PRECLAND | MAIN_STATE_ORBIT
  | MAIN_STATE_AUTO_VTOL_TAKEOFF | MAIN_STATE_MAX

datatype navigation_state_t =
    NAVIGATION_STATE_MANUAL | NAVIGATION_STATE_ALTCTL | NAVIGATION_STATE_POSCTL
  | NAVIGATION_STATE_AUTO_MISSION | NAVIGATION_STATE_AUTO_LOITER | NAVIGATION_STATE_AUTO_RTL
  | NAVIGATION_STATE_AUTO_LANDENGFAIL | NAVIGATION_STATE_ACRO | NAVIGATION_STATE_DESCEND
  | NAVIGATION_STATE_TERMINATION | NAVIGATION_STATE_OFFBOARD | NAVIGATION_STATE_STAB
  | NAVIGATION_STATE_AUTO_TAKEOFF | NAVIGATION_STATE_AUTO_LAND
  | NAVIGATION_STATE_AUTO_FOLLOW_TARGET | NAVIGATION_STATE_AUTO_PRECLAND
  | NAVIGATION_STATE_ORBIT | NAVIGATION_STATE_AUTO_VTOL_TAKEOFF

datatype arming_state_t =
    ARMING_STATE_INIT | ARMING_STATE_STANDBY | ARMING_STATE_ARMED | ARMING_STATE_STANDBY_ERROR
  | ARMING_STATE_SHUTDOWN | ARMING_STATE_IN_AIR_RESTORE

datatype vehicle_type_t =
    VEHICLE_TYPE_UNKNOWN | VEHICLE_TYPE_ROTARY_WING | VEHICLE_TYPE_FIXED_WING
  | VEHICLE_TYPE_ROVER | VEHICLE_TYPE_AIRSHIP

datatype hil_state_t = HIL_STATE_OFF | HIL_STATE_ON

datatype link_loss_actions =
    LinkLoss_DISABLED | LinkLoss_AUTO_LOITER | LinkLoss_AUTO_RTL | LinkLoss_AUTO_LAND
  | LinkLoss_TERMINATE | LinkLoss_LOCKDOWN | LinkLoss_unlisted int

datatype quadchute_actions =
    Quadchute_NO_ACTION | Quadchute_AUTO_RTL | Quadchute_AUTO_LAND | Quadchute_AUTO_LOITER
  | Quadchute_unlisted int

datatype offboard_loss_actions =
    OffbLoss_DISABLED | OffbLoss_AUTO_LAND | OffbLoss_AUTO_LOITER | OffbLoss_AUTO_RTL
  | OffbLoss_TERMINATE | OffbLoss_LOCKDOWN | OffbLoss_unlisted int

datatype offboard_loss_rc_actions =
    OffbLossRc_DISABLED | OffbLossRc_MANUAL_POSITION | OffbLossRc_MANUAL_ALTITUDE
  | OffbLossRc_MANUAL_ATTITUDE | OffbLossRc_AUTO_RTL | OffbLossRc_AUTO_LAND
  | OffbLossRc_AUTO_LOITER | OffbLossRc_TERMINATE | OffbLossRc_LOCKDOWN
  | OffbLossRc_unlisted int

datatype position_nav_loss_actions =
    PosNavLoss_ALTITUDE_MANUAL | PosNavLoss_LAND_TERMINATE | PosNavLoss_unlisted int

datatype low_battery_action =
    LowBat_WARNING | LowBat_RETURN | LowBat_LAND | LowBat_RETURN_OR_LAND | LowBat_unlisted int

datatype imbalanced_propeller_action =
    ImbProp_DISABLED | ImbProp_WARNING | ImbProp_RETURN | ImbProp_LAND | ImbProp_unlisted int

definition BATTERY_WARNING_NONE :: u8 where "BATTERY_WARNING_NONE = 0"
definition BATTERY_WARNING_LOW :: u8 where "BATTERY_WARNING_LOW = 1"
definition BATTERY_WARNING_CRITICAL :: u8 where "BATTERY_WARNING_CRITICAL = 2"
definition BATTERY_WARNING_EMERGENCY :: u8 where "BATTERY_WARNING_EMERGENCY = 3"
definition BATTERY_WARNING_FAILED :: u8 where "BATTERY_WARNING_FAILED = 4"

lemmas battery_warnings =
  BATTERY_WARNING_NONE_def BATTERY_WARNING_LOW_def BATTERY_WARNING_CRITICAL_def
  BATTERY_WARNING_EMERGENCY_def BATTERY_WARNING_FAILED_def

text \<open>The integer value of a link loss action; the commander compares it with that of \<^verbatim>\<open>DISABLED\<close>.\<close>

fun link_loss_value :: "link_loss_actions \<Rightarrow> int" where
  "link_loss_value LinkLoss_DISABLED = 0"
| "link_loss_value LinkLoss_AUTO_LOITER = 1"
| "link_loss_value LinkLoss_AUTO_RTL = 2"
| "link_loss_value LinkLoss_AUTO_LAND = 3"
| "link_loss_value LinkLoss_TERMINATE = 5"
| "link_loss_value LinkLoss_LOCKDOWN = 6"
| "link_loss_value (LinkLoss_unlisted i) = i"

subsection \<open>Messages\<close>

record vehicle_status =
  nav_state :: navigation_state_t
  arming_state :: arming_state_t
  hil_state :: hil_state_t
  failsafe :: bool
  failsafe_timestamp :: hrt_abstime
  vehicle_type :: vehicle_type_t
  is_vtol :: bool
  vtol_fw_permanent_stab :: bool
  in_transition_mode :: bool
  rc_signal_lost :: bool
  data_link_lost :: bool
  engine_failure :: bool
  mission_failure :: bool
  geofence_violated :: bool
  failure_detector_status :: u8
  onboard_control_sensors_present :: u64
  onboard_control_sensors_enabled :: u64
  onboard_control_sensors_health :: u64
  latest_arming_reason :: u8
  latest_disarming_reason :: u8
  armed_time :: hrt_abstime

record vehicle_status_flags =
  calibration_enabled :: bool
  system_sensors_initialized :: bool
  system_hotplug_timeout :: bool
  auto_mission_available :: bool
  angular_velocity_valid :: bool
  attitude_valid :: bool
  local_altitude_valid :: bool
  local_position_valid :: bool
  local_velocity_valid :: bool
  global_position_valid :: bool
  home_position_valid :: bool
  power_input_valid :: bool
  battery_healthy :: bool
  escs_error :: bool
  escs_failure :: bool
  flight_terminated :: bool
  circuit_breaker_engaged_power_check :: bool
  circuit_breaker_engaged_airspd_check :: bool
  circuit_breaker_engaged_usb_check :: bool
  circuit_breaker_engaged_posfailure_check :: bool
  circuit_breaker_vtol_fw_arming_check :: bool
  offboard_control_signal_lost :: bool
  rc_signal_found_once :: bool
  rc_calibration_valid :: bool
  vtol_transition_failure :: bool
  usb_connected :: bool
  sd_card_detected_once :: bool
  avoidance_system_required :: bool
  avoidance_system_valid :: bool
  parachute_system_present :: bool
  parachute_system_healthy :: bool

record actuator_armed =
  armed :: bool
  ready_to_arm :: bool
  lockdown :: bool
  force_failsafe :: bool

record commander_state =
  main_state :: main_state_t
  main_state_changes :: u16
  state_timestamp :: hrt_abstime

record safety =
  safety_switch_available :: bool
  safety_off :: bool
  safety_timestamp :: hrt_abstime

record vehicle_control_mode =
  flag_armed :: bool
  flag_multicopter_position_control_enabled :: bool
  flag_control_manual_enabled :: bool
  flag_control_auto_enabled :: bool
  flag_control_offboard_enabled :: bool
  flag_control_rates_enabled :: bool
  flag_control_attitude_enabled :: bool
  flag_control_acceleration_enabled :: bool
  flag_control_velocity_enabled :: bool
  flag_control_position_enabled :: bool
  flag_control_altitude_enabled :: bool
  flag_control_climb_rate_enabled :: bool
  flag_control_termination_enabled :: bool

abbreviation is_armed :: "vehicle_status \<Rightarrow> bool" where
  "is_armed s \<equiv> arming_state s = ARMING_STATE_ARMED"

abbreviation is_rotary_wing :: "vehicle_status \<Rightarrow> bool" where
  "is_rotary_wing s \<equiv> vehicle_type s = VEHICLE_TYPE_ROTARY_WING"

subsection \<open>Sample values\<close>

text \<open>A flying multicopter with every estimate valid, for the concrete runs of the later theories.\<close>

definition status_example :: vehicle_status where
  "status_example =
     \<lparr>nav_state = NAVIGATION_STATE_POSCTL, arming_state = ARMING_STATE_ARMED, hil_state = HIL_STATE_OFF,
      failsafe = False, failsafe_timestamp = 0, vehicle_type = VEHICLE_TYPE_ROTARY_WING,
      is_vtol = False, vtol_fw_permanent_stab = False, in_transition_mode = False,
      rc_signal_lost = False, data_link_lost = False, engine_failure = False,
      mission_failure = False, geofence_violated = False, failure_detector_status = 0,
      onboard_control_sensors_present = 0, onboard_control_sensors_enabled = 0,
      onboard_control_sensors_health = 0, latest_arming_reason = 0, latest_disarming_reason = 0,
      armed_time = 0\<rparr>"

definition flags_example :: vehicle_status_flags where
  "flags_example =
     \<lparr>calibration_enabled = False, system_sensors_initialized = True, system_hotplug_timeout = True,
      auto_mission_available = True, angular_velocity_valid = True, attitude_valid = True,
      local_altitude_valid = True, local_position_valid = True, local_velocity_valid = True,
      global_position_valid = True, home_position_valid = True, power_input_valid = True,
      battery_healthy = True, escs_error = False, escs_failure = False, flight_terminated = False,
      circuit_breaker_engaged_power_check = False, circuit_breaker_engaged_airspd_check = False,
      circuit_breaker_engaged_usb_check = False, circuit_breaker_engaged_posfailure_check = False,
      circuit_breaker_vtol_fw_arming_check = False, offboard_control_signal_lost = False,
      rc_signal_found_once = True, rc_calibration_valid = True, vtol_transition_failure = False,
      usb_connected = False, sd_card_detected_once = True, avoidance_system_required = False,
      avoidance_system_valid = False, parachute_system_present = False,
      parachute_system_healthy = False\<rparr>"

definition armed_example :: actuator_armed where
  "armed_example = \<lparr>armed = True, ready_to_arm = True, lockdown = False, force_failsafe = False\<rparr>"

definition internal_example :: "main_state_t \<Rightarrow> commander_state" where
  "internal_example m = \<lparr>main_state = m, main_state_changes = 0, state_timestamp = 0\<rparr>"

lemmas commander_examples = status_example_def flags_example_def armed_example_def internal_example_def

end
