(* ===== verification/Nav_State.thy ===== *)
theory Nav_State
  imports Commander_Types
begin

text \<open>
  The navigation state machine of the commander (\<^verbatim>\<open>src/modules/commander/state_machine_helper.cpp\<close>):
  \<^verbatim>\<open>main_state_transition\<close>, \<^verbatim>\<open>set_nav_state\<close> with its failsafe handlers, the battery and the
  propeller failsafe. The three structures that \<^verbatim>\<open>set_nav_state\<close> updates through references
  are the record \<^verbatim>\<open>nav_ctx\<close>; the flags, the configured actions and the clock are arguments. The
  clock is read once per call. Messages to the ground station are not part of the model.
\<close>

subsection \<open>State and configuration\<close>

record nav_ctx =
  ctx_status :: vehicle_status
  ctx_armed :: actuator_armed
  ctx_internal :: commander_state

record nav_config =
  data_link_loss_act :: link_loss_actions
  rc_loss_act :: link_loss_actions
  offb_loss_act :: offboard_loss_actions
  quadchute_act :: quadchute_actions
  offb_loss_rc_act :: offboard_loss_rc_actions
  posctl_nav_loss_act :: position_nav_loss_actions
  param_com_rcl_act_t :: float32
  param_com_rcl_except :: u32

record nav_inputs =
  mission_finished :: bool
  stay_in_failsafe :: bool
  landed :: bool

definition RCL_EXCEPT_MISSION :: u32 where "RCL_EXCEPT_MISSION = push_bit 0 1"
definition RCL_EXCEPT_HOLD :: u32 where "RCL_EXCEPT_HOLD = push_bit 1 1"
definition RCL_EXCEPT_OFFBOARD :: u32 where "RCL_EXCEPT_OFFBOARD = push_bit 2 1"

definition rcl_excepted :: "nav_config \<Rightarrow> u32 \<Rightarrow> bool" where
  "rcl_excepted cfg b \<longleftrightarrow> param_com_rcl_except cfg AND b \<noteq> 0"

definition set_nav :: "navigation_state_t \<Rightarrow> nav_ctx \<Rightarrow> nav_ctx" where
  "set_nav n c = c\<lparr>ctx_status := (ctx_status c)\<lparr>nav_state := n\<rparr>\<rparr>"

definition set_main :: "main_state_t \<Rightarrow> nav_ctx \<Rightarrow> nav_ctx" where
  "set_main m c = c\<lparr>ctx_internal := (ctx_internal c)\<lparr>main_state := m\<rparr>\<rparr>"

abbreviation nav_of :: "nav_ctx \<Rightarrow> navigation_state_t" where
  "nav_of c \<equiv> nav_state (ctx_status c)"

abbreviation main_of :: "nav_ctx \<Rightarrow> main_state_t" where
  "main_of c \<equiv> main_state (ctx_internal c)"

subsection \<open>Main state\<close>

fun main_state_allowed :: "vehicle_status \<Rightarrow> vehicle_status_flags \<Rightarrow> main_state_t \<Rightarrow> bool" where
  "main_state_allowed s fl MAIN_STATE_MANUAL = True"
| "main_state_allowed s fl MAIN_STATE_STAB = True"
| "main_state_allowed s fl MAIN_STATE_ACRO = True"
| "main_state_allowed s fl MAIN_STATE_ALTCTL =
     (local_altitude_valid fl \<or> global_position_valid fl)"
| "main_state_allowed s fl MAIN_STATE_POSCTL =
     (local_position_valid fl \<or> global_position_valid fl)"
| "main_state_allowed s fl MAIN_STATE_AUTO_LOITER = global_position_valid fl"
| "main_state_allowed s fl MAIN_STATE_AUTO_FOLLOW_TARGET = is_rotary_wing s"
| "main_state_allowed s fl MAIN_STATE_ORBIT = is_rotary_wing s"
| "main_state_allowed s fl MAIN_STATE_AUTO_VTOL_TAKEOFF = is_rotary_wing s"
| "main_state_allowed s fl MAIN_STATE_AUTO_MISSION =
     (global_position_valid fl \<and> auto_mission_available fl)"
| "main_state_allowed s fl MAIN_STATE_AUTO_RTL =
     (global_position_valid fl \<and> home_position_valid fl)"
| "main_state_allowed s fl MAIN_STATE_AUTO_TAKEOFF = local_position_valid fl"
| "main_state_allowed s fl MAIN_STATE_AUTO_LAND = local_position_valid fl"
| "main_state_allowed s fl MAIN_STATE_AUTO_PRECLAND =
     (local_position_valid fl \<and> global_position_valid fl \<and> is_rotary_wing s)"
| "main_state_allowed s fl MAIN_STATE_OFFBOARD = (\<not> offboard_control_signal_lost fl)"
| "main_state_allowed s fl MAIN_STATE_MAX = False"

definition main_state_transition ::
  "hrt_abstime \<Rightarrow> vehicle_status \<Rightarrow> main_state_t \<Rightarrow> vehicle_status_flags \<Rightarrow> commander_state
   \<Rightarrow> transition_result \<times> commander_state" where
  "main_state_transition now s new_main_state fl i =
     (if main_state_allowed s fl new_main_state then
        if main_state i \<noteq> new_main_state then
          (TRANSITION_CHANGED,
           i\<lparr>main_state := new_main_state, main_state_changes := main_state_changes i + 1,
             state_timestamp := now\<rparr>)
        else (TRANSITION_NOT_CHANGED, i)
      else (TRANSITION_DENIED, i))"

subsection \<open>Failsafe handlers\<close>

definition enable_failsafe :: "hrt_abstime \<Rightarrow> bool \<Rightarrow> nav_ctx \<Rightarrow> nav_ctx" where
  "enable_failsafe now old_failsafe c =
     (let s = ctx_status c;
          s1 = (if \<not> old_failsafe \<and> is_armed s then
                  if failsafe_timestamp s = 0
                     \<or> hrt_elapsed_time now (failsafe_timestamp s) > 30000000
                  then s\<lparr>failsafe_timestamp := now\<rparr> else s
                else s)
      in c\<lparr>ctx_status := s1\<lparr>failsafe := True\<rparr>\<rparr>)"

definition check_invalid_pos_fallback :: "vehicle_status_flags \<Rightarrow> bool \<Rightarrow> bool" where
  "check_invalid_pos_fallback fl using_global_pos \<longleftrightarrow>
     (if using_global_pos \<and> \<not> global_position_valid fl then True
      else \<not> using_global_pos \<and> (\<not> local_position_valid fl \<or> \<not> local_velocity_valid fl))"

definition check_invalid_pos_nav_state ::
  "hrt_abstime \<Rightarrow> bool \<Rightarrow> vehicle_status_flags \<Rightarrow> bool \<Rightarrow> bool \<Rightarrow> nav_ctx \<Rightarrow> bool \<times> nav_ctx" where
  "check_invalid_pos_nav_state now old_failsafe fl use_rc using_global_pos c =
     (if check_invalid_pos_fallback fl using_global_pos then
        (True, enable_failsafe now old_failsafe
           (if use_rc then
              if is_rotary_wing (ctx_status c) \<and> local_position_valid fl
              then set_nav NAVIGATION_STATE_POSCTL c
              else if local_altitude_valid fl then set_nav NAVIGATION_STATE_ALTCTL c
              else set_nav NAVIGATION_STATE_STAB c
            else
              if local_position_valid fl then set_nav NAVIGATION_STATE_AUTO_LAND c
              else if local_altitude_valid fl then set_nav NAVIGATION_STATE_DESCEND c
              else set_nav NAVIGATION_STATE_TERMINATION c))
      else (False, c))"

definition terminate_flight :: "nav_ctx \<Rightarrow> nav_ctx" where
  "terminate_flight c =
     (set_nav NAVIGATION_STATE_TERMINATION c)\<lparr>ctx_armed := (ctx_armed c)\<lparr>force_failsafe := True\<rparr>\<rparr>"

definition lock_actuators :: "nav_ctx \<Rightarrow> nav_ctx" where
  "lock_actuators c = c\<lparr>ctx_armed := (ctx_armed c)\<lparr>lockdown := True\<rparr>\<rparr>"

definition request_main :: "hrt_abstime \<Rightarrow> vehicle_status_flags \<Rightarrow> main_state_t \<Rightarrow> nav_ctx \<Rightarrow> nav_ctx" where
  "request_main now fl m c =
     c\<lparr>ctx_internal := snd (main_state_transition now (ctx_status c) m fl (ctx_internal c))\<rparr>"

definition link_loss_land :: "hrt_abstime \<Rightarrow> vehicle_status_flags \<Rightarrow> nav_ctx \<Rightarrow> nav_ctx" where
  "link_loss_land now fl c =
     (if global_position_valid fl
      then set_nav NAVIGATION_STATE_AUTO_LAND (request_main now fl MAIN_STATE_AUTO_LAND c)
      else if local_position_valid fl then set_nav NAVIGATION_STATE_AUTO_LAND c
      else if local_altitude_valid fl then set_nav NAVIGATION_STATE_DESCEND c
      else terminate_flight c)"

definition link_loss_loiter :: "hrt_abstime \<Rightarrow> vehicle_status_flags \<Rightarrow> nav_ctx \<Rightarrow> nav_ctx" where
  "link_loss_loiter now fl c =
     (if global_position_valid fl then set_nav NAVIGATION_STATE_AUTO_LOITER c
      else link_loss_land now fl c)"

definition link_loss_rtl :: "hrt_abstime \<Rightarrow> vehicle_status_flags \<Rightarrow> nav_ctx \<Rightarrow> nav_ctx" where
  "link_loss_rtl now fl c =
     (if global_position_valid fl \<and> home_position_valid fl
      then set_nav NAVIGATION_STATE_AUTO_RTL (request_main now fl MAIN_STATE_AUTO_RTL c)
      else link_loss_loiter now fl c)"

definition link_loss_delayed :: "hrt_abstime \<Rightarrow> float32 \<Rightarrow> vehicle_status \<Rightarrow> bool" where
  "link_loss_delayed now ll_delay s \<longleftrightarrow>
     f32_lt (f32_of_u64 (hrt_elapsed_time now (failsafe_timestamp s)))
            (f32_mul ll_delay (f32_of_u64 1000000))"

definition set_link_loss_nav_state ::
  "hrt_abstime \<Rightarrow> link_loss_actions \<Rightarrow> float32 \<Rightarrow> vehicle_status_flags \<Rightarrow> nav_ctx \<Rightarrow> nav_ctx" where
  "set_link_loss_nav_state now link_loss_act ll_delay fl c =
     (let act = (if link_loss_delayed now ll_delay (ctx_status c) \<and> link_loss_act \<noteq> LinkLoss_DISABLED
                 then LinkLoss_AUTO_LOITER else link_loss_act)
      in case act of
           LinkLoss_DISABLED \<Rightarrow> c
         | LinkLoss_AUTO_RTL \<Rightarrow> link_loss_rtl now fl c
         | LinkLoss_AUTO_LOITER \<Rightarrow> link_loss_loiter now fl c
         | LinkLoss_AUTO_LAND \<Rightarrow> link_loss_land now fl c
         | LinkLoss_TERMINATE \<Rightarrow> terminate_flight c
         | LinkLoss_LOCKDOWN \<Rightarrow> lock_actuators c
         | LinkLoss_unlisted _ \<Rightarrow> c)"

definition reset_link_loss_globals :: "bool \<Rightarrow> link_loss_actions \<Rightarrow> nav_ctx \<Rightarrow> nav_ctx" where
  "reset_link_loss_globals old_failsafe act c =
     (if old_failsafe then
        if act = LinkLoss_TERMINATE
        then c\<lparr>ctx_armed := (ctx_armed c)\<lparr>force_failsafe := False\<rparr>\<rparr>
        else if act = LinkLoss_LOCKDOWN
        then c\<lparr>ctx_armed := (ctx_armed c)\<lparr>lockdown := False\<rparr>\<rparr>
        else c
      else c)"

definition set_quadchute_nav_state ::
  "quadchute_actions \<Rightarrow> vehicle_status_flags \<Rightarrow> nav_ctx \<Rightarrow> nav_ctx" where
  "set_quadchute_nav_state act fl c =
     (let rtl = (if global_position_valid fl \<and> home_position_valid fl
                 then set_nav NAVIGATION_STATE_AUTO_RTL c else c)
      in case act of
           Quadchute_NO_ACTION \<Rightarrow> c
         | Quadchute_AUTO_RTL \<Rightarrow> rtl
         | Quadchute_AUTO_LAND \<Rightarrow>
             (if global_position_valid fl then set_nav NAVIGATION_STATE_AUTO_LAND c else c)
         | Quadchute_AUTO_LOITER \<Rightarrow>
             (if global_position_valid fl then set_nav NAVIGATION_STATE_AUTO_LOITER c else c)
         | Quadchute_unlisted _ \<Rightarrow> rtl)"

definition offboard_mitigate :: "vehicle_status_flags \<Rightarrow> nav_ctx \<Rightarrow> nav_ctx" where
  "offboard_mitigate fl c =
     (if local_altitude_valid fl then set_nav NAVIGATION_STATE_DESCEND c
      else set_nav NAVIGATION_STATE_TERMINATION c)"

definition offboard_land :: "vehicle_status_flags \<Rightarrow> nav_ctx \<Rightarrow> nav_ctx" where
  "offboard_land fl c =
     (if global_position_valid fl then set_nav NAVIGATION_STATE_AUTO_LAND c
      else offboard_mitigate fl c)"

definition offboard_loiter :: "vehicle_status_flags \<Rightarrow> nav_ctx \<Rightarrow> nav_ctx" where
  "offboard_loiter fl c =
     (if global_position_valid fl then set_nav NAVIGATION_STATE_AUTO_LOITER c
      else offboard_land fl c)"

definition offboard_rtl :: "vehicle_status_flags \<Rightarrow> nav_ctx \<Rightarrow> nav_ctx" where
  "offboard_rtl fl c =
     (if global_position_valid fl \<and> home_position_valid fl
      then set_nav NAVIGATION_STATE_AUTO_RTL c else offboard_loiter fl c)"

definition set_offboard_loss_nav_state ::
  "offboard_loss_actions \<Rightarrow> vehicle_status_flags \<Rightarrow> nav_ctx \<Rightarrow> nav_ctx" where
  "set_offboard_loss_nav_state act fl c =
     (case act of
        OffbLoss_DISABLED \<Rightarrow> c
      | OffbLoss_TERMINATE \<Rightarrow> terminate_flight c
      | OffbLoss_LOCKDOWN \<Rightarrow> lock_actuators c
      | OffbLoss_AUTO_RTL \<Rightarrow> offboard_rtl fl c
      | OffbLoss_AUTO_LOITER \<Rightarrow> offboard_loiter fl c
      | OffbLoss_AUTO_LAND \<Rightarrow> offboard_land fl c
      | OffbLoss_unlisted _ \<Rightarrow> offboard_mitigate fl c)"

definition offboard_rc_altitude :: "vehicle_status_flags \<Rightarrow> nav_ctx \<Rightarrow> nav_ctx" where
  "offboard_rc_altitude fl c =
     (if local_altitude_valid fl then set_nav NAVIGATION_STATE_ALTCTL c
      else set_nav NAVIGATION_STATE_MANUAL c)"

definition set_offboard_loss_rc_nav_state ::
  "offboard_loss_rc_actions \<Rightarrow> vehicle_status_flags \<Rightarrow> nav_ctx \<Rightarrow> nav_ctx" where
  "set_offboard_loss_rc_nav_state act fl c =
     (case act of
        OffbLossRc_DISABLED \<Rightarrow> c
      | OffbLossRc_TERMINATE \<Rightarrow> terminate_flight c
      | OffbLossRc_LOCKDOWN \<Rightarrow> lock_actuators c
      | OffbLossRc_MANUAL_POSITION \<Rightarrow>
          (if is_rotary_wing (ctx_status c) \<and> local_position_valid fl
           then set_nav NAVIGATION_STATE_POSCTL c
           else if global_position_valid fl then set_nav NAVIGATION_STATE_POSCTL c
           else offboard_rc_altitude fl c)
      | OffbLossRc_MANUAL_ALTITUDE \<Rightarrow> offboard_rc_altitude fl c
      | OffbLossRc_MANUAL_ATTITUDE \<Rightarrow> set_nav NAVIGATION_STATE_MANUAL c
      | OffbLossRc_AUTO_RTL \<Rightarrow> offboard_rtl fl c
      | OffbLossRc_AUTO_LOITER \<Rightarrow> offboard_loiter fl c
      | OffbLossRc_AUTO_LAND \<Rightarrow> offboard_land fl c
      | OffbLossRc_unlisted _ \<Rightarrow> offboard_mitigate fl c)"

definition reset_offboard_loss_globals ::
  "bool \<Rightarrow> offboard_loss_actions \<Rightarrow> offboard_loss_rc_actions \<Rightarrow> nav_ctx \<Rightarrow> nav_ctx" where
  "reset_offboard_loss_globals old_failsafe act rc_act c =
     (if old_failsafe then
        let c1 = (if act = OffbLoss_TERMINATE \<or> rc_act = OffbLossRc_TERMINATE
                  then c\<lparr>ctx_armed := (ctx_armed c)\<lparr>force_failsafe := False\<rparr>\<rparr> else c)
        in if act = OffbLoss_LOCKDOWN \<or> rc_act = OffbLossRc_LOCKDOWN
           then c1\<lparr>ctx_armed := (ctx_armed c1)\<lparr>lockdown := False\<rparr>\<rparr> else c1
      else c)"

subsection \<open>Navigation state\<close>

text \<open>
  One definition per group of cases of the \<^verbatim>\<open>switch\<close> of \<^verbatim>\<open>set_nav_state\<close>. \<^verbatim>\<open>now\<close> is the clock and
  \<^verbatim>\<open>old\<close> the failsafe flag before the call.
\<close>

definition data_link_loss_act_configured :: "nav_config \<Rightarrow> bool" where
  "data_link_loss_act_configured cfg \<longleftrightarrow>
     link_loss_value (data_link_loss_act cfg) > link_loss_value LinkLoss_DISABLED"

definition rc_loss_reaction ::
  "hrt_abstime \<Rightarrow> bool \<Rightarrow> nav_config \<Rightarrow> vehicle_status_flags \<Rightarrow> nav_ctx \<Rightarrow> nav_ctx" where
  "rc_loss_reaction now old cfg fl c =
     set_link_loss_nav_state now (rc_loss_act cfg) (param_com_rcl_act_t cfg) fl
       (enable_failsafe now old c)"

definition link_loss_reaction ::
  "hrt_abstime \<Rightarrow> bool \<Rightarrow> link_loss_actions \<Rightarrow> vehicle_status_flags \<Rightarrow> nav_ctx \<Rightarrow> nav_ctx" where
  "link_loss_reaction now old act fl c =
     set_link_loss_nav_state now act (f32_lit 0) fl (enable_failsafe now old c)"

definition nav_manual ::
  "hrt_abstime \<Rightarrow> bool \<Rightarrow> nav_config \<Rightarrow> vehicle_status_flags \<Rightarrow> nav_ctx \<Rightarrow> nav_ctx" where
  "nav_manual now old cfg fl c =
     (if rc_signal_lost (ctx_status c) \<and> is_armed (ctx_status c) then rc_loss_reaction now old cfg fl c
      else case main_of c of
             MAIN_STATE_ACRO \<Rightarrow> set_nav NAVIGATION_STATE_ACRO c
           | MAIN_STATE_MANUAL \<Rightarrow> set_nav NAVIGATION_STATE_MANUAL c
           | MAIN_STATE_STAB \<Rightarrow> set_nav NAVIGATION_STATE_STAB c
           | MAIN_STATE_ALTCTL \<Rightarrow> set_nav NAVIGATION_STATE_ALTCTL c
           | _ \<Rightarrow> set_nav NAVIGATION_STATE_MANUAL c)"

definition nav_posctl ::
  "hrt_abstime \<Rightarrow> bool \<Rightarrow> nav_config \<Rightarrow> vehicle_status_flags \<Rightarrow> nav_ctx \<Rightarrow> nav_ctx" where
  "nav_posctl now old cfg fl c =
     (let s = ctx_status c;
          rc_fallback_allowed = (posctl_nav_loss_act cfg \<noteq> PosNavLoss_LAND_TERMINATE \<or> \<not> is_armed s)
      in if rc_signal_lost s \<and> is_armed s then rc_loss_reaction now old cfg fl c
         else let (fb, c1) = check_invalid_pos_nav_state now old fl rc_fallback_allowed
                               (vehicle_type s = VEHICLE_TYPE_FIXED_WING) c
              in if fb then c1 else set_nav NAVIGATION_STATE_POSCTL c)"

definition armed_pos_fallback ::
  "hrt_abstime \<Rightarrow> bool \<Rightarrow> vehicle_status_flags \<Rightarrow> bool \<Rightarrow> nav_ctx \<Rightarrow> bool \<times> nav_ctx" where
  "armed_pos_fallback now old fl using_global_pos c =
     (if is_armed (ctx_status c) then check_invalid_pos_nav_state now old fl False using_global_pos c
      else (False, c))"

definition nav_auto_mission ::
  "hrt_abstime \<Rightarrow> bool \<Rightarrow> nav_config \<Rightarrow> nav_inputs \<Rightarrow> vehicle_status_flags \<Rightarrow> nav_ctx \<Rightarrow> nav_ctx" where
  "nav_auto_mission now old cfg inp fl c =
     (let s = ctx_status c;
          fb = armed_pos_fallback now old fl True c;
          except_mission = rcl_excepted cfg RCL_EXCEPT_MISSION;
          dl_configured = data_link_loss_act_configured cfg;
          flying = (is_armed s \<and> \<not> landed inp)
      in if fst fb then snd fb
         else if engine_failure s then set_nav NAVIGATION_STATE_AUTO_LANDENGFAIL c
         else if vtol_transition_failure fl then set_quadchute_nav_state (quadchute_act cfg) fl c
         else if mission_failure s then set_nav NAVIGATION_STATE_AUTO_RTL c
         else if data_link_lost s \<and> dl_configured \<and> flying
         then link_loss_reaction now old (data_link_loss_act cfg) fl c
         else if rc_signal_lost s \<and> \<not> except_mission \<and> rc_signal_found_once fl \<and> flying
         then rc_loss_reaction now old cfg fl c
         else if rc_signal_lost s \<and> \<not> except_mission \<and> data_link_lost s \<and> \<not> dl_configured \<and> flying
         then link_loss_reaction now old (rc_loss_act cfg) fl c
         else if rc_signal_lost s \<and> except_mission \<and> data_link_lost s \<and> \<not> dl_configured \<and> flying
                 \<and> mission_finished inp
         then link_loss_reaction now old LinkLoss_AUTO_RTL fl c
         else if \<not> stay_in_failsafe inp then set_nav NAVIGATION_STATE_AUTO_MISSION c
         else c)"

definition nav_auto_loiter ::
  "hrt_abstime \<Rightarrow> bool \<Rightarrow> nav_config \<Rightarrow> nav_inputs \<Rightarrow> vehicle_status_flags \<Rightarrow> nav_ctx \<Rightarrow> nav_ctx" where
  "nav_auto_loiter now old cfg inp fl c =
     (let s = ctx_status c;
          fb = armed_pos_fallback now old fl True c;
          except_hold = rcl_excepted cfg RCL_EXCEPT_HOLD;
          dl_configured = data_link_loss_act_configured cfg;
          flying = (is_armed s \<and> \<not> landed inp)
      in if engine_failure s then set_nav NAVIGATION_STATE_AUTO_LANDENGFAIL c
         else if fst fb then snd fb
         else if vtol_transition_failure fl then set_quadchute_nav_state (quadchute_act cfg) fl c
         else if data_link_lost s \<and> dl_configured \<and> flying
         then link_loss_reaction now old (data_link_loss_act cfg) fl c
         else if rc_signal_lost s \<and> \<not> except_hold \<and> rc_signal_found_once fl \<and> flying
         then rc_loss_reaction now old cfg fl c
         else if rc_signal_lost s \<and> \<not> except_hold \<and> data_link_lost s \<and> \<not> dl_configured \<and> flying
         then link_loss_reaction now old (rc_loss_act cfg) fl c
         else set_nav NAVIGATION_STATE_AUTO_LOITER c)"

text \<open>
  Return, follow target, land and precision land share one shape: engine failure first, then the
  position check of an armed vehicle, then the mode itself.
\<close>

definition nav_simple_auto ::
  "navigation_state_t \<Rightarrow> bool \<Rightarrow> hrt_abstime \<Rightarrow> bool \<Rightarrow> vehicle_status_flags \<Rightarrow> nav_ctx \<Rightarrow> nav_ctx" where
  "nav_simple_auto n using_global_pos now old fl c =
     (let fb = armed_pos_fallback now old fl using_global_pos c
      in if engine_failure (ctx_status c) then set_nav NAVIGATION_STATE_AUTO_LANDENGFAIL c
         else if fst fb then snd fb
         else set_nav n c)"

definition nav_orbit ::
  "hrt_abstime \<Rightarrow> bool \<Rightarrow> nav_config \<Rightarrow> nav_inputs \<Rightarrow> vehicle_status_flags \<Rightarrow> nav_ctx \<Rightarrow> nav_ctx" where
  "nav_orbit now old cfg inp fl c =
     (let s = ctx_status c;
          fb = armed_pos_fallback now old fl True c;
          dl_configured = data_link_loss_act_configured cfg
      in if engine_failure s
         then set_main MAIN_STATE_POSCTL (set_nav NAVIGATION_STATE_AUTO_LANDENGFAIL c)
         else if fst fb then set_main MAIN_STATE_POSCTL (snd fb)
         else if data_link_lost s \<and> dl_configured \<and> \<not> landed inp \<and> is_armed s
         then set_main MAIN_STATE_POSCTL
                (enable_failsafe now old
                   (set_link_loss_nav_state now (data_link_loss_act cfg) (f32_lit 0) fl c))
         else if rc_signal_lost s \<and> data_link_lost s \<and> \<not> dl_configured \<and> is_armed s
         then set_main MAIN_STATE_POSCTL (link_loss_reaction now old (rc_loss_act cfg) fl c)
         else set_nav NAVIGATION_STATE_ORBIT c)"

definition nav_auto_takeoff ::
  "hrt_abstime \<Rightarrow> bool \<Rightarrow> nav_config \<Rightarrow> nav_inputs \<Rightarrow> vehicle_status_flags \<Rightarrow> nav_ctx \<Rightarrow> nav_ctx" where
  "nav_auto_takeoff now old cfg inp fl c =
     (let s = ctx_status c;
          fb = armed_pos_fallback now old fl False c;
          except_hold = rcl_excepted cfg RCL_EXCEPT_HOLD;
          dl_configured = data_link_loss_act_configured cfg;
          flying = (is_armed s \<and> \<not> landed inp)
      in if engine_failure s then set_nav NAVIGATION_STATE_AUTO_LANDENGFAIL c
         else if fst fb then snd fb
         else if vtol_transition_failure fl then set_quadchute_nav_state (quadchute_act cfg) fl c
         else if data_link_lost s \<and> dl_configured \<and> flying
         then link_loss_reaction now old (data_link_loss_act cfg) fl c
         else if rc_signal_lost s \<and> \<not> except_hold \<and> rc_signal_found_once fl \<and> flying
         then rc_loss_reaction now old cfg fl c
         else if rc_signal_lost s \<and> \<not> except_hold \<and> data_link_lost s \<and> \<not> dl_configured \<and> flying
         then link_loss_reaction now old (rc_loss_act cfg) fl c
         else set_nav (if main_of c = MAIN_STATE_AUTO_TAKEOFF
                       then NAVIGATION_STATE_AUTO_TAKEOFF
                       else NAVIGATION_STATE_AUTO_VTOL_TAKEOFF) c)"

definition nav_offboard ::
  "hrt_abstime \<Rightarrow> bool \<Rightarrow> nav_config \<Rightarrow> vehicle_status_flags \<Rightarrow> nav_ctx \<Rightarrow> nav_ctx" where
  "nav_offboard now old cfg fl c =
     (let s = ctx_status c;
          except_offboard = rcl_excepted cfg RCL_EXCEPT_OFFBOARD
      in if offboard_control_signal_lost fl then
           if rc_signal_lost s
           then set_offboard_loss_nav_state (offb_loss_act cfg) fl (enable_failsafe now old c)
           else if except_offboard
           then set_offboard_loss_nav_state (offb_loss_act cfg) fl (enable_failsafe now old c)
           else set_offboard_loss_rc_nav_state (offb_loss_rc_act cfg) fl (enable_failsafe now old c)
         else if rc_signal_lost s \<and> \<not> except_offboard then rc_loss_reaction now old cfg fl c
         else set_nav NAVIGATION_STATE_OFFBOARD c)"

definition nav_switch ::
  "hrt_abstime \<Rightarrow> bool \<Rightarrow> nav_config \<Rightarrow> nav_inputs \<Rightarrow> vehicle_status_flags \<Rightarrow> nav_ctx \<Rightarrow> nav_ctx" where
  "nav_switch now old cfg inp fl c =
     (case main_of c of
        MAIN_STATE_ACRO \<Rightarrow> nav_manual now old cfg fl c
      | MAIN_STATE_MANUAL \<Rightarrow> nav_manual now old cfg fl c
      | MAIN_STATE_STAB \<Rightarrow> nav_manual now old cfg fl c
      | MAIN_STATE_ALTCTL \<Rightarrow> nav_manual now old cfg fl c
      | MAIN_STATE_POSCTL \<Rightarrow> nav_posctl now old cfg fl c
      | MAIN_STATE_AUTO_MISSION \<Rightarrow> nav_auto_mission now old cfg inp fl c
      | MAIN_STATE_AUTO_LOITER \<Rightarrow> nav_auto_loiter now old cfg inp fl c
      | MAIN_STATE_AUTO_RTL \<Rightarrow> nav_simple_auto NAVIGATION_STATE_AUTO_RTL True now old fl c
      | MAIN_STATE_AUTO_FOLLOW_TARGET \<Rightarrow>
          nav_simple_auto NAVIGATION_STATE_AUTO_FOLLOW_TARGET True now old fl c
      | MAIN_STATE_ORBIT \<Rightarrow> nav_orbit now old cfg inp fl c
      | MAIN_STATE_AUTO_TAKEOFF \<Rightarrow> nav_auto_takeoff now old cfg inp fl c
      | MAIN_STATE_AUTO_VTOL_TAKEOFF \<Rightarrow> nav_auto_takeoff now old cfg inp fl c
      | MAIN_STATE_AUTO_LAND \<Rightarrow> nav_simple_auto NAVIGATION_STATE_AUTO_LAND False now old fl c
      | MAIN_STATE_AUTO_PRECLAND \<Rightarrow> nav_simple_auto NAVIGATION_STATE_AUTO_PRECLAND False now old fl c
      | MAIN_STATE_OFFBOARD \<Rightarrow> nav_offboard now old cfg fl c
      | MAIN_STATE_MAX \<Rightarrow> c)"

definition nav_reset :: "nav_config \<Rightarrow> nav_ctx \<Rightarrow> nav_ctx" where
  "nav_reset cfg c =
     (let old = failsafe (ctx_status c);
          c1 = c\<lparr>ctx_status := (ctx_status c)\<lparr>failsafe := False\<rparr>\<rparr>
      in reset_offboard_loss_globals old (offb_loss_act cfg) (offb_loss_rc_act cfg)
           (reset_link_loss_globals old (data_link_loss_act cfg)
              (reset_link_loss_globals old (rc_loss_act cfg) c1)))"

definition set_nav_state ::
  "hrt_abstime \<Rightarrow> nav_config \<Rightarrow> nav_inputs \<Rightarrow> vehicle_status_flags \<Rightarrow> nav_ctx \<Rightarrow> bool \<times> nav_ctx" where
  "set_nav_state now cfg inp fl c =
     (let c' = nav_switch now (failsafe (ctx_status c)) cfg inp fl (nav_reset cfg c)
      in (nav_of c' \<noteq> nav_of c, c'))"

subsection \<open>Battery and propeller failsafe\<close>

definition get_battery_failsafe_action ::
  "commander_state \<Rightarrow> u8 \<Rightarrow> low_battery_action \<Rightarrow> main_state_t" where
  "get_battery_failsafe_action i battery_warning act =
     (let already_landing = (main_state i = MAIN_STATE_AUTO_LAND \<or> main_state i = MAIN_STATE_AUTO_PRECLAND);
          already_landing_or_rtl = (already_landing \<or> main_state i = MAIN_STATE_AUTO_RTL);
          rtl = (if \<not> already_landing_or_rtl then MAIN_STATE_AUTO_RTL else MAIN_STATE_MAX);
          land = (if \<not> already_landing then MAIN_STATE_AUTO_LAND else MAIN_STATE_MAX)
      in if battery_warning = BATTERY_WARNING_CRITICAL then
           (case act of LowBat_RETURN \<Rightarrow> rtl | LowBat_RETURN_OR_LAND \<Rightarrow> rtl | LowBat_LAND \<Rightarrow> land
            | LowBat_WARNING \<Rightarrow> MAIN_STATE_MAX | LowBat_unlisted _ \<Rightarrow> MAIN_STATE_MAX)
         else if battery_warning = BATTERY_WARNING_EMERGENCY then
           (case act of LowBat_RETURN \<Rightarrow> rtl | LowBat_RETURN_OR_LAND \<Rightarrow> land | LowBat_LAND \<Rightarrow> land
            | LowBat_WARNING \<Rightarrow> MAIN_STATE_MAX | LowBat_unlisted _ \<Rightarrow> MAIN_STATE_MAX)
         else MAIN_STATE_MAX)"

definition imbalanced_prop_failsafe ::
  "hrt_abstime \<Rightarrow> vehicle_status_flags \<Rightarrow> imbalanced_propeller_action \<Rightarrow> commander_state
   \<Rightarrow> commander_state" where
  "imbalanced_prop_failsafe now fl act i =
     (let landing = (main_state i = MAIN_STATE_AUTO_LAND \<or> main_state i = MAIN_STATE_AUTO_PRECLAND);
          land = (if \<not> landing
                  then i\<lparr>main_state := MAIN_STATE_AUTO_LAND, state_timestamp := now\<rparr> else i)
      in case act of
           ImbProp_RETURN \<Rightarrow>
             (if global_position_valid fl \<and> home_position_valid fl
              then if \<not> (main_state i = MAIN_STATE_AUTO_RTL \<or> landing)
                   then i\<lparr>main_state := MAIN_STATE_AUTO_RTL, state_timestamp := now\<rparr> else i
              else land)
         | ImbProp_LAND \<Rightarrow> land
         | _ \<Rightarrow> i)"

subsection \<open>Frame rules\<close>

lemma set_nav_simps [simp]:
  "ctx_status (set_nav n c) = (ctx_status c)\<lparr>nav_state := n\<rparr>"
  "ctx_armed (set_nav n c) = ctx_armed c"
  "ctx_internal (set_nav n c) = ctx_internal c"
  by (simp_all add: set_nav_def)

lemma set_main_simps [simp]:
  "ctx_status (set_main m c) = ctx_status c"
  "ctx_armed (set_main m c) = ctx_armed c"
  "main_of (set_main m c) = m"
  by (simp_all add: set_main_def)

lemma enable_failsafe_simps [simp]:
  "failsafe (ctx_status (enable_failsafe now old c))"
  "nav_of (enable_failsafe now old c) = nav_of c"
  "arming_state (ctx_status (enable_failsafe now old c)) = arming_state (ctx_status c)"
  "vehicle_type (ctx_status (enable_failsafe now old c)) = vehicle_type (ctx_status c)"
  "ctx_armed (enable_failsafe now old c) = ctx_armed c"
  "ctx_internal (enable_failsafe now old c) = ctx_internal c"
  by (simp_all add: enable_failsafe_def Let_def)

lemma terminate_flight_simps [simp]:
  "ctx_status (terminate_flight c) = (ctx_status c)\<lparr>nav_state := NAVIGATION_STATE_TERMINATION\<rparr>"
  "ctx_armed (terminate_flight c) = (ctx_armed c)\<lparr>force_failsafe := True\<rparr>"
  "ctx_internal (terminate_flight c) = ctx_internal c"
  by (simp_all add: terminate_flight_def)

lemma lock_actuators_simps [simp]:
  "ctx_status (lock_actuators c) = ctx_status c"
  "ctx_armed (lock_actuators c) = (ctx_armed c)\<lparr>lockdown := True\<rparr>"
  "ctx_internal (lock_actuators c) = ctx_internal c"
  by (simp_all add: lock_actuators_def)

lemma main_state_transition_main:
  "main_state (snd (main_state_transition now s m fl i)) =
     (if main_state_allowed s fl m then m else main_state i)"
  by (simp add: main_state_transition_def)

lemma request_main_simps [simp]:
  "ctx_status (request_main now fl m c) = ctx_status c"
  "ctx_armed (request_main now fl m c) = ctx_armed c"
  "main_of (request_main now fl m c) =
     (if main_state_allowed (ctx_status c) fl m then m else main_of c)"
  by (simp_all add: request_main_def main_state_transition_main)

lemma nav_reset_simps [simp]:
  "ctx_status (nav_reset cfg c) = (ctx_status c)\<lparr>failsafe := False\<rparr>"
  "ctx_internal (nav_reset cfg c) = ctx_internal c"
  by (simp_all add: nav_reset_def reset_offboard_loss_globals_def reset_link_loss_globals_def Let_def)

subsection \<open>The contract of a failsafe reaction\<close>

text \<open>
  The estimates that a navigation state relies on. Manual, stabilized and acro mode and
  termination need none; offboard mode and the engine failure landing are never supported by the
  estimates alone.
\<close>

fun nav_supported :: "vehicle_status_flags \<Rightarrow> navigation_state_t \<Rightarrow> bool" where
  "nav_supported fl NAVIGATION_STATE_AUTO_MISSION = global_position_valid fl"
| "nav_supported fl NAVIGATION_STATE_AUTO_LOITER = global_position_valid fl"
| "nav_supported fl NAVIGATION_STATE_AUTO_RTL = global_position_valid fl"
| "nav_supported fl NAVIGATION_STATE_AUTO_FOLLOW_TARGET = global_position_valid fl"
| "nav_supported fl NAVIGATION_STATE_ORBIT = global_position_valid fl"
| "nav_supported fl NAVIGATION_STATE_POSCTL = (local_position_valid fl \<or> global_position_valid fl)"
| "nav_supported fl NAVIGATION_STATE_AUTO_LAND = (local_position_valid fl \<or> global_position_valid fl)"
| "nav_supported fl NAVIGATION_STATE_AUTO_PRECLAND = local_position_valid fl"
| "nav_supported fl NAVIGATION_STATE_AUTO_TAKEOFF = local_position_valid fl"
| "nav_supported fl NAVIGATION_STATE_AUTO_VTOL_TAKEOFF = local_position_valid fl"
| "nav_supported fl NAVIGATION_STATE_DESCEND = local_altitude_valid fl"
| "nav_supported fl NAVIGATION_STATE_ALTCTL = local_altitude_valid fl"
| "nav_supported fl NAVIGATION_STATE_OFFBOARD = False"
| "nav_supported fl NAVIGATION_STATE_AUTO_LANDENGFAIL = False"
| "nav_supported fl NAVIGATION_STATE_MANUAL = True"
| "nav_supported fl NAVIGATION_STATE_STAB = True"
| "nav_supported fl NAVIGATION_STATE_ACRO = True"
| "nav_supported fl NAVIGATION_STATE_TERMINATION = True"

text \<open>
  Every failsafe handler keeps this contract: of the vehicle status it changes the navigation
  state only, the new navigation state is supported by the estimates or is the old one, a handler
  that is configured to act always finds a supported state, and the main state moves to return or
  land only.
\<close>

locale failsafe_reaction =
  fixes react :: "vehicle_status_flags \<Rightarrow> nav_ctx \<Rightarrow> nav_ctx"
    and acts :: bool
  assumes react_status:
      "ctx_status (react fl c) = (ctx_status c)\<lparr>nav_state := nav_of (react fl c)\<rparr>"
    and react_nav: "nav_of (react fl c) = nav_of c \<or> nav_supported fl (nav_of (react fl c))"
    and react_acts: "acts \<Longrightarrow> nav_supported fl (nav_of (react fl c))"
    and react_main:
      "main_of (react fl c) \<in> {main_of c, MAIN_STATE_AUTO_RTL, MAIN_STATE_AUTO_LAND}"
    and react_outputs:
      "armed (ctx_armed (react fl c)) = armed (ctx_armed c)"
      "force_failsafe (ctx_armed c) \<Longrightarrow> force_failsafe (ctx_armed (react fl c))"
      "lockdown (ctx_armed c) \<Longrightarrow> lockdown (ctx_armed (react fl c))"
begin

lemma react_keeps [simp]:
  "failsafe (ctx_status (react fl c)) = failsafe (ctx_status c)"
  "arming_state (ctx_status (react fl c)) = arming_state (ctx_status c)"
  "failsafe_timestamp (ctx_status (react fl c)) = failsafe_timestamp (ctx_status c)"
  "rc_signal_lost (ctx_status (react fl c)) = rc_signal_lost (ctx_status c)"
  by (subst react_status, simp)+

lemma raised_failsafe [simp]:
  "failsafe (ctx_status (react fl (enable_failsafe now old c)))"
  by simp

lemma raised_nav:
  "nav_of (react fl (enable_failsafe now old c)) = nav_of c
   \<or> nav_supported fl (nav_of (react fl (enable_failsafe now old c)))"
  using react_nav [of fl "enable_failsafe now old c"] by simp

lemma raised_main:
  "main_of (react fl (enable_failsafe now old c))
     \<in> {main_of c, MAIN_STATE_AUTO_RTL, MAIN_STATE_AUTO_LAND}"
  using react_main [of fl "enable_failsafe now old c"] by simp

end

definition link_loss_acts :: "link_loss_actions \<Rightarrow> bool" where
  "link_loss_acts act \<longleftrightarrow>
     act \<in> {LinkLoss_AUTO_LOITER, LinkLoss_AUTO_RTL, LinkLoss_AUTO_LAND, LinkLoss_TERMINATE}"

lemmas link_loss_defs = link_loss_rtl_def link_loss_loiter_def link_loss_land_def

interpretation link_loss: failsafe_reaction
  "set_link_loss_nav_state now act delay" "link_loss_acts act" for now act delay
  by unfold_locales
     (auto simp: set_link_loss_nav_state_def link_loss_defs link_loss_acts_def Let_def
        split: link_loss_actions.splits if_splits)


definition offboard_loss_acts :: "offboard_loss_actions \<Rightarrow> bool" where
  "offboard_loss_acts act \<longleftrightarrow> act \<noteq> OffbLoss_DISABLED \<and> act \<noteq> OffbLoss_LOCKDOWN"

definition offboard_loss_rc_acts :: "offboard_loss_rc_actions \<Rightarrow> bool" where
  "offboard_loss_rc_acts act \<longleftrightarrow> act \<noteq> OffbLossRc_DISABLED \<and> act \<noteq> OffbLossRc_LOCKDOWN"

lemmas offboard_defs =
  offboard_rtl_def offboard_loiter_def offboard_land_def offboard_mitigate_def offboard_rc_altitude_def

interpretation offboard_loss: failsafe_reaction
  "set_offboard_loss_nav_state act" "offboard_loss_acts act" for act
  by unfold_locales
     (auto simp: set_offboard_loss_nav_state_def offboard_defs offboard_loss_acts_def
        split: offboard_loss_actions.splits if_splits)

interpretation offboard_loss_rc: failsafe_reaction
  "set_offboard_loss_rc_nav_state act" "offboard_loss_rc_acts act" for act
  by unfold_locales
     (auto simp: set_offboard_loss_rc_nav_state_def offboard_defs offboard_loss_rc_acts_def
        split: offboard_loss_rc_actions.splits if_splits)

subsection \<open>The position check\<close>

lemma check_invalid_pos_cases:
  "fst (check_invalid_pos_nav_state now old fl rc gp c) \<longleftrightarrow> check_invalid_pos_fallback fl gp"
  by (simp add: check_invalid_pos_nav_state_def)

lemma check_invalid_pos_frame [simp]:
  "arming_state (ctx_status (snd (check_invalid_pos_nav_state now old fl rc gp c))) =
     arming_state (ctx_status c)"
  "ctx_internal (snd (check_invalid_pos_nav_state now old fl rc gp c)) = ctx_internal c"
  by (simp_all add: check_invalid_pos_nav_state_def)

lemma check_invalid_pos_fallback_supported:
  assumes "check_invalid_pos_fallback fl gp"
  shows "nav_supported fl (nav_of (snd (check_invalid_pos_nav_state now old fl rc gp c)))"
    and "failsafe (ctx_status (snd (check_invalid_pos_nav_state now old fl rc gp c)))"
  using assms by (simp_all add: check_invalid_pos_nav_state_def)

lemma armed_pos_fallback_frame [simp]:
  "arming_state (ctx_status (snd (armed_pos_fallback now old fl gp c))) = arming_state (ctx_status c)"
  "ctx_internal (snd (armed_pos_fallback now old fl gp c)) = ctx_internal c"
  by (simp_all add: armed_pos_fallback_def)

lemma armed_pos_fallback_taken:
  assumes "fst (armed_pos_fallback now old fl gp c)"
  shows "nav_supported fl (nav_of (snd (armed_pos_fallback now old fl gp c)))"
    and "failsafe (ctx_status (snd (armed_pos_fallback now old fl gp c)))"
  using assms check_invalid_pos_fallback_supported
  by (auto simp: armed_pos_fallback_def check_invalid_pos_cases split: if_splits)


subsection \<open>An armed vehicle navigates on valid estimates\<close>


text \<open>
  The grounds for a navigation state: the estimates support it, or the operator selected altitude
  or offboard mode, or an engine failed, or, with a valid position, a failed transition without a
  reaction or the navigator's \<^verbatim>\<open>stay_in_failsafe\<close> keeps the present state.
\<close>

definition nav_justified ::
  "nav_inputs \<Rightarrow> vehicle_status_flags \<Rightarrow> nav_ctx \<Rightarrow> navigation_state_t \<Rightarrow> bool" where
  "nav_justified inp fl c n \<longleftrightarrow>
     nav_supported fl n
     \<or> n = NAVIGATION_STATE_ALTCTL \<and> main_of c = MAIN_STATE_ALTCTL
     \<or> n = NAVIGATION_STATE_OFFBOARD \<and> main_of c = MAIN_STATE_OFFBOARD
       \<and> \<not> offboard_control_signal_lost fl
     \<or> n = NAVIGATION_STATE_AUTO_LANDENGFAIL \<and> engine_failure (ctx_status c)
     \<or> n = nav_of c \<and> (local_position_valid fl \<or> global_position_valid fl)
       \<and> (vtol_transition_failure fl \<or> stay_in_failsafe inp \<and> main_of c = MAIN_STATE_AUTO_MISSION)"



lemma link_loss_acts_rtl [simp]: "link_loss_acts LinkLoss_AUTO_RTL"
  by (simp add: link_loss_acts_def)














lemma nav_justified_reset [simp]: "nav_justified inp fl (nav_reset cfg c) = nav_justified inp fl c"
  by (simp add: nav_justified_def fun_eq_iff)

subsection \<open>Deviations from the requested mode raise the failsafe flag\<close>

fun nominal_nav :: "main_state_t \<Rightarrow> navigation_state_t option" where
  "nominal_nav MAIN_STATE_MANUAL = Some NAVIGATION_STATE_MANUAL"
| "nominal_nav MAIN_STATE_ALTCTL = Some NAVIGATION_STATE_ALTCTL"
| "nominal_nav MAIN_STATE_POSCTL = Some NAVIGATION_STATE_POSCTL"
| "nominal_nav MAIN_STATE_AUTO_MISSION = Some NAVIGATION_STATE_AUTO_MISSION"
| "nominal_nav MAIN_STATE_AUTO_LOITER = Some NAVIGATION_STATE_AUTO_LOITER"
| "nominal_nav MAIN_STATE_AUTO_RTL = Some NAVIGATION_STATE_AUTO_RTL"
| "nominal_nav MAIN_STATE_ACRO = Some NAVIGATION_STATE_ACRO"
| "nominal_nav MAIN_STATE_OFFBOARD = Some NAVIGATION_STATE_OFFBOARD"
| "nominal_nav MAIN_STATE_STAB = Some NAVIGATION_STATE_STAB"
| "nominal_nav MAIN_STATE_AUTO_TAKEOFF = Some NAVIGATION_STATE_AUTO_TAKEOFF"
| "nominal_nav MAIN_STATE_AUTO_LAND = Some NAVIGATION_STATE_AUTO_LAND"
| "nominal_nav MAIN_STATE_AUTO_FOLLOW_TARGET = Some NAVIGATION_STATE_AUTO_FOLLOW_TARGET"
| "nominal_nav MAIN_STATE_AUTO_PRECLAND = Some NAVIGATION_STATE_AUTO_PRECLAND"
| "nominal_nav MAIN_STATE_ORBIT = Some NAVIGATION_STATE_ORBIT"
| "nominal_nav MAIN_STATE_AUTO_VTOL_TAKEOFF = Some NAVIGATION_STATE_AUTO_VTOL_TAKEOFF"
| "nominal_nav MAIN_STATE_MAX = None"

definition nominal :: "nav_ctx \<Rightarrow> nav_ctx \<Rightarrow> bool" where
  "nominal c c' \<longleftrightarrow> nominal_nav (main_of c) = Some (nav_of c') \<and> ctx_internal c' = ctx_internal c"

text \<open>The outcomes of a call that are neither the selected mode nor raise the flag.\<close>

definition silent_deviation ::
  "nav_inputs \<Rightarrow> vehicle_status_flags \<Rightarrow> nav_ctx \<Rightarrow> navigation_state_t \<Rightarrow> bool" where
  "silent_deviation inp fl c n \<longleftrightarrow>
     engine_failure (ctx_status c) \<and> n = NAVIGATION_STATE_AUTO_LANDENGFAIL
     \<or> mission_failure (ctx_status c) \<and> main_of c = MAIN_STATE_AUTO_MISSION
       \<and> n = NAVIGATION_STATE_AUTO_RTL
     \<or> vtol_transition_failure fl
       \<and> main_of c \<in> {MAIN_STATE_AUTO_MISSION, MAIN_STATE_AUTO_LOITER, MAIN_STATE_AUTO_TAKEOFF,
                       MAIN_STATE_AUTO_VTOL_TAKEOFF}
       \<and> n \<in> {nav_of c, NAVIGATION_STATE_AUTO_RTL, NAVIGATION_STATE_AUTO_LAND,
               NAVIGATION_STATE_AUTO_LOITER}
     \<or> stay_in_failsafe inp \<and> main_of c = MAIN_STATE_AUTO_MISSION \<and> n = nav_of c"

lemma silent_deviation_reset [simp]:
  "silent_deviation inp fl (nav_reset cfg c) = silent_deviation inp fl c"
  by (simp add: silent_deviation_def fun_eq_iff)

lemma quadchute_nav:
  "nav_of (set_quadchute_nav_state act fl c)
     \<in> {nav_of c, NAVIGATION_STATE_AUTO_RTL, NAVIGATION_STATE_AUTO_LAND, NAVIGATION_STATE_AUTO_LOITER}"
  by (simp add: set_quadchute_nav_state_def Let_def split: quadchute_actions.splits)

lemma reaction_failsafe [simp]:
  "failsafe (ctx_status (rc_loss_reaction now old cfg fl c))"
  "failsafe (ctx_status (link_loss_reaction now old act fl c))"
  by (simp_all add: rc_loss_reaction_def link_loss_reaction_def)

lemma nav_switch_outcome:
  assumes "main_of c \<noteq> MAIN_STATE_MAX"
  shows "failsafe (ctx_status (nav_switch now old cfg inp fl c))
         \<or> nominal c (nav_switch now old cfg inp fl c)
         \<or> silent_deviation inp fl c (nav_of (nav_switch now old cfg inp fl c))"
proof (cases "main_of c")
  case MAIN_STATE_POSCTL
  then show ?thesis
    using check_invalid_pos_fallback_supported(2)
    by (auto simp: nav_switch_def nav_posctl_def nominal_def Let_def case_prod_beta
        check_invalid_pos_cases)
next
  case MAIN_STATE_AUTO_MISSION
  then show ?thesis
    using armed_pos_fallback_taken(2) quadchute_nav
    by (simp add: nav_switch_def nav_auto_mission_def nominal_def Let_def silent_deviation_def)
next
  case MAIN_STATE_AUTO_LOITER
  then show ?thesis
    using armed_pos_fallback_taken(2) quadchute_nav
    by (simp add: nav_switch_def nav_auto_loiter_def nominal_def Let_def silent_deviation_def)
next
  case MAIN_STATE_AUTO_TAKEOFF
  then show ?thesis
    using armed_pos_fallback_taken(2) quadchute_nav
    by (simp add: nav_switch_def nav_auto_takeoff_def nominal_def Let_def silent_deviation_def)
next
  case MAIN_STATE_AUTO_VTOL_TAKEOFF
  then show ?thesis
    using armed_pos_fallback_taken(2) quadchute_nav
    by (simp add: nav_switch_def nav_auto_takeoff_def nominal_def Let_def silent_deviation_def)
qed (use assms armed_pos_fallback_taken(2) in
     \<open>simp_all add: nav_switch_def nav_manual_def nav_simple_auto_def nav_offboard_def nav_orbit_def
        nominal_def Let_def silent_deviation_def\<close>)

subsection \<open>The main state\<close>

text \<open>What a call of \<^verbatim>\<open>set_nav_state\<close> may do to the main state.\<close>

definition main_change_allowed :: "nav_ctx \<Rightarrow> nav_ctx \<Rightarrow> bool" where
  "main_change_allowed c c' \<longleftrightarrow>
     main_of c' = main_of c
     \<or> main_of c' \<in> {MAIN_STATE_AUTO_RTL, MAIN_STATE_AUTO_LAND} \<and> failsafe (ctx_status c')
     \<or> main_of c = MAIN_STATE_ORBIT \<and> main_of c' = MAIN_STATE_POSCTL"

lemma main_change_refl [simp]:
  "ctx_internal c' = ctx_internal c \<Longrightarrow> main_change_allowed c c'"
  by (simp add: main_change_allowed_def)

lemma main_change_failsafeI:
  "main_of c' \<in> {main_of c, MAIN_STATE_AUTO_RTL, MAIN_STATE_AUTO_LAND} \<Longrightarrow> failsafe (ctx_status c')
   \<Longrightarrow> main_change_allowed c c'"
  by (auto simp: main_change_allowed_def)

lemma reaction_main_change [simp]:
  "main_change_allowed c (rc_loss_reaction now old cfg fl c)"
  "main_change_allowed c (link_loss_reaction now old act fl c)"
  "main_change_allowed c (set_offboard_loss_nav_state oact fl (enable_failsafe now old c))"
  "main_change_allowed c (set_offboard_loss_rc_nav_state ract fl (enable_failsafe now old c))"
  unfolding rc_loss_reaction_def link_loss_reaction_def
  by (rule main_change_failsafeI, rule link_loss.raised_main offboard_loss.raised_main
      offboard_loss_rc.raised_main, simp)+

lemma quadchute_internal [simp]: "ctx_internal (set_quadchute_nav_state act fl c) = ctx_internal c"
  by (simp add: set_quadchute_nav_state_def Let_def split: quadchute_actions.splits)

lemma nav_orbit_main_change:
  "main_of c = MAIN_STATE_ORBIT \<Longrightarrow> main_change_allowed c (nav_orbit now old cfg inp fl c)"
  by (simp add: nav_orbit_def main_change_allowed_def Let_def)

lemma nav_switch_main_change:
  "main_change_allowed c (nav_switch now old cfg inp fl c)"
  using nav_orbit_main_change
  by (cases "main_of c")
     (simp_all add: nav_switch_def nav_manual_def nav_posctl_def nav_auto_mission_def
        nav_auto_loiter_def nav_auto_takeoff_def nav_simple_auto_def nav_offboard_def Let_def
        case_prod_beta)

subsection \<open>The delay of a link loss reaction\<close>

text \<open>The commander calls \<^verbatim>\<open>set_nav_state\<close> in every iteration of its loop.\<close>

fun nav_run ::
  "nav_config \<Rightarrow> nav_inputs \<Rightarrow> vehicle_status_flags \<Rightarrow> hrt_abstime list \<Rightarrow> nav_ctx \<Rightarrow> nav_ctx" where
  "nav_run cfg inp fl [] c = c"
| "nav_run cfg inp fl (t # ts) c = nav_run cfg inp fl ts (snd (set_nav_state t cfg inp fl c))"

lemma nav_run_append:
  "nav_run cfg inp fl (xs @ ys) c = nav_run cfg inp fl ys (nav_run cfg inp fl xs c)"
  by (induction xs arbitrary: c) simp_all

definition rc_reaction_pending :: "nav_config \<Rightarrow> hrt_abstime \<Rightarrow> hrt_abstime \<Rightarrow> bool" where
  "rc_reaction_pending cfg t0 t \<longleftrightarrow>
     f32_lt (f32_of_u64 (hrt_elapsed_time t t0))
            (f32_mul (param_com_rcl_act_t cfg) (f32_of_u64 1000000))"

definition stick_mode :: "main_state_t \<Rightarrow> bool" where
  "stick_mode m \<longleftrightarrow> m \<in> {MAIN_STATE_MANUAL, MAIN_STATE_STAB, MAIN_STATE_ACRO, MAIN_STATE_ALTCTL,
                       MAIN_STATE_POSCTL}"

lemma no_delay [simp]: "\<not> link_loss_delayed now (FFin False 0) s"
proof -
  have "f32_mul (FFin False 0) (f32_of_u64 1000000) = FFin False 0"
    by (simp add: f32_of_u64_def f32_of_real_numeral f32_lit_0 [unfolded f32_lit_def])
  moreover have "f32_le f32_zero (f32_of_u64 x)" for x
    unfolding f32_of_u64_def by (rule f32_of_real_nonneg, rule of_nat_0_le_iff)
  ultimately show ?thesis
    using f32_le_lt_trans by (fastforce simp: link_loss_delayed_def)
qed

lemma nav_switch_rc_lost:
  assumes "stick_mode (main_of c)" "rc_signal_lost (ctx_status c)" "is_armed (ctx_status c)"
  shows "nav_switch now old cfg inp fl c = rc_loss_reaction now old cfg fl c"
  using assms
  by (cases "main_of c")
     (simp_all add: stick_mode_def nav_switch_def nav_manual_def nav_posctl_def Let_def)

text \<open>
  Where the link loss reactions lead to by the valid estimates: the hold that precedes every
  reaction and the configured reaction itself.
\<close>

fun estimate_fallback :: "vehicle_status_flags \<Rightarrow> navigation_state_t" where
  "estimate_fallback fl =
     (if local_position_valid fl then NAVIGATION_STATE_AUTO_LAND
      else if local_altitude_valid fl then NAVIGATION_STATE_DESCEND
      else NAVIGATION_STATE_TERMINATION)"

definition hold_nav :: "vehicle_status_flags \<Rightarrow> navigation_state_t" where
  "hold_nav fl = (if global_position_valid fl then NAVIGATION_STATE_AUTO_LOITER else estimate_fallback fl)"

fun loss_nav :: "link_loss_actions \<Rightarrow> vehicle_status_flags \<Rightarrow> navigation_state_t" where
  "loss_nav LinkLoss_AUTO_RTL fl =
     (if global_position_valid fl \<and> home_position_valid fl then NAVIGATION_STATE_AUTO_RTL
      else hold_nav fl)"
| "loss_nav LinkLoss_AUTO_LAND fl =
     (if global_position_valid fl then NAVIGATION_STATE_AUTO_LAND else estimate_fallback fl)"
| "loss_nav LinkLoss_TERMINATE fl = NAVIGATION_STATE_TERMINATION"
| "loss_nav _ fl = hold_nav fl"

lemma link_loss_nav:
  assumes "link_loss_acts act"
  shows "nav_of (set_link_loss_nav_state now act delay fl c) =
           (if link_loss_delayed now delay (ctx_status c) then hold_nav fl else loss_nav act fl)"
  using assms
  by (auto simp: set_link_loss_nav_state_def link_loss_defs link_loss_acts_def hold_nav_def Let_def)

lemma link_loss_hold_internal:
  assumes "link_loss_acts act" "link_loss_delayed now delay (ctx_status c)"
  shows "ctx_internal (set_link_loss_nav_state now act delay fl c) = ctx_internal c"
  using assms
  by (auto simp: set_link_loss_nav_state_def link_loss_defs link_loss_acts_def Let_def)

text \<open>
  The time from which the delay counts: the call that raises the failsafe flag, or an earlier
  failsafe that is at most 30 seconds old.
\<close>

definition loss_time :: "hrt_abstime \<Rightarrow> vehicle_status \<Rightarrow> hrt_abstime" where
  "loss_time t s =
     (if failsafe_timestamp s = 0 \<or> hrt_elapsed_time t (failsafe_timestamp s) > 30000000
      then t else failsafe_timestamp s)"

definition rc_lost_in_stick_mode :: "nav_ctx \<Rightarrow> bool" where
  "rc_lost_in_stick_mode c \<longleftrightarrow>
     stick_mode (main_of c) \<and> is_armed (ctx_status c) \<and> rc_signal_lost (ctx_status c)"

definition rc_holding :: "hrt_abstime \<Rightarrow> nav_ctx \<Rightarrow> bool" where
  "rc_holding t0 c \<longleftrightarrow>
     rc_lost_in_stick_mode c \<and> failsafe (ctx_status c) \<and> failsafe_timestamp (ctx_status c) = t0"

text \<open>The time stamp that a call works with.\<close>

definition stamp_of :: "hrt_abstime \<Rightarrow> nav_ctx \<Rightarrow> hrt_abstime" where
  "stamp_of t c = (if failsafe (ctx_status c) then failsafe_timestamp (ctx_status c)
                   else loss_time t (ctx_status c))"

lemma stamp_of_holding: "rc_holding t0 c \<Longrightarrow> stamp_of t c = t0"
  by (simp add: rc_holding_def stamp_of_def)

lemma rc_lost_call:
  assumes "rc_lost_in_stick_mode c"
  shows "snd (set_nav_state t cfg inp fl c) =
           set_link_loss_nav_state t (rc_loss_act cfg) (param_com_rcl_act_t cfg) fl
             (enable_failsafe t (failsafe (ctx_status c)) (nav_reset cfg c))"
  using assms
  by (simp add: set_nav_state_def Let_def nav_switch_rc_lost rc_lost_in_stick_mode_def
      rc_loss_reaction_def)

lemma rc_lost_status:
  assumes "rc_lost_in_stick_mode c"
  shows "ctx_status (enable_failsafe t (failsafe (ctx_status c)) (nav_reset cfg c)) =
           (ctx_status c)\<lparr>failsafe_timestamp := stamp_of t c, failsafe := True\<rparr>"
  using assms
  by (simp add: enable_failsafe_def rc_lost_in_stick_mode_def stamp_of_def loss_time_def Let_def)

lemma rc_lost_delayed:
  assumes "rc_lost_in_stick_mode c"
  shows "link_loss_delayed t (param_com_rcl_act_t cfg)
           (ctx_status (enable_failsafe t (failsafe (ctx_status c)) (nav_reset cfg c)))
         \<longleftrightarrow> rc_reaction_pending cfg (stamp_of t c) t"
  by (simp add: rc_lost_status [OF assms] link_loss_delayed_def rc_reaction_pending_def)

lemma rc_lost_nav:
  assumes "rc_lost_in_stick_mode c" "link_loss_acts (rc_loss_act cfg)"
  shows "nav_of (snd (set_nav_state t cfg inp fl c)) =
           (if rc_reaction_pending cfg (stamp_of t c) t then hold_nav fl
            else loss_nav (rc_loss_act cfg) fl)"
  by (simp add: rc_lost_call [OF assms(1)] link_loss_nav [OF assms(2)] rc_lost_delayed [OF assms(1)])

lemma rc_lost_holds:
  assumes "rc_lost_in_stick_mode c" "link_loss_acts (rc_loss_act cfg)"
    and "rc_reaction_pending cfg (stamp_of t c) t"
  shows "rc_holding (stamp_of t c) (snd (set_nav_state t cfg inp fl c))"
proof -
  let ?e = "enable_failsafe t (failsafe (ctx_status c)) (nav_reset cfg c)"
  let ?n = "set_link_loss_nav_state t (rc_loss_act cfg) (param_com_rcl_act_t cfg) fl ?e"
  have "ctx_internal ?n = ctx_internal c"
    using link_loss_hold_internal [OF assms(2)] rc_lost_delayed [OF assms(1), of t cfg] assms(3) by simp
  then show ?thesis
    using assms(1)
    by (simp add: rc_lost_call [OF assms(1)] rc_holding_def rc_lost_in_stick_mode_def
        rc_lost_status [OF assms(1)])
qed

lemma rc_holding_run:
  assumes "rc_holding t0 c" "link_loss_acts (rc_loss_act cfg)"
    and "\<And>t'. t' \<in> set ts \<Longrightarrow> rc_reaction_pending cfg t0 t'"
  shows "nav_of (nav_run cfg inp fl (ts @ [t]) c) =
           (if rc_reaction_pending cfg t0 t then hold_nav fl else loss_nav (rc_loss_act cfg) fl)"
  using assms(1,3)
proof (induction ts arbitrary: c)
  case Nil
  then show ?case
    using rc_lost_nav [of c cfg t inp fl] assms(2) stamp_of_holding [OF Nil(1), of t]
    by (simp add: rc_holding_def)
next
  case (Cons t1 ts)
  have "rc_holding t0 (snd (set_nav_state t1 cfg inp fl c))"
    using rc_lost_holds [of c cfg t1 inp fl] Cons.prems assms(2) stamp_of_holding [OF Cons.prems(1)]
    by (simp add: rc_holding_def)
  then show ?case
    using Cons by simp
qed

subsection \<open>Properties of the navigation state machine\<close>

definition nav_config_example :: nav_config where
  "nav_config_example =
     \<lparr>data_link_loss_act = LinkLoss_AUTO_RTL, rc_loss_act = LinkLoss_AUTO_RTL,
      offb_loss_act = OffbLoss_AUTO_LAND, quadchute_act = Quadchute_AUTO_RTL,
      offb_loss_rc_act = OffbLossRc_MANUAL_POSITION, posctl_nav_loss_act = PosNavLoss_ALTITUDE_MANUAL,
      param_com_rcl_act_t = f32_lit 15, param_com_rcl_except = 0\<rparr>"

definition nav_inputs_example :: nav_inputs where
  "nav_inputs_example = \<lparr>mission_finished = False, stay_in_failsafe = False, landed = False\<rparr>"

definition nav_ctx_example :: "main_state_t \<Rightarrow> nav_ctx" where
  "nav_ctx_example m =
     \<lparr>ctx_status = status_example, ctx_armed = armed_example, ctx_internal = internal_example m\<rparr>"

lemmas nav_examples = nav_config_example_def nav_inputs_example_def nav_ctx_example_def commander_examples




text \<open>
  C24: \<^verbatim>\<open>set_nav_state\<close> leaves the selected mode silently in four cases only. If a call ends with the
  failsafe flag low, the navigation state is the one of the main state, or it is the engine failure
  landing, the return of a mission that failed, the quadchute reaction (or the present state) of a
  mission, hold or take-off whose transition failed, or the present state of a mission that is to
  stay in failsafe.
\<close>

theorem set_nav_state_deviation_raises_failsafe:
  assumes "main_of c \<noteq> MAIN_STATE_MAX"
    and "\<not> failsafe (ctx_status (snd (set_nav_state now cfg inp fl c)))"
    and "n = nav_of (snd (set_nav_state now cfg inp fl c))"
  shows "nominal_nav (main_of c) = Some n
         \<or> engine_failure (ctx_status c) \<and> n = NAVIGATION_STATE_AUTO_LANDENGFAIL
         \<or> mission_failure (ctx_status c) \<and> main_of c = MAIN_STATE_AUTO_MISSION
           \<and> n = NAVIGATION_STATE_AUTO_RTL
         \<or> vtol_transition_failure fl
           \<and> main_of c \<in> {MAIN_STATE_AUTO_MISSION, MAIN_STATE_AUTO_LOITER, MAIN_STATE_AUTO_TAKEOFF,
                           MAIN_STATE_AUTO_VTOL_TAKEOFF}
           \<and> n \<in> {nav_of c, NAVIGATION_STATE_AUTO_RTL, NAVIGATION_STATE_AUTO_LAND,
                   NAVIGATION_STATE_AUTO_LOITER}
         \<or> stay_in_failsafe inp \<and> main_of c = MAIN_STATE_AUTO_MISSION \<and> n = nav_of c"
proof -
  have "nominal_nav (main_of c) = Some n \<or> silent_deviation inp fl c n"
    using nav_switch_outcome [of "nav_reset cfg c" now "failsafe (ctx_status c)" cfg inp fl] assms
    by (auto simp: set_nav_state_def Let_def nominal_def)
  then show ?thesis
    unfolding silent_deviation_def .
qed

theorem set_nav_state_deviation_raises_failsafe_witness:
  "nominal_nav MAIN_STATE_ORBIT =
     Some (nav_of (snd (set_nav_state 5 nav_config_example nav_inputs_example flags_example
             (nav_ctx_example MAIN_STATE_ORBIT))))"
proof -
  have "\<not> failsafe (ctx_status (snd (set_nav_state 5 nav_config_example nav_inputs_example flags_example
             (nav_ctx_example MAIN_STATE_ORBIT))))"
    by (simp add: set_nav_state_def nav_switch_def nav_orbit_def armed_pos_fallback_def
        check_invalid_pos_nav_state_def check_invalid_pos_fallback_def nav_examples Let_def)
  from set_nav_state_deviation_raises_failsafe [OF _ this refl] show ?thesis
    by (simp add: nav_examples)
qed

text \<open>
  \<^verbatim>\<open>set_nav_state\<close> changes the mode that the operator selected in two ways only: to return or
  land as a failsafe reaction, with the flag raised, and from orbit to position mode.
\<close>

theorem set_nav_state_main_state:
  "main_of (snd (set_nav_state now cfg inp fl c)) = main_of c
   \<or> main_of (snd (set_nav_state now cfg inp fl c)) \<in> {MAIN_STATE_AUTO_RTL, MAIN_STATE_AUTO_LAND}
     \<and> failsafe (ctx_status (snd (set_nav_state now cfg inp fl c)))
   \<or> main_of c = MAIN_STATE_ORBIT
     \<and> main_of (snd (set_nav_state now cfg inp fl c)) = MAIN_STATE_POSCTL"
  using nav_switch_main_change [of "nav_reset cfg c" now "failsafe (ctx_status c)" cfg inp fl]
  by (simp add: set_nav_state_def Let_def main_change_allowed_def)

text \<open>
  C25: after a loss of the manual control in a stick controlled mode of an armed vehicle, the delay
  \<^verbatim>\<open>COM_RCL_ACT_T\<close> counts from the first call that saw the loss, or from the time stamp of an earlier
  failsafe that is at most 30 seconds old. Whatever the number and the times of the calls of
  \<^verbatim>\<open>set_nav_state\<close>, each call within the delay holds (or lands, descends or terminates, by the
  estimates that are valid), and the first call after it starts the configured reaction: return,
  land, hold or terminate, by the valid estimates again.
\<close>

theorem rc_loss_reaction_after_delay:
  assumes "stick_mode (main_of c)" and "is_armed (ctx_status c)" and "rc_signal_lost (ctx_status c)"
    and "\<not> failsafe (ctx_status c)" and "link_loss_acts (rc_loss_act cfg)"
    and "t0 = loss_time (hd (ts @ [t])) (ctx_status c)"
    and "\<forall>t' \<in> set ts. rc_reaction_pending cfg t0 t'"
  shows "nav_of (nav_run cfg inp fl (ts @ [t]) c) =
           (if rc_reaction_pending cfg t0 t then hold_nav fl else loss_nav (rc_loss_act cfg) fl)"
proof -
  have lost: "rc_lost_in_stick_mode c"
    using assms(1-3) by (simp add: rc_lost_in_stick_mode_def)
  have stamp: "stamp_of (hd (ts @ [t])) c = t0"
    using assms(4,6) by (simp add: stamp_of_def)
  show ?thesis
  proof (cases ts)
    case Nil
    then show ?thesis
      using rc_lost_nav [OF lost assms(5), of t inp fl] stamp by simp
  next
    case (Cons t1 ts')
    then have "rc_holding t0 (snd (set_nav_state t1 cfg inp fl c))"
      using rc_lost_holds [OF lost assms(5), of t1 inp fl] stamp assms(7) by simp
    then show ?thesis
      using rc_holding_run [OF _ assms(5), of t0 _ ts' inp fl t] assms(7) Cons by simp
  qed
qed

theorem rc_loss_reaction_after_delay_witness:
  "(let c = (nav_ctx_example MAIN_STATE_POSCTL)\<lparr>ctx_status := status_example\<lparr>rc_signal_lost := True\<rparr>\<rparr>;
        run = (\<lambda>ts. nav_of (nav_run nav_config_example nav_inputs_example flags_example ts c))
    in (run [1000, 4000], run [1000, 4000, 15001000])) =
   (NAVIGATION_STATE_AUTO_LOITER, NAVIGATION_STATE_AUTO_RTL)"
proof -
  let ?c = "(nav_ctx_example MAIN_STATE_POSCTL)\<lparr>ctx_status := status_example\<lparr>rc_signal_lost := True\<rparr>\<rparr>"
  have pending: "rc_reaction_pending nav_config_example 1000 1000"
    "rc_reaction_pending nav_config_example 1000 4000"
    "\<not> rc_reaction_pending nav_config_example 1000 15001000"
    by (simp_all add: nav_examples rc_reaction_pending_def hrt_elapsed_time_def
        f32_of_u64_def f32_of_real_numeral f32_lit_def f32_lit_0 [unfolded f32_lit_def])
  have c: "stick_mode (main_of ?c)" "is_armed (ctx_status ?c)" "rc_signal_lost (ctx_status ?c)"
    "\<not> failsafe (ctx_status ?c)" "link_loss_acts (rc_loss_act nav_config_example)"
    "1000 = loss_time 1000 (ctx_status ?c)"
    by (simp_all add: nav_examples stick_mode_def loss_time_def link_loss_acts_def)
  show ?thesis
    using rc_loss_reaction_after_delay [OF c(1-5), of 1000 "[1000]" 4000 nav_inputs_example flags_example]
      rc_loss_reaction_after_delay [OF c(1-5), of 1000 "[1000, 4000]" 15001000 nav_inputs_example
        flags_example] pending c(6)
    by (simp add: Let_def hold_nav_def nav_examples)
qed

text \<open>
  The data link loss reaction of the orbit mode lasts for one call only. The call that sees the
  loss selects return and replaces the main state by position mode; the next call, with manual
  control present and nothing else changed, selects position mode and lowers the failsafe flag
  although the data link is still lost.
\<close>

theorem orbit_data_link_loss_reaction_one_call:
  assumes "main_of c = MAIN_STATE_ORBIT" and "is_armed (ctx_status c)"
    and "\<not> engine_failure (ctx_status c)" and "\<not> rc_signal_lost (ctx_status c)"
    and "data_link_lost (ctx_status c)" and "data_link_loss_act cfg = LinkLoss_AUTO_RTL"
    and "\<not> landed inp" and "global_position_valid fl" and "home_position_valid fl"
    and "local_position_valid fl" and "local_velocity_valid fl"
  shows "(let c1 = nav_run cfg inp fl [t1] c; c2 = nav_run cfg inp fl [t1, t2] c
          in (nav_of c1, failsafe (ctx_status c1), nav_of c2, failsafe (ctx_status c2))) =
         (NAVIGATION_STATE_AUTO_RTL, True, NAVIGATION_STATE_POSCTL, False)"
proof -
  let ?c1 = "snd (set_nav_state t1 cfg inp fl c)"
  have c1: "?c1 = set_main MAIN_STATE_POSCTL
      (enable_failsafe t1 (failsafe (ctx_status c))
         (set_nav NAVIGATION_STATE_AUTO_RTL (request_main t1 fl MAIN_STATE_AUTO_RTL (nav_reset cfg c))))"
    using assms
    by (simp add: set_nav_state_def Let_def nav_switch_def nav_orbit_def armed_pos_fallback_def
        check_invalid_pos_nav_state_def check_invalid_pos_fallback_def
        data_link_loss_act_configured_def set_link_loss_nav_state_def link_loss_rtl_def)
  have rc: "\<not> rc_signal_lost (ctx_status ?c1)"
    using assms(4) by (simp add: c1 enable_failsafe_def Let_def)
  have "snd (set_nav_state t2 cfg inp fl ?c1) = set_nav NAVIGATION_STATE_POSCTL (nav_reset cfg ?c1)"
    using assms rc
    by (simp add: set_nav_state_def [of t2] Let_def nav_switch_def nav_posctl_def c1
        check_invalid_pos_nav_state_def check_invalid_pos_fallback_def)
  then show ?thesis
    by (simp add: c1 Let_def)
qed

theorem orbit_data_link_loss_reaction_one_call_witness:
  "(let c = (nav_ctx_example MAIN_STATE_ORBIT)\<lparr>ctx_status := status_example\<lparr>data_link_lost := True\<rparr>\<rparr>;
        c1 = nav_run nav_config_example nav_inputs_example flags_example [10] c;
        c2 = nav_run nav_config_example nav_inputs_example flags_example [10, 20] c
    in (nav_of c1, failsafe (ctx_status c1), nav_of c2, failsafe (ctx_status c2))) =
   (NAVIGATION_STATE_AUTO_RTL, True, NAVIGATION_STATE_POSCTL, False)"
  using orbit_data_link_loss_reaction_one_call
    [of "(nav_ctx_example MAIN_STATE_ORBIT)\<lparr>ctx_status := status_example\<lparr>data_link_lost := True\<rparr>\<rparr>"
        nav_config_example nav_inputs_example flags_example 10 20]
  by (simp add: nav_examples)

end
