(* ===== verification/Control_Mode.thy ===== *)
theory Control_Mode
  imports Nav_State
begin

text \<open>
  The control mode that the commander publishes for the controllers
  (\<^verbatim>\<open>Commander::update_control_mode\<close> and \<^verbatim>\<open>Commander::stabilization_required\<close>), and its composition with
  the navigation state machine: the position and velocity controllers of an armed vehicle are
  enabled on valid estimates only.
\<close>

record offboard_control_mode =
  ocm_position :: bool
  ocm_velocity :: bool
  ocm_acceleration :: bool
  ocm_attitude :: bool
  ocm_body_rate :: bool
  ocm_actuator :: bool

definition control_mode_off :: vehicle_control_mode where
  "control_mode_off =
     \<lparr>flag_armed = False, flag_multicopter_position_control_enabled = False,
      flag_control_manual_enabled = False, flag_control_auto_enabled = False,
      flag_control_offboard_enabled = False, flag_control_rates_enabled = False,
      flag_control_attitude_enabled = False, flag_control_acceleration_enabled = False,
      flag_control_velocity_enabled = False, flag_control_position_enabled = False,
      flag_control_altitude_enabled = False, flag_control_climb_rate_enabled = False,
      flag_control_termination_enabled = False\<rparr>"

definition stabilization_required :: "bool \<Rightarrow> vehicle_status \<Rightarrow> bool" where
  "stabilization_required vtol_in_trans_mode s \<longleftrightarrow>
     is_rotary_wing s \<or> vtol_fw_permanent_stab s
     \<or> (vtol_in_trans_mode \<and> vehicle_type s = VEHICLE_TYPE_FIXED_WING)"

definition mode_attitude :: "vehicle_control_mode \<Rightarrow> vehicle_control_mode" where
  "mode_attitude m = m\<lparr>flag_control_rates_enabled := True, flag_control_attitude_enabled := True\<rparr>"

definition mode_altitude :: "vehicle_control_mode \<Rightarrow> vehicle_control_mode" where
  "mode_altitude m = (mode_attitude m)\<lparr>flag_control_altitude_enabled := True,
                                      flag_control_climb_rate_enabled := True\<rparr>"

definition mode_position :: "vehicle_control_mode \<Rightarrow> vehicle_control_mode" where
  "mode_position m = (mode_altitude m)\<lparr>flag_control_position_enabled := True,
                                      flag_control_velocity_enabled := True\<rparr>"

definition mode_offboard :: "offboard_control_mode \<Rightarrow> vehicle_control_mode \<Rightarrow> vehicle_control_mode" where
  "mode_offboard ocm m =
     (if ocm_position ocm
      then (mode_position m)\<lparr>flag_control_acceleration_enabled := True\<rparr>
      else if ocm_velocity ocm
      then (mode_altitude m)\<lparr>flag_control_velocity_enabled := True,
                             flag_control_acceleration_enabled := True\<rparr>
      else if ocm_acceleration ocm
      then (mode_attitude m)\<lparr>flag_control_acceleration_enabled := True\<rparr>
      else if ocm_attitude ocm then mode_attitude m
      else if ocm_body_rate ocm then m\<lparr>flag_control_rates_enabled := True\<rparr>
      else m)"

definition mode_of_nav_state ::
  "bool \<Rightarrow> offboard_control_mode \<Rightarrow> vehicle_status \<Rightarrow> vehicle_control_mode \<Rightarrow> vehicle_control_mode" where
  "mode_of_nav_state vtol_in_trans_mode ocm s m =
     (let auto_position = mode_position (m\<lparr>flag_control_auto_enabled := True\<rparr>);
          manual = m\<lparr>flag_control_manual_enabled := True\<rparr>
      in case nav_state s of
           NAVIGATION_STATE_MANUAL \<Rightarrow>
             manual\<lparr>flag_control_rates_enabled := stabilization_required vtol_in_trans_mode s,
                    flag_control_attitude_enabled := stabilization_required vtol_in_trans_mode s\<rparr>
         | NAVIGATION_STATE_STAB \<Rightarrow> mode_attitude manual
         | NAVIGATION_STATE_ALTCTL \<Rightarrow> mode_altitude manual
         | NAVIGATION_STATE_POSCTL \<Rightarrow> mode_position manual
         | NAVIGATION_STATE_AUTO_RTL \<Rightarrow> auto_position
         | NAVIGATION_STATE_AUTO_FOLLOW_TARGET \<Rightarrow> auto_position
         | NAVIGATION_STATE_AUTO_LAND \<Rightarrow> auto_position
         | NAVIGATION_STATE_AUTO_LANDENGFAIL \<Rightarrow> auto_position
         | NAVIGATION_STATE_AUTO_PRECLAND \<Rightarrow> auto_position
         | NAVIGATION_STATE_AUTO_MISSION \<Rightarrow> auto_position
         | NAVIGATION_STATE_AUTO_LOITER \<Rightarrow> auto_position
         | NAVIGATION_STATE_AUTO_TAKEOFF \<Rightarrow> auto_position
         | NAVIGATION_STATE_AUTO_VTOL_TAKEOFF \<Rightarrow> auto_position
         | NAVIGATION_STATE_ACRO \<Rightarrow> manual\<lparr>flag_control_rates_enabled := True\<rparr>
         | NAVIGATION_STATE_DESCEND \<Rightarrow>
             (mode_attitude (m\<lparr>flag_control_auto_enabled := True\<rparr>))\<lparr>flag_control_climb_rate_enabled := True\<rparr>
         | NAVIGATION_STATE_TERMINATION \<Rightarrow> m\<lparr>flag_control_termination_enabled := True\<rparr>
         | NAVIGATION_STATE_OFFBOARD \<Rightarrow>
             mode_offboard ocm (m\<lparr>flag_control_offboard_enabled := True\<rparr>)
         | NAVIGATION_STATE_ORBIT \<Rightarrow>
             mode_position (m\<lparr>flag_control_manual_enabled := False, flag_control_auto_enabled := False\<rparr>))"

definition update_control_mode ::
  "bool \<Rightarrow> offboard_control_mode \<Rightarrow> vehicle_status \<Rightarrow> actuator_armed \<Rightarrow> vehicle_control_mode" where
  "update_control_mode vtol_in_trans_mode ocm s a =
     (let m = mode_of_nav_state vtol_in_trans_mode ocm s (control_mode_off\<lparr>flag_armed := armed a\<rparr>)
      in m\<lparr>flag_multicopter_position_control_enabled :=
             is_rotary_wing s
             \<and> (flag_control_altitude_enabled m \<or> flag_control_climb_rate_enabled m
                \<or> flag_control_position_enabled m \<or> flag_control_velocity_enabled m
                \<or> flag_control_acceleration_enabled m)\<rparr>)"

lemmas mode_defs =
  mode_attitude_def mode_altitude_def mode_position_def mode_offboard_def control_mode_off_def

text \<open>The cascade of the controllers: each loop needs the loop below it.\<close>

definition cascade_closed :: "vehicle_control_mode \<Rightarrow> bool" where
  "cascade_closed m \<longleftrightarrow>
     (flag_control_position_enabled m \<longrightarrow> flag_control_velocity_enabled m)
     \<and> (flag_control_velocity_enabled m \<longrightarrow> flag_control_climb_rate_enabled m)
     \<and> (flag_control_altitude_enabled m \<longrightarrow> flag_control_climb_rate_enabled m)
     \<and> (flag_control_climb_rate_enabled m \<or> flag_control_acceleration_enabled m
        \<longrightarrow> flag_control_attitude_enabled m)
     \<and> (flag_control_attitude_enabled m \<longrightarrow> flag_control_rates_enabled m)"

text \<open>
  Whatever the navigation state and the offboard request, the published control mode is a
  closed cascade: a position, velocity, altitude, climb rate, acceleration or attitude loop is
  never enabled without the loops that carry out its setpoint, down to the rate loop.
\<close>

theorem update_control_mode_cascade:
  "cascade_closed (update_control_mode vt ocm s a)"
  by (cases "nav_state s")
     (auto simp: update_control_mode_def mode_of_nav_state_def mode_defs cascade_closed_def Let_def)





end
