(* ===== verification/Eso_Position_Module.thy ===== *)
theory Eso_Position_Module
  imports Eso_Position_Laws Eso_Takeoff Eso_Rate_Safety Arm_Joint_Bridge Control_Mode
begin

text \<open>
  The work item \<^verbatim>\<open>ESOMulticopterPositionControl\<close>
  (\<^verbatim>\<open>src/modules/eso_pos_control/ESOMulticopterPositionControl.cpp\<close>): parameters with their mutual limits,
  the centre of mass, the vehicle states from the estimator, the adaptation of the setpoint to
  estimator resets, take-off, the call of the position controller, the failsafe and the
  publications. A subscription is an \<open>option\<close> of the input record, one clock reading serves a run,
  and \<open>None\<close> as a result stands for the undefined conversion of the spool-up time. The storage of
  changed parameters, the warnings and the debug output are left out. Shown: the limits between the
  parameters after an update, the take-off gate of the position setpoint, and what the failsafe
  publishes.
\<close>

subsection \<open>Library blocks\<close>

definition lerp :: "float32 \<Rightarrow> float32 \<Rightarrow> float32 \<Rightarrow> float32" where
  "lerp a b s = f32_add (f32_mul (f32_sub (f32_lit 1) s) a) (f32_mul s b)"

definition f32_fmin :: "float32 \<Rightarrow> float32 \<Rightarrow> float32" where
  "f32_fmin a b = (if a = FNaN then b else if b = FNaN then a else if f32_lt b a then b else a)"

definition isEqualF :: "float32 \<Rightarrow> float32 \<Rightarrow> float32 \<Rightarrow> bool" where
  "isEqualF x y eps \<longleftrightarrow> f32_le (f32_abs (f32_sub x y)) eps \<or> (x = FNaN \<and> y = FNaN)
     \<or> (x \<in> {FInf False, FInf True} \<and> y \<in> {FInf False, FInf True} \<and> f32_sub x y = FNaN)"

record slew_rate =
  sr_slew_rate :: float32
  sr_value :: float32

definition sr_update :: "float32 \<Rightarrow> float32 \<Rightarrow> slew_rate \<Rightarrow> slew_rate" where
  "sr_update new_value deltatime r =
     (let dvalue_desired = f32_sub new_value (sr_value r);
          dvalue_max = f32_mul (sr_slew_rate r) deltatime;
          dvalue = constrain dvalue_desired (f32_neg dvalue_max) dvalue_max
      in r\<lparr>sr_value := f32_add (sr_value r) dvalue\<rparr>)"

record block_derivative =
  bd_u :: float32
  bd_initialized :: bool
  bd_lowpass :: float32

definition BlockDerivative :: block_derivative where
  "BlockDerivative = \<lparr>bd_u = f32_zero, bd_initialized = False, bd_lowpass = FNaN\<rparr>"

definition lowpass_update :: "float32 \<Rightarrow> float32 \<Rightarrow> float32 \<Rightarrow> float32 \<Rightarrow> float32" where
  "lowpass_update fcut dt input st =
     (let st = (if f32_isfinite st then st else input);
          b = f32_mul (f32_mul (f32_mul (f32_lit 2) (f32_lit MATH_PI)) fcut) dt;
          a = f32_div b (f32_add (f32_lit 1) b)
      in f32_add (f32_mul a input) (f32_mul (f32_sub (f32_lit 1) a) st))"

definition bd_update :: "float32 \<Rightarrow> float32 \<Rightarrow> float32 \<Rightarrow> block_derivative \<Rightarrow> float32 \<times> block_derivative" where
  "bd_update fcut dt input d =
     (if bd_initialized d then
        (let y = lowpass_update fcut dt (f32_div (f32_sub input (bd_u d)) dt) (bd_lowpass d)
         in (y, d\<lparr>bd_lowpass := y, bd_u := input\<rparr>))
      else (f32_zero, d\<lparr>bd_lowpass := lowpass_update fcut dt f32_zero (bd_lowpass d), bd_initialized := True,
                        bd_u := input\<rparr>))"

definition bd_reset :: "block_derivative \<Rightarrow> block_derivative" where
  "bd_reset d = d\<lparr>bd_initialized := False\<rparr>"

subsection \<open>Parameters\<close>

record pos_params =
  pp_pos_p :: vector3f
  pp_pos_i :: vector3f
  pp_vel_p :: vector3f
  pp_bw :: vector3f
  pp_esogate :: bool
  pp_dyn_ff_en :: bool
  pp_pos_int_lim :: float32
  pp_use_hte :: bool
  pp_arm_model :: "32 word"
  pp_veld_lp :: float32
  pp_spoolup_time :: float32
  pp_tko_ramp_t :: float32
  pp_thr_xy_marg :: float32
  pp_sys_vehicle_resp :: float32
  pp_xy_vel_all :: float32
  pp_z_vel_all :: float32
  pp_thr_min :: float32
  pp_thr_max :: float32
  pp_thr_hover :: float32
  pp_tiltmax_air :: float32
  pp_tiltmax_lnd :: float32
  pp_xy_vel_max :: float32
  pp_xy_cruise :: float32
  pp_vel_manual :: float32
  pp_z_v_auto_up :: float32
  pp_z_vel_max_up :: float32
  pp_z_v_auto_dn :: float32
  pp_z_vel_max_dn :: float32
  pp_tko_speed :: float32
  pp_land_speed :: float32
  pp_acc_hor :: float32
  pp_acc_hor_max :: float32
  pp_acc_down_max :: float32
  pp_acc_up_max :: float32
  pp_jerk_max :: float32
  pp_jerk_auto :: float32
  pp_man_y_max :: float32
  pp_man_y_tau :: float32

definition MAX_SAFE_TILT_DEG :: float32 where
  "MAX_SAFE_TILT_DEG = f32_lit 89"

text \<open>\<^verbatim>\<open>commit_no_notification(val)\<close> keeps a value that is equal up to \<^verbatim>\<open>FLT_EPSILON\<close>.\<close>

definition commit_param :: "float32 \<Rightarrow> float32 \<Rightarrow> float32" where
  "commit_param val old = (if f32_gt (f32_abs (f32_sub val old)) FLT_EPSILON then val else old)"

definition pp_responsiveness :: "pos_params \<Rightarrow> pos_params" where
  "pp_responsiveness p =
     (if f32_ge (pp_sys_vehicle_resp p) f32_zero then
        (let r = f32_mul (pp_sys_vehicle_resp p) (pp_sys_vehicle_resp p)
         in p\<lparr>pp_acc_hor := commit_param (lerp (f32_lit 1) (f32_lit 15) r) (pp_acc_hor p),
              pp_acc_hor_max := commit_param (lerp (f32_lit 2) (f32_lit 15) r) (pp_acc_hor_max p),
              pp_man_y_max := commit_param (lerp (f32_lit 80) (f32_lit 450) r) (pp_man_y_max p),
              pp_man_y_tau := commit_param
                (if f32_gt r (f32_lit (6 / 10)) then f32_zero
                 else lerp (f32_lit (1 / 2)) f32_zero (f32_div r (f32_lit (6 / 10)))) (pp_man_y_tau p),
              pp_tiltmax_air := commit_param
                (if f32_lt r (f32_lit (1 / 2)) then f32_lit 45
                 else math_min MAX_SAFE_TILT_DEG
                        (lerp (f32_lit 45) (f32_lit 70) (f32_mul (f32_sub r (f32_lit (1 / 2))) (f32_lit 2))))
                (pp_tiltmax_air p),
              pp_acc_down_max := commit_param (lerp (f32_lit (8 / 10)) (f32_lit 15) r) (pp_acc_down_max p),
              pp_acc_up_max := commit_param (lerp (f32_lit 1) (f32_lit 15) r) (pp_acc_up_max p),
              pp_jerk_max := commit_param (lerp (f32_lit 2) (f32_lit 50) r) (pp_jerk_max p),
              pp_jerk_auto := commit_param (lerp (f32_lit 1) (f32_lit 25) r) (pp_jerk_auto p)\<rparr>)
      else p)"

definition pp_xy_all :: "pos_params \<Rightarrow> pos_params" where
  "pp_xy_all p =
     (if f32_ge (pp_xy_vel_all p) f32_zero then
        (let v = pp_xy_vel_all p
         in p\<lparr>pp_vel_manual := commit_param v (pp_vel_manual p), pp_xy_cruise := commit_param v (pp_xy_cruise p),
              pp_xy_vel_max := commit_param v (pp_xy_vel_max p)\<rparr>)
      else p)"

definition pp_z_all :: "pos_params \<Rightarrow> pos_params" where
  "pp_z_all p =
     (if f32_ge (pp_z_vel_all p) f32_zero then
        (let v = pp_z_vel_all p
         in p\<lparr>pp_z_v_auto_up := commit_param v (pp_z_v_auto_up p),
              pp_z_vel_max_up := commit_param v (pp_z_vel_max_up p),
              pp_z_v_auto_dn := commit_param (f32_mul v (f32_lit (75 / 100))) (pp_z_v_auto_dn p),
              pp_z_vel_max_dn := commit_param (f32_mul v (f32_lit (75 / 100))) (pp_z_vel_max_dn p),
              pp_tko_speed := commit_param (f32_mul v (f32_lit (6 / 10))) (pp_tko_speed p),
              pp_land_speed := commit_param (f32_mul v (f32_lit (1 / 2))) (pp_land_speed p)\<rparr>)
      else p)"

definition upper_limit :: "float32 \<Rightarrow> float32 \<Rightarrow> float32" where
  "upper_limit x limit = (if f32_gt x limit then limit else x)"

definition pp_tilt_limits :: "pos_params \<Rightarrow> pos_params" where
  "pp_tilt_limits p =
     (let p = p\<lparr>pp_tiltmax_air := upper_limit (pp_tiltmax_air p) MAX_SAFE_TILT_DEG\<rparr>
      in p\<lparr>pp_tiltmax_lnd := upper_limit (pp_tiltmax_lnd p) (pp_tiltmax_air p)\<rparr>)"

definition pp_speed_limits :: "pos_params \<Rightarrow> pos_params" where
  "pp_speed_limits p =
     p\<lparr>pp_xy_cruise := upper_limit (pp_xy_cruise p) (pp_xy_vel_max p),
       pp_vel_manual := upper_limit (pp_vel_manual p) (pp_xy_vel_max p),
       pp_z_v_auto_up := upper_limit (pp_z_v_auto_up p) (pp_z_vel_max_up p),
       pp_z_v_auto_dn := upper_limit (pp_z_v_auto_dn p) (pp_z_vel_max_dn p),
       pp_thr_hover :=
         (if f32_gt (pp_thr_hover p) (pp_thr_max p) \<or> f32_lt (pp_thr_hover p) (pp_thr_min p)
          then constrain (pp_thr_hover p) (pp_thr_min p) (pp_thr_max p) else pp_thr_hover p)\<rparr>"

definition pp_final_limits :: "pos_params \<Rightarrow> pos_params" where
  "pp_final_limits p =
     p\<lparr>pp_tko_speed := math_min (pp_tko_speed p) (pp_z_vel_max_up p),
       pp_land_speed := math_min (pp_land_speed p) (pp_z_vel_max_dn p)\<rparr>"

definition pp_adjust :: "pos_params \<Rightarrow> pos_params" where
  "pp_adjust p = pp_final_limits (pp_speed_limits (pp_tilt_limits (pp_z_all (pp_xy_all (pp_responsiveness p)))))"

subsection \<open>Topics and state\<close>

record vehicle_local_position_s =
  lp_timestamp :: hrt_abstime
  lp_timestamp_sample :: hrt_abstime
  lp_xy_valid :: bool
  lp_z_valid :: bool
  lp_v_xy_valid :: bool
  lp_v_z_valid :: bool
  lp_pos :: vector3f
  lp_vel :: vector3f
  lp_z_deriv :: float32
  lp_heading :: float32
  lp_delta_xy :: vector2f
  lp_delta_z :: float32
  lp_delta_vxy :: vector2f
  lp_delta_vz :: float32
  lp_delta_heading :: float32
  lp_xy_reset_counter :: u8
  lp_z_reset_counter :: u8
  lp_vxy_reset_counter :: u8
  lp_vz_reset_counter :: u8
  lp_heading_reset_counter :: u8

record vehicle_constraints_s =
  vc_speed_up :: float32
  vc_speed_down :: float32
  vc_want_takeoff :: bool

record land_detected =
  ld_ground_contact :: bool
  ld_landed :: bool

record position_controller_status =
  cs_pos :: vector3f
  cs_pos_hat :: vector3f
  cs_pos_error :: vector3f
  cs_vel :: vector3f
  cs_vel_hat :: vector3f
  cs_vel_error :: vector3f
  cs_disturbance_hat :: vector3f
  cs_eso_input :: vector3f

datatype pos_pub =
    Pub_local_position_setpoint vehicle_local_position_setpoint_s
  | Pub_position_controller_status position_controller_status
  | Pub_attitude_sp vehicle_attitude_setpoint_s
  | Pub_takeoff_status u8 float32

record pos_module =
  pm_params :: pos_params
  pm_takeoff :: eso_takeoff
  pm_control :: position_control
  pm_arm :: arm_kinematics
  pm_active_profile :: ModelProfile
  pm_use_dynamic_arm_model :: bool
  pm_fallback_com :: vector3f
  pm_last_dynamic_com_timestamp :: hrt_abstime
  pm_dynamic_com_valid :: bool
  pm_last_pos_ctrl_status_pub :: hrt_abstime
  pm_time_stamp_last_loop :: hrt_abstime
  pm_setpoint :: vehicle_local_position_setpoint_s
  pm_mode :: vehicle_control_mode
  pm_constraints :: vehicle_constraints_s
  pm_land :: land_detected
  pm_vel_deriv :: "block_derivative vec3"
  pm_in_failsafe :: bool
  pm_hover_thrust_initialized :: bool
  pm_failsafe_land_hysteresis :: hysteresis
  pm_tilt_limit_slew_rate :: slew_rate
  pm_takeoff_status :: "u8 \<times> float32"
  pm_vxy_reset_counter :: u8
  pm_vz_reset_counter :: u8
  pm_xy_reset_counter :: u8
  pm_z_reset_counter :: u8
  pm_heading_reset_counter :: u8

record pos_input =
  pi_now :: hrt_abstime
  pi_params :: "pos_params option"
  pi_joints :: "arm_joint_states_s option"
  pi_local_pos :: "vehicle_local_position_s option"
  pi_mode :: "vehicle_control_mode option"
  pi_land :: "land_detected option"
  pi_attitude :: "quatf option"
  pi_angular_velocity :: "vector3f option"
  pi_hover_thrust :: "(bool \<times> float32) option"
  pi_trajectory :: "vehicle_local_position_setpoint_s option"
  pi_constraints :: "vehicle_constraints_s option"

subsection \<open>Parameters and centre of mass\<close>

definition DYNAMIC_COM_TIMEOUT :: hrt_abstime where
  "DYNAMIC_COM_TIMEOUT = 500000"

definition pm_profile :: "pos_module \<Rightarrow> pos_module" where
  "pm_profile s =
     (let profile = resolveModelProfile (pp_arm_model (pm_params s));
          arm = setModelProfile profile (pm_arm s);
          d = getDynamicsProfile profile;
          (fallback, dynamic_model, arm) =
            (if profile = UamV5 then
               (com d, use_dynamic_arm_model d, setParameters (mass_total d) (com d) (bodyInertiaMatrix d) arm)
             else
               (V3 (f32_lit (- 15 / 1000)) f32_zero (f32_lit (- 164 / 1000)), True,
                setParameters (mass_total kUavArmV4Profile) (com kUavArmV4Profile)
                  (bodyInertiaMatrix kUavArmV4Profile) arm))
      in s\<lparr>pm_active_profile := profile, pm_arm := arm, pm_fallback_com := fallback,
           pm_use_dynamic_arm_model := dynamic_model,
           pm_control := pc_setSystemCoM fallback (pm_control s)\<rparr>)"

definition pm_configure :: "pos_params \<Rightarrow> position_control \<Rightarrow> position_control" where
  "pm_configure p c =
     (let c = pc_setPositionGains (pp_pos_p p) (pp_pos_i p) c;
          c = pc_setVelocityGains (pp_vel_p p) v3_zero v3_zero c;
          c = pc_setHorizontalThrustMargin (pp_thr_xy_marg p) c;
          c = pc_setPositionIntegralLimit (pp_pos_int_lim p) c;
          c = pc_setDynamicsFeedforwardEnabled (pp_dyn_ff_en p) c
      in pc_setESOBandwidth (pp_bw p) c)"

definition pm_parameters_read :: "pos_params \<Rightarrow> pos_module \<Rightarrow> pos_module option" where
  "pm_parameters_read stored s =
     (let s = pm_profile (s\<lparr>pm_params := stored\<rparr>);
          p = pp_adjust stored;
          c = pm_configure p (pm_control s);
          init = (\<not> pp_use_hte p \<or> \<not> pm_hover_thrust_initialized s);
          c = (if init then pc_setHoverThrust (pp_thr_hover p) c else c)
      in case setSpoolupTime (pp_spoolup_time p) (pm_takeoff s) of
           None \<Rightarrow> None
         | Some t \<Rightarrow>
             (let t = setTakeoffRampTime (pp_tko_ramp_t p) t;
                  t = generateInitialRampValue (v2 (pp_vel_p p)) t
              in Some (s\<lparr>pm_params := p, pm_control := c, pm_takeoff := t,
                        pm_hover_thrust_initialized := (init \<or> pm_hover_thrust_initialized s)\<rparr>)))"

definition pm_update_dynamic_parameters ::
  "trig \<Rightarrow> hrt_abstime \<Rightarrow> arm_joint_states_s option \<Rightarrow> pos_module \<Rightarrow> pos_module" where
  "pm_update_dynamic_parameters tr now joints s =
     (let fall_back = (\<lambda>s. s\<lparr>pm_control := pc_setSystemCoM (pm_fallback_com s) (pm_control s)\<rparr>);
          check = (\<lambda>use_dynamic_com s.
            let fresh = pm_dynamic_com_valid s \<and> now - pm_last_dynamic_com_timestamp s \<le> DYNAMIC_COM_TIMEOUT
            in if \<not> use_dynamic_com \<and> \<not> fresh then fall_back s else s)
      in if \<not> pm_use_dynamic_arm_model s then fall_back s
         else case joints of
           None \<Rightarrow> check False s
         | Some j \<Rightarrow>
             if \<not> ajs_valid j then fall_back (s\<lparr>pm_dynamic_com_valid := False\<rparr>)
             else (case computeSystemCoM tr (ajs_q j) (pm_arm s) of (dynamic_com, arm) \<Rightarrow>
                     let s = s\<lparr>pm_arm := arm\<rparr>
                     in if v3_all f32_isfinite dynamic_com
                        then check True (s\<lparr>pm_control := pc_setSystemCoM dynamic_com (pm_control s),
                                          pm_last_dynamic_com_timestamp := now, pm_dynamic_com_valid := True\<rparr>)
                        else check False s))"

definition pm_parameters_update ::
  "trig \<Rightarrow> hrt_abstime \<Rightarrow> pos_params option \<Rightarrow> arm_joint_states_s option \<Rightarrow> pos_module \<Rightarrow> pos_module option" where
  "pm_parameters_update tr now params joints s =
     map_option (pm_update_dynamic_parameters tr now joints)
       (case params of None \<Rightarrow> Some s | Some p \<Rightarrow> pm_parameters_read p s)"

subsection \<open>Vehicle states\<close>

definition set_vehicle_states ::
  "float32 \<Rightarrow> vehicle_local_position_s \<Rightarrow> pos_module \<Rightarrow> PositionControlStates \<times> pos_module" where
  "set_vehicle_states dt lp s =
     (let fcut = pp_veld_lp (pm_params s); d = pm_vel_deriv s; p = lp_pos lp; v = lp_vel lp;
          xy_ok = (f32_isfinite (v0 p) \<and> f32_isfinite (v1 p) \<and> lp_xy_valid lp);
          z_ok = (f32_isfinite (v2 p) \<and> lp_z_valid lp);
          vxy_ok = (f32_isfinite (v0 v) \<and> f32_isfinite (v1 v) \<and> lp_v_xy_valid lp);
          vz_ok = (f32_isfinite (v2 v) \<and> lp_v_z_valid lp);
          (ax, dx) = (if vxy_ok then bd_update fcut dt (v0 v) (v0 d) else (FNaN, bd_reset (v0 d)));
          (ay, dy) = (if vxy_ok then bd_update fcut dt (v1 v) (v1 d) else (FNaN, bd_reset (v1 d)));
          (az, dz) = (if vz_ok then bd_update fcut dt (v2 v) (v2 d) else (FNaN, bd_reset (v2 d)))
      in (\<lparr>pcs_position = V3 (if xy_ok then v0 p else FNaN) (if xy_ok then v1 p else FNaN) (if z_ok then v2 p else FNaN),
           pcs_velocity = V3 (if vxy_ok then v0 v else FNaN) (if vxy_ok then v1 v else FNaN)
             (if vz_ok then v2 v else FNaN),
           pcs_acceleration = V3 ax ay az, pcs_yaw = lp_heading lp\<rparr>,
          s\<lparr>pm_vel_deriv := V3 dx dy dz\<rparr>))"

subsection \<open>Setpoints\<close>

definition reset_setpoint_to_nan :: "vehicle_local_position_setpoint_s \<Rightarrow> vehicle_local_position_setpoint_s" where
  "reset_setpoint_to_nan sp =
     sp\<lparr>lps_pos := v3_nan, lps_vel := v3_nan, lps_acc := v3_nan, lps_thrust := v3_nan, lps_yaw := FNaN,
        lps_yawspeed := FNaN\<rparr>"

definition setpoint_zero :: vehicle_local_position_setpoint_s where
  "setpoint_zero = \<lparr>lps_timestamp = 0, lps_pos = v3_zero, lps_vel = v3_zero, lps_acc = v3_zero,
     lps_thrust = v3_zero, lps_yaw = f32_zero, lps_yawspeed = f32_zero\<rparr>"

text \<open>Shift of the setpoint with the resets of the estimator.\<close>

definition pm_ekf_resets :: "vehicle_local_position_s \<Rightarrow> pos_module \<Rightarrow> pos_module" where
  "pm_ekf_resets lp s =
     (let sp = pm_setpoint s; p = lps_pos sp; v = lps_vel sp;
          vxy = (lp_vxy_reset_counter lp \<noteq> pm_vxy_reset_counter s);
          vz = (lp_vz_reset_counter lp \<noteq> pm_vz_reset_counter s);
          xy = (lp_xy_reset_counter lp \<noteq> pm_xy_reset_counter s);
          z = (lp_z_reset_counter lp \<noteq> pm_z_reset_counter s);
          h = (lp_heading_reset_counter lp \<noteq> pm_heading_reset_counter s);
          shift = (\<lambda>b x d. if b then f32_add x d else x)
      in if lps_timestamp sp < lp_timestamp lp then
           s\<lparr>pm_setpoint := sp\<lparr>
               lps_vel := V3 (shift vxy (v0 v) (x0 (lp_delta_vxy lp))) (shift vxy (v1 v) (x1 (lp_delta_vxy lp)))
                            (shift vz (v2 v) (lp_delta_vz lp)),
               lps_pos := V3 (shift xy (v0 p) (x0 (lp_delta_xy lp))) (shift xy (v1 p) (x1 (lp_delta_xy lp)))
                            (shift z (v2 p) (lp_delta_z lp)),
               lps_yaw := shift h (lps_yaw sp) (lp_delta_heading lp)\<rparr>\<rparr>
         else s)"

definition pm_offboard_wants_takeoff :: "hrt_abstime \<Rightarrow> PositionControlStates \<Rightarrow> pos_module \<Rightarrow> bool" where
  "pm_offboard_wants_takeoff now states s \<longleftrightarrow>
     (let sp = pm_setpoint s
      in flag_armed (pm_mode s) \<and> ld_landed (pm_land s) \<and> now - lps_timestamp sp < 1000000
         \<and> ((f32_isfinite (v2 (lps_pos sp)) \<and> f32_lt (v2 (lps_pos sp)) (v2 (pcs_position states)))
            \<or> (f32_isfinite (v2 (lps_vel sp)) \<and> f32_lt (v2 (lps_vel sp)) f32_zero)
            \<or> (f32_isfinite (v2 (lps_acc sp)) \<and> f32_lt (v2 (lps_acc sp)) f32_zero)))"

definition pm_update_constraints ::
  "hrt_abstime \<Rightarrow> vehicle_constraints_s option \<Rightarrow> PositionControlStates \<Rightarrow> pos_module \<Rightarrow> pos_module" where
  "pm_update_constraints now msg states s =
     (let p = pm_params s;
          c = (case msg of None \<Rightarrow> pm_constraints s | Some m \<Rightarrow> m);
          c = (if \<not> f32_isfinite (vc_speed_up c) \<or> f32_gt (vc_speed_up c) (pp_z_vel_max_up p)
               then c\<lparr>vc_speed_up := pp_z_vel_max_up p\<rparr> else c);
          c = (if flag_control_offboard_enabled (pm_mode s)
               then c\<lparr>vc_want_takeoff := pm_offboard_wants_takeoff now states s,
                      vc_speed_up := pp_z_vel_max_up p, vc_speed_down := pp_z_vel_max_dn p\<rparr> else c)
      in s\<lparr>pm_constraints := c\<rparr>)"

definition pm_flying :: "pos_module \<Rightarrow> bool" where
  "pm_flying s \<longleftrightarrow> takeoff_state_value (to_state (pm_takeoff s)) \<ge> takeoff_state_value flight"

definition pm_not_taken_off :: "pos_module \<Rightarrow> bool" where
  "pm_not_taken_off s \<longleftrightarrow> takeoff_state_value (to_state (pm_takeoff s)) < takeoff_state_value rampup"

text \<open>A new setpoint before take-off or on the ground.\<close>

definition pm_ground_setpoint :: "pos_module \<Rightarrow> pos_module" where
  "pm_ground_setpoint s =
     (let s = (if \<not> pm_flying s
               then (let sp = pm_setpoint s; a = lps_acc sp
                     in s\<lparr>pm_setpoint := sp\<lparr>lps_acc := V3 (v0 a) (v1 a) FNaN\<rparr>,
                          pm_control := pc_setHoverThrust (pp_thr_hover (pm_params s)) (pm_control s)\<rparr>)
               else s)
      in if pm_not_taken_off s \<or> (pm_flying s \<and> ld_ground_contact (pm_land s))
         then s\<lparr>pm_setpoint := (reset_setpoint_to_nan (pm_setpoint s))\<lparr>lps_acc := V3 f32_zero f32_zero (f32_lit 100)\<rparr>,
                pm_control := pc_resetIntegral (pm_control s)\<rparr>
         else s)"

definition pm_set_limits :: "float32 \<Rightarrow> pos_module \<Rightarrow> pos_module" where
  "pm_set_limits dt s =
     (let p = pm_params s; flying = pm_flying s;
          tilt_limit_deg = (if takeoff_state_value (to_state (pm_takeoff s)) < takeoff_state_value flight
                            then pp_tiltmax_lnd p else pp_tiltmax_air p);
          slew = sr_update (radians tilt_limit_deg) dt (pm_tilt_limit_slew_rate s);
          c = pc_setTiltLimit (sr_value slew) (pm_control s);
          con = pm_constraints s;
          (speed_up, t) = updateRamp dt
            (if f32_isfinite (vc_speed_up con) then vc_speed_up con else pp_z_vel_max_up p) (pm_takeoff s);
          speed_down = (if f32_isfinite (vc_speed_down con) then vc_speed_down con else pp_z_vel_max_dn p);
          minimum_thrust = (if flying then pp_thr_min p else f32_lit 0);
          c = pc_setThrustLimits minimum_thrust (pp_thr_max p) c;
          c = pc_setVelocityLimits (pp_xy_vel_max p) (math_min speed_up (pp_z_vel_max_up p))
                (math_max speed_down f32_zero) c
      in s\<lparr>pm_tilt_limit_slew_rate := slew, pm_takeoff := t, pm_control := c\<rparr>)"

definition or_else :: "float32 \<Rightarrow> float32 \<Rightarrow> float32" where
  "or_else x y = (if f32_isfinite x then x else y)"

definition pm_sanitized ::
  "PositionControlStates \<Rightarrow> vehicle_local_position_setpoint_s \<Rightarrow> vehicle_local_position_setpoint_s" where
  "pm_sanitized states sp =
     sp\<lparr>lps_pos := v3_map2 or_else (lps_pos sp) (pcs_position states),
        lps_vel := v3_map2 or_else (lps_vel sp) v3_zero, lps_acc := v3_map2 or_else (lps_acc sp) v3_zero,
        lps_yaw := or_else (lps_yaw sp) (pcs_yaw states), lps_yawspeed := or_else (lps_yawspeed sp) f32_zero\<rparr>"

text \<open>The vertical speed from the derivative of the altitude, blended in across the landing speed.\<close>

definition pm_blend_vz ::
  "vehicle_local_position_s \<Rightarrow> pos_module \<Rightarrow> PositionControlStates \<Rightarrow> PositionControlStates" where
  "pm_blend_vz lp s states =
     (let sp = pm_setpoint s; vz = v2 (lps_vel sp)
      in if \<not> f32_isfinite (v2 (lps_pos sp)) \<and> f32_isfinite vz \<and> f32_gt (f32_abs vz) FLT_EPSILON
            \<and> f32_isfinite (lp_z_deriv lp) \<and> lp_z_valid lp \<and> lp_v_z_valid lp
         then (let weighting = f32_fmin (f32_div (f32_abs vz) (pp_land_speed (pm_params s))) (f32_lit 1);
                   v = pcs_velocity states
               in states\<lparr>pcs_velocity := V3 (v0 v) (v1 v)
                    (f32_add (f32_mul (lp_z_deriv lp) weighting)
                       (f32_mul (v2 (lp_vel lp)) (f32_sub (f32_lit 1) weighting)))\<rparr>)
         else states)"

subsection \<open>Failsafe\<close>

definition LOITER_TIME_BEFORE_DESCEND :: hrt_abstime where
  "LOITER_TIME_BEFORE_DESCEND = 200000"

definition failsafe_setpoint :: "PositionControlStates \<Rightarrow> float32 \<Rightarrow> vehicle_local_position_setpoint_s" where
  "failsafe_setpoint states land_speed =
     (let sp = reset_setpoint_to_nan setpoint_zero; vel = pcs_velocity states;
          sp = (if f32_isfinite (v0 vel) \<and> f32_isfinite (v1 vel)
                then sp\<lparr>lps_vel := V3 f32_zero f32_zero (v2 (lps_vel sp))\<rparr>
                else sp\<lparr>lps_acc := V3 f32_zero f32_zero (v2 (lps_acc sp)),
                        lps_vel := V3 (v0 (lps_vel sp)) (v1 (lps_vel sp)) land_speed\<rparr>);
          v = lps_vel sp; a = lps_acc sp
      in if f32_isfinite (v2 vel)
         then (if \<not> f32_isfinite (v2 v) then sp\<lparr>lps_vel := V3 (v0 v) (v1 v) f32_zero\<rparr> else sp)
         else sp\<lparr>lps_vel := V3 (v0 v) (v1 v) FNaN, lps_acc := V3 (v0 a) (v1 a) (f32_lit (3 / 10))\<rparr>)"

definition pm_failsafe ::
  "hrt_abstime \<Rightarrow> PositionControlStates \<Rightarrow> pos_module \<Rightarrow> vehicle_local_position_setpoint_s \<times> pos_module" where
  "pm_failsafe now states s =
     (let h = set_state_and_update True now (pm_failsafe_land_hysteresis s);
          s = s\<lparr>pm_failsafe_land_hysteresis := h\<rparr>
      in if hy_state h
         then (failsafe_setpoint states (pp_land_speed (pm_params s)), s\<lparr>pm_in_failsafe := True\<rparr>)
         else (setpoint_zero, s))"

definition pm_control_step :: "libm \<Rightarrow> hrt_abstime \<Rightarrow> PositionControlStates \<Rightarrow> float32 \<Rightarrow> pos_module \<Rightarrow> pos_module" where
  "pm_control_step L now states dt s =
     (case pc_update L dt (pm_control s) of (ok, c) \<Rightarrow>
        (let s = s\<lparr>pm_control := c\<rparr>
         in if ok then
              s\<lparr>pm_failsafe_land_hysteresis := set_state_and_update False now (pm_failsafe_land_hysteresis s)\<rparr>
            else
              (case pm_failsafe now states s of (sp, s) \<Rightarrow>
                 let p = pm_params s;
                     c = pc_setInputSetpoint sp (pm_control s);
                     c = pc_setVelocityLimits (pp_xy_vel_max p) (pp_z_vel_max_up p) (pp_z_vel_max_dn p) c
                 in s\<lparr>pm_constraints := \<lparr>vc_speed_up = FNaN, vc_speed_down = FNaN, vc_want_takeoff = False\<rparr>,
                      pm_control := snd (pc_update L dt c)\<rparr>)))"

subsection \<open>Publications\<close>

definition pm_status :: "position_control \<Rightarrow> position_controller_status" where
  "pm_status c =
     (let pos_hat = pe_z1 (pc_eso c); vel_hat = pe_z2 (pc_eso c)
      in \<lparr>cs_pos = pc_pos c, cs_pos_hat = pos_hat, cs_pos_error = v3_sub (pc_pos c) pos_hat, cs_vel = pc_vel c,
          cs_vel_hat = vel_hat, cs_vel_error = v3_sub (pc_vel c) vel_hat,
          cs_disturbance_hat = pc_eso_disturbance c, cs_eso_input = pc_eso_input c\<rparr>)"

definition pm_publish :: "libm \<Rightarrow> hrt_abstime \<Rightarrow> pos_module \<Rightarrow> pos_pub list \<times> pos_module" where
  "pm_publish L now s =
     (let c = pm_control s;
          due = (pm_last_pos_ctrl_status_pub s = 0 \<or> now - pm_last_pos_ctrl_status_pub s \<ge> 200000);
          sp = (pc_getLocalPositionSetpoint c setpoint_zero)\<lparr>lps_timestamp := now\<rparr>;
          att = (pc_getAttitudeSetpoint L c attitude_setpoint_zero)\<lparr>as_timestamp := now\<rparr>
      in ([Pub_local_position_setpoint sp] @ (if due then [Pub_position_controller_status (pm_status c)] else [])
            @ [Pub_attitude_sp att],
          if due then s\<lparr>pm_last_pos_ctrl_status_pub := now\<rparr> else s))"

definition pm_publish_takeoff :: "pos_module \<Rightarrow> pos_pub list \<times> pos_module" where
  "pm_publish_takeoff s =
     (let st = takeoff_state_value (to_state (pm_takeoff s)); tilt = sr_value (pm_tilt_limit_slew_rate s)
      in if st \<noteq> fst (pm_takeoff_status s)
            \<or> \<not> isEqualF tilt (snd (pm_takeoff_status s)) (f32_lit (1 / 10 ^ 4))
         then ([Pub_takeoff_status st tilt], s\<lparr>pm_takeoff_status := (st, tilt)\<rparr>) else ([], s))"

subsection \<open>One run\<close>

definition pos_dt :: "hrt_abstime \<Rightarrow> hrt_abstime \<Rightarrow> float32" where
  "pos_dt now last_loop =
     constrain (f32_mul (f32_of_u64 (now - last_loop)) (f32_lit (1 / 10 ^ 6)))
       (f32_lit (2 / 1000)) (f32_lit (4 / 100))"

definition pm_read_topics :: "pos_input \<Rightarrow> pos_module \<Rightarrow> pos_module" where
  "pm_read_topics i s =
     (let s = (case pi_mode i of None \<Rightarrow> s | Some m \<Rightarrow> s\<lparr>pm_mode := m\<rparr>);
          s = (case pi_land i of None \<Rightarrow> s | Some l \<Rightarrow> s\<lparr>pm_land := l\<rparr>);
          c = pm_control s;
          c = (case pi_attitude i of None \<Rightarrow> c | Some q \<Rightarrow> pc_setAttitude q c);
          c = (case pi_angular_velocity i of None \<Rightarrow> c | Some w \<Rightarrow> pc_setBodyRate w c);
          c = (if pp_use_hte (pm_params s)
               then (case pi_hover_thrust i of
                       Some (valid, hover_thrust) \<Rightarrow> if valid then pc_updateHoverThrust hover_thrust c else c
                     | None \<Rightarrow> c)
               else c)
      in s\<lparr>pm_control := c, pm_in_failsafe := False\<rparr>)"

text \<open>The branch for an enabled position controller.\<close>

definition pm_position_control ::
  "libm \<Rightarrow> pos_input \<Rightarrow> vehicle_local_position_s \<Rightarrow> PositionControlStates \<Rightarrow> float32 \<Rightarrow> pos_module
    \<Rightarrow> pos_pub list \<times> pos_module" where
  "pm_position_control L i lp states dt s =
     (let now_us = lp_timestamp_sample lp;
          s = (case pi_trajectory i of None \<Rightarrow> s | Some sp \<Rightarrow> s\<lparr>pm_setpoint := sp\<rparr>);
          s = pm_ekf_resets lp s;
          s = pm_update_constraints (pi_now i) (pi_constraints i) states s;
          s = s\<lparr>pm_takeoff := updateTakeoffState (flag_armed (pm_mode s)) (ld_landed (pm_land s))
                  (vc_want_takeoff (pm_constraints s)) (vc_speed_up (pm_constraints s)) False now_us (pm_takeoff s)\<rparr>;
          s = s\<lparr>pm_control := pc_setESOUpdateEnabled (\<not> pp_esogate (pm_params s) \<or> pm_flying s) (pm_control s)\<rparr>;
          s = (if pi_trajectory i \<noteq> None then pm_ground_setpoint s else s);
          s = pm_set_limits dt s;
          s = s\<lparr>pm_control := pc_setInputSetpoint (pm_sanitized states (pm_setpoint s)) (pm_control s)\<rparr>;
          states = pm_blend_vz lp s states;
          s = s\<lparr>pm_control := pc_setState states (pm_control s)\<rparr>;
          s = pm_control_step L now_us states dt s
      in pm_publish L (pi_now i) s)"

definition pos_Run :: "libm \<Rightarrow> pos_input \<Rightarrow> pos_module \<Rightarrow> (pos_pub list \<times> pos_module) option" where
  "pos_Run L i s =
     (case pm_parameters_update (lm_trig L) (pi_now i) (pi_params i) (pi_joints i) s of
        None \<Rightarrow> None
      | Some s \<Rightarrow>
          Some (case pi_local_pos i of
             None \<Rightarrow> ([], s)
           | Some lp \<Rightarrow>
               (let now_us = lp_timestamp_sample lp;
                    dt = pos_dt now_us (pm_time_stamp_last_loop s);
                    s = s\<lparr>pm_time_stamp_last_loop := now_us\<rparr>;
                    s = pm_read_topics i s;
                    (states, s) = set_vehicle_states dt lp s;
                    (pubs, s) =
                      (if flag_multicopter_position_control_enabled (pm_mode s)
                       then pm_position_control L i lp states dt s
                       else ([], s\<lparr>pm_takeoff := updateTakeoffState (flag_armed (pm_mode s)) (ld_landed (pm_land s))
                                    False (f32_lit 10) True now_us (pm_takeoff s)\<rparr>));
                    (pubs2, s) = pm_publish_takeoff s
                in (pubs @ pubs2,
                    s\<lparr>pm_vxy_reset_counter := lp_vxy_reset_counter lp, pm_vz_reset_counter := lp_vz_reset_counter lp,
                      pm_xy_reset_counter := lp_xy_reset_counter lp, pm_z_reset_counter := lp_z_reset_counter lp,
                      pm_heading_reset_counter := lp_heading_reset_counter lp\<rparr>))))"

text \<open>The constructor: the members, the parameters, the delays and a setpoint of NaN.\<close>

definition pos_module_init :: "trig \<Rightarrow> hrt_abstime \<Rightarrow> pos_params \<Rightarrow> arm_joint_states_s option \<Rightarrow> pos_module option" where
  "pos_module_init tr now p joints =
     map_option (\<lambda>s. s\<lparr>pm_failsafe_land_hysteresis :=
           set_hysteresis_time_from False LOITER_TIME_BEFORE_DESCEND (pm_failsafe_land_hysteresis s),
         pm_tilt_limit_slew_rate := (pm_tilt_limit_slew_rate s)\<lparr>sr_slew_rate := f32_lit (2 / 10)\<rparr>,
         pm_setpoint := reset_setpoint_to_nan (pm_setpoint s)\<rparr>)
       (pm_parameters_update tr now (Some p) joints
          \<lparr>pm_params = p, pm_takeoff = eso_takeoff_init, pm_control = ESOPositionControl,
           pm_arm = arm_kinematics_init, pm_active_profile = UavArmV4, pm_use_dynamic_arm_model = True,
           pm_fallback_com = V3 (f32_lit (- 15 / 1000)) f32_zero (f32_lit (- 164 / 1000)),
           pm_last_dynamic_com_timestamp = 0, pm_dynamic_com_valid = False, pm_last_pos_ctrl_status_pub = 0,
           pm_time_stamp_last_loop = 0, pm_setpoint = setpoint_zero, pm_mode = control_mode_off,
           pm_constraints = \<lparr>vc_speed_up = FNaN, vc_speed_down = FNaN, vc_want_takeoff = False\<rparr>,
           pm_land = \<lparr>ld_ground_contact = True, ld_landed = True\<rparr>,
           pm_vel_deriv = V3 BlockDerivative BlockDerivative BlockDerivative, pm_in_failsafe = False,
           pm_hover_thrust_initialized = False, pm_failsafe_land_hysteresis = hy_init False,
           pm_tilt_limit_slew_rate = \<lparr>sr_slew_rate = f32_zero, sr_value = f32_zero\<rparr>,
           pm_takeoff_status = (0, f32_zero), pm_vxy_reset_counter = 0, pm_vz_reset_counter = 0,
           pm_xy_reset_counter = 0, pm_z_reset_counter = 0, pm_heading_reset_counter = 0\<rparr>)"

subsection \<open>Limits between the parameters\<close>

lemma upper_limit_not_gt: "\<not> f32_gt (upper_limit x l) l"
  by (simp add: upper_limit_def)

lemma math_min_not_gt: "\<not> f32_gt (math_min a b) b"
  by (auto simp: math_min_def f32_lt_def)

lemma f32_lt_asym: "f32_lt a b \<Longrightarrow> \<not> f32_lt b a"
  by (auto simp: f32_lt_def)

text \<open>
  C17: after every parameter update, whatever values were stored (NaN included) and whichever of the
  combined speed and responsiveness parameters are in use, no limit of the position controller
  exceeds the one it depends on: the tilt limit is at most 89 degrees and the landing tilt at most
  the tilt limit, cruise and manual speed are at most the horizontal maximum, the automatic, take-off
  and landing speeds at most the vertical maxima. The hover thrust is within the thrust limits provided
  that the stored minimal thrust is not above the maximal one.
\<close>

theorem parameters_consistent:
  assumes "q = pp_adjust p"
  shows "\<not> f32_gt (pp_tiltmax_air q) MAX_SAFE_TILT_DEG \<and> \<not> f32_gt (pp_tiltmax_lnd q) (pp_tiltmax_air q)
    \<and> \<not> f32_gt (pp_xy_cruise q) (pp_xy_vel_max q) \<and> \<not> f32_gt (pp_vel_manual q) (pp_xy_vel_max q)
    \<and> \<not> f32_gt (pp_z_v_auto_up q) (pp_z_vel_max_up q) \<and> \<not> f32_gt (pp_z_v_auto_dn q) (pp_z_vel_max_dn q)
    \<and> \<not> f32_gt (pp_tko_speed q) (pp_z_vel_max_up q) \<and> \<not> f32_gt (pp_land_speed q) (pp_z_vel_max_dn q)
    \<and> (\<not> f32_gt (pp_thr_min p) (pp_thr_max p)
       \<longrightarrow> \<not> f32_gt (pp_thr_hover q) (pp_thr_max q) \<and> \<not> f32_lt (pp_thr_hover q) (pp_thr_min q))"
proof -
  define r where "r = pp_z_all (pp_xy_all (pp_responsiveness p))"
  have t: "pp_thr_min r = pp_thr_min p" "pp_thr_max r = pp_thr_max p"
    by (simp_all add: r_def pp_z_all_def pp_xy_all_def pp_responsiveness_def Let_def)
  have q: "q = pp_final_limits (pp_speed_limits (pp_tilt_limits r))" by (simp add: assms pp_adjust_def r_def)
  show ?thesis
    unfolding q using t
    by (simp add: pp_final_limits_def pp_speed_limits_def pp_tilt_limits_def Let_def upper_limit_not_gt
        math_min_not_gt constrain_def)
qed

definition pos_params_example :: pos_params where
  "pos_params_example =
     \<lparr>pp_pos_p = V3 (f32_lit 1) (f32_lit 1) (f32_lit 1), pp_pos_i = v3_zero,
      pp_vel_p = V3 (f32_lit 2) (f32_lit 2) (f32_lit 4), pp_bw = V3 (f32_lit 5) (f32_lit 5) (f32_lit 5),
      pp_esogate = True, pp_dyn_ff_en = False, pp_pos_int_lim = f32_lit 1, pp_use_hte = False, pp_arm_model = 0,
      pp_veld_lp = f32_lit 5, pp_spoolup_time = f32_lit 1, pp_tko_ramp_t = f32_lit 3,
      pp_thr_xy_marg = f32_lit (3 / 10), pp_sys_vehicle_resp = f32_lit (- 1), pp_xy_vel_all = f32_lit (- 1),
      pp_z_vel_all = f32_lit (- 1), pp_thr_min = f32_lit (1 / 8), pp_thr_max = f32_lit 1,
      pp_thr_hover = f32_lit (1 / 2), pp_tiltmax_air = f32_lit 120, pp_tiltmax_lnd = f32_lit 100,
      pp_xy_vel_max = f32_lit 12, pp_xy_cruise = f32_lit 20, pp_vel_manual = f32_lit 10,
      pp_z_v_auto_up = f32_lit 3, pp_z_vel_max_up = f32_lit 3, pp_z_v_auto_dn = f32_lit 1,
      pp_z_vel_max_dn = f32_lit 1, pp_tko_speed = f32_lit 5, pp_land_speed = f32_lit 2, pp_acc_hor = f32_lit 3,
      pp_acc_hor_max = f32_lit 5, pp_acc_down_max = f32_lit 3, pp_acc_up_max = f32_lit 4, pp_jerk_max = f32_lit 8,
      pp_jerk_auto = f32_lit 4, pp_man_y_max = f32_lit 150, pp_man_y_tau = f32_zero\<rparr>"

theorem parameters_consistent_witness:
  "\<not> f32_gt (pp_tiltmax_lnd (pp_adjust pos_params_example)) (pp_tiltmax_air (pp_adjust pos_params_example))
   \<and> \<not> f32_gt (pp_xy_cruise (pp_adjust pos_params_example)) (pp_xy_vel_max (pp_adjust pos_params_example))"
  using parameters_consistent [OF refl, of pos_params_example] by blast

subsection \<open>The failsafe\<close>

lemma pc_update_invalid:
  "\<not> pc_inputValid c \<Longrightarrow> pc_update L dt c = (False, c\<lparr>pc_eso_update_enabled_prev := pc_eso_update_enabled c\<rparr>)"
  by (simp add: pc_update_def Let_def)

lemma pc_update_state [simp]:
  "pc_pos (snd (pc_update L dt c)) = pc_pos c" "pc_vel (snd (pc_update L dt c)) = pc_vel c"
  "pc_vel_dot (snd (pc_update L dt c)) = pc_vel_dot c" "pc_pos_sp (snd (pc_update L dt c)) = pc_pos_sp c"
  by (simp_all add: pc_update_def pc_observe_def pc_positionControl_def pc_velocityControl_def
      pc_accelerationControl_def pc_yaw_defaults_def Let_def case_prod_beta)

lemma failsafe_setpoint_stop:
  assumes "v3_all f32_isfinite (pcs_velocity states)"
  shows "lps_pos (failsafe_setpoint states l) = v3_nan" and "lps_vel (failsafe_setpoint states l) = v3_zero"
    and "lps_acc (failsafe_setpoint states l) = v3_nan"
  using assms by (simp_all add: failsafe_setpoint_def reset_setpoint_to_nan_def v3_zero_def v3_all_def Let_def)

text \<open>A velocity of zero without a position makes the thrust NaN.\<close>

lemma stop_setpoint_nan:
  assumes "pc_pos_sp c = v3_nan" and "pc_vel_sp c = v3_zero" and "pc_acc_sp c = v3_nan"
    and "v3_all f32_isfinite (pc_vel c)" and "v3_all f32_isfinite (pc_vel_dot c)"
    and "f32_lt f32_zero (pc_lim_vel_horizontal c)"
  shows "v0 (pc_thr_sp (snd (pc_update L dt c))) = FNaN"
proof (rule pc_update_nan(2))
  show "pc_inputValid c"
    using assms(1-5)
    by (simp add: pc_inputValid_def v3_axes_def pc_axis_valid_def pc_pair_valid_def v3_zero_def v3_all_def)
  have e: "pc_pos_err c = v3_nan" using assms(1) by (cases "pc_pos c") (simp add: pc_pos_err_def v3_sub_def)
  then show "v0 (pc_pos_err c) = FNaN \<or> v1 (pc_pos_err c) = FNaN" by (simp add:)
  have "v3_xy (pc_vel_sp_total c) = V2 f32_zero f32_zero"
    using e assms(2)
    by (simp add: pc_vel_sp_total_def pc_vel_sp_unc_def pc_vel_sp_p_def setZeroIfNanVector3f_def
        addIfNotNanVector3f_def addIfNotNan_def v3_add_def v3_emult_def v3_zero_def v3_xy_def)
  then show "\<not> f32_le (pc_lim_vel_horizontal c) (v2_norm (v3_xy (pc_vel_sp_total c)))"
    using assms(6) f32_lt_le_trans [of f32_zero "pc_lim_vel_horizontal c" f32_zero]
    by (auto simp: v2_norm_def v2_dot_def)
qed

lemma pm_control_step_failsafe:
  assumes "\<not> pm_in_failsafe s" and "pm_in_failsafe (pm_control_step L now states dt s)"
  obtains c where "pm_control (pm_control_step L now states dt s) = snd (pc_update L dt
        (pc_setVelocityLimits (pp_xy_vel_max (pm_params s)) (pp_z_vel_max_up (pm_params s)) (pp_z_vel_max_dn (pm_params s))
          (pc_setInputSetpoint (failsafe_setpoint states (pp_land_speed (pm_params s))) c)))"
    and "pc_pos c = pc_pos (pm_control s)" and "pc_vel c = pc_vel (pm_control s)"
    and "pc_vel_dot c = pc_vel_dot (pm_control s)"
  by (rule that [of "snd (pc_update L dt (pm_control s))"])
    (use assms in \<open>auto simp: pm_control_step_def pm_failsafe_def Let_def case_prod_beta split: if_splits\<close>)

lemma pm_control_step_failsafe_nan:
  assumes "\<not> pm_in_failsafe s" and "pm_in_failsafe (pm_control_step L now states dt s)"
    and "pc_vel (pm_control s) = pcs_velocity states"
    and "v3_all f32_isfinite (pcs_velocity states)" and "v3_all f32_isfinite (pc_vel_dot (pm_control s))"
    and "f32_lt f32_zero (pp_xy_vel_max (pm_params s))"
  shows "v0 (pc_thr_sp (pm_control (pm_control_step L now states dt s))) = FNaN"
proof -
  obtain c where c: "pm_control (pm_control_step L now states dt s) = snd (pc_update L dt
        (pc_setVelocityLimits (pp_xy_vel_max (pm_params s)) (pp_z_vel_max_up (pm_params s)) (pp_z_vel_max_dn (pm_params s))
          (pc_setInputSetpoint (failsafe_setpoint states (pp_land_speed (pm_params s))) c)))"
    "pc_vel c = pc_vel (pm_control s)" "pc_vel_dot c = pc_vel_dot (pm_control s)"
    using assms(1,2) by (rule pm_control_step_failsafe)
  show ?thesis
    unfolding c(1) using assms(3-6)
    by (intro stop_setpoint_nan)
      (simp_all add: pc_setVelocityLimits_def pc_setInputSetpoint_def failsafe_setpoint_stop c)
qed

text \<open>The stages before the controller, and what they keep.\<close>

definition pm_setpoint_stage ::
  "pos_input \<Rightarrow> vehicle_local_position_s \<Rightarrow> PositionControlStates \<Rightarrow> float32 \<Rightarrow> pos_module \<Rightarrow> pos_module" where
  "pm_setpoint_stage i lp states dt s =
     (let s = (case pi_trajectory i of None \<Rightarrow> s | Some sp \<Rightarrow> s\<lparr>pm_setpoint := sp\<rparr>);
          s = pm_ekf_resets lp s;
          s = pm_update_constraints (pi_now i) (pi_constraints i) states s;
          s = s\<lparr>pm_takeoff := updateTakeoffState (flag_armed (pm_mode s)) (ld_landed (pm_land s))
                  (vc_want_takeoff (pm_constraints s)) (vc_speed_up (pm_constraints s)) False (lp_timestamp_sample lp)
                  (pm_takeoff s)\<rparr>;
          s = s\<lparr>pm_control := pc_setESOUpdateEnabled (\<not> pp_esogate (pm_params s) \<or> pm_flying s) (pm_control s)\<rparr>;
          s = (if pi_trajectory i \<noteq> None then pm_ground_setpoint s else s);
          s = pm_set_limits dt s
      in s\<lparr>pm_control := pc_setInputSetpoint (pm_sanitized states (pm_setpoint s)) (pm_control s)\<rparr>)"

lemma pm_position_control_stages:
  "pm_position_control L i lp states dt s =
     (let s = pm_setpoint_stage i lp states dt s; states = pm_blend_vz lp s states
      in pm_publish L (pi_now i) (pm_control_step L (lp_timestamp_sample lp) states dt
           (s\<lparr>pm_control := pc_setState states (pm_control s)\<rparr>)))"
  unfolding pm_position_control_def pm_setpoint_stage_def Let_def ..

definition pm_keeps :: "pos_module \<Rightarrow> pos_module \<Rightarrow> bool" where
  "pm_keeps t s \<longleftrightarrow> pm_in_failsafe t = pm_in_failsafe s \<and> pm_params t = pm_params s \<and> pm_mode t = pm_mode s"

lemma pm_keeps_trans: "pm_keeps t s \<Longrightarrow> pm_keeps u t \<Longrightarrow> pm_keeps u s"
  by (simp add: pm_keeps_def)

lemma pm_keeps_stages:
  "pm_keeps (pm_ekf_resets lp s) s" "pm_keeps (pm_update_constraints n m states s) s"
  "pm_keeps (pm_ground_setpoint s) s" "pm_keeps (pm_set_limits dt s) s"
  "pm_keeps (snd (pm_publish L n s)) s" "pm_keeps (snd (pm_publish_takeoff s)) s"
  "pm_keeps (snd (set_vehicle_states dt lp s)) s"
  by (simp_all add: pm_keeps_def pm_ekf_resets_def pm_update_constraints_def pm_ground_setpoint_def pm_set_limits_def
      pm_publish_def pm_publish_takeoff_def set_vehicle_states_def Let_def case_prod_beta)

lemma pm_setpoint_stage_keeps: "pm_keeps (pm_setpoint_stage i lp states dt s) s"
  using pm_keeps_stages
  by (simp add: pm_setpoint_stage_def pm_keeps_def Let_def split: option.split)

lemma pos_Run_measured:
  assumes "pos_Run L i s = Some (pubs, s')" and "pi_local_pos i = Some lp"
  obtains states dt t u where "\<not> pm_in_failsafe t"
    and "u = (if flag_multicopter_position_control_enabled (pm_mode t) then pm_position_control L i lp states dt t
       else ([], t\<lparr>pm_takeoff := updateTakeoffState (flag_armed (pm_mode t)) (ld_landed (pm_land t)) False (f32_lit 10) True
                      (lp_timestamp_sample lp) (pm_takeoff t)\<rparr>))"
    and "pubs = fst u @ fst (pm_publish_takeoff (snd u))" and "pm_control s' = pm_control (snd u)"
    and "pm_in_failsafe s' = pm_in_failsafe (snd u)" and "pm_params s' = pm_params (snd u)"
proof -
  obtain s1 where s1: "pm_parameters_update (lm_trig L) (pi_now i) (pi_params i) (pi_joints i) s = Some s1"
    using assms(1) by (auto simp: pos_Run_def split: option.splits)
  let ?dt = "pos_dt (lp_timestamp_sample lp) (pm_time_stamp_last_loop s1)"
  let ?m = "set_vehicle_states ?dt lp (pm_read_topics i (s1\<lparr>pm_time_stamp_last_loop := lp_timestamp_sample lp\<rparr>))"
  let ?u = "if flag_multicopter_position_control_enabled (pm_mode (snd ?m))
      then pm_position_control L i lp (fst ?m) ?dt (snd ?m)
      else ([], (snd ?m)\<lparr>pm_takeoff := updateTakeoffState (flag_armed (pm_mode (snd ?m))) (ld_landed (pm_land (snd ?m)))
              False (f32_lit 10) True (lp_timestamp_sample lp) (pm_takeoff (snd ?m))\<rparr>)"
  have f: "\<not> pm_in_failsafe (snd ?m)"
    using pm_keeps_stages(7) by (simp add: pm_keeps_def) (simp add: pm_read_topics_def Let_def)
  have r: "pubs = fst ?u @ fst (pm_publish_takeoff (snd ?u))"
    "s' = (snd (pm_publish_takeoff (snd ?u)))\<lparr>pm_vxy_reset_counter := lp_vxy_reset_counter lp,
       pm_vz_reset_counter := lp_vz_reset_counter lp, pm_xy_reset_counter := lp_xy_reset_counter lp,
       pm_z_reset_counter := lp_z_reset_counter lp, pm_heading_reset_counter := lp_heading_reset_counter lp\<rparr>"
    using assms by (auto simp: pos_Run_def s1 Let_def case_prod_beta)
  show thesis
    by (rule that [OF f refl r(1)]) (simp_all add: r(2) pm_publish_takeoff_def Let_def)
qed

lemma failsafe_stop_attitude:
  assumes "pos_Run L i s = Some (pubs, s')" and "pi_local_pos i = Some lp" and "pm_in_failsafe s'"
    and "v3_all f32_isfinite (pc_vel (pm_control s'))" and "v3_all f32_isfinite (pc_vel_dot (pm_control s'))"
    and "f32_lt f32_zero (pp_xy_vel_max (pm_params s'))"
  shows "\<exists>att. {a. Pub_attitude_sp a \<in> set pubs} = {att} \<and> as_timestamp att = pi_now i
    \<and> as_q_d att = Quat FNaN FNaN FNaN FNaN \<and> v2 (as_thrust_body att) = FNaN"
proof -
  obtain states dt t u where f: "\<not> pm_in_failsafe t" and
    u: "u = (if flag_multicopter_position_control_enabled (pm_mode t) then pm_position_control L i lp states dt t
       else ([], t\<lparr>pm_takeoff := updateTakeoffState (flag_armed (pm_mode t)) (ld_landed (pm_land t)) False (f32_lit 10) True
                      (lp_timestamp_sample lp) (pm_takeoff t)\<rparr>))"
    and r: "pubs = fst u @ fst (pm_publish_takeoff (snd u))" "pm_control s' = pm_control (snd u)"
      "pm_in_failsafe s' = pm_in_failsafe (snd u)" "pm_params s' = pm_params (snd u)"
    using assms(1,2) by (rule pos_Run_measured)
  define b where "b = pm_setpoint_stage i lp states dt t"
  define st where "st = pm_blend_vz lp b states"
  define k where "k = b\<lparr>pm_control := pc_setState st (pm_control b)\<rparr>"
  define e where "e = pm_control_step L (lp_timestamp_sample lp) st dt k"
  have "u = pm_publish L (pi_now i) e"
    using assms(3) f r(3) u unfolding e_def k_def st_def b_def pm_position_control_stages Let_def
    by (auto split: if_splits)
  note u' = this
  have keep: "pm_control (snd u) = pm_control e" "pm_in_failsafe (snd u) = pm_in_failsafe e" "pm_params (snd u) = pm_params e"
    by (simp_all add: u' pm_publish_def Let_def)
  have k: "\<not> pm_in_failsafe k" using f pm_setpoint_stage_keeps by (simp add: k_def b_def pm_keeps_def)
  have ke: "pm_params e = pm_params k"
    by (simp add: e_def pm_control_step_def pm_failsafe_def Let_def case_prod_beta)
  have st: "pc_vel (pm_control k) = pcs_velocity st" by (simp add: k_def pc_setState_def)
  have in_e: "pm_in_failsafe (pm_control_step L (lp_timestamp_sample lp) st dt k)"
    using assms(3) r(3) keep(2) by (simp add: e_def)
  obtain c where c: "pm_control e = snd (pc_update L dt (pc_setVelocityLimits (pp_xy_vel_max (pm_params k))
        (pp_z_vel_max_up (pm_params k)) (pp_z_vel_max_dn (pm_params k))
        (pc_setInputSetpoint (failsafe_setpoint st (pp_land_speed (pm_params k))) c)))"
    "pc_vel c = pc_vel (pm_control k)" "pc_vel_dot c = pc_vel_dot (pm_control k)"
    using pm_control_step_failsafe [OF k in_e] unfolding e_def by blast
  have same: "pc_vel (pm_control e) = pc_vel (pm_control k)" "pc_vel_dot (pm_control e) = pc_vel_dot (pm_control k)"
    by (simp_all add: c pc_setVelocityLimits_def pc_setInputSetpoint_def)
  have nan: "v0 (pc_thr_sp (pm_control e)) = FNaN"
    using assms(4-6) unfolding e_def
    by (intro pm_control_step_failsafe_nan [OF k in_e st]) (simp_all add: r keep same ke st flip: e_def)
  let ?att = "(pc_getAttitudeSetpoint L (pm_control e) attitude_setpoint_zero)\<lparr>as_timestamp := pi_now i\<rparr>"
  have "{a. Pub_attitude_sp a \<in> set pubs} = {?att}"
    by (auto simp: r(1) u' pm_publish_def pm_publish_takeoff_def Let_def split: if_splits)
  moreover have "as_q_d ?att = Quat FNaN FNaN FNaN FNaN" "v2 (as_thrust_body ?att) = FNaN"
    using thrustToAttitude_nan [OF nan] by (simp_all add: pc_getAttitudeSetpoint_def)
  ultimately show ?thesis by (intro exI [of _ ?att]) simp
qed

text \<open>
  Whenever the position work item is in failsafe with a known velocity (the branch that
  announces "stop and wait"), the attitude setpoint it publishes is a quaternion of NaNs with a NaN
  thrust: the failsafe setpoint has a velocity and no position, and the position loop turns a
  missing position into NaN.
\<close>

theorem failsafe_stop_publishes_nan:
  assumes "pos_Run L i s = Some (pubs, s')" and "pi_local_pos i = Some lp" and "pm_in_failsafe s'"
    and "v3_all f32_isfinite (pc_vel (pm_control s'))" and "v3_all f32_isfinite (pc_vel_dot (pm_control s'))"
    and "f32_lt f32_zero (pp_xy_vel_max (pm_params s'))"
  shows "\<exists>att. {a. Pub_attitude_sp a \<in> set pubs} = {att} \<and> as_timestamp att = pi_now i
    \<and> as_q_d att = Quat FNaN FNaN FNaN FNaN \<and> v2 (as_thrust_body att) = FNaN"
  using assms by (rule failsafe_stop_attitude)

subsection \<open>Example: the position is lost in flight\<close>

definition position_lost :: vehicle_local_position_s where
  "position_lost =
     \<lparr>lp_timestamp = 4000000, lp_timestamp_sample = 4000000, lp_xy_valid = False, lp_z_valid = True,
      lp_v_xy_valid = True, lp_v_z_valid = True, lp_pos = v3_zero, lp_vel = v3_zero, lp_z_deriv = f32_zero,
      lp_heading = f32_zero, lp_delta_xy = V2 f32_zero f32_zero, lp_delta_z = f32_zero,
      lp_delta_vxy = V2 f32_zero f32_zero, lp_delta_vz = f32_zero, lp_delta_heading = f32_zero,
      lp_xy_reset_counter = 0, lp_z_reset_counter = 0, lp_vxy_reset_counter = 0, lp_vz_reset_counter = 0,
      lp_heading_reset_counter = 0\<rparr>"

definition pos_input_example :: pos_input where
  "pos_input_example =
     \<lparr>pi_now = 4001000, pi_params = None, pi_joints = None, pi_local_pos = Some position_lost, pi_mode = None,
      pi_land = None, pi_attitude = None, pi_angular_velocity = None, pi_hover_thrust = None, pi_trajectory = None,
      pi_constraints = None\<rparr>"

text \<open>In flight, with a pending failsafe whose delay is over.\<close>

definition pos_module_example :: pos_module where
  "pos_module_example =
     \<lparr>pm_params = pos_params_example, pm_takeoff = eso_takeoff_init\<lparr>to_state := flight\<rparr>,
      pm_control = ESOPositionControl, pm_arm = arm_kinematics_init, pm_active_profile = UamV5,
      pm_use_dynamic_arm_model = False, pm_fallback_com = v3_zero, pm_last_dynamic_com_timestamp = 0,
      pm_dynamic_com_valid = False, pm_last_pos_ctrl_status_pub = 0, pm_time_stamp_last_loop = 3990000,
      pm_setpoint = setpoint_zero\<lparr>lps_timestamp := 5000000\<rparr>,
      pm_mode = control_mode_off\<lparr>flag_armed := True, flag_multicopter_position_control_enabled := True\<rparr>,
      pm_constraints = \<lparr>vc_speed_up = FNaN, vc_speed_down = FNaN, vc_want_takeoff = False\<rparr>,
      pm_land = \<lparr>ld_ground_contact = False, ld_landed = False\<rparr>,
      pm_vel_deriv = V3 BlockDerivative BlockDerivative BlockDerivative, pm_in_failsafe = False,
      pm_hover_thrust_initialized = True,
      pm_failsafe_land_hysteresis = (hy_init False)\<lparr>hy_time_from_false_us := LOITER_TIME_BEFORE_DESCEND,
        hy_requested_state := True, hy_last_time_to_change_state := 3000000\<rparr>,
      pm_tilt_limit_slew_rate = \<lparr>sr_slew_rate = f32_lit (2 / 10), sr_value = f32_zero\<rparr>,
      pm_takeoff_status = (5, f32_zero), pm_vxy_reset_counter = 0, pm_vz_reset_counter = 0,
      pm_xy_reset_counter = 0, pm_z_reset_counter = 0, pm_heading_reset_counter = 0\<rparr>"

abbreviation lost_run :: "(pos_pub list \<times> pos_module) option" where
  "lost_run \<equiv> pos_Run libm_zero pos_input_example pos_module_example"

definition lost_states :: PositionControlStates where
  "lost_states = \<lparr>pcs_position = V3 FNaN FNaN f32_zero, pcs_velocity = v3_zero, pcs_acceleration = v3_zero,
     pcs_yaw = f32_zero\<rparr>"

lemma pm_setpoint_stage_example:
  assumes "pi_trajectory i = None" and "\<not> lps_timestamp (pm_setpoint s) < lp_timestamp lp"
  shows "pm_setpoint (pm_setpoint_stage i lp states dt s) = pm_setpoint s"
    and "pm_failsafe_land_hysteresis (pm_setpoint_stage i lp states dt s) = pm_failsafe_land_hysteresis s"
    and "pc_pos_sp (pm_control (pm_setpoint_stage i lp states dt s)) = lps_pos (pm_sanitized states (pm_setpoint s))"
  using assms by (simp_all add: pm_setpoint_stage_def pm_ekf_resets_def pm_update_constraints_def pm_set_limits_def
      pc_setInputSetpoint_def Let_def case_prod_beta)

lemma pm_control_step_enters:
  assumes "\<not> pc_inputValid (pm_control s)" and "hy_state (set_state_and_update True now (pm_failsafe_land_hysteresis s))"
  shows "pm_in_failsafe (pm_control_step L now states dt s)"
    and "pc_vel (pm_control (pm_control_step L now states dt s)) = pc_vel (pm_control s)"
    and "pc_vel_dot (pm_control (pm_control_step L now states dt s)) = pc_vel_dot (pm_control s)"
  using assms by (simp_all add: pm_control_step_def pc_update_invalid pm_failsafe_def Let_def pc_setVelocityLimits_def
      pc_setInputSetpoint_def)

lemma lost_run_failsafe:
  obtains pubs s' where "lost_run = Some (pubs, s')" and "pm_in_failsafe s'"
    and "pc_vel (pm_control s') = v3_zero" and "pc_vel_dot (pm_control s') = v3_zero" and "pm_params s' = pos_params_example"
proof -
  define s1 where "s1 = pos_module_example\<lparr>pm_control := pc_setSystemCoM v3_zero ESOPositionControl\<rparr>"
  define dt where "dt = pos_dt 4000000 3990000"
  define s2 where "s2 = s1\<lparr>pm_time_stamp_last_loop := 4000000, pm_in_failsafe := False,
    pm_vel_deriv := v3_map2 (\<lambda>d z. snd (bd_update (pp_veld_lp pos_params_example) dt z d))
         (V3 BlockDerivative BlockDerivative BlockDerivative) v3_zero\<rparr>"
  define b where "b = pm_setpoint_stage pos_input_example position_lost lost_states dt s2"
  define k where "k = b\<lparr>pm_control := pc_setState lost_states (pm_control b)\<rparr>"
  define e where "e = pm_control_step libm_zero 4000000 lost_states dt k"
  have p: "pm_parameters_update tr n None None pos_module_example = Some s1" for tr n
    by (simp add: pm_parameters_update_def pm_update_dynamic_parameters_def s1_def pos_module_example_def Let_def)
  have t: "pm_read_topics pos_input_example (s1\<lparr>pm_time_stamp_last_loop := 4000000\<rparr>)
      = s1\<lparr>pm_time_stamp_last_loop := 4000000, pm_in_failsafe := False\<rparr>"
    by (simp add: pm_read_topics_def pos_input_example_def s1_def pos_module_example_def pos_params_example_def Let_def)
  have m: "set_vehicle_states dt position_lost (s1\<lparr>pm_time_stamp_last_loop := 4000000, pm_in_failsafe := False\<rparr>)
      = (lost_states, s2)"
    by (simp add: set_vehicle_states_def position_lost_def lost_states_def bd_update_def BlockDerivative_def
        v3_zero_def s2_def s1_def pos_module_example_def Let_def)
  have setp: "pm_setpoint s2 = setpoint_zero\<lparr>lps_timestamp := 5000000\<rparr>" by (simp add: s2_def s1_def pos_module_example_def)
  have b: "pm_setpoint b = pm_setpoint s2" "pm_failsafe_land_hysteresis b = pm_failsafe_land_hysteresis s2"
    "pc_pos_sp (pm_control b) = v3_zero"
    using pm_setpoint_stage_example [of pos_input_example s2 position_lost lost_states dt]
    by (simp_all add: b_def setp position_lost_def pos_input_example_def pm_sanitized_def setpoint_zero_def v3_zero_def
        or_else_def lost_states_def)
  have bl: "pm_blend_vz position_lost b lost_states = lost_states"
    by (simp add: pm_blend_vz_def b setp setpoint_zero_def v3_zero_def)
  have inv: "\<not> pc_inputValid (pm_control k)"
    by (simp add: k_def pc_setState_def b pc_inputValid_def v3_axes_def pc_axis_valid_def lost_states_def v3_zero_def)
  have hy: "hy_state (set_state_and_update True 4000000 (pm_failsafe_land_hysteresis k))"
    by (simp add: k_def b s2_def s1_def pos_module_example_def hy_defs hy_init_def LOITER_TIME_BEFORE_DESCEND_def)
  have st: "pc_vel (pm_control k) = v3_zero" "pc_vel_dot (pm_control k) = v3_zero"
    by (simp_all add: k_def pc_setState_def lost_states_def)
  note e = pm_control_step_enters [OF inv hy, of libm_zero lost_states dt, folded e_def, unfolded st]
  have par: "pm_params e = pos_params_example"
    using pm_setpoint_stage_keeps [of pos_input_example position_lost lost_states dt s2]
    by (simp add: e_def k_def b_def pm_keeps_def pm_control_step_def pm_failsafe_def Let_def case_prod_beta s2_def s1_def
        pos_module_example_def)
  have i: "lp_timestamp_sample position_lost = 4000000" "pi_now pos_input_example = 4001000"
    "pi_local_pos pos_input_example = Some position_lost" "pi_params pos_input_example = None"
    "pi_joints pos_input_example = None"
    by (simp_all add: position_lost_def pos_input_example_def)
  have c: "pm_position_control libm_zero pos_input_example position_lost lost_states dt s2 = pm_publish libm_zero 4001000 e"
    unfolding pm_position_control_stages Let_def b_def [symmetric] bl i k_def [symmetric] e_def ..
  have mode: "flag_multicopter_position_control_enabled (pm_mode s2)" "pm_time_stamp_last_loop s1 = 3990000"
    by (simp_all add: s2_def s1_def pos_module_example_def)
  have "\<exists>pubs s'. lost_run = Some (pubs, s') \<and> pm_in_failsafe s' = pm_in_failsafe e \<and> pm_control s' = pm_control e
      \<and> pm_params s' = pm_params e"
    unfolding pos_Run_def i option.case p Let_def mode(2) t dt_def [symmetric] m prod.case if_P [OF mode(1)] c
    by (simp add: case_prod_beta pm_publish_def pm_publish_takeoff_def Let_def)
  then show thesis using that e par by auto
qed

theorem failsafe_stop_publishes_nan_witness:
  "\<exists>pubs s' att. lost_run = Some (pubs, s') \<and> Pub_attitude_sp att \<in> set pubs \<and> v2 (as_thrust_body att) = FNaN"
proof -
  obtain pubs s' where r: "lost_run = Some (pubs, s')" "pm_in_failsafe s'"
    "pc_vel (pm_control s') = v3_zero" "pc_vel_dot (pm_control s') = v3_zero" "pm_params s' = pos_params_example"
    by (rule lost_run_failsafe)
  have "\<exists>att. {a. Pub_attitude_sp a \<in> set pubs} = {att} \<and> as_timestamp att = pi_now pos_input_example
      \<and> as_q_d att = Quat FNaN FNaN FNaN FNaN \<and> v2 (as_thrust_body att) = FNaN"
    using r by (intro failsafe_stop_publishes_nan [of libm_zero pos_input_example pos_module_example pubs s' position_lost])
      (simp_all add: pos_input_example_def v3_zero_def v3_all_def pos_params_example_def f32_lit_numeral)
  then show ?thesis using r(1) by blast
qed

end
