(* ===== verification/Eso_Attitude_Control.thy ===== *)
theory Eso_Attitude_Control
  imports Rotations Eso_Observers Binary32_Filter
begin

text \<open>
  \<^verbatim>\<open>ESOAttitudeControl\<close> (\<^verbatim>\<open>src/modules/eso_att_control/ESOAttitudeControl\<close>): the geometric attitude law, the
  gravity compensation torque and the filtered derivative of the reference rates. Shown: the
  reference rates are finite and within the limits for every input, NaN included, the compensation
  torque is finite, and the derivative stays within its slew limit over any run and starts from
  zero after a reset. The argument \<^verbatim>\<open>omega\<close> of \<^verbatim>\<open>update\<close> is sanitised by the source and then not used.
\<close>

subsection \<open>State\<close>

record attitude_control =
  at_proportional_gain :: vector3f
  at_rate_limit :: vector3f
  at_yaw_w :: float32
  at_attitude_setpoint_q :: quatf
  at_yawspeed_setpoint :: float32
  at_omega_r_prev :: vector3f
  at_omega_r_dot :: vector3f
  at_omega_r_prev_valid :: bool
  at_beta_v :: vector3f
  at_mass_total :: float32
  at_com_offset :: vector3f
  at_arm_inertia :: matrix3f
  at_tau_s :: vector3f

definition ESOAttitudeControl :: attitude_control where
  "ESOAttitudeControl =
     \<lparr>at_proportional_gain = v3_zero, at_rate_limit = v3_zero, at_yaw_w = f32_zero,
      at_attitude_setpoint_q = q_unit, at_yawspeed_setpoint = f32_zero, at_omega_r_prev = v3_zero,
      at_omega_r_dot = v3_zero, at_omega_r_prev_valid = False, at_beta_v = v3_zero, at_mass_total = f32_zero,
      at_com_offset = v3_zero, at_arm_inertia = m3_zero, at_tau_s = v3_zero\<rparr>"

definition at_setProportionalGain :: "vector3f \<Rightarrow> float32 \<Rightarrow> attitude_control \<Rightarrow> attitude_control" where
  "at_setProportionalGain proportional_gain yaw_weight s =
     (let yaw_w = constrain yaw_weight f32_zero (f32_lit 1);
          g = proportional_gain
      in s\<lparr>at_yaw_w := yaw_w,
           at_proportional_gain :=
             (if f32_gt yaw_w (f32_lit (1 / 10 ^ 4)) then V3 (v0 g) (v1 g) (f32_div (v2 g) yaw_w) else g)\<rparr>)"

definition at_setRateLimit :: "vector3f \<Rightarrow> attitude_control \<Rightarrow> attitude_control" where
  "at_setRateLimit rate_limit s = s\<lparr>at_rate_limit := rate_limit\<rparr>"

definition at_setAttitudeSetpoint :: "quatf \<Rightarrow> float32 \<Rightarrow> attitude_control \<Rightarrow> attitude_control" where
  "at_setAttitudeSetpoint qd yawspeed_setpoint s =
     s\<lparr>at_attitude_setpoint_q := q_normalized qd, at_yawspeed_setpoint := yawspeed_setpoint\<rparr>"

definition at_adaptAttitudeSetpoint :: "quatf \<Rightarrow> attitude_control \<Rightarrow> attitude_control" where
  "at_adaptAttitudeSetpoint q_delta s =
     s\<lparr>at_attitude_setpoint_q := q_normalized (q_mul q_delta (at_attitude_setpoint_q s))\<rparr>"

definition at_resetOmegaRDerivative :: "attitude_control \<Rightarrow> attitude_control" where
  "at_resetOmegaRDerivative s =
     s\<lparr>at_omega_r_dot := v3_zero, at_omega_r_prev := v3_zero, at_omega_r_prev_valid := False\<rparr>"

definition at_setTauSParameters :: "float32 \<Rightarrow> vector3f \<Rightarrow> matrix3f \<Rightarrow> attitude_control \<Rightarrow> attitude_control" where
  "at_setTauSParameters mass com_off arm_inert s =
     s\<lparr>at_mass_total := mass, at_com_offset := com_off, at_arm_inertia := arm_inert\<rparr>"

subsection \<open>One cycle\<close>

definition at_current :: "quatf \<Rightarrow> quatf" where
  "at_current q = (if f32_gt (q_dot q q) f32_zero then q_normalized q else q_unit)"

definition at_target :: "attitude_control \<Rightarrow> quatf" where
  "at_target s =
     (let q = at_attitude_setpoint_q s in if f32_gt (q_dot q q) f32_zero then q_normalized q else q)"

definition at_error :: "quatf \<Rightarrow> attitude_control \<Rightarrow> vector3f" where
  "at_error q s =
     (let R = Dcm_of_Quaternion (at_current q);
          R_d = Dcm_of_Quaternion (at_target s);
          R_tilde = m3_mul (m3_transpose R_d) R;
          q_tilde = Quaternion_of_Dcm R_tilde;
          q_tilde = (if f32_lt (qw q_tilde) f32_zero then q_scale q_tilde (f32_lit (- 1)) else q_tilde)
      in V3 (qx q_tilde) (qy q_tilde)
           (if f32_gt (at_yaw_w s) (f32_lit (1 / 10 ^ 4)) then f32_mul (qz q_tilde) (at_yaw_w s) else qz q_tilde))"

definition at_feedforward :: "quatf \<Rightarrow> attitude_control \<Rightarrow> vector3f" where
  "at_feedforward q s =
     m3_mulv (m3_transpose (Dcm_of_Quaternion (at_current q)))
       (V3 f32_zero f32_zero (if f32_isfinite (at_yawspeed_setpoint s) then at_yawspeed_setpoint s else f32_zero))"

definition at_finite_or_zero :: "float32 \<Rightarrow> float32" where
  "at_finite_or_zero x = (if f32_isfinite x then x else f32_zero)"

definition at_gravity_torque :: "quatf \<Rightarrow> attitude_control \<Rightarrow> vector3f" where
  "at_gravity_torque q s =
     (let g_body = m3_mulv (m3_transpose (Dcm_of_Quaternion (at_current q))) (V3 f32_zero f32_zero (f32_lit (981 / 100)))
      in map_vec3 at_finite_or_zero (v3_scale (v3_cross (at_com_offset s) g_body) (at_mass_total s)))"

definition at_limit_rate :: "float32 \<Rightarrow> float32 \<Rightarrow> float32" where
  "at_limit_rate w l = (if f32_isfinite w then constrain w (f32_neg l) l else f32_zero)"

definition at_omega_r :: "quatf \<Rightarrow> attitude_control \<Rightarrow> vector3f" where
  "at_omega_r q s =
     v3_map2 at_limit_rate
       (v3_sub (at_feedforward q s) (v3_scale (v3_emult (at_proportional_gain s) (at_error q s)) (f32_lit 2)))
       (at_rate_limit s)"

definition at_alpha :: "float32 \<Rightarrow> float32" where
  "at_alpha dt = constrain (f32_div dt (f32_add (f32_lit (2 / 100)) dt)) f32_zero (f32_lit 1)"

definition at_max_omega_r_dot :: "float32 \<Rightarrow> float32" where
  "at_max_omega_r_dot l = math_max (f32_div l (f32_lit (1 / 10))) (f32_lit 1)"

text \<open>One axis of the derivative: limit of the raw difference, then low pass filter.\<close>

definition at_dot_limited :: "float32 \<Rightarrow> float32 \<Rightarrow> float32" where
  "at_dot_limited raw l =
     (if f32_isfinite raw then constrain raw (f32_neg (at_max_omega_r_dot l)) (at_max_omega_r_dot l) else f32_zero)"

definition at_dot_axis :: "float32 \<Rightarrow> float32 \<Rightarrow> float32 \<Rightarrow> float32 \<Rightarrow> float32" where
  "at_dot_axis alpha raw l d = f32_add d (f32_mul alpha (f32_sub (at_dot_limited raw l) d))"

definition at_derive :: "vector3f \<Rightarrow> float32 \<Rightarrow> attitude_control \<Rightarrow> attitude_control" where
  "at_derive omega_r dt s =
     (if \<not> at_omega_r_prev_valid s then
        s\<lparr>at_omega_r_dot := v3_zero, at_omega_r_prev := omega_r, at_omega_r_prev_valid := True\<rparr>
      else if f32_isfinite dt \<and> f32_gt dt (f32_lit (1 / 10 ^ 4)) then
        (let alpha = at_alpha dt;
             raw = v3_div (v3_sub omega_r (at_omega_r_prev s)) dt;
             l = at_rate_limit s; d = at_omega_r_dot s
         in s\<lparr>at_omega_r_dot := V3 (at_dot_axis alpha (v0 raw) (v0 l) (v0 d)) (at_dot_axis alpha (v1 raw) (v1 l) (v1 d))
                 (at_dot_axis alpha (v2 raw) (v2 l) (v2 d)),
              at_omega_r_prev := omega_r\<rparr>)
      else
        (at_resetOmegaRDerivative s)\<lparr>at_omega_r_prev := omega_r, at_omega_r_prev_valid := True\<rparr>)"

definition at_update :: "quatf \<Rightarrow> vector3f \<Rightarrow> float32 \<Rightarrow> attitude_control \<Rightarrow> vector3f \<times> attitude_control" where
  "at_update q omega dt s =
     (let s = s\<lparr>at_beta_v := at_error q s, at_tau_s := at_gravity_torque q s\<rparr>;
          omega_r = at_omega_r q s
      in (omega_r, at_derive omega_r dt s))"

subsection \<open>Reference rates and torque\<close>

definition at_limits_ok :: "attitude_control \<Rightarrow> bool" where
  "at_limits_ok s \<longleftrightarrow> v3_all (\<lambda>l. wf32 l \<and> f32_isfinite l \<and> f32_le f32_zero l) (at_rate_limit s)"

lemma neg_le_self:
  assumes "f32_isfinite l" and "f32_le f32_zero l"
  shows "f32_le (f32_neg l) l" and "f32_le (f32_neg l) f32_zero"
  using assms by (cases l; auto)+

lemma at_limit_rate_bounds:
  assumes "f32_isfinite l" and "f32_le f32_zero l"
  shows "f32_isfinite (at_limit_rate w l)" and "f32_le (f32_neg l) (at_limit_rate w l)"
    and "f32_le (at_limit_rate w l) l"
proof -
  have b: "f32_le (f32_neg l) (at_limit_rate w l) \<and> f32_le (at_limit_rate w l) l"
  proof (cases "f32_isfinite w")
    case True
    then show ?thesis
      using constrain_bounds [of w "f32_neg l" l] neg_le_self(1) [OF assms] f32_isfinite_not_nan
      by (simp add: at_limit_rate_def)
  next
    case False
    then show ?thesis using assms neg_le_self(2) [OF assms] by (simp add: at_limit_rate_def)
  qed
  then show "f32_le (f32_neg l) (at_limit_rate w l)" "f32_le (at_limit_rate w l) l" by simp_all
  show "f32_isfinite (at_limit_rate w l)"
    using f32_between_finite [OF conjunct1 [OF b] conjunct2 [OF b]] assms(1) by simp
qed

definition v3_within :: "vector3f \<Rightarrow> vector3f \<Rightarrow> bool" where
  "v3_within l x \<longleftrightarrow> list_all (\<lambda>ax. f32_isfinite (ax x) \<and> f32_le (f32_neg (ax l)) (ax x) \<and> f32_le (ax x) (ax l)) v3_axes"

lemma v3_limit_within:
  assumes "v3_all (\<lambda>l. wf32 l \<and> f32_isfinite l \<and> f32_le f32_zero l) l"
  shows "v3_within l (v3_map2 at_limit_rate w l)"
  using assms by (simp add: v3_within_def v3_axes_def v3_all_def at_limit_rate_bounds)

lemma at_omega_r_within:
  assumes "at_limits_ok s"
  shows "v3_within (at_rate_limit s) (at_omega_r q s)"
  unfolding at_omega_r_def using assms unfolding at_limits_ok_def by (rule v3_limit_within)

lemma at_finite_or_zero_finite [simp]: "f32_isfinite (at_finite_or_zero x)"
  by (simp add: at_finite_or_zero_def)

lemma v3_finite_or_zero: "v3_all f32_isfinite (map_vec3 at_finite_or_zero v)"
  by (cases v) (simp add: v3_all_def)

lemma at_derive_frame [simp]:
  "at_beta_v (at_derive w dt s) = at_beta_v s" "at_tau_s (at_derive w dt s) = at_tau_s s"
  "at_rate_limit (at_derive w dt s) = at_rate_limit s" "at_omega_r_prev (at_derive w dt s) = w"
  "at_omega_r_prev_valid (at_derive w dt s)"
  by (simp_all add: at_derive_def at_resetOmegaRDerivative_def Let_def)

lemma at_omega_r_frame [simp]:
  "at_error q (s\<lparr>at_beta_v := b, at_tau_s := t\<rparr>) = at_error q s"
  "at_omega_r q (s\<lparr>at_beta_v := b, at_tau_s := t\<rparr>) = at_omega_r q s"
  by (cases s, simp only: at_omega_r_def at_feedforward_def at_error_def at_target_def
      attitude_control.select_convs attitude_control.update_convs)+

lemma at_update_omega_r [simp]: "fst (at_update q omega dt s) = at_omega_r q s"
  by (simp add: at_update_def Let_def)

lemma at_update_rate_limit [simp]: "at_rate_limit (snd (at_update q omega dt s)) = at_rate_limit s"
  by (simp add: at_update_def Let_def)

lemma at_update_tau_finite: "v3_all f32_isfinite (at_tau_s (snd (at_update q omega dt s)))"
  using v3_finite_or_zero by (simp add: at_update_def Let_def at_gravity_torque_def)

text \<open>
  C23: whatever the attitude, the attitude setpoint, the gains and the time step are, NaN and
  infinities included, the rate setpoint of the attitude controller is finite and within the rate
  limits on each axis, and the compensation torque handed to the rate loop is finite.
\<close>

theorem attitude_output_safe:
  assumes "at_limits_ok s"
  shows "v3_within (at_rate_limit s) (fst (at_update q omega dt s))
    \<and> v3_all f32_isfinite (at_tau_s (snd (at_update q omega dt s)))"
  using at_omega_r_within [OF assms, of q] at_update_tau_finite by simp

theorem attitude_output_safe_witness:
  "v3_within (V3 (f32_lit 1) (f32_lit 1) (f32_lit 1))
     (fst (at_update (Quat FNaN FNaN FNaN FNaN) v3_zero FNaN
        (at_setRateLimit (V3 (f32_lit 1) (f32_lit 1) (f32_lit 1)) ESOAttitudeControl)))"
proof -
  let ?l = "V3 (f32_lit 1) (f32_lit 1) (f32_lit 1)"
  have l: "at_rate_limit (at_setRateLimit ?l ESOAttitudeControl) = ?l" by (simp add: at_setRateLimit_def)
  have "at_limits_ok (at_setRateLimit ?l ESOAttitudeControl)"
    unfolding at_limits_ok_def l v3_all_def vec3.sel using wf32_lit [of 1] by (simp del: wf32.simps)
  from attitude_output_safe [OF this, THEN conjunct1] show ?thesis unfolding l .
qed

subsection \<open>The filtered derivative\<close>

lemma at_max_omega_r_dot_ok:
  assumes "wf32 l" and "f32_isfinite l" and "f32_le f32_zero l" and "f32_val l \<le> 2 ^ 90"
  shows "wf32 (at_max_omega_r_dot l)" and "f32_isfinite (at_max_omega_r_dot l)"
    and "f32_le f32_zero (at_max_omega_r_dot l)" and "f32_val (at_max_omega_r_dot l) \<le> 2 ^ 100"
proof -
  let ?t = "f32_lit (1 / 10)" and ?b = "FFin False (2 ^ 94)"
  have t: "f32_isfinite ?t" by (rule f32_lit_isfinite_small) simp_all
  have "f32_lit (1 / 16) = FFin False (1 / 16)" using f32_of_real_dyadic [of 1 4 False] by (simp add: f32_lit_def)
  then have t16: "1 / 16 \<le> f32_val ?t" using f32_lit_mono [of "1 / 16" "1 / 10"] t by (simp add: f32_le_finite)
  then obtain z where d: "f32_div l ?t = f32_of_real z (f32_val l / f32_val ?t)"
    using f32_div_of_real [OF assms(2) t] by auto
  have l: "0 \<le> f32_val l" using assms(2,3) by (simp add: f32_le_finite)
  have "f32_val l / f32_val ?t \<le> 2 ^ 90 / (1 / 16)" using assms(4) l t16 by (intro frac_le) simp_all
  then have d94: "f32_le (f32_div l ?t) ?b"
    unfolding d by (intro f32_of_real_le wf32_power) simp_all
  have b: "f32_le (f32_lit 1) (at_max_omega_r_dot l)" unfolding at_max_omega_r_dot_def by (rule math_max_ge) simp
  have "f32_le (f32_lit 1) ?b" by simp
  then have c: "f32_le (at_max_omega_r_dot l) ?b" using d94 by (simp add: at_max_omega_r_dot_def math_max_def)
  show f: "f32_isfinite (at_max_omega_r_dot l)" using f32_between_finite [OF b c] by simp
  show "f32_le f32_zero (at_max_omega_r_dot l)" using b by (rule f32_le_trans [rotated]) simp
  have "f32_val (at_max_omega_r_dot l) \<le> 2 ^ 94" using c f by (simp add: f32_le_finite)
  also have "(2::real) ^ 94 \<le> 2 ^ 100" by (rule power_increasing) simp_all
  finally show "f32_val (at_max_omega_r_dot l) \<le> 2 ^ 100" .
  show "wf32 (at_max_omega_r_dot l)"
    unfolding at_max_omega_r_dot_def by (rule wf32_minmax(2) [OF wf32_div wf32_lit])
qed

lemma at_dot_limited_within:
  assumes "f32_isfinite M" and "f32_le f32_zero M" and "M = at_max_omega_r_dot l"
  shows "f32_isfinite (at_dot_limited raw l)" and "\<bar>f32_val (at_dot_limited raw l)\<bar> \<le> f32_val M"
proof -
  have e: "at_dot_limited raw l = at_limit_rate raw M" by (simp add: at_dot_limited_def at_limit_rate_def assms(3))
  note b = at_limit_rate_bounds [OF assms(1,2), of raw]
  show "f32_isfinite (at_dot_limited raw l)" using b(1) by (simp only: e)
  then show "\<bar>f32_val (at_dot_limited raw l)\<bar> \<le> f32_val M"
    using b assms(1) unfolding e by (simp add: f32_le_finite abs_le_iff)
qed

text \<open>Bound of the derivative on one axis.\<close>

definition at_axis_ok :: "float32 \<Rightarrow> float32 \<Rightarrow> bool" where
  "at_axis_ok l d \<longleftrightarrow> wf32 d \<and> f32_isfinite d \<and> f32_le (f32_neg (at_max_omega_r_dot l)) d
     \<and> f32_le d (at_max_omega_r_dot l)"

definition at_limit_small :: "float32 \<Rightarrow> bool" where
  "at_limit_small l \<longleftrightarrow> wf32 l \<and> f32_isfinite l \<and> f32_le f32_zero l \<and> f32_val l \<le> 2 ^ 90"

lemma at_axis_ok_zero: "at_limit_small l \<Longrightarrow> at_axis_ok l f32_zero"
  using at_max_omega_r_dot_ok [of l] neg_le_self(2) [of "at_max_omega_r_dot l"]
  by (simp add: at_axis_ok_def at_limit_small_def del: wf32.simps)

lemma at_dot_axis_ok:
  assumes "at_limit_small l" and "at_axis_ok l d" and "wf32 raw"
    and a: "f32_isfinite a" "0 \<le> f32_val a" "f32_val a \<le> 1 / 2"
  shows "at_axis_ok l (at_dot_axis a raw l d)"
proof -
  let ?M = "at_max_omega_r_dot l" and ?y = "at_dot_limited raw l"
  have M: "wf32 ?M" "f32_isfinite ?M" "f32_le f32_zero ?M" "f32_val ?M \<le> 2 ^ 100"
    using at_max_omega_r_dot_ok [of l] assms(1) unfolding at_limit_small_def by blast+
  have d: "wf32 d" "f32_isfinite d" and db: "\<bar>f32_val d\<bar> \<le> f32_val ?M"
    using assms(2) M(2) by (auto simp: at_axis_ok_def f32_le_finite abs_le_iff simp del: wf32.simps)
  have wy: "wf32 ?y"
    using assms(3) M(1) unfolding at_dot_limited_def
    by (simp del: wf32.simps add: wf32_constrain wf32_zero)
  note y = at_dot_limited_within [OF M(2,3) refl, of raw]
  show ?thesis
    using f32_filter_step [OF d wy y(1) a M(1,2,4) db y(2)]
    unfolding at_axis_ok_def at_dot_axis_def by simp
qed

lemma at_alpha_half:
  assumes "wf32 dt" and "f32_isfinite dt" and "f32_gt dt (f32_lit (1 / 10 ^ 4))" and "f32_le dt (f32_lit (2 / 100))"
  shows "f32_isfinite (at_alpha dt)" and "0 \<le> f32_val (at_alpha dt)" and "f32_val (at_alpha dt) \<le> 1 / 2"
proof -
  let ?c = "f32_lit (2 / 100)" and ?w = "f32_div dt (f32_add (f32_lit (2 / 100)) dt)"
  have c: "f32_isfinite ?c" by (rule f32_lit_isfinite_small) simp_all
  have c1: "f32_val ?c \<le> 1" using f32_lit_mono [of "2 / 100" 1] c by (simp add: f32_le_finite)
  have "f32_le (f32_lit 0) (f32_lit (1 / 10 ^ 4))" by (rule f32_lit_mono) simp
  from f32_le_lt_trans [OF this assms(3)] have p: "0 < f32_val dt" using assms(2) by (simp add: f32_lt_finite)
  have "f32_val dt \<le> f32_val ?c" using assms(2,4) c by (simp add: f32_le_finite)
  note w = filter_weight_half [OF assms(1,2) p c c1 this]
  have e: "at_alpha dt = ?w" unfolding at_alpha_def by (rule constrain_id [OF w(2,4)])
  show "f32_isfinite (at_alpha dt)" "f32_val (at_alpha dt) \<le> 1 / 2" unfolding e by (rule w(1), rule w(3))
  show "0 \<le> f32_val (at_alpha dt)" unfolding e using w(1,2) by (simp add: f32_le_finite)
qed

definition at_dot_ok :: "attitude_control \<Rightarrow> bool" where
  "at_dot_ok s \<longleftrightarrow> v3_all at_limit_small (at_rate_limit s)
     \<and> list_all (\<lambda>ax. at_axis_ok (ax (at_rate_limit s)) (ax (at_omega_r_dot s))) v3_axes"

definition at_step_ok :: "float32 \<Rightarrow> bool" where
  "at_step_ok dt \<longleftrightarrow> (f32_isfinite dt \<longrightarrow> wf32 dt \<and> f32_le dt (f32_lit (2 / 100)))"

lemma at_reset_dot_ok:
  "v3_all at_limit_small (at_rate_limit s) \<Longrightarrow> at_omega_r_dot s = v3_zero \<Longrightarrow> at_dot_ok s"
  by (simp add: at_dot_ok_def v3_axes_def v3_zero_def at_axis_ok_zero v3_all_def)

lemma at_derive_dot_ok:
  assumes "at_dot_ok s" and "at_step_ok dt"
  shows "at_dot_ok (at_derive w dt s)"
proof (cases "at_omega_r_prev_valid s \<and> f32_isfinite dt \<and> f32_gt dt (f32_lit (1 / 10 ^ 4))")
  case True
  have dt: "wf32 dt" "f32_le dt (f32_lit (2 / 100))" using True assms(2) by (simp_all add: at_step_ok_def)
  have a: "f32_isfinite (at_alpha dt)" "0 \<le> f32_val (at_alpha dt)" "f32_val (at_alpha dt) \<le> 1 / 2"
    using at_alpha_half [OF dt(1) _ _ dt(2)] True by simp_all
  let ?raw = "v3_div (v3_sub w (at_omega_r_prev s)) dt"
  have raw: "wf32 (v0 ?raw)" "wf32 (v1 ?raw)" "wf32 (v2 ?raw)"
    by (simp_all add: v3_div_def v3_scale_def vec3.map_sel)
  show ?thesis
    using assms(1) True at_dot_axis_ok [OF _ _ _ a] raw
    by (simp add: at_derive_def Let_def at_dot_ok_def v3_axes_def v3_all_def)
next
  case False
  then have "at_omega_r_dot (at_derive w dt s) = v3_zero"
    by (auto simp: at_derive_def at_resetOmegaRDerivative_def)
  then show ?thesis using assms(1) by (intro at_reset_dot_ok) (simp_all add: at_dot_ok_def)
qed

subsection \<open>Runs of the controller\<close>

datatype at_op =
    At_setProportionalGain vector3f float32
  | At_setAttitudeSetpoint quatf float32
  | At_adaptAttitudeSetpoint quatf
  | At_resetOmegaRDerivative
  | At_setTauSParameters float32 vector3f matrix3f
  | At_update quatf vector3f float32

fun at_exec :: "at_op \<Rightarrow> attitude_control \<Rightarrow> attitude_control" where
  "at_exec (At_setProportionalGain g y) s = at_setProportionalGain g y s"
| "at_exec (At_setAttitudeSetpoint q y) s = at_setAttitudeSetpoint q y s"
| "at_exec (At_adaptAttitudeSetpoint q) s = at_adaptAttitudeSetpoint q s"
| "at_exec At_resetOmegaRDerivative s = at_resetOmegaRDerivative s"
| "at_exec (At_setTauSParameters m c i) s = at_setTauSParameters m c i s"
| "at_exec (At_update q w dt) s = snd (at_update q w dt s)"

fun at_op_ok :: "at_op \<Rightarrow> bool" where
  "at_op_ok (At_update q w dt) = at_step_ok dt"
| "at_op_ok _ = True"

lemma at_exec_rate_limit [simp]: "at_rate_limit (at_exec i s) = at_rate_limit s"
  by (cases i) (simp_all add: at_setProportionalGain_def at_setAttitudeSetpoint_def at_adaptAttitudeSetpoint_def
      at_resetOmegaRDerivative_def at_setTauSParameters_def Let_def)

lemma at_dot_ok_cong:
  "at_rate_limit t = at_rate_limit s \<Longrightarrow> at_omega_r_dot t = at_omega_r_dot s \<Longrightarrow> at_dot_ok t = at_dot_ok s"
  by (simp add: at_dot_ok_def v3_axes_def)

lemma at_exec_dot_ok:
  assumes "at_dot_ok s" and "at_op_ok i"
  shows "at_dot_ok (at_exec i s)"
proof (cases i)
  case (At_update q w dt)
  then show ?thesis
    using assms at_dot_ok_cong [of "s\<lparr>at_beta_v := at_error q s, at_tau_s := at_gravity_torque q s\<rparr>" s]
    by (simp add: at_update_def Let_def at_derive_dot_ok)
next
  case At_resetOmegaRDerivative
  then show ?thesis
    using assms by (intro at_reset_dot_ok) (simp_all add: at_dot_ok_def at_resetOmegaRDerivative_def)
qed (use assms at_dot_ok_cong [of "at_exec i s" s] in \<open>simp_all add: at_setProportionalGain_def at_setAttitudeSetpoint_def
      at_adaptAttitudeSetpoint_def at_setTauSParameters_def Let_def\<close>)

interpretation att_law: invariant_steps at_exec at_op_ok at_dot_ok
  by unfold_locales (rule at_exec_dot_ok)

lemma at_dot_ok_within:
  assumes "at_dot_ok s"
  shows "v3_within (map_vec3 at_max_omega_r_dot (at_rate_limit s)) (at_omega_r_dot s)"
  using assms by (simp add: at_dot_ok_def v3_within_def v3_axes_def at_axis_ok_def)

text \<open>
  From a reset of the derivative on, and for time steps of at most 20 ms (the bound that the
  module enforces), the derivative of the reference rates that is handed to the rate loop is
  finite and within its slew limit on each axis after any sequence of operations, with the three
  roundings of the low pass filter taken into account and for every input, NaN included.
\<close>

theorem omega_r_dot_bounded:
  assumes "v3_all at_limit_small (at_rate_limit s)" and "list_all at_op_ok ops"
  shows "v3_within (map_vec3 at_max_omega_r_dot (at_rate_limit s))
    (at_omega_r_dot (fold at_exec ops (at_resetOmegaRDerivative s)))"
proof -
  let ?r = "at_resetOmegaRDerivative s"
  have r: "at_rate_limit ?r = at_rate_limit s" "at_omega_r_dot ?r = v3_zero"
    by (simp_all add: at_resetOmegaRDerivative_def)
  have ok: "at_dot_ok ?r" using assms(1) by (intro at_reset_dot_ok) (simp_all add: r)
  have "at_rate_limit (fold at_exec ops ?r) = at_rate_limit ?r" using ok assms(2) by (rule att_law.run_keeps) simp
  with at_dot_ok_within [OF att_law.run_good [OF ok assms(2)]] show ?thesis by (simp only: r)
qed

theorem omega_r_dot_bounded_witness:
  "v3_within (map_vec3 at_max_omega_r_dot (V3 (f32_lit 1) (f32_lit 1) (f32_lit 1)))
     (at_omega_r_dot (fold at_exec [At_update q_unit v3_zero (f32_lit (1 / 100)), At_update q_unit v3_zero FNaN]
        (at_resetOmegaRDerivative (at_setRateLimit (V3 (f32_lit 1) (f32_lit 1) (f32_lit 1)) ESOAttitudeControl))))"
proof -
  let ?l = "V3 (f32_lit 1) (f32_lit 1) (f32_lit 1)"
  have l: "at_rate_limit (at_setRateLimit ?l ESOAttitudeControl) = ?l" by (simp add: at_setRateLimit_def)
  have "v3_all at_limit_small ?l"
    using wf32_lit [of 1] by (simp add: v3_all_def at_limit_small_def del: wf32.simps)
  moreover have "at_step_ok (f32_lit (1 / 100))" "at_step_ok FNaN"
    using f32_lit_mono [of "1 / 100" "2 / 100"] by (simp_all add: at_step_ok_def)
  ultimately show ?thesis
    using omega_r_dot_bounded [of "at_setRateLimit ?l ESOAttitudeControl"
      "[At_update q_unit v3_zero (f32_lit (1 / 100)), At_update q_unit v3_zero FNaN]"]
    unfolding l by (simp del: at_exec.simps fold_simps vec3.map f32_lit_1)
qed

end
