(* ===== verification/Eso_Rate_Module.thy ===== *)
theory Eso_Rate_Module
  imports Eso_Rate_Safety Arm_Kinematics Arm_Joint_Bridge
begin

text \<open>
  The work item \<^verbatim>\<open>ESOMulticopterRateControl\<close>
  (\<^verbatim>\<open>src/modules/eso_rate_control/ESOMulticopterRateControl.cpp\<close>): reading parameters and topics, the call
  of the rate controller and the publications. A subscription is an \<open>option\<close> of the input record,
  \<open>None\<close> when there is no update; publication timestamps (\<^verbatim>\<open>hrt_absolute_time()\<close> at the time of
  publishing) are left out, sample timestamps are kept. Shown: what may be published, that every
  published torque and thrust is finite and every torque in range, the freshness of the auxiliary
  inputs, the landing gear guard, and the range of the time step.
\<close>

subsection \<open>Parameters, topics, state\<close>

record eso_rate_params =
  pr_rate_p :: vector3f
  pr_rate_i :: vector3f
  pr_rate_d :: vector3f
  pr_rate_k :: vector3f
  pr_int_lim :: vector3f
  pr_rate_ff :: vector3f
  pr_inertia :: vector3f
  pr_rate_bw :: vector3f
  pr_k_beta :: float32
  pr_dyn_ff_en :: bool
  pr_max_torque :: float32
  pr_rate_i_scale :: float32
  pr_taus_k :: float32
  pr_taus_k_axis :: vector3f
  pr_taus_obs :: vector3f
  pr_taus_ctl :: vector3f
  pr_taus_lim :: float32
  pr_taus_tau :: float32
  pr_acro_max :: vector3f
  pr_acro_expo :: float32
  pr_acro_expo_y :: float32
  pr_acro_supexpo :: float32
  pr_acro_supexpoy :: float32
  pr_bat_scale_en :: bool
  pr_arm_model :: "32 word"
  pr_cbrk_rate_ctrl :: "32 word"

record rate_control_mode =
  cm_armed :: bool
  cm_manual_enabled :: bool
  cm_attitude_enabled :: bool
  cm_rates_enabled :: bool
  cm_termination_enabled :: bool

record rates_setpoint =
  rs_rates :: vector3f
  rs_thrust_body :: vector3f

record manual_setpoint =
  ms_x :: float32
  ms_y :: float32
  ms_z :: float32
  ms_r :: float32

record eso_aux_msg =
  ax_timestamp :: hrt_abstime
  ax_omega_r_dot :: vector3f
  ax_beta_v :: vector3f
  ax_tau_s :: vector3f

record allocator_status =
  al_torque_setpoint_achieved :: bool
  al_unallocated_torque :: vector3f

record battery_msg =
  bt_connected :: bool
  bt_scale :: float32

record actuator_controls =
  ac_control :: "float32 list"
  ac_timestamp_sample :: hrt_abstime

datatype rate_pub =
    Pub_rates_setpoint rates_setpoint
  | Pub_rate_ctrl_status rate_ctrl_status_s
  | Pub_torque_setpoint vector3f hrt_abstime
  | Pub_thrust_setpoint vector3f hrt_abstime
  | Pub_actuators actuator_controls
  | Pub_actuators_status "float32 list"

record rate_module =
  rm_params :: eso_rate_params
  rm_rc :: rate_control
  rm_arm :: arm_kinematics
  rm_active_profile :: ModelProfile
  rm_static_inertia :: matrix3f
  rm_mode :: rate_control_mode
  rm_vehicle_type :: u8
  rm_is_vtol :: bool
  rm_circuit_breaker :: bool
  rm_landed :: bool
  rm_maybe_landed :: bool
  rm_battery_scale :: float32
  rm_last_aux :: hrt_abstime
  rm_alloc_unallocated :: vector3f
  rm_alloc_sat_pos :: "bool vec3"
  rm_alloc_sat_neg :: "bool vec3"
  rm_dyn_ff_enabled :: bool
  rm_rates_sp :: vector3f
  rm_thrust_sp :: float32
  rm_last_run :: hrt_abstime
  rm_landing_gear :: u8
  rm_energy_time :: float32
  rm_control_energy :: "float32 list"
  rm_acro_rate_max :: vector3f

text \<open>What the subscriptions deliver to one run after a gyro update.\<close>

record rate_input =
  ri_params :: "eso_rate_params option"
  ri_gyro :: "(hrt_abstime \<times> vector3f) option"
  ri_joints :: "arm_joint_states_s option"
  ri_accel :: vector3f
  ri_mode :: "rate_control_mode option"
  ri_land :: "(bool \<times> bool) option"
  ri_status :: "(u8 \<times> bool) option"
  ri_gear :: "u8 option"
  ri_manual :: "manual_setpoint option"
  ri_rates_sp :: "rates_setpoint option"
  ri_aux :: "eso_aux_msg option"
  ri_alloc :: "allocator_status option"
  ri_battery :: "battery_msg option"

subsection \<open>Parameters\<close>

definition CBRK_RATE_CTRL_KEY :: "32 word" where
  "CBRK_RATE_CTRL_KEY = 140253"

definition circuit_breaker_enabled_by_val :: "32 word \<Rightarrow> 32 word \<Rightarrow> bool" where
  "circuit_breaker_enabled_by_val breaker_val magic \<longleftrightarrow> breaker_val = magic"

definition update_profile :: "rate_module \<Rightarrow> rate_module" where
  "update_profile s =
     (let p = rm_params s;
          profile = resolveModelProfile (pr_arm_model p);
          arm = setModelProfile profile (rm_arm s);
          (inertia, arm) =
            (if profile = UamV5 then
               (let d = getDynamicsProfile profile
                in (staticSystemInertiaMatrix d,
                    setParameters (mass_total d) (com d) (bodyInertiaMatrix d) arm))
             else
               (let i = m3_diag (pr_inertia p)
                in (i, setParameters (mass_total kUavArmV4Profile) (com kUavArmV4Profile) i arm)))
      in s\<lparr>rm_active_profile := profile, rm_arm := arm, rm_static_inertia := inertia\<rparr>)"

definition rate_parameters_updated :: "rate_module \<Rightarrow> rate_module" where
  "rate_parameters_updated s =
     (let p = rm_params s;
          k = pr_rate_k p;
          rc = setGains (v3_emult k (pr_rate_p p)) (v3_emult k (pr_rate_i p)) (v3_emult k (pr_rate_d p)) (rm_rc s);
          rc = setIntegratorLimit (pr_int_lim p) rc;
          rc = setFeedForwardGain (pr_rate_ff p) rc;
          s = update_profile s;
          m = rm_static_inertia s;
          rc = setInertiaDiagonal (V3 (v0 (v0 m)) (v1 (v1 m)) (v2 (v2 m))) rc;
          rc = setESOBandwidth (pr_rate_bw p) rc;
          rc = setKBeta (pr_k_beta p) rc;
          rc = setMaxTorque (pr_max_torque p) rc;
          rc = setIntegralScale (pr_rate_i_scale p) rc;
          rc = setTauSScale (pr_taus_k p) rc;
          rc = setTauSAxisScale (pr_taus_k_axis p) rc;
          rc = setTauSObserverAxisScale (pr_taus_obs p) rc;
          rc = setTauSControlAxisScale (pr_taus_ctl p) rc;
          rc = setTauSLimitNm (pr_taus_lim p) rc;
          rc = setTauSFilterTimeConstant (pr_taus_tau p) rc
      in s\<lparr>rm_rc := rc, rm_dyn_ff_enabled := pr_dyn_ff_en p,
           rm_acro_rate_max := map_vec3 radians (pr_acro_max p),
           rm_circuit_breaker :=
             circuit_breaker_enabled_by_val (pr_cbrk_rate_ctrl p) CBRK_RATE_CTRL_KEY\<rparr>)"

definition update_dynamic_parameters :: "trig \<Rightarrow> arm_joint_states_s option \<Rightarrow> rate_module \<Rightarrow> rate_module" where
  "update_dynamic_parameters tr joints s =
     (case joints of
        None \<Rightarrow> s
      | Some j \<Rightarrow>
          if \<not> ajs_valid j then s\<lparr>rm_rc := setInertiaMatrix (rm_static_inertia s) (rm_rc s)\<rparr>
          else (case computeSystemInertia tr (ajs_q j) (rm_arm s) of (dynamic_inertia, arm) \<Rightarrow>
                  s\<lparr>rm_arm := arm, rm_rc := setInertiaMatrix dynamic_inertia (rm_rc s)\<rparr>))"

subsection \<open>One run\<close>

definition GEAR_UP :: u8 where "GEAR_UP = 1"
definition GEAR_KEEP :: u8 where "GEAR_KEEP = 0"
definition GEAR_DOWN :: u8 where "GEAR_DOWN = 255"

definition VEHICLE_TYPE_ROTARY_WING :: u8 where
  "VEHICLE_TYPE_ROTARY_WING = 1"

definition update_gear :: "u8 option \<Rightarrow> rate_module \<Rightarrow> rate_module" where
  "update_gear gear s =
     (case gear of
        None \<Rightarrow> s
      | Some g \<Rightarrow>
          if g \<noteq> GEAR_KEEP then
            (if g = GEAR_UP \<and> (rm_landed s \<or> rm_maybe_landed s) then s else s\<lparr>rm_landing_gear := g\<rparr>)
          else s)"

text \<open>The time step: \<^verbatim>\<open>(now - _last_run) * 1e-6f\<close>, constrained.\<close>

definition rate_dt :: "hrt_abstime \<Rightarrow> hrt_abstime \<Rightarrow> float32" where
  "rate_dt now last_run =
     constrain (f32_mul (f32_of_u64 (now - last_run)) (f32_lit (1 / 10 ^ 6)))
       (f32_lit (125 / 10 ^ 6)) (f32_lit (2 / 100))"

definition update_rates_sp ::
  "manual_setpoint option \<Rightarrow> rates_setpoint option \<Rightarrow> vector3f \<Rightarrow> rate_module \<Rightarrow> rate_pub list \<times> rate_module" where
  "update_rates_sp manual sp rates s =
     (if cm_manual_enabled (rm_mode s) \<and> \<not> cm_attitude_enabled (rm_mode s) then
        (case manual of
           None \<Rightarrow> ([], s)
         | Some m \<Rightarrow>
             let p = rm_params s;
                 man_rate_sp = V3 (superexpo (ms_y m) (pr_acro_expo p) (pr_acro_supexpo p))
                   (superexpo (f32_neg (ms_x m)) (pr_acro_expo p) (pr_acro_supexpo p))
                   (superexpo (ms_r m) (pr_acro_expo_y p) (pr_acro_supexpoy p));
                 s = s\<lparr>rm_rates_sp := v3_emult man_rate_sp (rm_acro_rate_max s),
                       rm_thrust_sp := constrain (ms_z m) f32_zero (f32_lit 1)\<rparr>
             in ([Pub_rates_setpoint \<lparr>rs_rates = rm_rates_sp s,
                    rs_thrust_body = V3 f32_zero f32_zero (f32_neg (rm_thrust_sp s))\<rparr>], s))
      else
        (case sp of
           None \<Rightarrow> ([], s)
         | Some r \<Rightarrow>
             ([], s\<lparr>rm_rates_sp := v3_map2 (\<lambda>x y. if f32_isfinite x then x else y) (rs_rates r) rates,
                    rm_thrust_sp := f32_neg (v2 (rs_thrust_body r))\<rparr>)))"

definition ESO_AUX_TIMEOUT :: hrt_abstime where
  "ESO_AUX_TIMEOUT = 100000"

definition update_aux :: "eso_aux_msg option \<Rightarrow> hrt_abstime \<Rightarrow> rate_module \<Rightarrow> rate_module" where
  "update_aux aux now s =
     (let s = (case aux of
                 None \<Rightarrow> s
               | Some a \<Rightarrow>
                   let s = s\<lparr>rm_last_aux := ax_timestamp a\<rparr>
                   in if now - rm_last_aux s \<le> ESO_AUX_TIMEOUT
                      then s\<lparr>rm_rc := setAttitudeAux (ax_omega_r_dot a) (ax_beta_v a) (ax_tau_s a) (rm_rc s)\<rparr>
                      else s)
      in if rm_last_aux s = 0 \<or> now - rm_last_aux s > ESO_AUX_TIMEOUT
         then s\<lparr>rm_rc := setAttitudeAux v3_zero v3_zero v3_zero (rm_rc s)\<rparr> else s)"

definition update_saturation :: "allocator_status option \<Rightarrow> rate_module \<Rightarrow> rate_module" where
  "update_saturation alloc s =
     (case alloc of
        None \<Rightarrow> s
      | Some a \<Rightarrow>
          let achieved = al_torque_setpoint_achieved a;
              u = al_unallocated_torque a;
              sat_pos = map_vec3 (\<lambda>x. \<not> achieved \<and> f32_gt x FLT_EPSILON) u;
              sat_neg = map_vec3 (\<lambda>x. \<not> achieved \<and> \<not> f32_gt x FLT_EPSILON
                                     \<and> f32_lt x (f32_neg FLT_EPSILON)) u
          in s\<lparr>rm_alloc_unallocated := (if achieved then v3_zero else u),
               rm_alloc_sat_pos := sat_pos, rm_alloc_sat_neg := sat_neg,
               rm_rc := setSaturationStatus sat_pos sat_neg (rm_rc s)\<rparr>)"

definition finite_else_zero :: "float32 \<Rightarrow> float32" where
  "finite_else_zero x = (if f32_isfinite x then x else f32_zero)"

definition publishTorqueSetpoint :: "vector3f \<Rightarrow> hrt_abstime \<Rightarrow> rate_pub" where
  "publishTorqueSetpoint torque_sp timestamp_sample =
     Pub_torque_setpoint (map_vec3 finite_else_zero torque_sp) timestamp_sample"

definition publishThrustSetpoint :: "hrt_abstime \<Rightarrow> rate_module \<Rightarrow> rate_pub" where
  "publishThrustSetpoint timestamp_sample s =
     Pub_thrust_setpoint (V3 f32_zero f32_zero
       (if f32_isfinite (rm_thrust_sp s) then f32_neg (rm_thrust_sp s) else f32_zero)) timestamp_sample"

definition f32_of_s8 :: "u8 \<Rightarrow> float32" where
  "f32_of_s8 w = f32_of_real False (of_int (sint w))"

definition rate_actuators :: "vector3f \<Rightarrow> rate_module \<Rightarrow> float32 list" where
  "rate_actuators att_control s =
     [finite_else_zero (v0 att_control), finite_else_zero (v1 att_control),
      finite_else_zero (v2 att_control), finite_else_zero (rm_thrust_sp s),
      f32_zero, f32_zero, f32_zero, f32_of_s8 (rm_landing_gear s)]"

definition scale_by_battery :: "battery_msg option \<Rightarrow> float32 list \<Rightarrow> rate_module \<Rightarrow> float32 list \<times> rate_module" where
  "scale_by_battery battery control s =
     (if pr_bat_scale_en (rm_params s) then
        let s = (case battery of
                   Some b \<Rightarrow> if bt_connected b \<and> f32_gt (bt_scale b) f32_zero
                             then s\<lparr>rm_battery_scale := bt_scale b\<rparr> else s
                 | None \<Rightarrow> s)
        in (if f32_gt (rm_battery_scale s) f32_zero
            then map (\<lambda>x. f32_mul x (rm_battery_scale s)) (take 4 control) @ drop 4 control
            else control, s)
      else (control, s))"

definition updateActuatorControlsStatus ::
  "float32 list \<Rightarrow> float32 \<Rightarrow> rate_module \<Rightarrow> rate_pub list \<times> rate_module" where
  "updateActuatorControlsStatus control dt s =
     (let energy = map (\<lambda>i. f32_add (rm_control_energy s ! i)
                       (f32_mul (f32_mul (control ! i) (control ! i)) dt)) [0..<4];
          time = f32_add (rm_energy_time s) dt
      in if f32_gt time (f32_lit (500 / 1000))
         then ([Pub_actuators_status (map (\<lambda>e. f32_div e time) energy)],
               s\<lparr>rm_control_energy := replicate 4 f32_zero, rm_energy_time := f32_zero\<rparr>)
         else ([], s\<lparr>rm_control_energy := energy, rm_energy_time := time\<rparr>))"

text \<open>The branch that runs the rate controller.\<close>

definition run_controller ::
  "rate_input \<Rightarrow> hrt_abstime \<Rightarrow> vector3f \<Rightarrow> float32 \<Rightarrow> rate_module \<Rightarrow> rate_pub list \<times> rate_module" where
  "run_controller i now rates dt s =
     (let s = (if \<not> cm_armed (rm_mode s) \<or> rm_vehicle_type s \<noteq> VEHICLE_TYPE_ROTARY_WING
               then s\<lparr>rm_rc := resetESO (resetIntegral (rm_rc s))\<rparr> else s);
          s = update_saturation (ri_alloc i) s;
          (att_control, rc) = rate_update rates (rm_rates_sp s) (ri_accel i) dt
            (rm_maybe_landed s \<or> rm_landed s) (rm_rc s);
          s = s\<lparr>rm_rc := rc\<rparr>;
          control = rate_actuators att_control s;
          setpoints = (if \<not> rm_is_vtol s
                       then [publishTorqueSetpoint att_control now, publishThrustSetpoint now s] else []);
          (control, s) = scale_by_battery (ri_battery i) control s;
          (status, s) = updateActuatorControlsStatus control dt s
      in (Pub_rate_ctrl_status (getESORateControlStatus rc) # setpoints
            @ Pub_actuators \<lparr>ac_control = control, ac_timestamp_sample = now\<rparr> # status, s))"

definition update_vehicle_topics :: "rate_input \<Rightarrow> rate_module \<Rightarrow> rate_module" where
  "update_vehicle_topics i s =
     (let s = (case ri_mode i of None \<Rightarrow> s | Some m \<Rightarrow> s\<lparr>rm_mode := m\<rparr>);
          s = (case ri_land i of None \<Rightarrow> s
               | Some (landed, maybe) \<Rightarrow> s\<lparr>rm_landed := landed, rm_maybe_landed := maybe\<rparr>)
      in case ri_status i of None \<Rightarrow> s
         | Some (vt, vtol) \<Rightarrow> s\<lparr>rm_vehicle_type := vt, rm_is_vtol := vtol\<rparr>)"

text \<open>The state after the topics have been read, before the controller runs.\<close>

definition rate_inputs_read ::
  "trig \<Rightarrow> rate_input \<Rightarrow> hrt_abstime \<Rightarrow> vector3f \<Rightarrow> rate_module \<Rightarrow> rate_pub list \<times> float32 \<times> rate_module" where
  "rate_inputs_read tr i now rates s =
     (let s = update_dynamic_parameters tr (ri_joints i) s;
          dt = rate_dt now (rm_last_run s);
          s = s\<lparr>rm_last_run := now\<rparr>;
          s = update_vehicle_topics i s;
          s = update_gear (ri_gear i) s;
          (sp_pubs, s) = update_rates_sp (ri_manual i) (ri_rates_sp i) rates s;
          s = update_aux (ri_aux i) now s
      in (sp_pubs, dt, s))"

definition params_read :: "rate_input \<Rightarrow> rate_module \<Rightarrow> rate_module" where
  "params_read i s = (case ri_params i of None \<Rightarrow> s | Some p \<Rightarrow> rate_parameters_updated (s\<lparr>rm_params := p\<rparr>))"

definition rate_Run :: "trig \<Rightarrow> rate_input \<Rightarrow> rate_module \<Rightarrow> rate_pub list \<times> rate_module" where
  "rate_Run tr i s =
     (let s = params_read i s
      in case ri_gyro i of
           None \<Rightarrow> ([], s)
         | Some (now, rates) \<Rightarrow>
             let (sp_pubs, dt, s) = rate_inputs_read tr i now rates s
             in if cm_rates_enabled (rm_mode s) \<and> \<not> rm_circuit_breaker s then
                  (case run_controller i now rates dt s of (pubs, s) \<Rightarrow> (sp_pubs @ pubs, s))
                else if cm_termination_enabled (rm_mode s) then
                  (sp_pubs @ (if \<not> rm_is_vtol s
                     then [Pub_actuators \<lparr>ac_control = replicate 8 f32_zero, ac_timestamp_sample = 0\<rparr>]
                     else []), s)
                else (sp_pubs, s))"

subsection \<open>Construction\<close>

definition rate_module_init :: "eso_rate_params \<Rightarrow> rate_module" where
  "rate_module_init p = rate_parameters_updated
     \<lparr>rm_params = p, rm_rc = rate_control_init, rm_arm = arm_kinematics_init, rm_active_profile = UavArmV4,
      rm_static_inertia = m3_diag (V3 (f32_lit (45 / 1000)) (f32_lit (45 / 1000)) (f32_lit (8 / 100))),
      rm_mode = \<lparr>cm_armed = False, cm_manual_enabled = False, cm_attitude_enabled = False,
                 cm_rates_enabled = False, cm_termination_enabled = False\<rparr>,
      rm_vehicle_type = VEHICLE_TYPE_ROTARY_WING, rm_is_vtol = False, rm_circuit_breaker = False,
      rm_landed = True, rm_maybe_landed = True, rm_battery_scale = f32_zero, rm_last_aux = 0,
      rm_alloc_unallocated = v3_zero, rm_alloc_sat_pos = V3 False False False,
      rm_alloc_sat_neg = V3 False False False, rm_dyn_ff_enabled = False, rm_rates_sp = v3_zero,
      rm_thrust_sp = f32_zero, rm_last_run = 0, rm_landing_gear = GEAR_DOWN,
      rm_energy_time = f32_zero, rm_control_energy = replicate 4 f32_zero, rm_acro_rate_max = v3_zero\<rparr>"

subsection \<open>What is published\<close>

definition finite_unit :: "float32 \<Rightarrow> bool" where
  "finite_unit x \<longleftrightarrow> f32_isfinite x \<and> f32_le (f32_lit (- 1)) x \<and> f32_le x (f32_lit 1)"

text \<open>\<open>scaled\<close> tells whether the battery scaling of the actuator outputs is enabled.\<close>

fun pub_safe :: "bool \<Rightarrow> rate_pub \<Rightarrow> bool" where
  "pub_safe scaled (Pub_torque_setpoint t _) = v3_all finite_unit t"
| "pub_safe scaled (Pub_thrust_setpoint t _) = v3_all f32_isfinite t"
| "pub_safe scaled (Pub_actuators a) =
     (length (ac_control a) = 8
      \<and> (scaled \<or> list_all finite_unit (take 3 (ac_control a)) \<and> list_all f32_isfinite (ac_control a)))"
| "pub_safe scaled _ = True"

lemma finite_unit_sanitized:
  assumes "within_or_nan (f32_lit (- 1)) (f32_lit 1) x"
  shows "finite_unit (finite_else_zero x)"
  using assms by (auto simp: finite_unit_def finite_else_zero_def within_or_nan_def)

lemma finite_else_zero_finite [simp]: "f32_isfinite (finite_else_zero x)"
  by (simp add: finite_else_zero_def)

lemma f32_of_s8_finite [simp]: "f32_isfinite (f32_of_s8 w)"
proof -
  have "- 128 \<le> sint w" "sint w \<le> 127"
    using sint_greater_eq [of w] sint_lt [of w] by simp_all
  then have "\<bar>sint w\<bar> \<le> 2 ^ 24" by simp
  then show ?thesis unfolding f32_of_s8_def by (subst f32_of_real_int) simp_all
qed

lemma rate_update_unit:
  "v3_all (within_or_nan (f32_lit (- 1)) (f32_lit 1)) (fst (rate_update w sp a dt l s))"
  by (rule rate_update_normalized [of w sp a dt l s]) (simp only: normalize_torque_range)

lemma rate_actuators_safe:
  assumes "v3_all (within_or_nan (f32_lit (- 1)) (f32_lit 1)) t"
  shows "list_all finite_unit (take 3 (rate_actuators t s))" and "list_all f32_isfinite (rate_actuators t s)"
    and "length (rate_actuators t s) = 8"
  using assms by (simp_all add: rate_actuators_def v3_all_def finite_unit_sanitized)

lemma scale_by_battery_simps:
  "length c = 8 \<Longrightarrow> length (fst (scale_by_battery b c s)) = 8"
  "rm_params (snd (scale_by_battery b c s)) = rm_params s"
  "\<not> pr_bat_scale_en (rm_params s) \<Longrightarrow> scale_by_battery b c s = (c, s)"
  by (simp_all add: scale_by_battery_def Let_def split: option.split)

lemma updateActuatorControlsStatus_safe:
  "list_all (pub_safe b) (fst (updateActuatorControlsStatus c dt s))"
  "rm_params (snd (updateActuatorControlsStatus c dt s)) = rm_params s"
  by (simp_all add: updateActuatorControlsStatus_def Let_def)

lemma update_saturation_params [simp]: "rm_params (update_saturation a s) = rm_params s"
  by (simp add: update_saturation_def Let_def split: option.split)

lemma run_controller_params: "rm_params (snd (run_controller i now rates dt s)) = rm_params s"
  by (simp add: run_controller_def Let_def case_prod_beta scale_by_battery_simps
      updateActuatorControlsStatus_safe)

lemma run_controller_safe:
  "list_all (pub_safe (pr_bat_scale_en (rm_params s))) (fst (run_controller i now rates dt s))"
proof -
  define s1 where "s1 = update_saturation (ri_alloc i)
    (if \<not> cm_armed (rm_mode s) \<or> rm_vehicle_type s \<noteq> VEHICLE_TYPE_ROTARY_WING
     then s\<lparr>rm_rc := resetESO (resetIntegral (rm_rc s))\<rparr> else s)"
  define u where "u = rate_update rates (rm_rates_sp s1) (ri_accel i) dt
    (rm_maybe_landed s1 \<or> rm_landed s1) (rm_rc s1)"
  define s2 where "s2 = s1\<lparr>rm_rc := snd u\<rparr>"
  define c where "c = scale_by_battery (ri_battery i) (rate_actuators (fst u) s2) s2"
  have par: "rm_params s2 = rm_params s" by (simp add: s2_def s1_def)
  have unit: "v3_all (within_or_nan (f32_lit (- 1)) (f32_lit 1)) (fst u)"
    unfolding u_def by (rule rate_update_unit)
  note act = rate_actuators_safe [OF unit, of s2]
  have "pub_safe (pr_bat_scale_en (rm_params s)) (Pub_actuators \<lparr>ac_control = fst c, ac_timestamp_sample = now\<rparr>)"
    using act scale_by_battery_simps(3) [of s2] by (auto simp: c_def par scale_by_battery_simps(1))
  moreover have "pub_safe b (publishTorqueSetpoint (fst u) now)" for b
    using unit by (simp add: publishTorqueSetpoint_def v3_all_def finite_unit_sanitized)
  moreover have "pub_safe b (publishThrustSetpoint now s2)" for b
    by (simp add: publishThrustSetpoint_def v3_all_def)
  moreover have "fst (run_controller i now rates dt s) =
      Pub_rate_ctrl_status (getESORateControlStatus (snd u)) #
      (if \<not> rm_is_vtol s2 then [publishTorqueSetpoint (fst u) now, publishThrustSetpoint now s2] else [])
      @ Pub_actuators \<lparr>ac_control = fst c, ac_timestamp_sample = now\<rparr>
      # fst (updateActuatorControlsStatus (fst c) dt (snd c))"
    unfolding run_controller_def Let_def case_prod_beta s1_def u_def s2_def c_def by simp
  ultimately show ?thesis by (simp add: updateActuatorControlsStatus_safe)
qed

lemma update_rates_sp_pubs:
  "list_all (pub_safe b) (fst (update_rates_sp m r rates s))"
  "list_all (\<lambda>p. case p of Pub_rates_setpoint _ \<Rightarrow> True | _ \<Rightarrow> False) (fst (update_rates_sp m r rates s))"
  by (simp_all add: update_rates_sp_def Let_def split: option.split)

lemma rate_inputs_read_pubs:
  "list_all (pub_safe b) (fst (rate_inputs_read tr i now rates s))"
  "list_all (\<lambda>p. case p of Pub_rates_setpoint _ \<Rightarrow> True | _ \<Rightarrow> False) (fst (rate_inputs_read tr i now rates s))"
  by (simp_all add: rate_inputs_read_def Let_def case_prod_beta update_rates_sp_pubs)

lemma rate_Run_no_gyro: "ri_gyro i = None \<Longrightarrow> rate_Run tr i s = ([], params_read i s)"
  by (simp add: rate_Run_def)

lemma rate_Run_gyro:
  assumes "ri_gyro i = Some (now, rates)"
    and "rate_inputs_read tr i now rates (params_read i s) = (sp, dt, s2)"
  shows "rate_Run tr i s = (if cm_rates_enabled (rm_mode s2) \<and> \<not> rm_circuit_breaker s2
      then (sp @ fst (run_controller i now rates dt s2), snd (run_controller i now rates dt s2))
      else if cm_termination_enabled (rm_mode s2) then
        (sp @ (if \<not> rm_is_vtol s2
           then [Pub_actuators \<lparr>ac_control = replicate 8 f32_zero, ac_timestamp_sample = 0\<rparr>] else []), s2)
      else (sp, s2))"
  using assms by (simp add: rate_Run_def Let_def split: prod.split)

lemma run_controller_frame:
  "rm_mode (snd (run_controller i now rates dt s)) = rm_mode s"
  "rm_circuit_breaker (snd (run_controller i now rates dt s)) = rm_circuit_breaker s"
  "rm_landing_gear (snd (run_controller i now rates dt s)) = rm_landing_gear s"
  "rm_landed (snd (run_controller i now rates dt s)) = rm_landed s"
  "rm_maybe_landed (snd (run_controller i now rates dt s)) = rm_maybe_landed s"
  "rm_last_aux (snd (run_controller i now rates dt s)) = rm_last_aux s"
  by (simp_all add: run_controller_def Let_def case_prod_beta scale_by_battery_def
      updateActuatorControlsStatus_def update_saturation_def split: option.split)

text \<open>
  C1: what the rate controller module publishes. In every run, from any state and with any sensor
  values, every published torque setpoint is finite and in [-1, 1] on each axis, every thrust
  setpoint is finite, and the actuator controls have eight entries which, unless battery scaling
  is enabled, are finite, with roll, pitch and yaw in [-1, 1].
\<close>

theorem rate_Run_publishes_safe:
  "list_all (pub_safe (pr_bat_scale_en (rm_params (snd (rate_Run tr i s))))) (fst (rate_Run tr i s))"
proof (cases "ri_gyro i")
  case None
  then show ?thesis by (simp add: rate_Run_no_gyro)
next
  case (Some g)
  obtain now rates where g: "ri_gyro i = Some (now, rates)" using Some by (cases g) simp
  obtain sp dt s2 where r: "rate_inputs_read tr i now rates (params_read i s) = (sp, dt, s2)"
    by (metis prod_cases3)
  have sp: "list_all (pub_safe b) sp" for b
    using rate_inputs_read_pubs(1) [of b tr i now rates "params_read i s"] r by simp
  have zero: "pub_safe b (Pub_actuators \<lparr>ac_control = replicate 8 f32_zero, ac_timestamp_sample = 0\<rparr>)" for b
    by (auto simp: list_all_iff finite_unit_def dest!: in_set_takeD)
  show ?thesis
    using run_controller_safe [of s2 i now rates dt] zero
    by (simp add: rate_Run_gyro [OF g r] sp run_controller_params)
qed

text \<open>
  With the rate loop disabled or the circuit breaker engaged the module publishes no torque and no
  thrust setpoint; the only actuator message it then publishes is the one with all outputs zero, in
  termination mode.
\<close>

theorem rate_Run_gated:
  assumes "ri_gyro i = Some (now, rates)"
    and "\<not> (cm_rates_enabled (rm_mode (snd (rate_Run tr i s))) \<and> \<not> rm_circuit_breaker (snd (rate_Run tr i s)))"
  shows "list_all (\<lambda>p. case p of Pub_rates_setpoint _ \<Rightarrow> True
      | Pub_actuators a \<Rightarrow> ac_control a = replicate 8 f32_zero \<and> cm_termination_enabled (rm_mode (snd (rate_Run tr i s)))
      | _ \<Rightarrow> False) (fst (rate_Run tr i s))"
proof -
  obtain sp dt s2 where r: "rate_inputs_read tr i now rates (params_read i s) = (sp, dt, s2)"
    by (metis prod_cases3)
  have sp: "list_all (\<lambda>p. case p of Pub_rates_setpoint _ \<Rightarrow> True | _ \<Rightarrow> False) sp"
    using rate_inputs_read_pubs(2) [of tr i now rates "params_read i s"] r by simp
  then have "list_all (\<lambda>p. case p of Pub_rates_setpoint _ \<Rightarrow> True | Pub_actuators a \<Rightarrow> Q a | _ \<Rightarrow> False) sp" for Q
    by (auto simp: list_all_iff split: rate_pub.splits)
  moreover have off: "\<not> (cm_rates_enabled (rm_mode s2) \<and> \<not> rm_circuit_breaker s2)"
    using assms(2) by (auto simp: rate_Run_gyro [OF assms(1) r] run_controller_frame split: if_splits)
  ultimately show ?thesis unfolding rate_Run_gyro [OF assms(1) r] if_not_P [OF off] by simp
qed

subsection \<open>The time step\<close>

text \<open>
  Whatever the two timestamps are, the time step handed to the controller is a number between
  0.125 ms and 20 ms.
\<close>

theorem rate_dt_range:
  "f32_le (f32_lit (125 / 10 ^ 6)) (rate_dt now last_run) \<and> f32_le (rate_dt now last_run) (f32_lit (2 / 100))"
proof -
  have lim: "f32_le (f32_lit (125 / 10 ^ 6)) (f32_lit (2 / 100))" by (rule f32_lit_mono) simp
  have "f32_isfinite (f32_lit (1 / 10 ^ 6))" by (rule f32_lit_isfinite_small) simp_all
  then have "f32_mul (f32_of_u64 x) (f32_lit (1 / 10 ^ 6)) \<noteq> FNaN" for x
    by (rule f32_mul_finite_not_nan [OF f32_of_u64_finite])
  from constrain_bounds [OF this lim] show ?thesis unfolding rate_dt_def by blast
qed

subsection \<open>Freshness of the auxiliary inputs\<close>

definition rc_aux :: "rate_control \<Rightarrow> vector3f \<times> vector3f \<times> vector3f" where
  "rc_aux rc = (rc_omega_r_dot rc, rc_beta_v rc, rc_tau_s rc)"

definition cached_aux :: "rate_module \<Rightarrow> vector3f \<times> vector3f \<times> vector3f" where
  "cached_aux s = rc_aux (rm_rc s)"

definition aux_of :: "eso_aux_msg \<Rightarrow> vector3f \<times> vector3f \<times> vector3f" where
  "aux_of a = (ax_omega_r_dot a, ax_beta_v a, ax_tau_s a)"

abbreviation aux_zero :: "vector3f \<times> vector3f \<times> vector3f" where
  "aux_zero \<equiv> (v3_zero, v3_zero, v3_zero)"

text \<open>The cached inputs are zero or those of a message that has been received.\<close>

definition aux_known :: "eso_aux_msg list \<Rightarrow> rate_module \<Rightarrow> bool" where
  "aux_known as s \<longleftrightarrow> cached_aux s = aux_zero
     \<or> (\<exists>a \<in> set as. cached_aux s = aux_of a \<and> rm_last_aux s = ax_timestamp a)"

lemma aux_known_cong:
  "cached_aux s' = cached_aux s \<Longrightarrow> rm_last_aux s' = rm_last_aux s \<Longrightarrow> aux_known as s' = aux_known as s"
  by (simp add: aux_known_def)

lemma setter_aux_frame [simp]:
  "rc_aux (setGains p i d rc) = rc_aux rc"
  "rc_aux (setIntegratorLimit v rc) = rc_aux rc"
  "rc_aux (setFeedForwardGain v rc) = rc_aux rc"
  "rc_aux (setInertiaDiagonal v rc) = rc_aux rc"
  "rc_aux (setInertiaMatrix m rc) = rc_aux rc"
  "rc_aux (setESOBandwidth v rc) = rc_aux rc"
  "rc_aux (setKBeta x rc) = rc_aux rc"
  "rc_aux (setMaxTorque x rc) = rc_aux rc"
  "rc_aux (setIntegralScale x rc) = rc_aux rc"
  "rc_aux (setTauSScale x rc) = rc_aux rc"
  "rc_aux (setTauSAxisScale v rc) = rc_aux rc"
  "rc_aux (setTauSObserverAxisScale v rc) = rc_aux rc"
  "rc_aux (setTauSControlAxisScale v rc) = rc_aux rc"
  "rc_aux (setTauSLimitNm x rc) = rc_aux rc"
  "rc_aux (setTauSFilterTimeConstant x rc) = rc_aux rc"
  by (simp_all add: setter_defs rc_aux_def Let_def split: option.split)

lemma rate_parameters_updated_aux:
  "cached_aux (rate_parameters_updated s) = cached_aux s"
  "rm_last_aux (rate_parameters_updated s) = rm_last_aux s"
  by (simp_all add: rate_parameters_updated_def update_profile_def cached_aux_def Let_def case_prod_beta)

lemma params_read_aux [simp]:
  "cached_aux (params_read i s) = cached_aux s" "rm_last_aux (params_read i s) = rm_last_aux s"
  by (simp_all add: params_read_def rate_parameters_updated_aux split: option.split)
     (simp_all add: cached_aux_def)

lemma update_dynamic_aux [simp]:
  "cached_aux (update_dynamic_parameters tr j s) = cached_aux s"
  "rm_last_aux (update_dynamic_parameters tr j s) = rm_last_aux s"
  by (simp_all add: update_dynamic_parameters_def cached_aux_def case_prod_beta split: option.split)

lemma update_rates_sp_aux [simp]:
  "cached_aux (snd (update_rates_sp m r rates s)) = cached_aux s"
  "rm_last_aux (snd (update_rates_sp m r rates s)) = rm_last_aux s"
  by (simp_all add: update_rates_sp_def cached_aux_def Let_def split: option.split)

lemma update_gear_aux [simp]:
  "cached_aux (update_gear g s) = cached_aux s" "rm_last_aux (update_gear g s) = rm_last_aux s"
  by (simp_all add: update_gear_def cached_aux_def split: option.split)

lemma update_aux_known:
  assumes "aux_known as s"
  shows "aux_known (as @ (case aux of None \<Rightarrow> [] | Some a \<Rightarrow> [a])) (update_aux aux now s)"
  using assms by (cases aux) (auto simp: aux_known_def update_aux_def Let_def cached_aux_def rc_aux_def aux_of_def)

lemma update_aux_fresh:
  "cached_aux (update_aux aux now s) = aux_zero
   \<or> now - rm_last_aux (update_aux aux now s) \<le> ESO_AUX_TIMEOUT"
  by (cases aux) (auto simp: update_aux_def Let_def cached_aux_def rc_aux_def)

lemma update_vehicle_topics_aux [simp]:
  "cached_aux (update_vehicle_topics i s) = cached_aux s"
  "rm_last_aux (update_vehicle_topics i s) = rm_last_aux s"
  by (simp_all add: update_vehicle_topics_def cached_aux_def Let_def split: option.split)

lemma rate_inputs_read_aux:
  assumes "rate_inputs_read tr i now rates s = (sp, dt, s2)"
  obtains s1 where "s2 = update_aux (ri_aux i) now s1" and "cached_aux s1 = cached_aux s"
    and "rm_last_aux s1 = rm_last_aux s" and "rm_landing_gear s1 = rm_landing_gear s2"
proof
  let ?s1 = "snd (update_rates_sp (ri_manual i) (ri_rates_sp i) rates (update_gear (ri_gear i)
    (update_vehicle_topics i ((update_dynamic_parameters tr (ri_joints i) s)\<lparr>rm_last_run := now\<rparr>))))"
  show s2: "s2 = update_aux (ri_aux i) now ?s1"
    using assms by (simp add: rate_inputs_read_def Let_def case_prod_beta)
  have [simp]: "cached_aux (s\<lparr>rm_last_run := t\<rparr>) = cached_aux s" for s :: rate_module and t
    by (simp add: cached_aux_def)
  show "cached_aux ?s1 = cached_aux s" "rm_last_aux ?s1 = rm_last_aux s" by simp_all
  show "rm_landing_gear ?s1 = rm_landing_gear s2"
    unfolding s2 by (simp add: update_aux_def Let_def split: option.split)
qed

lemma run_controller_aux:
  "cached_aux (snd (run_controller i now rates dt s)) = cached_aux s
   \<or> cached_aux (snd (run_controller i now rates dt s)) = aux_zero"
proof -
  have sat: "cached_aux (update_saturation a s) = cached_aux s" for a s
    by (simp add: update_saturation_def cached_aux_def rc_aux_def Let_def setSaturationStatus_def split: option.split)
  have rest: "cached_aux (snd (scale_by_battery b c s)) = cached_aux s"
    "cached_aux (snd (updateActuatorControlsStatus c dt s)) = cached_aux s" for b c s
    by (simp_all add: scale_by_battery_def updateActuatorControlsStatus_def cached_aux_def Let_def
        split: option.split)
  have rc: "cached_aux (s\<lparr>rm_rc := snd (rate_update w sp a dt l (rm_rc s))\<rparr>) = cached_aux s" for w sp a dt l s
    by (simp add: cached_aux_def rc_aux_def)
  have reset: "cached_aux (s\<lparr>rm_rc := resetESO (resetIntegral (rm_rc s))\<rparr>) = aux_zero"
    by (simp add: cached_aux_def rc_aux_def setter_defs)
  show ?thesis
    by (simp add: run_controller_def Let_def case_prod_beta rest rc sat reset)
qed

definition rate_runs :: "trig \<Rightarrow> rate_input list \<Rightarrow> rate_module \<Rightarrow> rate_module" where
  "rate_runs tr is s = foldl (\<lambda>s i. snd (rate_Run tr i s)) s is"

text \<open>The messages taken from the topic: it is only read in a run with a gyro sample.\<close>

definition aux_received :: "rate_input list \<Rightarrow> eso_aux_msg list" where
  "aux_received is =
     concat (map (\<lambda>i. case (ri_gyro i, ri_aux i) of (Some _, Some a) \<Rightarrow> [a] | _ \<Rightarrow> []) is)"

lemma rate_Run_aux_known:
  assumes "aux_known as s"
  shows "aux_known (as @ aux_received [i]) (snd (rate_Run tr i s))"
proof (cases "ri_gyro i")
  case None
  then show ?thesis
    using assms by (simp add: rate_Run_no_gyro aux_received_def aux_known_cong [of "params_read i s" s])
next
  case (Some g)
  then obtain now rates where g: "ri_gyro i = Some (now, rates)" by (cases g) simp
  obtain sp dt s2 where r: "rate_inputs_read tr i now rates (params_read i s) = (sp, dt, s2)"
    by (metis prod_cases3)
  obtain s1 where s1: "s2 = update_aux (ri_aux i) now s1" "cached_aux s1 = cached_aux s"
    "rm_last_aux s1 = rm_last_aux s" using rate_inputs_read_aux [OF r] by (metis params_read_aux)
  have "aux_known as s1" using assms aux_known_cong [of s1 s as] s1(2,3) by simp
  then have "aux_known (as @ aux_received [i]) s2"
    using update_aux_known [of as s1 "ri_aux i" now]
    by (cases "ri_aux i") (simp_all add: s1(1) aux_received_def g)
  moreover have "aux_known bs (snd (run_controller i now rates dt s2))" if "aux_known bs s2" for bs
    using run_controller_aux [of i now rates dt s2] that run_controller_frame(6) [of i now rates dt s2]
    by (auto simp: aux_known_def)
  ultimately show ?thesis by (simp add: rate_Run_gyro [OF g r])
qed

lemma aux_known_run:
  "aux_known as s \<Longrightarrow> aux_known (as @ aux_received is) (rate_runs tr is s)"
proof (induction "is" arbitrary: as s)
  case Nil
  then show ?case by (simp add: rate_runs_def aux_received_def)
next
  case (Cons i "is")
  have "aux_received (i # is) = aux_received [i] @ aux_received is" by (simp add: aux_received_def)
  with Cons.IH [OF rate_Run_aux_known [OF Cons.prems, of i tr]] show ?case by (simp add: rate_runs_def)
qed

lemma rate_Run_aux_fresh:
  assumes "ri_gyro i = Some (now, rates)"
  shows "cached_aux (snd (rate_Run tr i s)) = aux_zero
    \<or> now - rm_last_aux (snd (rate_Run tr i s)) \<le> ESO_AUX_TIMEOUT"
proof -
  obtain sp dt s2 where r: "rate_inputs_read tr i now rates (params_read i s) = (sp, dt, s2)"
    by (metis prod_cases3)
  obtain s1 where "s2 = update_aux (ri_aux i) now s1" by (rule rate_inputs_read_aux [OF r])
  then have "cached_aux s2 = aux_zero \<or> now - rm_last_aux s2 \<le> ESO_AUX_TIMEOUT"
    using update_aux_fresh [of "ri_aux i" now s1] by simp
  then show ?thesis
    using run_controller_aux [of i now rates dt s2]
    by (auto simp: rate_Run_gyro [OF assms r] run_controller_frame)
qed

text \<open>
  C16: the auxiliary inputs from the attitude loop are never stale. After any sequence of runs that
  ends with a gyro sample taken at \<open>now\<close>, the inputs held by the rate controller are zero, or they
  are those of one received message that is at most 100 ms older than the sample.
\<close>

theorem rate_aux_inputs_fresh:
  assumes "cached_aux s = aux_zero" and "ri_gyro i = Some (now, rates)"
  shows "let s' = rate_runs tr (is @ [i]) s in
    cached_aux s' = aux_zero
    \<or> (\<exists>a. a \<in> set (aux_received (is @ [i])) \<and> cached_aux s' = aux_of a
          \<and> now - ax_timestamp a \<le> ESO_AUX_TIMEOUT)"
proof -
  have "aux_known [] s" using assms(1) by (simp add: aux_known_def)
  from aux_known_run [OF this, of "is @ [i]" tr]
  have known: "aux_known (aux_received (is @ [i])) (rate_runs tr (is @ [i]) s)" by simp
  have last: "rate_runs tr (is @ [i]) s = snd (rate_Run tr i (rate_runs tr is s))"
    by (simp add: rate_runs_def)
  show ?thesis
    using known rate_Run_aux_fresh [OF assms(2), of tr "rate_runs tr is s"]
    unfolding Let_def last aux_known_def by auto
qed

text \<open>
  A message that is newer than the gyro sample is dropped. The age is computed in unsigned
  arithmetic, so a timestamp later than the sample counts as an age of more than 100 ms, and the
  run works with zero auxiliary inputs.
\<close>

theorem rate_aux_newer_dropped:
  assumes "ri_gyro i = Some (now, rates)" and "ri_aux i = Some a"
    and "now < ax_timestamp a" and "ax_timestamp a \<le> 2 ^ 63"
  shows "cached_aux (snd (rate_Run tr i s)) = aux_zero"
proof -
  obtain sp dt s2 where r: "rate_inputs_read tr i now rates (params_read i s) = (sp, dt, s2)"
    by (metis prod_cases3)
  obtain s1 where s2: "s2 = update_aux (ri_aux i) now s1" by (rule rate_inputs_read_aux [OF r])
  have "unat now < unat (ax_timestamp a)" "unat (ax_timestamp a) \<le> 2 ^ 63"
    using assms(3,4) by (simp_all add: word_less_nat_alt word_le_nat_alt)
  then have "ESO_AUX_TIMEOUT < now - ax_timestamp a"
    by (simp add: word_less_nat_alt unat_sub_if' ESO_AUX_TIMEOUT_def)
  then have "cached_aux s2 = aux_zero"
    by (simp add: s2 assms(2) update_aux_def Let_def cached_aux_def rc_aux_def)
  then show ?thesis
    using run_controller_aux [of i now rates dt s2] by (auto simp: rate_Run_gyro [OF assms(1) r])
qed

subsection \<open>The landing gear\<close>

lemma update_aux_frame:
  "rm_landed (update_aux a now s) = rm_landed s" "rm_maybe_landed (update_aux a now s) = rm_maybe_landed s"
  "rm_landing_gear (update_aux a now s) = rm_landing_gear s"
  by (simp_all add: update_aux_def Let_def split: option.split)

lemma update_rates_sp_frame:
  "rm_landed (snd (update_rates_sp m r w s)) = rm_landed s"
  "rm_maybe_landed (snd (update_rates_sp m r w s)) = rm_maybe_landed s"
  "rm_landing_gear (snd (update_rates_sp m r w s)) = rm_landing_gear s"
  by (simp_all add: update_rates_sp_def Let_def split: option.split)

lemma update_gear_guard:
  "rm_landing_gear (update_gear g s) = GEAR_UP \<Longrightarrow> rm_landing_gear s \<noteq> GEAR_UP \<Longrightarrow>
     \<not> rm_landed (update_gear g s) \<and> \<not> rm_maybe_landed (update_gear g s)"
  by (auto simp: update_gear_def split: option.splits if_splits)

lemma gear_frame:
  "rm_landing_gear (params_read i s) = rm_landing_gear s"
  "rm_landing_gear (update_vehicle_topics i s) = rm_landing_gear s"
  "rm_landing_gear (update_dynamic_parameters tr j s) = rm_landing_gear s"
  by (simp_all add: params_read_def rate_parameters_updated_def update_profile_def Let_def case_prod_beta
      update_vehicle_topics_def update_dynamic_parameters_def split: option.split)

text \<open>
  A run retracts the landing gear only if, by the land detector state it has just read, the
  vehicle is neither landed nor maybe landed.
\<close>

theorem rate_gear_not_retracted_on_ground:
  assumes "rm_landing_gear (snd (rate_Run tr i s)) = GEAR_UP" and "rm_landing_gear s \<noteq> GEAR_UP"
  shows "\<not> rm_landed (snd (rate_Run tr i s)) \<and> \<not> rm_maybe_landed (snd (rate_Run tr i s))"
proof (cases "ri_gyro i")
  case None
  with assms show ?thesis by (simp add: rate_Run_no_gyro gear_frame)
next
  case (Some g)
  then obtain now rates where g: "ri_gyro i = Some (now, rates)" by (cases g) simp
  obtain sp dt s2 where r: "rate_inputs_read tr i now rates (params_read i s) = (sp, dt, s2)"
    by (metis prod_cases3)
  have frame: "rm_landing_gear (snd (rate_Run tr i s)) = rm_landing_gear s2"
    "rm_landed (snd (rate_Run tr i s)) = rm_landed s2"
    "rm_maybe_landed (snd (rate_Run tr i s)) = rm_maybe_landed s2"
    by (simp_all add: rate_Run_gyro [OF g r] run_controller_frame)
  let ?s = "update_vehicle_topics i ((update_dynamic_parameters tr (ri_joints i) (params_read i s))\<lparr>rm_last_run := now\<rparr>)"
  have s2: "s2 = update_aux (ri_aux i) now (snd (update_rates_sp (ri_manual i) (ri_rates_sp i) rates
      (update_gear (ri_gear i) ?s)))"
    using r by (simp add: rate_inputs_read_def Let_def case_prod_beta)
  have "rm_landing_gear ?s = rm_landing_gear s" by (simp add: gear_frame)
  with assms show ?thesis
    using update_gear_guard [of "ri_gear i" ?s]
    unfolding frame s2 update_aux_frame update_rates_sp_frame by simp
qed

subsection \<open>Sample runs\<close>

definition trig_example :: trig where
  "trig_example = (\<lambda>_. f32_lit 1, \<lambda>_. f32_zero)"

definition quiet_input :: rate_input where
  "quiet_input = \<lparr>ri_params = None, ri_gyro = Some (1000, v3_zero), ri_joints = None, ri_accel = v3_zero,
     ri_mode = None, ri_land = None, ri_status = None, ri_gear = None, ri_manual = None,
     ri_rates_sp = None, ri_aux = None, ri_alloc = None, ri_battery = None\<rparr>"

definition params_example :: eso_rate_params where
  "params_example = \<lparr>pr_rate_p = v3_zero, pr_rate_i = v3_zero, pr_rate_d = v3_zero, pr_rate_k = v3_zero,
     pr_int_lim = v3_zero, pr_rate_ff = v3_zero, pr_inertia = v3_zero, pr_rate_bw = v3_zero,
     pr_k_beta = f32_zero, pr_dyn_ff_en = False, pr_max_torque = f32_lit 1, pr_rate_i_scale = f32_zero,
     pr_taus_k = f32_zero, pr_taus_k_axis = v3_zero, pr_taus_obs = v3_zero, pr_taus_ctl = v3_zero,
     pr_taus_lim = f32_zero, pr_taus_tau = f32_zero, pr_acro_max = v3_zero, pr_acro_expo = f32_zero,
     pr_acro_expo_y = f32_zero, pr_acro_supexpo = f32_zero, pr_acro_supexpoy = f32_zero,
     pr_bat_scale_en = False, pr_arm_model = 1, pr_cbrk_rate_ctrl = 0\<rparr>"

lemma mode_frame:
  "rm_mode (update_gear g s) = rm_mode s" "rm_mode (snd (update_rates_sp m r w s)) = rm_mode s"
  "rm_mode (update_aux a now s) = rm_mode s" "rm_mode (update_dynamic_parameters tr j s) = rm_mode s"
  by (simp_all add: update_gear_def update_rates_sp_def update_aux_def update_dynamic_parameters_def
      Let_def case_prod_beta split: option.split)

lemma rate_Run_mode:
  assumes "ri_gyro i = Some g" and "ri_mode i = Some m"
  shows "rm_mode (snd (rate_Run tr i s)) = m"
proof -
  obtain now rates where g: "ri_gyro i = Some (now, rates)" using assms(1) by (cases g) simp
  obtain sp dt s2 where r: "rate_inputs_read tr i now rates (params_read i s) = (sp, dt, s2)"
    by (metis prod_cases3)
  then have "rm_mode s2 = m"
    using assms(2) by (auto simp: rate_inputs_read_def Let_def case_prod_beta mode_frame
        update_vehicle_topics_def split: option.splits)
  then show ?thesis by (simp add: rate_Run_gyro [OF g r] run_controller_frame)
qed

lemma rate_module_init_facts:
  "cached_aux (rate_module_init p) = aux_zero" "rm_landing_gear (rate_module_init p) = GEAR_DOWN"
  by (simp_all add: rate_module_init_def rate_parameters_updated_aux)
     (simp_all add: cached_aux_def rc_aux_def rate_control_init_def Let_def
        rate_parameters_updated_def update_profile_def case_prod_beta)

definition mode_off :: rate_control_mode where
  "mode_off = \<lparr>cm_armed = True, cm_manual_enabled = False, cm_attitude_enabled = False,
     cm_rates_enabled = False, cm_termination_enabled = True\<rparr>"

theorem rate_Run_gated_witness:
  "let i = quiet_input\<lparr>ri_mode := Some mode_off\<rparr>; s = rate_module_init params_example;
       r = rate_Run trig_example i s
   in list_all (\<lambda>p. case p of Pub_rates_setpoint _ \<Rightarrow> True
      | Pub_actuators a \<Rightarrow> ac_control a = replicate 8 f32_zero \<and> cm_termination_enabled (rm_mode (snd r))
      | _ \<Rightarrow> False) (fst r)"
proof -
  let ?i = "quiet_input\<lparr>ri_mode := Some mode_off\<rparr>" and ?s = "rate_module_init params_example"
  have g: "ri_gyro ?i = Some (1000, v3_zero)" by (simp add: quiet_input_def)
  have "rm_mode (snd (rate_Run trig_example ?i ?s)) = mode_off" by (rule rate_Run_mode [OF g]) simp
  then have "\<not> (cm_rates_enabled (rm_mode (snd (rate_Run trig_example ?i ?s)))
      \<and> \<not> rm_circuit_breaker (snd (rate_Run trig_example ?i ?s)))" by (simp add: mode_off_def)
  from rate_Run_gated [OF g this] show ?thesis unfolding Let_def .
qed

definition aux_example :: "hrt_abstime \<Rightarrow> eso_aux_msg" where
  "aux_example t = \<lparr>ax_timestamp = t, ax_omega_r_dot = V3 (f32_lit 1) f32_zero f32_zero,
     ax_beta_v = v3_zero, ax_tau_s = v3_zero\<rparr>"

theorem rate_aux_inputs_fresh_witness:
  "let i = quiet_input\<lparr>ri_gyro := Some (2000, v3_zero), ri_aux := Some (aux_example 1900)\<rparr>;
       s' = rate_runs trig_example ([quiet_input] @ [i]) (rate_module_init params_example)
   in cached_aux s' = aux_zero
      \<or> (\<exists>a. a \<in> set (aux_received ([quiet_input] @ [i])) \<and> cached_aux s' = aux_of a
           \<and> 2000 - ax_timestamp a \<le> ESO_AUX_TIMEOUT)"
  using rate_aux_inputs_fresh [OF rate_module_init_facts(1), of
      "quiet_input\<lparr>ri_gyro := Some (2000, v3_zero), ri_aux := Some (aux_example 1900)\<rparr>" 2000 v3_zero
      trig_example "[quiet_input]" params_example]
  by (simp add: Let_def)

theorem rate_aux_newer_dropped_witness:
  "let i = quiet_input\<lparr>ri_aux := Some (aux_example 1001)\<rparr>
   in cached_aux (snd (rate_Run trig_example i (rate_module_init params_example))) = aux_zero"
  unfolding Let_def by (rule rate_aux_newer_dropped [of _ 1000 v3_zero "aux_example 1001"])
    (simp_all add: quiet_input_def aux_example_def)

theorem rate_gear_not_retracted_on_ground_witness:
  "let i = quiet_input\<lparr>ri_gear := Some GEAR_UP, ri_land := Some (False, False)\<rparr>;
       s' = snd (rate_Run trig_example i (rate_module_init params_example))
   in rm_landing_gear s' = GEAR_UP \<and> \<not> rm_landed s' \<and> \<not> rm_maybe_landed s'"
proof -
  let ?i = "quiet_input\<lparr>ri_gear := Some GEAR_UP, ri_land := Some (False, False)\<rparr>"
  let ?s = "rate_module_init params_example"
  have g: "ri_gyro ?i = Some (1000, v3_zero)" by (simp add: quiet_input_def)
  obtain sp dt s2 where r: "rate_inputs_read trig_example ?i 1000 v3_zero (params_read ?i ?s) = (sp, dt, s2)"
    by (metis prod_cases3)
  then have "rm_landing_gear s2 = GEAR_UP"
    by (auto simp: rate_inputs_read_def Let_def case_prod_beta update_aux_frame update_rates_sp_frame
        update_gear_def update_vehicle_topics_def quiet_input_def GEAR_UP_def GEAR_KEEP_def)
  then have up: "rm_landing_gear (snd (rate_Run trig_example ?i ?s)) = GEAR_UP"
    by (simp add: rate_Run_gyro [OF g r] run_controller_frame)
  have "rm_landing_gear ?s \<noteq> GEAR_UP" by (simp add: rate_module_init_facts GEAR_UP_def GEAR_DOWN_def)
  from rate_gear_not_retracted_on_ground [OF up this] up show ?thesis unfolding Let_def by blast
qed

end
