(* ===== verification/Eso_Attitude_Module.thy ===== *)
theory Eso_Attitude_Module
  imports Eso_Attitude_Control Eso_Position_Laws Eso_Rate_Module Control_Mode
begin

text \<open>
  The work item \<^verbatim>\<open>ESOMulticopterAttitudeControl\<close>
  (\<^verbatim>\<open>src/modules/eso_att_control/eso_att_control_main.cpp\<close>): parameters, the dynamic centre of mass, the
  setpoint from the sticks in stabilized mode, the heading reset, the call of the controller and
  the publications to the rate loop. A subscription is an \<open>option\<close> of the input record; one clock
  reading serves the whole run. The debug snapshot and the members that only it reads are left out.
  Shown: what is published when, the bounds of the published rates, and the derivative around
  arming.
\<close>

subsection \<open>mathlib\<close>

definition gradual :: "float32 \<Rightarrow> float32 \<Rightarrow> float32 \<Rightarrow> float32 \<Rightarrow> float32 \<Rightarrow> float32" where
  "gradual value x_low x_high y_low y_high =
     (if f32_le value x_low then y_low
      else if f32_gt value x_high then y_high
      else (let a = f32_div (f32_sub y_high y_low) (f32_sub x_high x_low);
                b = f32_sub y_low (f32_mul a x_low)
            in f32_add (f32_mul a value) b))"

definition gradual3 ::
  "float32 \<Rightarrow> float32 \<Rightarrow> float32 \<Rightarrow> float32 \<Rightarrow> float32 \<Rightarrow> float32 \<Rightarrow> float32 \<Rightarrow> float32" where
  "gradual3 value x_low x_middle x_high y_low y_middle y_high =
     (if f32_lt value x_middle then gradual value x_low x_middle y_low y_middle
      else gradual value x_middle x_high y_middle y_high)"

record alpha_filter =
  af_alpha :: float32
  af_state :: float32

definition AlphaFilter :: alpha_filter where
  "AlphaFilter = \<lparr>af_alpha = f32_zero, af_state = f32_zero\<rparr>"

definition af_setParameters :: "float32 \<Rightarrow> float32 \<Rightarrow> alpha_filter \<Rightarrow> alpha_filter" where
  "af_setParameters sample_interval time_constant f =
     (let denominator = f32_add time_constant sample_interval
      in if f32_gt denominator FLT_EPSILON then f\<lparr>af_alpha := f32_div sample_interval denominator\<rparr> else f)"

definition af_reset :: "float32 \<Rightarrow> alpha_filter \<Rightarrow> alpha_filter" where
  "af_reset sample f = f\<lparr>af_state := sample\<rparr>"

definition af_update :: "float32 \<Rightarrow> alpha_filter \<Rightarrow> alpha_filter" where
  "af_update sample f =
     f\<lparr>af_state := f32_add (f32_mul (f32_sub (f32_lit 1) (af_alpha f)) (af_state f)) (f32_mul (af_alpha f) sample)\<rparr>"

subsection \<open>Parameters, topics, state\<close>

record att_params =
  ap_p :: vector3f
  ap_yaw_weight :: float32
  ap_rate_max :: vector3f
  ap_man_y_max :: float32
  ap_man_tilt_max :: float32
  ap_manthr_min :: float32
  ap_thr_max :: float32
  ap_thr_hover :: float32
  ap_thr_curve :: "32 word"
  ap_airmode :: "32 word"
  ap_man_tilt_tau :: float32
  ap_mass_total :: float32
  ap_com :: vector3f
  ap_arm_inertia :: vector3f
  ap_arm_model :: "32 word"

record vehicle_attitude_s =
  va_timestamp :: hrt_abstime
  va_timestamp_sample :: hrt_abstime
  va_q :: quatf
  va_delta_q_reset :: quatf
  va_quat_reset_counter :: u8

record autotune_status =
  au_timestamp :: hrt_abstime
  au_state :: u8
  au_rate_sp :: vector3f

datatype att_pub =
    Pub_attitude_setpoint vehicle_attitude_setpoint_s
  | Pub_rates hrt_abstime rates_setpoint
  | Pub_aux vector3f eso_aux_msg

record att_module =
  am_params :: att_params
  am_control :: attitude_control
  am_arm :: arm_kinematics
  am_manual :: manual_setpoint
  am_mode :: vehicle_control_mode
  am_thrust_setpoint_body :: vector3f
  am_mass_total :: float32
  am_com_offset :: vector3f
  am_arm_inertia :: matrix3f
  am_active_profile :: ModelProfile
  am_man_yaw_sp :: float32
  am_man_tilt_max :: float32
  am_man_x_input_filter :: alpha_filter
  am_man_y_input_filter :: alpha_filter
  am_last_run :: hrt_abstime
  am_last_attitude_setpoint :: hrt_abstime
  am_landed :: bool
  am_reset_yaw_sp :: bool
  am_vehicle_type_rotary_wing :: bool
  am_vtol :: bool
  am_vtol_tailsitter :: bool
  am_vtol_in_transition_mode :: bool
  am_quat_reset_counter :: u8
  am_was_armed :: bool
  am_was_run_att_ctrl :: bool

text \<open>What the subscriptions deliver to one run, and the clock.\<close>

record att_input =
  ai_now :: hrt_abstime
  ai_params :: "att_params option"
  ai_joints :: "arm_joint_states_s option"
  ai_attitude :: "vehicle_attitude_s option"
  ai_angular_velocity :: vector3f
  ai_attitude_setpoint :: "vehicle_attitude_setpoint_s option"
  ai_manual :: "manual_setpoint option"
  ai_mode :: "vehicle_control_mode option"
  ai_landed :: "bool option"
  ai_status :: "(bool \<times> bool \<times> bool) option"
  ai_autotune :: "autotune_status option"

subsection \<open>Parameters and vehicle model\<close>

definition am_parameters_updated :: "att_module \<Rightarrow> att_module" where
  "am_parameters_updated s =
     (let p = am_params s;
          c = at_setProportionalGain (ap_p p) (ap_yaw_weight p) (am_control s);
          c = at_setRateLimit (map_vec3 radians (ap_rate_max p)) c;
          profile = resolveModelProfile (ap_arm_model p);
          arm = setModelProfile profile (am_arm s);
          (m, cm, i) =
            (if profile = UamV5 then
               (let d = getDynamicsProfile profile in (mass_total d, com d, staticSystemInertiaMatrix d))
             else (ap_mass_total p, ap_com p, m3_diag (ap_arm_inertia p)))
      in s\<lparr>am_control := at_setTauSParameters m cm i c, am_man_tilt_max := radians (ap_man_tilt_max p),
           am_active_profile := profile, am_mass_total := m, am_com_offset := cm, am_arm_inertia := i,
           am_arm := setParameters m cm i arm\<rparr>)"

definition am_update_dynamic_parameters :: "trig \<Rightarrow> arm_joint_states_s option \<Rightarrow> att_module \<Rightarrow> att_module" where
  "am_update_dynamic_parameters tr joints s =
     (case joints of
        None \<Rightarrow> s
      | Some j \<Rightarrow>
          if \<not> ajs_valid j then
            s\<lparr>am_control := at_setTauSParameters (am_mass_total s) (am_com_offset s) (am_arm_inertia s) (am_control s)\<rparr>
          else
            (case computeSystemCoM tr (ajs_q j) (am_arm s) of (dynamic_com, arm) \<Rightarrow>
             case computeSystemInertia tr (ajs_q j) arm of (dynamic_inertia, arm) \<Rightarrow>
               s\<lparr>am_arm := arm,
                 am_control := at_setTauSParameters (am_mass_total s) dynamic_com dynamic_inertia (am_control s)\<rparr>))"

subsection \<open>Setpoint from the sticks\<close>

definition throttle_curve :: "float32 \<Rightarrow> att_module \<Rightarrow> float32" where
  "throttle_curve throttle_stick_input s =
     (let p = am_params s;
          throttle_min = (if am_landed s then f32_lit 0 else ap_manthr_min p)
      in if ap_thr_curve p = 1
         then f32_add throttle_min (f32_mul throttle_stick_input (f32_sub (ap_thr_max p) throttle_min))
         else gradual3 throttle_stick_input f32_zero (f32_lit (1 / 2)) (f32_lit 1)
                throttle_min (ap_thr_hover p) (ap_thr_max p))"

definition AIRMODE_ROLL_PITCH_YAW :: "32 word" where
  "AIRMODE_ROLL_PITCH_YAW = 2"

text \<open>Heading setpoint and its rate.\<close>

definition am_stick_yaw :: "float32 \<Rightarrow> float32 \<Rightarrow> bool \<Rightarrow> att_module \<Rightarrow> float32 \<times> att_module" where
  "am_stick_yaw yaw dt reset_yaw_sp s =
     (if reset_yaw_sp then (f32_zero, s\<lparr>am_man_yaw_sp := yaw\<rparr>)
      else if f32_gt (constrain (ms_z (am_manual s)) f32_zero (f32_lit 1)) (f32_lit (5 / 100))
              \<or> ap_airmode (am_params s) = AIRMODE_ROLL_PITCH_YAW then
        (let yaw_rate = radians (ap_man_y_max (am_params s));
             move_rate = f32_mul (ms_r (am_manual s)) yaw_rate
         in (move_rate, s\<lparr>am_man_yaw_sp := wrap_pi (f32_add (am_man_yaw_sp s) (f32_mul move_rate dt))\<rparr>))
      else (f32_zero, s))"

text \<open>The filtered and limited tilt.\<close>

definition am_stick_tilt :: "float32 \<Rightarrow> att_module \<Rightarrow> vector2f \<times> att_module" where
  "am_stick_tilt dt s =
     (let tau = ap_man_tilt_tau (am_params s); tilt_max = am_man_tilt_max s;
          fx = af_update (f32_mul (ms_x (am_manual s)) tilt_max) (af_setParameters dt tau (am_man_x_input_filter s));
          fy = af_update (f32_mul (ms_y (am_manual s)) tilt_max) (af_setParameters dt tau (am_man_y_input_filter s));
          v = V2 (af_state fy) (f32_neg (af_state fx));
          v_norm = v2_norm v
      in (if f32_gt v_norm tilt_max then v2_scale v (f32_div tilt_max v_norm) else v,
          s\<lparr>am_man_x_input_filter := fx, am_man_y_input_filter := fy\<rparr>))"

text \<open>For a VTOL, roll and pitch seen in the direction of the desired heading.\<close>

definition am_vtol_tilt :: "libm \<Rightarrow> float32 \<Rightarrow> float32 \<Rightarrow> float32 \<Rightarrow> float32 \<Rightarrow> float32 \<times> float32" where
  "am_vtol_tilt L yaw roll pitch yaw_body =
     (let yaw_error = wrap_pi (f32_sub yaw_body yaw);
          zB = V3 f32_zero f32_zero (f32_lit 1);
          R_sp_roll_pitch = Dcm_of_Euler L (V3 roll pitch f32_zero);
          z_roll_pitch_sp = m3_mulv R_sp_roll_pitch zB;
          R_yaw_correction = Dcm_of_Euler L (V3 f32_zero f32_zero (f32_neg yaw_error));
          z_roll_pitch_sp = m3_mulv R_yaw_correction z_roll_pitch_sp
      in (f32_neg (lm_asinf L (v1 z_roll_pitch_sp)), lm_atan2f L (v0 z_roll_pitch_sp) (v2 z_roll_pitch_sp)))"

definition generate_attitude_setpoint ::
  "libm \<Rightarrow> hrt_abstime \<Rightarrow> quatf \<Rightarrow> float32 \<Rightarrow> bool \<Rightarrow> att_module \<Rightarrow> att_pub list \<times> att_module" where
  "generate_attitude_setpoint L now q dt reset_yaw_sp s =
     (let yaw = v2 (Euler_of_Quaternion L q);
          (move_rate, s) = am_stick_yaw yaw dt reset_yaw_sp s;
          (v, s) = am_stick_tilt dt s;
          q_sp_rpy = Quaternion_of_AxisAngle L (V3 (x0 v) (x1 v) f32_zero);
          euler_sp = Euler_of_Quaternion L q_sp_rpy;
          yaw_body = f32_add (am_man_yaw_sp s) (v2 euler_sp);
          (roll_body, pitch_body) =
            (if am_vtol s then am_vtol_tilt L yaw (v0 euler_sp) (v1 euler_sp) yaw_body
             else (v0 euler_sp, v1 euler_sp));
          q_sp = Quaternion_of_Euler L (V3 roll_body pitch_body yaw_body);
          thrust = V3 f32_zero f32_zero
            (f32_neg (throttle_curve (constrain (ms_z (am_manual s)) f32_zero (f32_lit 1)) s));
          sp = \<lparr>as_timestamp = now, as_q_d = q_sp, as_roll_body = roll_body, as_pitch_body = pitch_body,
                as_yaw_body = yaw_body, as_yaw_sp_move_rate = move_rate, as_thrust_body = thrust\<rparr>
      in ([Pub_attitude_setpoint sp],
          s\<lparr>am_control := at_setAttitudeSetpoint q_sp move_rate (am_control s),
            am_thrust_setpoint_body := thrust, am_last_attitude_setpoint := now\<rparr>))"

subsection \<open>One run\<close>

definition att_dt :: "hrt_abstime \<Rightarrow> hrt_abstime \<Rightarrow> float32" where
  "att_dt sample last_run =
     constrain (f32_mul (f32_of_u64 (sample - last_run)) (f32_lit (1 / 10 ^ 6)))
       (f32_lit (2 / 10 ^ 4)) (f32_lit (2 / 100))"

definition am_read_setpoint :: "vehicle_attitude_setpoint_s option \<Rightarrow> att_module \<Rightarrow> att_module" where
  "am_read_setpoint msg s =
     (case msg of
        None \<Rightarrow> s
      | Some sp \<Rightarrow>
          if as_timestamp sp > am_last_attitude_setpoint s then
            s\<lparr>am_control := at_setAttitudeSetpoint (as_q_d sp) (as_yaw_sp_move_rate sp) (am_control s),
              am_thrust_setpoint_body := as_thrust_body sp, am_last_attitude_setpoint := as_timestamp sp\<rparr>
          else s)"

definition am_heading_reset :: "libm \<Rightarrow> vehicle_attitude_s \<Rightarrow> att_module \<Rightarrow> att_module" where
  "am_heading_reset L v_att s =
     (if am_quat_reset_counter s \<noteq> va_quat_reset_counter v_att then
        (let delta = va_delta_q_reset v_att;
             s = s\<lparr>am_man_yaw_sp := wrap_pi (f32_add (am_man_yaw_sp s) (v2 (Euler_of_Quaternion L delta)))\<rparr>;
             s = (if va_timestamp v_att > am_last_attitude_setpoint s
                  then s\<lparr>am_control := at_adaptAttitudeSetpoint delta (am_control s)\<rparr> else s)
         in s\<lparr>am_quat_reset_counter := va_quat_reset_counter v_att\<rparr>)
      else s)"

definition am_read_topics :: "att_input \<Rightarrow> att_module \<Rightarrow> att_module" where
  "am_read_topics i s =
     (let s = (case ai_manual i of None \<Rightarrow> s | Some m \<Rightarrow> s\<lparr>am_manual := m\<rparr>);
          s = (case ai_mode i of None \<Rightarrow> s | Some m \<Rightarrow> s\<lparr>am_mode := m\<rparr>);
          s = (case ai_landed i of None \<Rightarrow> s | Some l \<Rightarrow> s\<lparr>am_landed := l\<rparr>)
      in (case ai_status i of
            None \<Rightarrow> s
          | Some (rotary_wing, vtol, transition) \<Rightarrow>
              s\<lparr>am_vehicle_type_rotary_wing := rotary_wing, am_vtol := vtol,
                am_vtol_in_transition_mode := transition\<rparr>))"

definition am_run_att_ctrl :: "att_module \<Rightarrow> bool" where
  "am_run_att_ctrl s \<longleftrightarrow>
     (let is_hovering = am_vehicle_type_rotary_wing s \<and> \<not> am_vtol_in_transition_mode s;
          is_tailsitter_transition = am_vtol_tailsitter s \<and> am_vtol_in_transition_mode s
      in flag_control_attitude_enabled (am_mode s) \<and> (is_hovering \<or> is_tailsitter_transition))"

text \<open>The derivative is reset while disarmed and on every change of arming or of the loop.\<close>

definition am_edges :: "att_module \<Rightarrow> att_module" where
  "am_edges s =
     (let armed = flag_armed (am_mode s); run_att_ctrl = am_run_att_ctrl s;
          s = (if \<not> armed \<or> (\<not> am_was_armed s \<and> armed) \<or> (\<not> am_was_run_att_ctrl s \<and> run_att_ctrl)
                  \<or> (am_was_run_att_ctrl s \<and> \<not> run_att_ctrl)
               then s\<lparr>am_control := at_resetOmegaRDerivative (am_control s)\<rparr> else s)
      in s\<lparr>am_was_armed := armed, am_was_run_att_ctrl := run_att_ctrl\<rparr>)"

definition am_stick_mode :: "vehicle_control_mode \<Rightarrow> bool" where
  "am_stick_mode m \<longleftrightarrow> flag_control_manual_enabled m \<and> \<not> flag_control_altitude_enabled m
     \<and> \<not> flag_control_velocity_enabled m \<and> \<not> flag_control_position_enabled m"

definition autotune_active :: "u8 \<Rightarrow> bool" where
  "autotune_active st \<longleftrightarrow> st = 2 \<or> st = 4 \<or> st = 6 \<or> st = 10"

definition am_autotune :: "autotune_status option \<Rightarrow> hrt_abstime \<Rightarrow> vector3f \<Rightarrow> vector3f" where
  "am_autotune msg now rates_sp =
     (case msg of
        None \<Rightarrow> rates_sp
      | Some a \<Rightarrow>
          if autotune_active (au_state a) \<and> now - au_timestamp a < 1000000
          then v3_add rates_sp (au_rate_sp a) else rates_sp)"

text \<open>The branch that runs the controller.\<close>

definition am_control_step ::
  "libm \<Rightarrow> att_input \<Rightarrow> quatf \<Rightarrow> float32 \<Rightarrow> att_module \<Rightarrow> att_pub list \<times> att_module" where
  "am_control_step L i q dt s =
     (let (pubs, s) =
            (if am_stick_mode (am_mode s) then generate_attitude_setpoint L (ai_now i) q dt (am_reset_yaw_sp s) s
             else ([], s\<lparr>am_man_x_input_filter := af_reset f32_zero (am_man_x_input_filter s),
                         am_man_y_input_filter := af_reset f32_zero (am_man_y_input_filter s)\<rparr>));
          (rates_sp, c) = at_update q (ai_angular_velocity i) dt (am_control s);
          rates_sp = am_autotune (ai_autotune i) (ai_now i) rates_sp;
          s = s\<lparr>am_control := c\<rparr>
      in (pubs @ [Pub_rates (ai_now i) \<lparr>rs_rates = rates_sp, rs_thrust_body = am_thrust_setpoint_body s\<rparr>,
                  Pub_aux rates_sp \<lparr>ax_timestamp = ai_now i, ax_omega_r_dot = at_omega_r_dot c,
                           ax_beta_v = at_beta_v c, ax_tau_s = at_tau_s c\<rparr>], s))"

definition att_Run :: "libm \<Rightarrow> att_input \<Rightarrow> att_module \<Rightarrow> att_pub list \<times> att_module" where
  "att_Run L i s =
     (let s = (case ai_params i of None \<Rightarrow> s | Some p \<Rightarrow> am_parameters_updated (s\<lparr>am_params := p\<rparr>));
          s = am_update_dynamic_parameters (lm_trig L) (ai_joints i) s
      in case ai_attitude i of
           None \<Rightarrow> ([], s)
         | Some v_att \<Rightarrow>
             (let dt = att_dt (va_timestamp_sample v_att) (am_last_run s);
                  s = s\<lparr>am_last_run := va_timestamp_sample v_att\<rparr>;
                  s = am_read_setpoint (ai_attitude_setpoint i) s;
                  s = am_heading_reset L v_att s;
                  s = am_read_topics i s;
                  s = am_edges s;
                  run = am_run_att_ctrl s;
                  (pubs, s) = (if run then am_control_step L i (va_q v_att) dt s else ([], s));
                  generated = (run \<and> am_stick_mode (am_mode s))
              in (pubs, s\<lparr>am_reset_yaw_sp :=
                    (\<not> generated \<or> am_landed s \<or> (am_vtol s \<and> am_vtol_in_transition_mode s))\<rparr>)))"

text \<open>
  The constructor: the members, then \<^verbatim>\<open>parameters_updated\<close>. \<^verbatim>\<open>VT_TYPE\<close> is read only for a VTOL; 0 is the
  tailsitter.
\<close>

definition att_module_init :: "bool \<Rightarrow> 32 word option \<Rightarrow> att_params \<Rightarrow> att_module" where
  "att_module_init vtol vt_type p =
     am_parameters_updated
       \<lparr>am_params = p, am_control = ESOAttitudeControl, am_arm = arm_kinematics_init,
        am_manual = \<lparr>ms_x = f32_zero, ms_y = f32_zero, ms_z = f32_zero, ms_r = f32_zero\<rparr>,
        am_mode = control_mode_off, am_thrust_setpoint_body = v3_zero, am_mass_total = f32_zero,
        am_com_offset = v3_zero, am_arm_inertia = m3_zero, am_active_profile = UavArmV4,
        am_man_yaw_sp = f32_zero, am_man_tilt_max = f32_zero, am_man_x_input_filter = AlphaFilter,
        am_man_y_input_filter = AlphaFilter, am_last_run = 0, am_last_attitude_setpoint = 0, am_landed = True,
        am_reset_yaw_sp = True, am_vehicle_type_rotary_wing = True, am_vtol = vtol,
        am_vtol_tailsitter = (vtol \<and> vt_type = Some 0), am_vtol_in_transition_mode = False,
        am_quat_reset_counter = 0, am_was_armed = False, am_was_run_att_ctrl = False\<rparr>"

subsection \<open>The stages of a run\<close>

definition am_parameters :: "libm \<Rightarrow> att_input \<Rightarrow> att_module \<Rightarrow> att_module" where
  "am_parameters L i s =
     am_update_dynamic_parameters (lm_trig L) (ai_joints i)
       (case ai_params i of None \<Rightarrow> s | Some p \<Rightarrow> am_parameters_updated (s\<lparr>am_params := p\<rparr>))"

definition am_topics :: "libm \<Rightarrow> att_input \<Rightarrow> vehicle_attitude_s \<Rightarrow> att_module \<Rightarrow> att_module" where
  "am_topics L i v s =
     am_edges (am_read_topics i (am_heading_reset L v
       (am_read_setpoint (ai_attitude_setpoint i) (s\<lparr>am_last_run := va_timestamp_sample v\<rparr>))))"

lemma att_Run_stages:
  "att_Run L i s =
     (let s1 = am_parameters L i s in
      case ai_attitude i of
        None \<Rightarrow> ([], s1)
      | Some v \<Rightarrow>
          let s2 = am_topics L i v s1;
              r = (if am_run_att_ctrl s2
                   then am_control_step L i (va_q v) (att_dt (va_timestamp_sample v) (am_last_run s1)) s2 else ([], s2));
              generated = am_run_att_ctrl s2 \<and> am_stick_mode (am_mode (snd r))
          in (fst r, (snd r)\<lparr>am_reset_yaw_sp := (\<not> generated \<or> am_landed (snd r)
                \<or> (am_vtol (snd r) \<and> am_vtol_in_transition_mode (snd r)))\<rparr>))"
  unfolding att_Run_def am_parameters_def am_topics_def Let_def case_prod_beta by (simp split: option.split)

text \<open>What a stage keeps: the rate limits and the state of the derivative.\<close>

definition at_same :: "attitude_control \<Rightarrow> attitude_control \<Rightarrow> bool" where
  "at_same c d \<longleftrightarrow> at_rate_limit c = at_rate_limit d \<and> at_omega_r_dot c = at_omega_r_dot d
     \<and> at_omega_r_prev_valid c = at_omega_r_prev_valid d"

lemma at_same_setters [simp]:
  "at_same (at_setAttitudeSetpoint q y c) c" "at_same (at_adaptAttitudeSetpoint q c) c"
  "at_same (at_setTauSParameters m r i c) c" "at_same c c"
  by (simp_all add: at_same_def at_setAttitudeSetpoint_def at_adaptAttitudeSetpoint_def at_setTauSParameters_def)

lemma at_same_trans: "at_same b c \<Longrightarrow> at_same a b \<Longrightarrow> at_same a c"
  by (simp add: at_same_def)

lemma am_dynamic_same: "at_same (am_control (am_update_dynamic_parameters tr j s)) (am_control s)"
  by (simp add: am_update_dynamic_parameters_def split: option.split prod.split)

lemma am_read_setpoint_same: "at_same (am_control (am_read_setpoint m s)) (am_control s)"
  by (simp add: am_read_setpoint_def split: option.split)

lemma am_heading_reset_same: "at_same (am_control (am_heading_reset L v s)) (am_control s)"
  by (simp add: am_heading_reset_def Let_def)

lemma am_read_topics_control [simp]: "am_control (am_read_topics i s) = am_control s"
  by (simp add: am_read_topics_def split: option.split prod.split)

text \<open>The flags of the last run.\<close>

lemma am_flags [simp]:
  "am_was_armed (am_read_topics i s) = am_was_armed s"
  "am_was_armed (am_heading_reset L v s) = am_was_armed s"
  "am_was_armed (am_read_setpoint m s) = am_was_armed s"
  "am_was_armed (am_update_dynamic_parameters tr j s) = am_was_armed s"
  "am_was_armed (am_parameters_updated s) = am_was_armed s"
  "am_was_run_att_ctrl (am_read_topics i s) = am_was_run_att_ctrl s"
  "am_was_run_att_ctrl (am_heading_reset L v s) = am_was_run_att_ctrl s"
  "am_was_run_att_ctrl (am_read_setpoint m s) = am_was_run_att_ctrl s"
  "am_was_run_att_ctrl (am_update_dynamic_parameters tr j s) = am_was_run_att_ctrl s"
  "am_was_run_att_ctrl (am_parameters_updated s) = am_was_run_att_ctrl s"
  by (simp_all add: am_read_topics_def am_heading_reset_def am_read_setpoint_def am_update_dynamic_parameters_def
      am_parameters_updated_def Let_def case_prod_beta split: option.split)

lemma am_edges_facts:
  "am_mode (am_edges s) = am_mode s" "am_run_att_ctrl (am_edges s) = am_run_att_ctrl s"
  "am_was_armed (am_edges s) = flag_armed (am_mode s)" "am_was_run_att_ctrl (am_edges s) = am_run_att_ctrl s"
  by (simp_all add: am_edges_def am_run_att_ctrl_def Let_def)

lemma generate_same:
  "at_same (am_control (snd (generate_attitude_setpoint L now q dt r s))) (am_control s)"
  "am_mode (snd (generate_attitude_setpoint L now q dt r s)) = am_mode s"
  "am_was_armed (snd (generate_attitude_setpoint L now q dt r s)) = am_was_armed s"
  "am_run_att_ctrl (snd (generate_attitude_setpoint L now q dt r s)) = am_run_att_ctrl s"
  "\<exists>sp. fst (generate_attitude_setpoint L now q dt r s) = [Pub_attitude_setpoint sp]"
  by (simp_all add: generate_attitude_setpoint_def am_stick_yaw_def am_stick_tilt_def am_run_att_ctrl_def
      case_prod_beta Let_def)

text \<open>The state that the controller starts from: after the setpoint from the sticks, if any.\<close>

definition am_before_update :: "libm \<Rightarrow> att_input \<Rightarrow> quatf \<Rightarrow> float32 \<Rightarrow> att_module \<Rightarrow> att_module" where
  "am_before_update L i q dt s =
     (if am_stick_mode (am_mode s) then snd (generate_attitude_setpoint L (ai_now i) q dt (am_reset_yaw_sp s) s)
      else s\<lparr>am_man_x_input_filter := af_reset f32_zero (am_man_x_input_filter s),
             am_man_y_input_filter := af_reset f32_zero (am_man_y_input_filter s)\<rparr>)"

lemma am_before_update_same:
  "at_same (am_control (am_before_update L i q dt s)) (am_control s)"
  "am_mode (am_before_update L i q dt s) = am_mode s"
  "am_was_armed (am_before_update L i q dt s) = am_was_armed s"
  "am_run_att_ctrl (am_before_update L i q dt s) = am_run_att_ctrl s"
  by (simp_all add: am_before_update_def generate_same) (simp_all add: am_run_att_ctrl_def)

lemma am_control_step_eq:
  "\<exists>pre. set pre \<subseteq> range Pub_attitude_setpoint \<and> am_control_step L i q dt s =
     (let b = am_before_update L i q dt s; u = at_update q (ai_angular_velocity i) dt (am_control b);
          rates = am_autotune (ai_autotune i) (ai_now i) (fst u)
      in (pre @ [Pub_rates (ai_now i) \<lparr>rs_rates = rates, rs_thrust_body = am_thrust_setpoint_body b\<rparr>,
                 Pub_aux rates \<lparr>ax_timestamp = ai_now i, ax_omega_r_dot = at_omega_r_dot (snd u),
                                ax_beta_v = at_beta_v (snd u), ax_tau_s = at_tau_s (snd u)\<rparr>],
          b\<lparr>am_control := snd u\<rparr>))"
proof (cases "am_stick_mode (am_mode s)")
  case True
  obtain sp where "fst (generate_attitude_setpoint L (ai_now i) q dt (am_reset_yaw_sp s) s) = [Pub_attitude_setpoint sp]"
    using generate_same(5) by blast
  with True show ?thesis
    by (intro exI [of _ "[Pub_attitude_setpoint sp]"])
      (simp add: am_control_step_def am_before_update_def Let_def case_prod_beta)
next
  case False
  then show ?thesis
    by (intro exI [of _ "[]"]) (simp add: am_control_step_def am_before_update_def Let_def case_prod_beta)
qed

lemma at_update_dot_zero:
  "\<not> at_omega_r_prev_valid c \<Longrightarrow> at_omega_r_dot (snd (at_update q w dt c)) = v3_zero"
  by (simp add: at_update_def at_derive_def Let_def)

lemma am_edges_reset:
  assumes "\<not> am_was_armed s \<or> \<not> flag_armed (am_mode s) \<or> \<not> am_was_run_att_ctrl s \<and> am_run_att_ctrl s"
  shows "\<not> at_omega_r_prev_valid (am_control (am_edges s))"
  using assms by (auto simp: am_edges_def Let_def at_resetOmegaRDerivative_def)

lemma am_topics_reset:
  assumes "\<not> am_was_armed s \<or> \<not> am_was_armed (am_topics L i v s)
    \<or> \<not> am_was_run_att_ctrl s \<and> am_run_att_ctrl (am_topics L i v s)"
  shows "\<not> at_omega_r_prev_valid (am_control (am_topics L i v s))"
  using assms unfolding am_topics_def by (intro am_edges_reset) (auto simp: am_edges_facts)

lemma am_parameters_flags:
  "am_was_armed (am_parameters L i s) = am_was_armed s"
  "am_was_run_att_ctrl (am_parameters L i s) = am_was_run_att_ctrl s"
  by (simp_all add: am_parameters_def split: option.split)

text \<open>A run that publishes a rate setpoint or the auxiliary values, and with which values.\<close>

lemma att_Run_published:
  assumes "att_Run L i s = (pubs, s')"
  obtains (idle) "ai_attitude i = None \<or> \<not> am_run_att_ctrl s'" and "pubs = []"
  | (control) v b dt pre where "ai_attitude i = Some v" and "am_run_att_ctrl s'"
      and "b = am_before_update L i (va_q v) dt (am_topics L i v (am_parameters L i s))"
      and "dt = att_dt (va_timestamp_sample v) (am_last_run (am_parameters L i s))"
      and "set pre \<subseteq> range Pub_attitude_setpoint"
      and "am_control s' = snd (at_update (va_q v) (ai_angular_velocity i) dt (am_control b))"
      and "am_was_armed s' = am_was_armed b" and "am_mode s' = am_mode b"
      and "pubs = pre @ [Pub_rates (ai_now i)
            \<lparr>rs_rates = am_autotune (ai_autotune i) (ai_now i) (at_omega_r (va_q v) (am_control b)),
             rs_thrust_body = am_thrust_setpoint_body b\<rparr>,
          Pub_aux (am_autotune (ai_autotune i) (ai_now i) (at_omega_r (va_q v) (am_control b)))
            \<lparr>ax_timestamp = ai_now i, ax_omega_r_dot = at_omega_r_dot (am_control s'),
             ax_beta_v = at_beta_v (am_control s'), ax_tau_s = at_tau_s (am_control s')\<rparr>]"
proof (cases "ai_attitude i")
  case None
  then have "pubs = []" using assms by (simp add: att_Run_stages Let_def)
  with None show thesis using idle by blast
next
  case (Some v)
  let ?s1 = "am_parameters L i s" and ?s2 = "am_topics L i v (am_parameters L i s)"
  let ?dt = "att_dt (va_timestamp_sample v) (am_last_run (am_parameters L i s))"
  show thesis
  proof (cases "am_run_att_ctrl ?s2")
    case False
    then have "pubs = []" "\<not> am_run_att_ctrl s'"
      using assms by (auto simp: att_Run_stages Some Let_def am_run_att_ctrl_def)
    then show thesis using idle by blast
  next
    case True
    let ?b = "am_before_update L i (va_q v) ?dt ?s2"
    obtain pre where pre: "set pre \<subseteq> range Pub_attitude_setpoint" and
      step: "am_control_step L i (va_q v) ?dt ?s2 =
        (pre @ [Pub_rates (ai_now i) \<lparr>rs_rates = am_autotune (ai_autotune i) (ai_now i) (at_omega_r (va_q v) (am_control ?b)),
                  rs_thrust_body = am_thrust_setpoint_body ?b\<rparr>,
                Pub_aux (am_autotune (ai_autotune i) (ai_now i) (at_omega_r (va_q v) (am_control ?b)))
                  \<lparr>ax_timestamp = ai_now i,
                   ax_omega_r_dot = at_omega_r_dot (snd (at_update (va_q v) (ai_angular_velocity i) ?dt (am_control ?b))),
                   ax_beta_v = at_beta_v (snd (at_update (va_q v) (ai_angular_velocity i) ?dt (am_control ?b))),
                   ax_tau_s = at_tau_s (snd (at_update (va_q v) (ai_angular_velocity i) ?dt (am_control ?b)))\<rparr>],
         ?b\<lparr>am_control := snd (at_update (va_q v) (ai_angular_velocity i) ?dt (am_control ?b))\<rparr>)"
      using am_control_step_eq [of L i "va_q v" ?dt ?s2] by (auto simp: Let_def)
    have run: "am_run_att_ctrl s'"
      using assms True am_before_update_same(4) [of L i "va_q v" ?dt ?s2]
      by (auto simp: att_Run_stages Some step Let_def am_run_att_ctrl_def)
    show thesis
      by (rule control [OF Some run refl refl pre])
        (use assms True in \<open>auto simp: att_Run_stages Some step Let_def\<close>)
  qed
qed

subsection \<open>What is published\<close>

definition autotune_adds :: "att_input \<Rightarrow> bool" where
  "autotune_adds i \<longleftrightarrow> (case ai_autotune i of None \<Rightarrow> False
     | Some a \<Rightarrow> autotune_active (au_state a) \<and> ai_now i - au_timestamp a < 1000000)"

lemma am_autotune_off: "\<not> autotune_adds i \<Longrightarrow> am_autotune (ai_autotune i) (ai_now i) r = r"
  by (auto simp: am_autotune_def autotune_adds_def split: option.split)

lemma no_rates_before [simp]:
  "set pre \<subseteq> range Pub_attitude_setpoint \<Longrightarrow> Pub_rates t r \<notin> set pre"
  "set pre \<subseteq> range Pub_attitude_setpoint \<Longrightarrow> Pub_aux w a \<notin> set pre"
  by auto

lemma att_Run_rates:
  assumes "att_Run L i s = (pubs, s')" and "Pub_rates t r \<in> set pubs" and "at_limits_ok (am_control s')"
    and "\<not> autotune_adds i"
  shows "v3_within (at_rate_limit (am_control s')) (rs_rates r)"
  using assms(1)
proof (cases rule: att_Run_published)
  case (control v b dt pre)
  have l: "at_rate_limit (am_control s') = at_rate_limit (am_control b)" by (simp add: control(6))
  then have "at_limits_ok (am_control b)" using assms(3) by (simp add: at_limits_ok_def)
  moreover have "rs_rates r = at_omega_r (va_q v) (am_control b)"
    using assms(2) control(5) by (auto simp: control(9) am_autotune_off [OF assms(4)])
  ultimately show ?thesis by (simp only: l at_omega_r_within)
qed (use assms(2) in simp)

lemma att_Run_idle:
  "ai_attitude i = Some v \<Longrightarrow> \<not> am_run_att_ctrl (am_topics L i v (am_parameters L i s)) \<Longrightarrow> fst (att_Run L i s) = []"
  by (simp add: att_Run_stages Let_def)

text \<open>
  C3: the attitude work item publishes a rate setpoint exactly in the runs that have an attitude
  estimate and in which attitude control is enabled and the vehicle hovers (or is a tailsitter in
  transition). If no autotune signal is added and the configured rate limits are finite and not
  negative, the published rates are finite and within these limits on every axis, whatever setpoint,
  stick position, attitude and time stamps came in.
\<close>

theorem published_rates_limited:
  assumes "att_Run L i s = (pubs, s')"
  shows "((\<exists>t r. Pub_rates t r \<in> set pubs) \<longleftrightarrow>
       ai_attitude i \<noteq> None \<and> flag_control_attitude_enabled (am_mode s')
       \<and> (am_vehicle_type_rotary_wing s' \<and> \<not> am_vtol_in_transition_mode s'
          \<or> am_vtol_tailsitter s' \<and> am_vtol_in_transition_mode s'))
    \<and> (at_limits_ok (am_control s') \<and> \<not> autotune_adds i \<and> Pub_rates t r \<in> set pubs
       \<longrightarrow> v3_within (at_rate_limit (am_control s')) (rs_rates r))"
proof -
  have "(\<exists>t r. Pub_rates t r \<in> set pubs) \<longleftrightarrow> ai_attitude i \<noteq> None \<and> am_run_att_ctrl s'"
    using assms by (cases rule: att_Run_published) auto
  then show ?thesis
    using att_Run_rates [OF assms, of t r] unfolding am_run_att_ctrl_def Let_def by blast
qed

text \<open>
  C19: while the vehicle is disarmed, in the first run after arming and in the first run after
  attitude control starts, the derivative of the reference rates that is handed to the rate loop is
  exactly zero, so that no jump of the reference is differentiated.
\<close>

theorem derivative_zero_at_arming:
  assumes "att_Run L i s = (pubs, s')" and "Pub_aux w a \<in> set pubs"
    and "\<not> am_was_armed s \<or> \<not> am_was_armed s' \<or> \<not> am_was_run_att_ctrl s"
  shows "ax_omega_r_dot a = v3_zero"
  using assms(1)
proof (cases rule: att_Run_published)
  case (control v b dt pre)
  let ?t = "am_topics L i v (am_parameters L i s)"
  have same: "at_same (am_control b) (am_control ?t)" "am_was_armed b = am_was_armed ?t" "am_run_att_ctrl b = am_run_att_ctrl ?t"
    unfolding control(3) by (rule am_before_update_same)+
  have run: "am_run_att_ctrl ?t" using att_Run_idle [OF control(1), of L s] assms(1,2) by fastforce
  have "\<not> at_omega_r_prev_valid (am_control ?t)"
    using assms(3) run control(7) same(2) by (intro am_topics_reset) (auto simp: am_parameters_flags)
  then have "at_omega_r_dot (am_control s') = v3_zero"
    using same(1) by (simp add: control(6) at_update_dot_zero at_same_def)
  then show ?thesis using assms(2) control(5) by (auto simp: control(9))
qed (use assms(2) in simp)

subsection \<open>The derivative over the runs of the module\<close>

lemma att_dt_step_ok: "at_step_ok (att_dt sample last_run)"
proof -
  have "f32_le (f32_lit (2 / 10 ^ 4)) (f32_lit (2 / 100))" by (rule f32_lit_mono) simp
  moreover have "f32_isfinite (f32_lit (1 / 10 ^ 6))" by (rule f32_lit_isfinite_small) simp_all
  then have "f32_mul (f32_of_u64 (sample - last_run)) (f32_lit (1 / 10 ^ 6)) \<noteq> FNaN"
    by (rule f32_mul_finite_not_nan [OF f32_of_u64_finite])
  ultimately have "f32_le (att_dt sample last_run) (f32_lit (2 / 100))"
    unfolding att_dt_def by (intro constrain_bounds)
  moreover have "wf32 (att_dt sample last_run)"
    unfolding att_dt_def by (rule wf32_constrain [OF wf32_mul wf32_lit wf32_lit])
  ultimately show ?thesis by (simp add: at_step_ok_def)
qed

lemma at_same_dot_ok: "at_same c d \<Longrightarrow> at_dot_ok c = at_dot_ok d"
  by (rule at_dot_ok_cong) (simp_all add: at_same_def)

lemma am_edges_dot_ok: "at_dot_ok (am_control s) \<Longrightarrow> at_dot_ok (am_control (am_edges s))"
  using at_exec_dot_ok [of _ At_resetOmegaRDerivative] by (simp add: am_edges_def Let_def)

lemma am_topics_dot_ok:
  assumes "at_dot_ok (am_control s)"
  shows "at_dot_ok (am_control (am_topics L i v s))"
proof -
  let ?s = "s\<lparr>am_last_run := va_timestamp_sample v\<rparr>"
  have "at_same (am_control (am_heading_reset L v (am_read_setpoint (ai_attitude_setpoint i) ?s))) (am_control s)"
    using am_read_setpoint_same [of "ai_attitude_setpoint i" ?s] by (intro at_same_trans [OF _ am_heading_reset_same]) simp
  then show ?thesis
    unfolding am_topics_def using assms by (intro am_edges_dot_ok) (simp add: at_same_dot_ok)
qed

definition att_step :: "libm \<Rightarrow> att_input \<Rightarrow> att_module \<Rightarrow> att_module" where
  "att_step L i s = snd (att_Run L i s)"

lemma att_step_dot_ok:
  assumes "at_dot_ok (am_control s)" and "ai_params i = None"
  shows "at_dot_ok (am_control (att_step L i s))"
proof -
  let ?s1 = "am_parameters L i s"
  have s1: "at_dot_ok (am_control ?s1)"
    using assms am_dynamic_same [of "lm_trig L" "ai_joints i" s] by (simp add: am_parameters_def at_same_dot_ok)
  show ?thesis
  proof (cases "ai_attitude i")
    case None
    then show ?thesis using s1 by (simp add: att_step_def att_Run_stages Let_def)
  next
    case (Some v)
    let ?s2 = "am_topics L i v ?s1" and ?dt = "att_dt (va_timestamp_sample v) (am_last_run ?s1)"
    have s2: "at_dot_ok (am_control ?s2)" using s1 by (rule am_topics_dot_ok)
    then have b: "at_dot_ok (am_control (am_before_update L i (va_q v) ?dt ?s2))"
      by (simp add: at_same_dot_ok [OF am_before_update_same(1)])
    obtain pre where "snd (am_control_step L i (va_q v) ?dt ?s2) = (am_before_update L i (va_q v) ?dt ?s2)
        \<lparr>am_control := snd (at_update (va_q v) (ai_angular_velocity i) ?dt
            (am_control (am_before_update L i (va_q v) ?dt ?s2)))\<rparr>"
      using am_control_step_eq [of L i "va_q v" ?dt ?s2] by (auto simp: Let_def)
    then show ?thesis
      using s2 at_exec_dot_ok [OF b, of "At_update (va_q v) (ai_angular_velocity i) ?dt"] att_dt_step_ok
      by (simp add: att_step_def att_Run_stages Some Let_def)
  qed
qed

interpretation att_runs: invariant_steps "att_step L" "\<lambda>i. ai_params i = None" "\<lambda>s. at_dot_ok (am_control s)" for L
  by unfold_locales (rule att_step_dot_ok)

lemma am_edges_limit [simp]: "at_rate_limit (am_control (am_edges s)) = at_rate_limit (am_control s)"
  by (simp add: am_edges_def Let_def at_resetOmegaRDerivative_def)

lemma am_topics_limit [simp]: "at_rate_limit (am_control (am_topics L i v s)) = at_rate_limit (am_control s)"
  using am_heading_reset_same am_read_setpoint_same [of _ "s\<lparr>am_last_run := va_timestamp_sample v\<rparr>"]
  by (simp add: am_topics_def at_same_def)

lemma att_Run_limit:
  assumes "att_Run L i s = (pubs, s')"
  shows "at_rate_limit (am_control s') = at_rate_limit (am_control (am_parameters L i s))"
proof (cases "ai_attitude i")
  case None
  then show ?thesis using assms by (auto simp: att_Run_stages Let_def)
next
  case (Some v)
  show ?thesis
    using assms
  proof (cases rule: att_Run_published)
    case idle
    then show ?thesis
      using assms am_control_step_eq [of L i "va_q v" "att_dt (va_timestamp_sample v) (am_last_run (am_parameters L i s))"
        "am_topics L i v (am_parameters L i s)"]
      by (auto simp: att_Run_stages Some Let_def split: if_splits)
  next
    case (control u b dt pre)
    then show ?thesis using am_before_update_same(1) by (simp add: at_same_def)
  qed
qed

lemma att_step_limit:
  "ai_params i = None \<Longrightarrow> at_rate_limit (am_control (att_step L i s)) = at_rate_limit (am_control s)"
  using att_Run_limit [of L i s "fst (att_Run L i s)" "snd (att_Run L i s)"] am_dynamic_same
  by (simp add: att_step_def am_parameters_def at_same_def)

lemma radians_small:
  assumes "at_limit_small x"
  shows "at_limit_small (radians x)"
proof -
  let ?p = "f32_lit MATH_PI" and ?d = "f32_lit 180"
  let ?k = "f32_div ?p ?d"
  have d: "?d = FFin False 180" by (simp add: f32_lit_numeral)
  have pf: "f32_isfinite ?p" by (rule f32_lit_isfinite_small) (simp_all add: MATH_PI_def)
  have "f32_le (f32_lit 0) ?p" "f32_le ?p (f32_lit 4)" by (rule f32_lit_mono; simp add: MATH_PI_def)+
  then have pv: "0 \<le> f32_val ?p" "f32_val ?p \<le> 4" using pf by (simp_all add: f32_le_finite f32_lit_numeral)
  obtain z where k: "?k = f32_of_real z (f32_val ?p / 180)"
    using f32_div_of_real [OF pf, of ?d] by (auto simp: d)
  have k1: "f32_le f32_zero ?k" unfolding k using pv by (intro f32_of_real_nonneg) simp
  have k2: "f32_le ?k (FFin False 1)"
    unfolding k using pv wf32_lit [of 1] by (intro f32_of_real_le) (simp_all del: wf32.simps)
  have kf: "f32_isfinite ?k" by (rule f32_between_finite [OF k1 k2]) simp_all
  have kv: "0 \<le> f32_val ?k" "f32_val ?k \<le> 1" using k1 k2 kf by (simp_all add: f32_le_finite)
  have x: "wf32 x" "f32_isfinite x" "0 \<le> f32_val x" "f32_val x \<le> 2 ^ 90"
    using assms by (auto simp: at_limit_small_def f32_le_finite simp del: wf32.simps)
  obtain u where m: "radians x = f32_of_real u (f32_val x * f32_val ?k)"
    using x(2) kf unfolding radians_def by (cases x; cases ?k) auto
  have le: "f32_le (radians x) x"
    unfolding m using x kv by (intro f32_of_real_le) (simp_all add: mult_left_le)
  have ge: "f32_le f32_zero (radians x)" unfolding m using x kv by (intro f32_of_real_nonneg) simp
  have f: "f32_isfinite (radians x)" by (rule f32_between_finite [OF ge le]) (simp_all add: x)
  have "f32_val (radians x) \<le> f32_val x" using le f x by (simp add: f32_le_finite)
  moreover have "wf32 (radians x)" by (simp add: radians_def)
  ultimately show ?thesis using ge f x(4) by (simp add: at_limit_small_def)
qed

lemma att_module_init_limit:
  "at_rate_limit (am_control (att_module_init vtol vt p)) = map_vec3 radians (ap_rate_max p)"
  "at_omega_r_dot (am_control (att_module_init vtol vt p)) = v3_zero"
  by (simp_all add: att_module_init_def am_parameters_updated_def Let_def case_prod_beta at_setTauSParameters_def
      at_setRateLimit_def at_setProportionalGain_def ESOAttitudeControl_def)

text \<open>
  C2: over every sequence of runs of the attitude work item from its construction on, as long as
  no parameter changes, the derivative of the reference rates that it publishes to the rate loop is
  finite and within the slew limit that follows from the configured rate limits, whatever the
  messages and time stamps of the runs are.
\<close>

theorem published_derivative_bounded:
  assumes "v3_all at_limit_small (ap_rate_max p)" and "list_all (\<lambda>i. ai_params i = None) inputs" and "ai_params i = None"
    and "att_Run L i (fold (att_step L) inputs (att_module_init vtol vt p)) = (pubs, s')" and "Pub_aux w a \<in> set pubs"
  shows "v3_within (map_vec3 at_max_omega_r_dot (map_vec3 radians (ap_rate_max p))) (ax_omega_r_dot a)"
proof -
  let ?init = "att_module_init vtol vt p" and ?s = "fold (att_step L) inputs (att_module_init vtol vt p)"
  have "at_dot_ok (am_control ?init)"
    using assms(1) by (intro at_reset_dot_ok) (simp_all add: att_module_init_limit v3_all_def vec3.map_sel radians_small)
  note s0 = this
  have "at_rate_limit (am_control ?s) = at_rate_limit (am_control ?init)"
    using s0 assms(2) att_step_limit by (rule att_runs.run_keeps)
  moreover have s': "s' = att_step L i ?s" using assms(4) by (simp add: att_step_def)
  ultimately have l: "at_rate_limit (am_control s') = map_vec3 radians (ap_rate_max p)"
    using att_step_limit [OF assms(3), of L ?s] by (simp only: att_module_init_limit)
  have "at_dot_ok (am_control s')"
    unfolding s' using att_runs.run_good [OF s0 assms(2)] assms(3) by (rule att_step_dot_ok)
  moreover have "ax_omega_r_dot a = at_omega_r_dot (am_control s')"
    using assms(4) by (cases rule: att_Run_published) (use assms(5) in auto)
  ultimately show ?thesis using at_dot_ok_within [of "am_control s'"] by (simp only: l)
qed

subsection \<open>Example: the first armed run in attitude control\<close>

lemma am_run_att_ctrl_stages:
  "am_run_att_ctrl (am_read_topics i (am_heading_reset L v s)) = am_run_att_ctrl (am_read_topics i s)"
  "am_run_att_ctrl (am_read_topics i (am_read_setpoint m s)) = am_run_att_ctrl (am_read_topics i s)"
  "am_run_att_ctrl (am_read_topics i (am_update_dynamic_parameters tr j s)) = am_run_att_ctrl (am_read_topics i s)"
  "am_run_att_ctrl (am_read_topics i (am_parameters_updated s)) = am_run_att_ctrl (am_read_topics i s)"
  "am_run_att_ctrl (am_read_topics i (s\<lparr>am_last_run := t\<rparr>)) = am_run_att_ctrl (am_read_topics i s)"
  "am_run_att_ctrl (am_read_topics i (s\<lparr>am_params := p\<rparr>)) = am_run_att_ctrl (am_read_topics i s)"
  by (simp_all add: am_run_att_ctrl_def am_read_topics_def am_heading_reset_def am_read_setpoint_def
      am_update_dynamic_parameters_def am_parameters_updated_def Let_def case_prod_beta split: option.split)

lemma att_Run_run_att_ctrl:
  assumes "ai_attitude i = Some v" and "att_Run L i s = (pubs, s')"
  shows "am_run_att_ctrl s' = am_run_att_ctrl (am_read_topics i s)"
proof -
  let ?t = "am_topics L i v (am_parameters L i s)"
  have t: "am_run_att_ctrl ?t = am_run_att_ctrl (am_read_topics i s)"
    unfolding am_topics_def am_parameters_def am_edges_facts am_run_att_ctrl_stages
    by (simp add: am_run_att_ctrl_stages split: option.split)
  show ?thesis
    using assms(2)
  proof (cases rule: att_Run_published)
    case idle
    then have "\<not> am_run_att_ctrl ?t"
      using assms am_control_step_eq [of L i "va_q v" "att_dt (va_timestamp_sample v) (am_last_run (am_parameters L i s))" ?t]
      by (auto simp: att_Run_stages Let_def split: if_splits)
    then show ?thesis using idle assms(1) t by simp
  next
    case (control u b dt pre)
    then have "am_run_att_ctrl ?t" using att_Run_idle [OF assms(1), of L s] assms(2) by fastforce
    then show ?thesis using control(2) t by simp
  qed
qed

definition att_params_example :: att_params where
  "att_params_example =
     \<lparr>ap_p = V3 (f32_lit 6) (f32_lit 6) (f32_lit 3), ap_yaw_weight = f32_lit (4 / 10),
      ap_rate_max = V3 (f32_lit 200) (f32_lit 200) (f32_lit 200), ap_man_y_max = f32_lit 150,
      ap_man_tilt_max = f32_lit 35, ap_manthr_min = f32_lit (8 / 100), ap_thr_max = f32_lit 1,
      ap_thr_hover = f32_lit (1 / 2), ap_thr_curve = 0, ap_airmode = 0, ap_man_tilt_tau = f32_zero,
      ap_mass_total = f32_lit 2, ap_com = v3_zero, ap_arm_inertia = v3_zero, ap_arm_model = 0\<rparr>"

definition att_input_example :: att_input where
  "att_input_example =
     \<lparr>ai_now = 2000000, ai_params = None, ai_joints = None,
      ai_attitude = Some \<lparr>va_timestamp = 1900000, va_timestamp_sample = 1900000, va_q = Quat FNaN FNaN FNaN FNaN,
        va_delta_q_reset = q_unit, va_quat_reset_counter = 0\<rparr>,
      ai_angular_velocity = v3_zero, ai_attitude_setpoint = None, ai_manual = None,
      ai_mode = Some (control_mode_off\<lparr>flag_armed := True, flag_control_attitude_enabled := True\<rparr>),
      ai_landed = None, ai_status = None, ai_autotune = None\<rparr>"

abbreviation att_first :: att_module where
  "att_first \<equiv> att_module_init False None att_params_example"

lemma limit_200: "at_limit_small (f32_lit 200)"
proof -
  have "(200::real) \<le> 2 ^ 90" by (rule order_trans [of _ "2 ^ 8"]) (simp, rule power_increasing, simp_all)
  then show ?thesis using wf32_lit [of 200] by (simp add: at_limit_small_def f32_lit_numeral del: wf32.simps)
qed

lemma att_first_limits: "v3_all at_limit_small (ap_rate_max att_params_example)"
  by (simp add: att_params_example_def v3_all_def limit_200)

lemma att_first_run:
  "at_limits_ok (am_control (att_step L att_input_example att_first))"
  "am_run_att_ctrl (att_step L att_input_example att_first)"
proof -
  let ?r = "att_Run L att_input_example att_first"
  have n: "ai_params att_input_example = None" by (simp add: att_input_example_def)
  show "at_limits_ok (am_control (att_step L att_input_example att_first))"
    using att_first_limits radians_small
    by (simp add: at_limits_ok_def att_step_limit [OF n] att_module_init_limit v3_all_def vec3.map_sel at_limit_small_def)
  have "am_run_att_ctrl (am_read_topics att_input_example att_first)"
    by (simp add: am_read_topics_def att_input_example_def am_run_att_ctrl_def att_module_init_def
        am_parameters_updated_def Let_def case_prod_beta)
  moreover obtain v where "ai_attitude att_input_example = Some v" by (simp add: att_input_example_def)
  ultimately show "am_run_att_ctrl (att_step L att_input_example att_first)"
    using att_Run_run_att_ctrl [of att_input_example v L att_first "fst ?r" "snd ?r"] by (simp add: att_step_def)
qed

lemma att_first_published:
  obtains t r w a where "Pub_rates t r \<in> set (fst (att_Run L att_input_example att_first))"
    and "Pub_aux w a \<in> set (fst (att_Run L att_input_example att_first))"
proof -
  have "att_Run L att_input_example att_first
      = (fst (att_Run L att_input_example att_first), att_step L att_input_example att_first)"
    by (simp add: att_step_def)
  then show thesis
  proof (cases rule: att_Run_published)
    case idle
    then show thesis using att_first_run(2) by (simp add: att_input_example_def)
  next
    case (control v b dt pre)
    have "\<exists>t r w a. Pub_rates t r \<in> set (fst (att_Run L att_input_example att_first))
        \<and> Pub_aux w a \<in> set (fst (att_Run L att_input_example att_first))"
      unfolding control(9) by auto
    then show thesis using that by blast
  qed
qed

theorem published_rates_limited_witness:
  "\<exists>t r. Pub_rates t r \<in> set (fst (att_Run libm_zero att_input_example att_first))
     \<and> v3_within (map_vec3 radians (V3 (f32_lit 200) (f32_lit 200) (f32_lit 200))) (rs_rates r)"
proof -
  obtain t r where "Pub_rates t r \<in> set (fst (att_Run libm_zero att_input_example att_first))"
    by (rule att_first_published)
  moreover have "at_rate_limit (am_control (att_step libm_zero att_input_example att_first))
      = map_vec3 radians (V3 (f32_lit 200) (f32_lit 200) (f32_lit 200))"
    using att_step_limit [of att_input_example] by (simp add: att_module_init_limit att_input_example_def att_params_example_def)
  moreover have "\<not> autotune_adds att_input_example" by (simp add: autotune_adds_def att_input_example_def)
  ultimately show ?thesis
    using published_rates_limited [of libm_zero att_input_example att_first
        "fst (att_Run libm_zero att_input_example att_first)" "att_step libm_zero att_input_example att_first" t r]
      att_first_run(1) [of libm_zero] by (auto simp: att_step_def)
qed

theorem derivative_zero_at_arming_witness:
  "\<exists>w a. Pub_aux w a \<in> set (fst (att_Run libm_zero att_input_example att_first)) \<and> ax_omega_r_dot a = v3_zero"
proof -
  obtain w a where a: "Pub_aux w a \<in> set (fst (att_Run libm_zero att_input_example att_first))"
    by (rule att_first_published)
  have "\<not> am_was_armed att_first" by (simp add: att_module_init_def)
  then have "ax_omega_r_dot a = v3_zero"
    using derivative_zero_at_arming [of libm_zero att_input_example att_first _ _ w a, OF prod.collapse [symmetric] a] by simp
  with a show ?thesis by blast
qed

theorem published_derivative_bounded_witness:
  "\<exists>w a. Pub_aux w a \<in> set (fst (att_Run libm_zero att_input_example att_first))
     \<and> v3_within (map_vec3 at_max_omega_r_dot (map_vec3 radians (V3 (f32_lit 200) (f32_lit 200) (f32_lit 200))))
           (ax_omega_r_dot a)"
proof -
  obtain w a where a: "Pub_aux w a \<in> set (fst (att_Run libm_zero att_input_example att_first))"
    by (rule att_first_published)
  have "ai_params att_input_example = None" by (simp add: att_input_example_def)
  then have "v3_within (map_vec3 at_max_omega_r_dot (map_vec3 radians (ap_rate_max att_params_example))) (ax_omega_r_dot a)"
    using published_derivative_bounded [of att_params_example "[]" att_input_example libm_zero False None
      "fst (att_Run libm_zero att_input_example att_first)" "snd (att_Run libm_zero att_input_example att_first)" w a]
      a att_first_limits by simp
  with a show ?thesis by (auto simp: att_params_example_def)
qed

end
