(* ===== verification/Eso_Cascade.thy ===== *)
theory Eso_Cascade
  imports Eso_Position_Module Eso_Attitude_Module
begin

text \<open>
  The cascade of the three control work items: the attitude setpoint of the position loop is the
  input of the attitude loop, whose rate setpoint is the input of the rate loop
  (\<^verbatim>\<open>eso_pos_control\<close>, \<^verbatim>\<open>eso_att_control\<close>, \<^verbatim>\<open>eso_rate_control\<close>). The lemmas follow a NaN on its way
  from the position loop to the thrust of the rate loop; the theorem that joins them is in
  \<^verbatim>\<open>Spec2Isabelle\<close>.
\<close>

subsection \<open>A NaN attitude setpoint\<close>

abbreviation q_nan :: quatf where
  "q_nan \<equiv> Quat FNaN FNaN FNaN FNaN"

lemma q_nan_ops:
  "q_normalized q_nan = q_nan" "q_normalized (q_mul d q_nan) = q_nan" "\<not> f32_gt (q_dot q_nan q_nan) x"
  by (cases d; simp add: q_normalized_def q_scale_def q_mul_def q_norm_def q_dot_def)+

lemma Dcm_nan: "Dcm_of_Quaternion q_nan = V3 v3_nan v3_nan v3_nan"
  by (simp add: Dcm_of_Quaternion_def Let_def)

lemma m3_mul_nan: "m3_mul (m3_transpose (V3 v3_nan v3_nan v3_nan)) M = V3 v3_nan v3_nan v3_nan"
  by (simp add: m3_mul_def m3_transpose_def v3_dot_def)

lemma at_error_nan: "at_attitude_setpoint_q s = q_nan \<Longrightarrow> at_error q s = v3_nan"
  by (simp add: at_error_def at_target_def q_nan_ops Dcm_nan m3_mul_nan Let_def)
    (simp add: Quaternion_of_Dcm_nan)

lemma at_omega_r_nan:
  assumes "at_attitude_setpoint_q s = q_nan"
  shows "at_omega_r q s = v3_zero"
proof -
  have "v3_sub w (v3_scale (v3_emult g v3_nan) c) = v3_nan" for w g c
    by (cases w; cases g) (simp add: v3_sub_def v3_scale_def v3_emult_def)
  then show ?thesis
    by (cases "at_rate_limit s") (simp add: at_omega_r_def at_error_nan [OF assms] at_limit_rate_def v3_zero_def)
qed

lemma am_parameters_last [simp]: "am_last_attitude_setpoint (am_parameters L i s) = am_last_attitude_setpoint s"
  by (simp add: am_parameters_def am_update_dynamic_parameters_def am_parameters_updated_def Let_def case_prod_beta
      split: option.split)

lemma am_edges_frame [simp]:
  "at_attitude_setpoint_q (am_control (am_edges s)) = at_attitude_setpoint_q (am_control s)"
  "am_thrust_setpoint_body (am_edges s) = am_thrust_setpoint_body s"
  by (simp_all add: am_edges_def Let_def at_resetOmegaRDerivative_def)

lemma am_read_topics_thrust [simp]: "am_thrust_setpoint_body (am_read_topics i s) = am_thrust_setpoint_body s"
  by (simp add: am_read_topics_def split: option.split prod.split)

lemma am_heading_reset_nan:
  "at_attitude_setpoint_q (am_control s) = q_nan \<Longrightarrow> at_attitude_setpoint_q (am_control (am_heading_reset L v s)) = q_nan"
  "am_thrust_setpoint_body (am_heading_reset L v s) = am_thrust_setpoint_body s"
  by (simp_all add: am_heading_reset_def Let_def at_adaptAttitudeSetpoint_def q_nan_ops)

text \<open>A run of the attitude loop that receives it commands zero rates and passes the thrust on.\<close>

lemma att_Run_nan_setpoint:
  assumes "att_Run L i s = (pubs, s')" and "ai_attitude_setpoint i = Some sp"
    and "as_timestamp sp > am_last_attitude_setpoint s" and "as_q_d sp = q_nan"
    and "\<not> am_stick_mode (am_mode s')" and "\<not> autotune_adds i" and "Pub_rates t r \<in> set pubs"
  shows "rs_rates r = v3_zero \<and> rs_thrust_body r = as_thrust_body sp"
  using assms(1)
proof (cases rule: att_Run_published)
  case (control v b dt pre)
  let ?p = "am_topics L i v (am_parameters L i s)"
  have q: "at_attitude_setpoint_q (am_control ?p) = q_nan" and th: "am_thrust_setpoint_body ?p = as_thrust_body sp"
    using assms(2-4)
    by (simp_all add: am_topics_def am_heading_reset_nan am_read_setpoint_def at_setAttitudeSetpoint_def q_nan_ops)
  have m: "\<not> am_stick_mode (am_mode ?p)" using assms(5) control(3,8) am_before_update_same(2) by simp
  have b: "am_control b = am_control ?p" "am_thrust_setpoint_body b = am_thrust_setpoint_body ?p"
    using m by (simp_all add: control(3) am_before_update_def)
  have "r = \<lparr>rs_rates = at_omega_r (va_q v) (am_control b), rs_thrust_body = am_thrust_setpoint_body b\<rparr>"
    using assms(7) control(5) by (auto simp: control(9) am_autotune_off [OF assms(6)])
  then show ?thesis by (simp add: b th at_omega_r_nan [OF q])
qed (use assms(7) in simp)

subsection \<open>A NaN thrust in the rate loop\<close>

lemma update_rates_sp_nan:
  assumes "\<not> (cm_manual_enabled (rm_mode s) \<and> \<not> cm_attitude_enabled (rm_mode s))"
    and "v2 (rs_thrust_body r) = FNaN"
  shows "rm_thrust_sp (snd (update_rates_sp m (Some r) w s)) = FNaN"
  using assms by (auto simp: update_rates_sp_def)

lemma update_aux_thrust [simp]: "rm_thrust_sp (update_aux a now s) = rm_thrust_sp s"
  by (simp add: update_aux_def Let_def split: option.split)

lemma run_controller_thrust:
  assumes "rm_thrust_sp s = FNaN" and "Pub_thrust_setpoint t ts \<in> set (fst (run_controller i now w dt s))"
  shows "t = v3_zero"
proof -
  have "rm_thrust_sp (update_saturation a u) = rm_thrust_sp u" for a u
    by (simp add: update_saturation_def Let_def split: option.split)
  then show ?thesis
    using assms
    by (auto simp: run_controller_def Let_def case_prod_beta publishThrustSetpoint_def publishTorqueSetpoint_def
        updateActuatorControlsStatus_def v3_zero_def split: if_splits)
qed

lemma rate_inputs_read_nan:
  assumes "rate_inputs_read tr i now w s = (sp, dt, s2)" and "ri_rates_sp i = Some r" and "v2 (rs_thrust_body r) = FNaN"
    and "\<not> (cm_manual_enabled (rm_mode s2) \<and> \<not> cm_attitude_enabled (rm_mode s2))"
  shows "rm_thrust_sp s2 = FNaN"
proof -
  obtain u where s2: "s2 = update_aux (ri_aux i) now (snd (update_rates_sp (ri_manual i) (ri_rates_sp i) w u))"
    using assms(1) by (auto simp: rate_inputs_read_def Let_def case_prod_beta)
  then have "\<not> (cm_manual_enabled (rm_mode u) \<and> \<not> cm_attitude_enabled (rm_mode u))" using assms(4) by (simp add: mode_frame)
  from update_rates_sp_nan [OF this assms(3)] show ?thesis by (simp add: s2 assms(2))
qed

lemma rate_Run_nan_thrust:
  assumes "ri_gyro i = Some (now, w)" and "ri_rates_sp i = Some r" and "v2 (rs_thrust_body r) = FNaN"
    and "\<not> (cm_manual_enabled (rm_mode (snd (rate_Run tr i s))) \<and> \<not> cm_attitude_enabled (rm_mode (snd (rate_Run tr i s))))"
    and "Pub_thrust_setpoint t ts \<in> set (fst (rate_Run tr i s))"
  shows "t = v3_zero"
proof -
  obtain sp dt s2 where r: "rate_inputs_read tr i now w (params_read i s) = (sp, dt, s2)"
    by (metis prod_cases3)
  note run = rate_Run_gyro [OF assms(1) r]
  have "rm_mode (snd (rate_Run tr i s)) = rm_mode s2" by (simp add: run run_controller_frame)
  with assms(4) have nan: "rm_thrust_sp s2 = FNaN" by (intro rate_inputs_read_nan [OF r assms(2,3)]) simp
  have "Pub_thrust_setpoint t ts \<notin> set sp"
    using rate_inputs_read_pubs(2) [of tr i now w "params_read i s"] r by (auto simp: list_all_iff)
  then have "Pub_thrust_setpoint t ts \<in> set (fst (run_controller i now w dt s2))"
    using assms(5) by (auto simp: run split: if_splits)
  with nan show ?thesis by (rule run_controller_thrust)
qed

subsection \<open>Example: from the lost position to the thrust\<close>

lemma att_Run_publishes:
  assumes "ai_attitude i = Some v" and "am_run_att_ctrl (am_read_topics i s)" and "att_Run L i s = (pubs, s')"
  shows "\<exists>t r. Pub_rates t r \<in> set pubs"
  using assms(3)
proof (cases rule: att_Run_published)
  case idle
  then show ?thesis using att_Run_run_att_ctrl [OF assms(1,3)] assms(1,2) by simp
qed auto

lemma am_mode_stages:
  "am_mode (am_heading_reset L v s) = am_mode s" "am_mode (am_read_setpoint m s) = am_mode s"
  "am_mode (am_update_dynamic_parameters tr j s) = am_mode s" "am_mode (am_parameters_updated s) = am_mode s"
  "ai_mode i = Some m' \<Longrightarrow> am_mode (am_read_topics i s) = m'"
  by (simp_all add: am_heading_reset_def am_read_setpoint_def am_update_dynamic_parameters_def am_parameters_updated_def
      am_read_topics_def Let_def case_prod_beta split: option.split)

lemma att_Run_mode:
  assumes "ai_attitude i = Some v" and "ai_mode i = Some m" and "att_Run L i s = (pubs, s')"
  shows "am_mode s' = m"
proof -
  have t: "am_mode (am_topics L i v u) = m" for u
    using assms(2) by (simp add: am_topics_def am_edges_facts am_mode_stages)
  show ?thesis
    using assms(3)
  proof (cases rule: att_Run_published)
    case idle
    then have "\<not> am_run_att_ctrl (am_topics L i v (am_parameters L i s))"
      using assms(1,3) am_control_step_eq [of L i "va_q v" "att_dt (va_timestamp_sample v) (am_last_run (am_parameters L i s))"
        "am_topics L i v (am_parameters L i s)"] by (auto simp: att_Run_stages Let_def split: if_splits)
    then show ?thesis using assms(1,3) t by (auto simp: att_Run_stages Let_def)
  next
    case (control u b dt pre)
    then show ?thesis using assms(1) t am_before_update_same(2) by simp
  qed
qed

lemma rate_gate_frame:
  "rm_circuit_breaker (update_gear g s) = rm_circuit_breaker s" "rm_is_vtol (update_gear g s) = rm_is_vtol s"
  "rm_circuit_breaker (snd (update_rates_sp m r w s)) = rm_circuit_breaker s"
  "rm_is_vtol (snd (update_rates_sp m r w s)) = rm_is_vtol s"
  "rm_circuit_breaker (update_aux a now s) = rm_circuit_breaker s" "rm_is_vtol (update_aux a now s) = rm_is_vtol s"
  "rm_circuit_breaker (update_dynamic_parameters tr j s) = rm_circuit_breaker s"
  "rm_is_vtol (update_dynamic_parameters tr j s) = rm_is_vtol s"
  "rm_circuit_breaker (update_vehicle_topics i s) = rm_circuit_breaker s"
  "ri_status i = None \<Longrightarrow> rm_is_vtol (update_vehicle_topics i s) = rm_is_vtol s"
  by (simp_all add: update_gear_def update_rates_sp_def update_aux_def update_dynamic_parameters_def
      update_vehicle_topics_def Let_def case_prod_beta split: option.split)

lemma rate_inputs_read_frame:
  assumes "rate_inputs_read tr i now w s = (sp, dt, s2)" and "ri_status i = None"
  shows "rm_circuit_breaker s2 = rm_circuit_breaker s" and "rm_is_vtol s2 = rm_is_vtol s"
  using assms by (auto simp: rate_inputs_read_def Let_def case_prod_beta rate_gate_frame)

lemma rate_Run_publishes_thrust:
  assumes "ri_gyro i = Some (now, w)" and "ri_mode i = Some m" and "cm_rates_enabled m" and "ri_status i = None"
    and "ri_params i = None" and "\<not> rm_circuit_breaker s" and "\<not> rm_is_vtol s"
  shows "\<exists>t ts. Pub_thrust_setpoint t ts \<in> set (fst (rate_Run tr i s))"
proof -
  obtain sp dt s2 where r: "rate_inputs_read tr i now w (params_read i s) = (sp, dt, s2)"
    by (metis prod_cases3)
  have p: "params_read i s = s" using assms(5) by (simp add: params_read_def)
  note f = rate_inputs_read_frame [OF r [unfolded p] assms(4)]
  have "rm_mode s2 = m"
    using rate_Run_mode [OF assms(1,2), of tr s]
    by (simp add: rate_Run_gyro [OF assms(1) r] run_controller_frame split: if_splits)
  moreover have "rm_is_vtol (update_saturation a u) = rm_is_vtol u" for a u
    by (simp add: update_saturation_def Let_def split: option.split)
  ultimately show ?thesis
    using assms(3,6,7) f
    by (auto simp: rate_Run_gyro [OF assms(1) r] run_controller_def Let_def case_prod_beta publishThrustSetpoint_def)
qed

definition mode_attitude_loop :: rate_control_mode where
  "mode_attitude_loop = \<lparr>cm_armed = True, cm_manual_enabled = False, cm_attitude_enabled = True,
     cm_rates_enabled = True, cm_termination_enabled = False\<rparr>"

abbreviation att_cascade_input :: "vehicle_attitude_setpoint_s \<Rightarrow> att_input" where
  "att_cascade_input att \<equiv> att_input_example\<lparr>ai_attitude_setpoint := Some att\<rparr>"

abbreviation rate_cascade_input :: "rates_setpoint \<Rightarrow> rate_input" where
  "rate_cascade_input r \<equiv> quiet_input\<lparr>ri_mode := Some mode_attitude_loop, ri_rates_sp := Some r\<rparr>"

end
