(* ===== verification/Mathlib_Bits.thy ===== *)
theory Mathlib_Bits
  imports Px4_Base
begin

text \<open>
  \<^verbatim>\<open>math::countSetBits\<close> (\<^verbatim>\<open>src/lib/mathlib/math/Functions.hpp\<close>): the loop that shifts its argument to
  the right until it is zero, its termination, and the fact that it counts the set bits.
\<close>

function countSetBits :: "'a::len word \<Rightarrow> nat" where
  "countSetBits n = (if n = 0 then 0 else unat (n AND 1) + countSetBits (drop_bit 1 n))"
  by pat_completeness auto

lemma unat_drop_bit_1: "unat (drop_bit 1 n) = unat n div 2"
  for n :: "'a::len word"
proof -
  have "unat (drop_bit 1 n) = drop_bit 1 (take_bit LENGTH('a) (unat n))"
    by (rule unsigned_drop_bit_eq)
  also have "take_bit LENGTH('a) (unat n) = unat n"
    by (simp add: take_bit_nat_eq_self)
  finally show ?thesis
    by (simp add: drop_bit_eq_div)
qed

lemma drop_bit_1_less:
  fixes n :: "'a::len word"
  assumes "n \<noteq> 0"
  shows "unat (drop_bit 1 n) < unat n"
proof -
  have "0 < unat n"
    using assms by (simp add: unat_gt_0)
  then show ?thesis
    by (simp only: unat_drop_bit_1)
qed

termination countSetBits
  by (relation "measure unat") (use drop_bit_1_less in auto)

declare countSetBits.simps [simp del]

lemma set_bits_shift:
  fixes n :: "'a::len word"
  shows "{i. bit n i} = (if bit n 0 then {0} else {}) \<union> Suc ` {i. bit (drop_bit 1 n) i}"
  by (auto simp: bit_drop_bit_eq image_iff gr0_conv_Suc elim: not0_implies_Suc)
     (metis Suc_eq_plus1_left not0_implies_Suc)+

lemma finite_set_bits [simp]: "finite {i. bit n i}" for n :: "'a::len word"
  by (rule finite_subset [of _ "{..<LENGTH('a)}"]) (auto dest: bit_imp_le_length)

lemma unat_and_1: "unat (n AND 1) = (if bit n 0 then 1 else 0)" for n :: "'a::len word"
  by (simp add: and_one_eq bit_0 mod_2_eq_odd)

text \<open>
  \<^verbatim>\<open>math::countSetBits\<close> ends for every argument of every width and returns the number of set
  bits.
\<close>

theorem countSetBits_card: "countSetBits n = card {i. bit n i}"
  for n :: "'a::len word"
proof (induction n rule: countSetBits.induct)
  case (1 n)
  show ?case
  proof (cases "n = 0")
    case True
    then show ?thesis
      by (simp add: countSetBits.simps)
  next
    case False
    have "card {i. bit n i} = (if bit n 0 then 1 else 0) + card {i. bit (drop_bit 1 n) i}"
      by (subst set_bits_shift, subst card_Un_disjoint) (auto simp: card_image)
    then show ?thesis
      using 1 [OF False] False by (subst countSetBits.simps) (simp only: unat_and_1 if_False)
  qed
qed

end
