(* ===== verification/Preflight_Checks.thy ===== *)
theory Preflight_Checks
  imports Commander_Types Px4_Math Mathlib_Bits
begin

text \<open>
  The health words of the vehicle status (\<^verbatim>\<open>Arming/HealthFlags\<close>) and the single preflight checks
  (\<^verbatim>\<open>Arming/PreFlightCheck/checks\<close>). A check reads uORB topics and parameters: both are records
  that the check takes as arguments, a parameter being present with the value of its field. Of the
  vehicle status a check changes the health words only; the arguments that only steer the
  messages to the ground station are left out.
\<close>

subsection \<open>Health flags\<close>

definition SUBSYSTEM_TYPE_GYRO :: u64 where "SUBSYSTEM_TYPE_GYRO = push_bit 0 1"
definition SUBSYSTEM_TYPE_ACC :: u64 where "SUBSYSTEM_TYPE_ACC = push_bit 1 1"
definition SUBSYSTEM_TYPE_MAG :: u64 where "SUBSYSTEM_TYPE_MAG = push_bit 2 1"
definition SUBSYSTEM_TYPE_ABSPRESSURE :: u64 where "SUBSYSTEM_TYPE_ABSPRESSURE = push_bit 3 1"
definition SUBSYSTEM_TYPE_DIFFPRESSURE :: u64 where "SUBSYSTEM_TYPE_DIFFPRESSURE = push_bit 4 1"
definition SUBSYSTEM_TYPE_GPS :: u64 where "SUBSYSTEM_TYPE_GPS = push_bit 5 1"
definition SUBSYSTEM_TYPE_RCRECEIVER :: u64 where "SUBSYSTEM_TYPE_RCRECEIVER = push_bit 16 1"
definition SUBSYSTEM_TYPE_GYRO2 :: u64 where "SUBSYSTEM_TYPE_GYRO2 = push_bit 17 1"
definition SUBSYSTEM_TYPE_ACC2 :: u64 where "SUBSYSTEM_TYPE_ACC2 = push_bit 18 1"
definition SUBSYSTEM_TYPE_MAG2 :: u64 where "SUBSYSTEM_TYPE_MAG2 = push_bit 19 1"
definition SUBSYSTEM_TYPE_AHRS :: u64 where "SUBSYSTEM_TYPE_AHRS = push_bit 21 1"
definition SUBSYSTEM_TYPE_SENSORBATTERY :: u64 where "SUBSYSTEM_TYPE_SENSORBATTERY = push_bit 25 1"

definition flag_word :: "bool \<Rightarrow> u64 \<Rightarrow> u64 \<Rightarrow> u64" where
  "flag_word b subsystem_type w = (if b then w OR subsystem_type else w AND NOT subsystem_type)"

definition set_health_flags :: "u64 \<Rightarrow> bool \<Rightarrow> bool \<Rightarrow> bool \<Rightarrow> vehicle_status \<Rightarrow> vehicle_status" where
  "set_health_flags subsystem_type present enabled ok s =
     s\<lparr>onboard_control_sensors_present := flag_word present subsystem_type (onboard_control_sensors_present s),
       onboard_control_sensors_enabled := flag_word enabled subsystem_type (onboard_control_sensors_enabled s),
       onboard_control_sensors_health := flag_word ok subsystem_type (onboard_control_sensors_health s)\<rparr>"

definition set_health_flags_present_healthy ::
  "u64 \<Rightarrow> bool \<Rightarrow> bool \<Rightarrow> vehicle_status \<Rightarrow> vehicle_status" where
  "set_health_flags_present_healthy subsystem_type present healthy s =
     set_health_flags subsystem_type present
       (onboard_control_sensors_enabled s AND subsystem_type \<noteq> 0) healthy s"

definition set_health_flags_healthy :: "u64 \<Rightarrow> bool \<Rightarrow> vehicle_status \<Rightarrow> vehicle_status" where
  "set_health_flags_healthy subsystem_type healthy s =
     set_health_flags subsystem_type (onboard_control_sensors_present s AND subsystem_type \<noteq> 0)
       (onboard_control_sensors_enabled s AND subsystem_type \<noteq> 0) healthy s"

subsection \<open>Topics and parameters\<close>

record sensor_topic =
  tp_exists :: bool
  tp_device_id :: u32
  tp_timestamp :: hrt_abstime
  tp_xyz :: vector3f

record estimator_status =
  es_timestamp :: hrt_abstime
  es_accel_device_id :: u32
  es_gyro_device_id :: u32
  es_baro_device_id :: u32
  es_mag_device_id :: u32
  es_control_mode_flags :: u32
  es_gps_check_fail_flags :: u16
  es_pre_flt_fail_innov_heading :: bool
  es_pre_flt_fail_innov_vel_horiz :: bool
  es_pre_flt_fail_innov_vel_vert :: bool
  es_pre_flt_fail_innov_height :: bool
  es_pre_flt_fail_mag_field_disturbed :: bool
  es_hgt_test_ratio :: float32
  es_vel_test_ratio :: float32
  es_pos_test_ratio :: float32
  es_mag_test_ratio :: float32

record sensor_bias =
  sb_timestamp :: hrt_abstime
  sb_accel_bias :: vector3f
  sb_accel_bias_limit :: float32
  sb_accel_bias_variance :: vector3f
  sb_accel_bias_valid :: bool
  sb_gyro_bias :: vector3f
  sb_gyro_bias_limit :: float32
  sb_gyro_bias_variance :: vector3f
  sb_gyro_bias_valid :: bool

record imu_entry =
  ie_device_id :: u32
  ie_inconsistency :: float32
  ie_healthy :: bool

record sensors_status_imu =
  accel_device_id_primary :: u32
  accel_entries :: "imu_entry list"
  gyro_device_id_primary :: u32
  gyro_entries :: "imu_entry list"

record manual_control_switches =
  sw_timestamp :: hrt_abstime
  sw_return_switch :: u8
  sw_kill_switch :: u8
  sw_gear_switch :: u8

record system_power =
  pw_timestamp :: hrt_abstime
  pw_voltage5v_v :: float32
  pw_usb_connected :: u8
  pw_brick_valid :: u8

record preflight_topics =
  accel_topic :: "nat \<Rightarrow> sensor_topic"
  gyro_topic :: "nat \<Rightarrow> sensor_topic"
  mag_topic :: "nat \<Rightarrow> sensor_topic"
  baro_topic :: "nat \<Rightarrow> sensor_topic"
  dist_topic :: "nat \<Rightarrow> sensor_topic"
  estimator_topic :: "nat \<Rightarrow> estimator_status"
  bias_topic :: "nat \<Rightarrow> sensor_bias"
  primary_instance :: nat
  imu_topic :: sensors_status_imu
  mag_preflight_timestamp :: hrt_abstime
  mag_inconsistency_angle :: float32
  airspeed_timestamp :: hrt_abstime
  calibrated_airspeed_m_s :: float32
  switches_topic :: manual_control_switches
  power_topic :: system_power
  cpuload_timestamp :: hrt_abstime
  cpuload_load :: float32
  statfs_blocks :: "(nat \<times> nat) option"

record rc_channel =
  rc_min :: float32
  rc_max :: float32
  rc_trim :: float32
  rc_dz :: float32

record preflight_params =
  sys_has_mag :: int
  sys_has_baro :: int
  sys_has_num_dist :: "32 word"
  fw_arsp_mode :: int
  com_arm_arsp_en :: int
  fw_airspd_trim :: float32
  com_rc_in_mode :: int
  sys_mc_est_group :: int
  com_arm_sdcard :: int
  com_arm_imu_acc :: float32
  com_arm_imu_gyr :: float32
  com_arm_mag_ang :: int
  com_arm_mag_str :: int
  com_arm_ekf_hgt :: float32
  com_arm_ekf_vel :: float32
  com_arm_ekf_pos :: float32
  com_arm_ekf_yaw :: float32
  com_arm_wo_gps :: int
  sys_has_gps :: int
  com_power_count :: int
  com_cpu_max :: float32
  com_parachute :: int
  cal_acc_ids :: "u32 option list"
  cal_gyro_ids :: "u32 option list"
  cal_mag_ids :: "u32 option list"
  rc_channels :: "rc_channel list"

text \<open>
  The size of the multi-instance topics is a build-time constant, four on boards with little memory
  and ten elsewhere: an argument \<^verbatim>\<open>n\<close> of the checks that loop over it.
\<close>

subsection \<open>Sensors\<close>

text \<open>
  The calibration slots of one sensor type, in the order of their index; a slot whose parameter
  does not exist is \<^term>\<open>None\<close>. The result \<^verbatim>\<open>-1\<close> is \<^term>\<open>None\<close>.
\<close>

definition FindCurrentCalibrationIndex :: "u32 option list \<Rightarrow> u32 \<Rightarrow> nat option" where
  "FindCurrentCalibrationIndex slots device_id =
     (if device_id = 0 then None
      else List.find (\<lambda>i. slots ! i = Some device_id) [0..<length slots])"

definition is_used_by_nav :: "nat \<Rightarrow> (estimator_status \<Rightarrow> u32) \<Rightarrow> preflight_topics \<Rightarrow> u32 \<Rightarrow> bool" where
  "is_used_by_nav n dev tp device_id =
     list_ex (\<lambda>i. device_id > 0 \<and> dev (estimator_topic tp i) = device_id) [0..<n]"

definition isAccelRequired :: "nat \<Rightarrow> preflight_topics \<Rightarrow> nat \<Rightarrow> bool" where
  "isAccelRequired n tp i = is_used_by_nav n es_accel_device_id tp (tp_device_id (accel_topic tp i))"

definition isGyroRequired :: "nat \<Rightarrow> preflight_topics \<Rightarrow> nat \<Rightarrow> bool" where
  "isGyroRequired n tp i = is_used_by_nav n es_gyro_device_id tp (tp_device_id (gyro_topic tp i))"

definition isMagRequired :: "nat \<Rightarrow> preflight_topics \<Rightarrow> nat \<Rightarrow> bool" where
  "isMagRequired n tp i = is_used_by_nav n es_mag_device_id tp (tp_device_id (mag_topic tp i))"

definition isBaroRequired :: "nat \<Rightarrow> preflight_topics \<Rightarrow> nat \<Rightarrow> bool" where
  "isBaroRequired n tp i = is_used_by_nav n es_baro_device_id tp (tp_device_id (baro_topic tp i))"

definition sample_valid :: "hrt_abstime \<Rightarrow> sensor_topic \<Rightarrow> bool" where
  "sample_valid now t \<longleftrightarrow>
     tp_device_id t \<noteq> 0 \<and> tp_timestamp t \<noteq> 0 \<and> hrt_elapsed_time now (tp_timestamp t) < 1000000"

definition calibration_valid :: "vehicle_status \<Rightarrow> u32 option list \<Rightarrow> u32 \<Rightarrow> bool" where
  "calibration_valid s slots device_id \<longleftrightarrow>
     hil_state s = HIL_STATE_ON \<or> FindCurrentCalibrationIndex slots device_id \<noteq> None"

definition accel_magnitude :: "vector3f \<Rightarrow> float32" where
  "accel_magnitude v = f32_sqrt (f32_add (f32_add (f32_mul (v0 v) (v0 v)) (f32_mul (v1 v) (v1 v)))
                                         (f32_mul (v2 v) (v2 v)))"

definition accel_ok :: "hrt_abstime \<Rightarrow> preflight_params \<Rightarrow> vehicle_status \<Rightarrow> sensor_topic \<Rightarrow> bool" where
  "accel_ok now pr s t \<longleftrightarrow>
     tp_exists t \<and> sample_valid now t \<and> calibration_valid s (cal_acc_ids pr) (tp_device_id t)
     \<and> f32_gt (accel_magnitude (tp_xyz t)) (f32_lit 4) \<and> f32_lt (accel_magnitude (tp_xyz t)) (f32_lit 15)"

definition accelerometerCheck ::
  "hrt_abstime \<Rightarrow> nat \<Rightarrow> preflight_params \<Rightarrow> preflight_topics \<Rightarrow> nat \<Rightarrow> bool \<Rightarrow> vehicle_status
   \<Rightarrow> bool \<times> vehicle_status" where
  "accelerometerCheck now n pr tp i is_mandatory s =
     (accel_ok now pr s (accel_topic tp i) \<or> \<not> (is_mandatory \<or> isAccelRequired n tp i), s)"

definition gyro_ok :: "hrt_abstime \<Rightarrow> preflight_params \<Rightarrow> vehicle_status \<Rightarrow> sensor_topic \<Rightarrow> bool" where
  "gyro_ok now pr s t \<longleftrightarrow>
     tp_exists t \<and> sample_valid now t \<and> calibration_valid s (cal_gyro_ids pr) (tp_device_id t)"

definition gyroCheck ::
  "hrt_abstime \<Rightarrow> nat \<Rightarrow> preflight_params \<Rightarrow> preflight_topics \<Rightarrow> nat \<Rightarrow> bool \<Rightarrow> vehicle_status
   \<Rightarrow> bool \<times> vehicle_status" where
  "gyroCheck now n pr tp i is_mandatory s =
     (gyro_ok now pr s (gyro_topic tp i) \<or> \<not> (is_mandatory \<or> isGyroRequired n tp i), s)"

definition baroCheck ::
  "hrt_abstime \<Rightarrow> nat \<Rightarrow> preflight_topics \<Rightarrow> nat \<Rightarrow> bool \<Rightarrow> vehicle_status \<Rightarrow> bool \<times> vehicle_status" where
  "baroCheck now n tp i is_mandatory s =
     (let t = baro_topic tp i;
          is_required = (is_mandatory \<or> isBaroRequired n tp i);
          valid = (tp_exists t \<and> sample_valid now t)
      in (valid \<or> \<not> is_required,
          if i = 0 then set_health_flags SUBSYSTEM_TYPE_ABSPRESSURE (tp_exists t) is_required valid s
          else s))"

definition mag_fault :: "nat \<Rightarrow> preflight_topics \<Rightarrow> u32 \<Rightarrow> bool" where
  "mag_fault n tp device_id =
     list_ex (\<lambda>i. es_mag_device_id (estimator_topic tp i) = device_id
                 \<and> es_control_mode_flags (estimator_topic tp i) AND push_bit 18 1 \<noteq> 0) [0..<n]"

definition mag_ok ::
  "hrt_abstime \<Rightarrow> nat \<Rightarrow> preflight_params \<Rightarrow> preflight_topics \<Rightarrow> vehicle_status \<Rightarrow> sensor_topic \<Rightarrow> bool" where
  "mag_ok now n pr tp s t \<longleftrightarrow>
     tp_exists t \<and> sample_valid now t \<and> calibration_valid s (cal_mag_ids pr) (tp_device_id t)
     \<and> \<not> mag_fault n tp (tp_device_id t)"

definition magnetometerCheck ::
  "hrt_abstime \<Rightarrow> nat \<Rightarrow> preflight_params \<Rightarrow> preflight_topics \<Rightarrow> nat \<Rightarrow> bool \<Rightarrow> vehicle_status
   \<Rightarrow> bool \<times> vehicle_status" where
  "magnetometerCheck now n pr tp i is_mandatory s =
     (let t = mag_topic tp i;
          is_required = (is_mandatory \<or> isMagRequired n tp i);
          is_sensor_ok = mag_ok now n pr tp s t
      in (is_sensor_ok \<or> \<not> is_required,
          if i = 0 then set_health_flags SUBSYSTEM_TYPE_MAG (tp_exists t) is_required is_sensor_ok s
          else if i = 1 then set_health_flags SUBSYSTEM_TYPE_MAG2 (tp_exists t) is_required is_sensor_ok s
          else s))"

definition distSensCheck ::
  "hrt_abstime \<Rightarrow> preflight_topics \<Rightarrow> nat \<Rightarrow> bool \<Rightarrow> vehicle_status \<Rightarrow> bool \<times> vehicle_status" where
  "distSensCheck now tp i is_mandatory s =
     (let t = dist_topic tp i;
          valid = (tp_exists t \<and> hrt_elapsed_time now (tp_timestamp t) < 1000000)
      in (valid \<or> \<not> is_mandatory, s))"

subsection \<open>Consistency\<close>

fun imu_loop :: "u64 \<Rightarrow> u64 \<Rightarrow> float32 \<Rightarrow> bool \<Rightarrow> u32 \<Rightarrow> imu_entry list \<Rightarrow> vehicle_status
   \<Rightarrow> bool \<times> vehicle_status" where
  "imu_loop sub1 sub2 test_limit report primary [] s = (True, s)"
| "imu_loop sub1 sub2 test_limit report primary (e # es) s =
     (if ie_device_id e \<noteq> 0 then
        let sub = (if ie_device_id e = primary then sub1 else sub2);
            s1 = set_health_flags_healthy sub (ie_healthy e) s
        in if f32_gt (ie_inconsistency e) test_limit
           then (False, if report then set_health_flags_healthy sub False s1 else s1)
           else imu_loop sub1 sub2 test_limit report primary es s1
      else imu_loop sub1 sub2 test_limit report primary es s)"

text \<open>The loop over the gyroscopes reads \<^verbatim>\<open>imu.accel_healthy[i]\<close>, as the loop before it.\<close>

definition imuConsistencyCheck ::
  "preflight_params \<Rightarrow> preflight_topics \<Rightarrow> bool \<Rightarrow> vehicle_status \<Rightarrow> bool \<times> vehicle_status" where
  "imuConsistencyCheck pr tp report s =
     (let imu = imu_topic tp;
          (ok, s1) = imu_loop SUBSYSTEM_TYPE_ACC SUBSYSTEM_TYPE_ACC2 (com_arm_imu_acc pr) report
                       (accel_device_id_primary imu) (accel_entries imu) s
      in if ok then
           imu_loop SUBSYSTEM_TYPE_GYRO SUBSYSTEM_TYPE_GYRO2 (com_arm_imu_gyr pr) report
             (gyro_device_id_primary imu)
             (map2 (\<lambda>g a. g\<lparr>ie_healthy := ie_healthy a\<rparr>) (gyro_entries imu) (accel_entries imu)) s1
         else (False, s1))"

definition magConsistencyCheck ::
  "preflight_params \<Rightarrow> preflight_topics \<Rightarrow> bool \<Rightarrow> vehicle_status \<Rightarrow> bool \<times> vehicle_status" where
  "magConsistencyCheck pr tp report s =
     (let pass = (mag_preflight_timestamp tp = 0 \<or> com_arm_mag_ang pr < 0
                  \<or> f32_lt (mag_inconsistency_angle tp) (radians (f32_lit (of_int (com_arm_mag_ang pr)))))
      in (pass,
          if \<not> pass \<and> report
          then set_health_flags_healthy SUBSYSTEM_TYPE_MAG2 False
                 (set_health_flags_healthy SUBSYSTEM_TYPE_MAG False s)
          else s))"

subsection \<open>Airspeed and manual control\<close>

definition airspeedCheck ::
  "hrt_abstime \<Rightarrow> preflight_topics \<Rightarrow> bool \<Rightarrow> bool \<Rightarrow> bool \<Rightarrow> float32 \<Rightarrow> vehicle_status
   \<Rightarrow> bool \<times> vehicle_status" where
  "airspeedCheck now tp optional prearm max_airspeed_check_en arming_max_airspeed_allowed s =
     (let (present, success) =
            (if hrt_elapsed_time now (airspeed_timestamp tp) > 1000000 then (False, False)
             else if \<not> f32_isfinite (calibrated_airspeed_m_s tp) then (True, False)
             else if max_airspeed_check_en
                     \<and> f32_gt (f32_abs (calibrated_airspeed_m_s tp)) arming_max_airspeed_allowed
                     \<and> prearm then (True, False)
             else (True, True))
      in (success, set_health_flags SUBSYSTEM_TYPE_DIFFPRESSURE present (\<not> optional) success s))"

definition rc_channel_errors :: "rc_channel \<Rightarrow> nat" where
  "rc_channel_errors c =
     of_bool (f32_lt (rc_min c) (f32_lit 0)) + of_bool (f32_gt (rc_max c) (f32_lit 2500))
     + of_bool (f32_lt (rc_trim c) (rc_min c)) + of_bool (f32_gt (rc_trim c) (rc_max c))
     + of_bool (f32_gt (rc_dz c) (f32_lit 500))"

text \<open>
  The list of mandatory channel mappings of the source is empty, so its loop over the mappings never
  runs and \<^verbatim>\<open>map_fail_count\<close> stays zero.
\<close>

definition rcCalibrationCheck :: "preflight_params \<Rightarrow> nat" where
  "rcCalibrationCheck pr = fold (\<lambda>c total. total + rc_channel_errors c) (rc_channels pr) 0"

definition manualControlCheck :: "preflight_topics \<Rightarrow> bool" where
  "manualControlCheck tp =
     (let sw = switches_topic tp
      in if sw_timestamp sw \<noteq> 0
         then \<not> sw_return_switch sw = 1 \<and> \<not> sw_kill_switch sw = 1 \<and> \<not> sw_gear_switch sw = 1
         else True)"

subsection \<open>Power, processor and storage\<close>

definition powerCheck :: "preflight_params \<Rightarrow> preflight_topics \<Rightarrow> vehicle_status \<Rightarrow> bool \<Rightarrow> bool" where
  "powerCheck pr tp s prearm =
     (let pw = power_topic tp
      in if \<not> prearm then True
         else if hil_state s = HIL_STATE_ON then True
         else if pw_timestamp pw \<noteq> 0 then
           if pw_usb_connected pw = 0 then
             \<not> f32_lt (pw_voltage5v_v pw) (f32_lit (9 / 2))
             \<and> \<not> int (countSetBits (pw_brick_valid pw)) < com_power_count pr
           else True
         else False)"

definition cpuResourceCheck :: "hrt_abstime \<Rightarrow> preflight_params \<Rightarrow> preflight_topics \<Rightarrow> bool" where
  "cpuResourceCheck now pr tp =
     (if f32_gt (com_cpu_max pr) (f32_lit 0)
      then \<not> hrt_elapsed_time now (cpuload_timestamp tp) > 2000000
           \<and> \<not> f32_gt (f32_mul (cpuload_load tp) (f32_lit 100)) (com_cpu_max pr)
      else True)"

definition sdcardCheck :: "preflight_params \<Rightarrow> preflight_topics \<Rightarrow> bool \<Rightarrow> bool \<times> bool" where
  "sdcardCheck pr tp sd_card_detected =
     (if com_arm_sdcard pr > 0 then
        let detected = (if \<not> sd_card_detected then
                          (case statfs_blocks tp of
                             Some (blocks, bsize) \<Rightarrow> blocks > 0 \<and> bsize > 0
                           | None \<Rightarrow> sd_card_detected)
                        else sd_card_detected)
        in (detected \<or> com_arm_sdcard pr \<noteq> 2, detected)
      else (True, sd_card_detected))"

definition parachuteCheck :: "preflight_params \<Rightarrow> vehicle_status_flags \<Rightarrow> bool" where
  "parachuteCheck pr fl =
     (if com_parachute pr \<noteq> 0 then
        if \<not> parachute_system_present fl then False
        else if \<not> parachute_system_healthy fl then False
        else True
      else True)"

text \<open>The argument tells whether the firmware is built for the board FMU-v2.\<close>

definition airframeCheck :: "bool \<Rightarrow> vehicle_status \<Rightarrow> bool" where
  "airframeCheck fmu_v2 s = (if fmu_v2 \<and> is_vtol s then False else True)"

subsection \<open>Mode, failure detector and estimator\<close>

fun mode_suitable :: "navigation_state_t \<Rightarrow> bool" where
  "mode_suitable NAVIGATION_STATE_MANUAL = True"
| "mode_suitable NAVIGATION_STATE_ALTCTL = True"
| "mode_suitable NAVIGATION_STATE_POSCTL = True"
| "mode_suitable NAVIGATION_STATE_AUTO_MISSION = True"
| "mode_suitable NAVIGATION_STATE_AUTO_LOITER = True"
| "mode_suitable NAVIGATION_STATE_ACRO = True"
| "mode_suitable NAVIGATION_STATE_OFFBOARD = True"
| "mode_suitable NAVIGATION_STATE_STAB = True"
| "mode_suitable NAVIGATION_STATE_AUTO_TAKEOFF = True"
| "mode_suitable NAVIGATION_STATE_AUTO_VTOL_TAKEOFF = True"
| "mode_suitable NAVIGATION_STATE_AUTO_LAND = True"
| "mode_suitable _ = False"

definition modeCheck :: "vehicle_status \<Rightarrow> bool" where
  "modeCheck s = mode_suitable (nav_state s)"

definition failureDetectorCheck :: "vehicle_status \<Rightarrow> bool \<Rightarrow> bool" where
  "failureDetectorCheck s prearm =
     (if \<not> prearm then True else if failure_detector_status s \<noteq> 0 then False else True)"

definition ekf2_estimate_ok :: "preflight_params \<Rightarrow> estimator_status \<Rightarrow> bool" where
  "ekf2_estimate_ok pr es \<longleftrightarrow>
     es_timestamp es \<noteq> 0
     \<and> \<not> (es_pre_flt_fail_innov_heading es \<or> es_pre_flt_fail_innov_vel_horiz es
          \<or> es_pre_flt_fail_innov_vel_vert es \<or> es_pre_flt_fail_innov_height es)
     \<and> \<not> (com_arm_mag_str pr = 1 \<and> es_pre_flt_fail_mag_field_disturbed es)
     \<and> \<not> f32_gt (es_hgt_test_ratio es) (com_arm_ekf_hgt pr)
     \<and> \<not> f32_gt (es_vel_test_ratio es) (com_arm_ekf_vel pr)
     \<and> \<not> f32_gt (es_pos_test_ratio es) (com_arm_ekf_pos pr)
     \<and> \<not> f32_gt (es_mag_test_ratio es) (com_arm_ekf_yaw pr)"

definition gps_known_fail_flags :: u16 where
  "gps_known_fail_flags = mask 10"

definition ekf2Check ::
  "preflight_params \<Rightarrow> preflight_topics \<Rightarrow> bool \<Rightarrow> vehicle_status \<Rightarrow> bool \<times> vehicle_status" where
  "ekf2Check pr tp report s =
     (let es = estimator_topic tp (primary_instance tp);
          arm_without_gps = (com_arm_wo_gps pr \<noteq> 0);
          out = (\<lambda>success gps_present gps_success.
                   (success, set_health_flags SUBSYSTEM_TYPE_GPS gps_present (\<not> arm_without_gps) gps_success s))
      in if \<not> ekf2_estimate_ok pr es then out False False False
         else if sys_has_gps pr = 1 then
           let ekf_gps_fusion = (es_control_mode_flags es AND push_bit 2 1 \<noteq> 0);
               gps_present = \<not> (report \<and> es_gps_check_fail_flags es AND gps_known_fail_flags = 0
                               \<and> \<not> ekf_gps_fusion)
           in if es_gps_check_fail_flags es > 0
              then out arm_without_gps gps_present False
              else out True True ekf_gps_fusion
         else out True False False)"

definition fmaxf0 :: "float32 \<Rightarrow> float32" where
  "fmaxf0 x = (if x = FNaN then f32_lit 0 else if f32_lt x (f32_lit 0) then f32_lit 0 else x)"

definition bias_axis_ok :: "float32 \<Rightarrow> float32 \<Rightarrow> float32 \<Rightarrow> bool" where
  "bias_axis_ok bias_limit bias variance \<longleftrightarrow>
     \<not> f32_gt (f32_abs bias)
          (f32_add (f32_mul (f32_lit (3 / 4)) bias_limit)
                   (f32_mul (f32_lit 3) (f32_sqrt (fmaxf0 variance))))"

definition bias_ok :: "float32 \<Rightarrow> vector3f \<Rightarrow> vector3f \<Rightarrow> bool" where
  "bias_ok bias_limit bias variance \<longleftrightarrow>
     bias_axis_ok bias_limit (v0 bias) (v0 variance) \<and> bias_axis_ok bias_limit (v1 bias) (v1 variance)
     \<and> bias_axis_ok bias_limit (v2 bias) (v2 variance)"

definition ekf2CheckSensorBias :: "hrt_abstime \<Rightarrow> preflight_topics \<Rightarrow> bool" where
  "ekf2CheckSensorBias now tp =
     (let b = bias_topic tp (primary_instance tp)
      in if hrt_elapsed_time now (sb_timestamp b) < 30000000 then
           (sb_accel_bias_valid b \<longrightarrow> bias_ok (sb_accel_bias_limit b) (sb_accel_bias b) (sb_accel_bias_variance b))
           \<and> (sb_gyro_bias_valid b \<longrightarrow> bias_ok (sb_gyro_bias_limit b) (sb_gyro_bias b) (sb_gyro_bias_variance b))
         else True)"

end
