(* ===== verification/Preflight.thy ===== *)
theory Preflight
  imports Preflight_Checks
begin

text \<open>
  \<^verbatim>\<open>PreFlightCheck::preflightCheck\<close>, \<^verbatim>\<open>PreFlightCheck::sensorAvailabilityCheck\<close> and
  \<^verbatim>\<open>PreFlightCheck::preArmCheck\<close> of \<^verbatim>\<open>src/modules/commander/Arming/PreFlightCheck\<close>. The checks thread the
  vehicle status, whose health words they set, and the status flags; the constants of the build,
  the clock, the parameters and the topics are one record.
\<close>

record preflight_env =
  env_now :: hrt_abstime
  env_instances :: nat
  env_fmu_v2 :: bool
  env_params :: preflight_params
  env_topics :: preflight_topics

subsection \<open>Preflight check\<close>

text \<open>One pass over the instances; every instance is checked, whatever the result of the others.\<close>

fun sensor_loop ::
  "(nat \<Rightarrow> bool \<Rightarrow> vehicle_status \<Rightarrow> bool \<times> vehicle_status) \<Rightarrow> u8 \<Rightarrow> nat list \<Rightarrow> bool \<Rightarrow> vehicle_status
   \<Rightarrow> bool \<times> vehicle_status" where
  "sensor_loop check nb [] pass s = (pass, s)"
| "sensor_loop check nb (i # is) pass s =
     (let (ok, s1) = check i (i < unat nb) s
      in sensor_loop check nb is (if ok then pass else False) s1)"

definition sensorAvailabilityCheck ::
  "nat \<Rightarrow> u8 \<Rightarrow> (nat \<Rightarrow> bool \<Rightarrow> vehicle_status \<Rightarrow> bool \<times> vehicle_status) \<Rightarrow> vehicle_status
   \<Rightarrow> bool \<times> vehicle_status" where
  "sensorAvailabilityCheck n nb check s = sensor_loop check nb [0..<n] True s"

definition preflight_airframe :: "preflight_env \<Rightarrow> vehicle_status \<Rightarrow> vehicle_status_flags
   \<Rightarrow> bool \<times> vehicle_status_flags" where
  "preflight_airframe env s fl =
     (let failed = \<not> airframeCheck (env_fmu_v2 env) s
      in if failed then (True, fl)
         else let (ok, detected) = sdcardCheck (env_params env) (env_topics env) (sd_card_detected_once fl)
              in (\<not> ok, fl\<lparr>sd_card_detected_once := detected\<rparr>))"

definition preflight_mag :: "preflight_env \<Rightarrow> bool \<Rightarrow> vehicle_status \<Rightarrow> bool \<times> vehicle_status" where
  "preflight_mag env report s =
     (if sys_has_mag (env_params env) = 1 then
        let (ok1, s1) = sensorAvailabilityCheck (env_instances env) 1
                          (magnetometerCheck (env_now env) (env_instances env) (env_params env) (env_topics env)) s;
            (ok2, s2) = magConsistencyCheck (env_params env) (env_topics env) report s1
        in (\<not> ok1 \<or> \<not> ok2, s2)
      else (False, s))"

definition preflight_inertial :: "preflight_env \<Rightarrow> bool \<Rightarrow> vehicle_status \<Rightarrow> bool \<times> vehicle_status" where
  "preflight_inertial env report s =
     (let now = env_now env; n = env_instances env; pr = env_params env; tp = env_topics env;
          (acc, s1) = sensorAvailabilityCheck n 1 (accelerometerCheck now n pr tp) s;
          (gyr, s2) = sensorAvailabilityCheck n 1 (gyroCheck now n pr tp) s1;
          s3 = (if sys_has_baro pr = 1 then snd (sensorAvailabilityCheck n 1 (baroCheck now n tp) s2) else s2);
          (imu, s4) = imuConsistencyCheck pr tp report s3;
          s5 = (if 0 <s sys_has_num_dist pr
                then snd (sensorAvailabilityCheck n (ucast (sys_has_num_dist pr)) (distSensCheck now tp) s4)
                else s4)
      in (\<not> acc \<or> \<not> gyr \<or> \<not> imu, s5))"

definition preflight_airspeed ::
  "preflight_env \<Rightarrow> bool \<Rightarrow> vehicle_status_flags \<Rightarrow> vehicle_status \<Rightarrow> bool \<times> vehicle_status" where
  "preflight_airspeed env prearm fl s =
     (if \<not> circuit_breaker_engaged_airspd_check fl
         \<and> (vehicle_type s = VEHICLE_TYPE_FIXED_WING \<or> is_vtol s) then
        let pr = env_params env;
            optional = (fw_arsp_mode pr = 1);
            (ok, s1) = airspeedCheck (env_now env) (env_topics env) optional prearm
                         (com_arm_arsp_en pr \<noteq> 0) (f32_div (fw_airspd_trim pr) (f32_lit 2)) s
        in (\<not> ok \<and> \<not> optional, s1)
      else (False, s))"

definition preflight_rc ::
  "preflight_env \<Rightarrow> vehicle_status \<Rightarrow> vehicle_status_flags
   \<Rightarrow> bool \<times> vehicle_status \<times> vehicle_status_flags" where
  "preflight_rc env s fl =
     (if com_rc_in_mode (env_params env) = 0 then
        if rcCalibrationCheck (env_params env) \<noteq> 0 then
          (True,
           set_health_flags SUBSYSTEM_TYPE_RCRECEIVER (rc_signal_found_once fl) True False s,
           fl\<lparr>rc_calibration_valid := False\<rparr>)
        else
          (False,
           set_health_flags SUBSYSTEM_TYPE_RCRECEIVER (rc_signal_found_once fl) True (\<not> rc_signal_lost s) s,
           fl\<lparr>rc_calibration_valid := True\<rparr>)
      else (False, s, fl))"

definition preflight_power ::
  "preflight_env \<Rightarrow> bool \<Rightarrow> vehicle_status \<Rightarrow> vehicle_status_flags \<Rightarrow> bool" where
  "preflight_power env prearm s fl =
     (if power_input_valid fl \<and> \<not> circuit_breaker_engaged_power_check fl
      then \<not> powerCheck (env_params env) (env_topics env) s prearm else False)"

definition preflight_ekf ::
  "preflight_env \<Rightarrow> vehicle_control_mode \<Rightarrow> bool \<Rightarrow> bool \<Rightarrow> hrt_abstime \<Rightarrow> vehicle_status
   \<Rightarrow> bool \<times> vehicle_status" where
  "preflight_ekf env cm report prearm time_since_boot s =
     (let estimator_type = (if is_rotary_wing s \<and> \<not> is_vtol s then sys_mc_est_group (env_params env) else 2)
      in if estimator_type = 2 then
           let in_grace_period = (time_since_boot < 10000000);
               do_report = (report \<and> (\<not> in_grace_period \<or> prearm));
               (ok1, s1) = ekf2Check (env_params env) (env_topics env) do_report s;
               ekf_healthy = (ok1 \<and> ekf2CheckSensorBias (env_now env) (env_topics env));
               s2 = (if \<not> ekf_healthy \<and> \<not> do_report
                     then set_health_flags SUBSYSTEM_TYPE_AHRS True False False s1
                     else set_health_flags SUBSYSTEM_TYPE_AHRS True True ekf_healthy s1)
           in ((flag_control_attitude_enabled cm \<or> flag_control_velocity_enabled cm
                \<or> flag_control_position_enabled cm) \<and> \<not> ekf_healthy, s2)
         else (False, s))"

definition preflight_vehicle ::
  "preflight_env \<Rightarrow> bool \<Rightarrow> vehicle_status \<Rightarrow> vehicle_status_flags \<Rightarrow> bool" where
  "preflight_vehicle env prearm s fl =
     (\<not> failureDetectorCheck s prearm \<or> \<not> manualControlCheck (env_topics env) \<or> \<not> modeCheck s
      \<or> \<not> cpuResourceCheck (env_now env) (env_params env) (env_topics env)
      \<or> \<not> parachuteCheck (env_params env) fl)"

definition preflightCheck ::
  "preflight_env \<Rightarrow> vehicle_control_mode \<Rightarrow> bool \<Rightarrow> bool \<Rightarrow> hrt_abstime
   \<Rightarrow> vehicle_status \<Rightarrow> vehicle_status_flags \<Rightarrow> bool \<times> vehicle_status \<times> vehicle_status_flags" where
  "preflightCheck env cm report_failures prearm time_since_boot s fl =
     (let report = (report_failures \<and> system_hotplug_timeout fl \<and> \<not> calibration_enabled fl);
          (f1, fl1) = preflight_airframe env s fl;
          (f2, s2) = preflight_mag env report s;
          (f3, s3) = preflight_inertial env report s2;
          (f4, s4) = preflight_airspeed env prearm fl1 s3;
          (f5, s5, fl5) = preflight_rc env s4 fl1;
          f6 = preflight_power env prearm s5 fl5;
          (f7, s7) = preflight_ekf env cm report prearm time_since_boot s5;
          f8 = preflight_vehicle env prearm s7 fl5
      in (\<not> (f1 \<or> f2 \<or> f3 \<or> f4 \<or> f5 \<or> f6 \<or> f7 \<or> f8), s7, fl5))"

subsection \<open>Pre-arm check\<close>

record arm_requirements =
  req_arm_authorization :: bool
  req_esc_check :: bool
  req_global_position :: bool
  req_mission :: bool
  req_geofence :: bool

text \<open>
  The tests of \<^verbatim>\<open>preArmCheck\<close> that come before the authorization, in their order; each is the
  condition under which the source sets \<^verbatim>\<open>prearm_ok\<close> to false. The test of the ESC, of the transition
  mode and of the multicopter mode only assign when \<^verbatim>\<open>prearm_ok\<close> is still true.
\<close>

definition prearm_estimates :: "vehicle_control_mode \<Rightarrow> vehicle_status_flags \<Rightarrow> vehicle_status \<Rightarrow> bool \<Rightarrow> bool" where
  "prearm_estimates cm fl s prearm_ok =
     (let ok1 = (if flag_control_rates_enabled cm \<and> \<not> angular_velocity_valid fl then False else prearm_ok);
          ok2 = (if flag_control_attitude_enabled cm \<and> \<not> attitude_valid fl then False else ok1);
          ok3 = (if flag_control_velocity_enabled cm \<and> \<not> local_velocity_valid fl then False else ok2);
          ok4 = (if flag_control_position_enabled cm \<and> \<not> local_position_valid fl then False else ok3);
          ok5 = (if flag_control_manual_enabled cm \<and> rc_signal_lost s then False else ok4);
          ok6 = (if flight_terminated fl then False else ok5)
      in if \<not> circuit_breaker_engaged_usb_check fl \<and> usb_connected fl then False else ok6)"

definition prearm_power ::
  "vehicle_status_flags \<Rightarrow> vehicle_status \<Rightarrow> bool \<Rightarrow> bool \<times> vehicle_status" where
  "prearm_power fl s prearm_ok =
     (if \<not> circuit_breaker_engaged_power_check fl then
        let ok1 = (if \<not> power_input_valid fl then False else prearm_ok);
            s1 = set_health_flags SUBSYSTEM_TYPE_SENSORBATTERY True True (battery_healthy fl) s
        in (if \<not> battery_healthy fl then False else ok1, s1)
      else (prearm_ok, s))"

definition prearm_requirements ::
  "arm_requirements \<Rightarrow> safety \<Rightarrow> vehicle_status_flags \<Rightarrow> vehicle_status \<Rightarrow> bool \<Rightarrow> bool" where
  "prearm_requirements req sf fl s prearm_ok =
     (let ok1 = (if req_mission req then
                   let a = (if \<not> auto_mission_available fl then False else prearm_ok)
                   in if \<not> global_position_valid fl then False else a
                 else prearm_ok);
          ok2 = (if req_global_position req \<and> \<not> circuit_breaker_engaged_posfailure_check fl then
                   let a = (if \<not> global_position_valid fl then False else ok1)
                   in if \<not> home_position_valid fl then False else a
                 else ok1);
          ok3 = (if safety_switch_available sf \<and> \<not> safety_off sf then False else ok2);
          ok4 = (if avoidance_system_required fl \<and> \<not> avoidance_system_valid fl then False else ok3);
          ok5 = (if req_esc_check req \<and> escs_error fl then (if ok4 then False else ok4) else ok4);
          ok6 = (if req_esc_check req \<and> escs_failure fl then (if ok5 then False else ok5) else ok5);
          ok7 = (if is_vtol s then
                   let a = (if in_transition_mode s then (if ok6 then False else ok6) else ok6)
                   in if \<not> circuit_breaker_vtol_fw_arming_check fl \<and> \<not> is_rotary_wing s
                      then (if a then False else a) else a
                 else ok6)
      in if req_geofence req \<and> geofence_violated s then False else ok7)"

text \<open>
  \<^verbatim>\<open>arm_auth_check\<close> changes the state of the authorization, so the answer that the authorizer would
  give at this moment is a function of that state (\<^verbatim>\<open>auth\<close>).
\<close>

definition preArmCheck ::
  "vehicle_status_flags \<Rightarrow> vehicle_control_mode \<Rightarrow> safety \<Rightarrow> arm_requirements
   \<Rightarrow> ('a \<Rightarrow> bool \<times> 'a) \<Rightarrow> 'a \<Rightarrow> vehicle_status \<Rightarrow> bool \<times> 'a \<times> vehicle_status" where
  "preArmCheck fl cm sf req auth a s =
     (let ok1 = prearm_estimates cm fl s True;
          (ok2, s2) = prearm_power fl s ok1;
          ok3 = prearm_requirements req sf fl s2 ok2
      in if req_arm_authorization req \<and> ok3
         then let (accepted, a') = auth a in (accepted, a', s2)
         else (ok3, a, s2))"

subsection \<open>What the checks leave unchanged\<close>

definition strip_health :: "vehicle_status \<Rightarrow> vehicle_status" where
  "strip_health s = s\<lparr>onboard_control_sensors_present := 0, onboard_control_sensors_enabled := 0,
                     onboard_control_sensors_health := 0\<rparr>"

lemma strip_health_set [simp]:
  "strip_health (set_health_flags t p e h s) = strip_health s"
  "strip_health (set_health_flags_healthy t h s) = strip_health s"
  by (simp_all add: strip_health_def set_health_flags_def set_health_flags_healthy_def)

lemma strip_health_sel [simp]:
  "arming_state (strip_health s) = arming_state s"
  "hil_state (strip_health s) = hil_state s"
  "nav_state (strip_health s) = nav_state s"
  "vehicle_type (strip_health s) = vehicle_type s"
  "is_vtol (strip_health s) = is_vtol s"
  "rc_signal_lost (strip_health s) = rc_signal_lost s"
  "failure_detector_status (strip_health s) = failure_detector_status s"
  "armed_time (strip_health s) = armed_time s"
  "in_transition_mode (strip_health s) = in_transition_mode s"
  "geofence_violated (strip_health s) = geofence_violated s"
  "latest_arming_reason (strip_health s) = latest_arming_reason s"
  by (simp_all add: strip_health_def)

lemma strip_health_eqD:
  assumes "strip_health s' = strip_health s"
  shows "arming_state s' = arming_state s"
    "hil_state s' = hil_state s"
    "nav_state s' = nav_state s"
    "vehicle_type s' = vehicle_type s"
    "is_vtol s' = is_vtol s"
    "rc_signal_lost s' = rc_signal_lost s"
    "failure_detector_status s' = failure_detector_status s"
    "armed_time s' = armed_time s"
    "in_transition_mode s' = in_transition_mode s"
    "geofence_violated s' = geofence_violated s"
    "latest_arming_reason s' = latest_arming_reason s"
  using arg_cong [OF assms, of arming_state]
    arg_cong [OF assms, of hil_state]
    arg_cong [OF assms, of nav_state]
    arg_cong [OF assms, of vehicle_type]
    arg_cong [OF assms, of is_vtol]
    arg_cong [OF assms, of rc_signal_lost]
    arg_cong [OF assms, of failure_detector_status]
    arg_cong [OF assms, of armed_time]
    arg_cong [OF assms, of in_transition_mode]
    arg_cong [OF assms, of geofence_violated]
    arg_cong [OF assms, of latest_arming_reason]
  by simp_all

lemma sensor_loop_frame:
  assumes "\<And>i m s. strip_health (snd (check i m s)) = strip_health s"
  shows "strip_health (snd (sensor_loop check nb is pass s)) = strip_health s"
  using assms by (induction "is" arbitrary: pass s) (simp_all add: case_prod_beta Let_def)

lemma sensor_loop_pass:
  assumes "\<And>i m s. strip_health (snd (check i m s)) = strip_health s"
    and "\<And>i m s s'. strip_health s = strip_health s' \<Longrightarrow> fst (check i m s) = fst (check i m s')"
  shows "fst (sensor_loop check nb is pass s) \<longleftrightarrow> pass \<and> (\<forall>i\<in>set is. fst (check i (i < unat nb) s))"
proof (induction "is" arbitrary: pass s)
  case (Cons i "is")
  have "strip_health (snd (check i (i < unat nb) s)) = strip_health s"
    by (rule assms(1))
  then have "fst (check j m (snd (check i (i < unat nb) s))) = fst (check j m s)" for j m
    by (rule assms(2))
  then show ?case
    by (simp add: case_prod_beta Let_def Cons.IH)
qed simp

lemma calibration_valid_cong:
  "strip_health s = strip_health s' \<Longrightarrow> calibration_valid s c d = calibration_valid s' c d"
  unfolding calibration_valid_def using strip_health_eqD(2) [of s s'] by simp

lemma accel_ok_cong: "strip_health s = strip_health s' \<Longrightarrow> accel_ok now pr s t = accel_ok now pr s' t"
  unfolding accel_ok_def using calibration_valid_cong [of s s'] by simp

lemma gyro_ok_cong: "strip_health s = strip_health s' \<Longrightarrow> gyro_ok now pr s t = gyro_ok now pr s' t"
  unfolding gyro_ok_def using calibration_valid_cong [of s s'] by simp

lemma inertial_check_cong:
  assumes "strip_health s = strip_health s'"
  shows "fst (accelerometerCheck now n pr tp i m s) = fst (accelerometerCheck now n pr tp i m s')"
    and "fst (gyroCheck now n pr tp i m s) = fst (gyroCheck now n pr tp i m s')"
  unfolding accelerometerCheck_def gyroCheck_def
  using accel_ok_cong [OF assms] gyro_ok_cong [OF assms] by simp_all

lemma check_frames [simp]:
  "snd (accelerometerCheck now n pr tp i m s) = s"
  "snd (gyroCheck now n pr tp i m s) = s"
  "snd (distSensCheck now tp i m s) = s"
  "strip_health (snd (baroCheck now n tp i m s)) = strip_health s"
  "strip_health (snd (magnetometerCheck now n pr tp i m s)) = strip_health s"
  "strip_health (snd (magConsistencyCheck pr tp r s)) = strip_health s"
  "strip_health (snd (airspeedCheck now tp opt pre en lmt s)) = strip_health s"
  "strip_health (snd (ekf2Check pr tp r s)) = strip_health s"
  by (simp_all add: accelerometerCheck_def gyroCheck_def distSensCheck_def baroCheck_def
      magnetometerCheck_def magConsistencyCheck_def airspeedCheck_def ekf2Check_def Let_def case_prod_beta)

lemma imu_loop_frame [simp]:
  "strip_health (snd (imu_loop a b l r p es s)) = strip_health s"
  by (induction es arbitrary: s) (simp_all add: Let_def)

lemma imuConsistencyCheck_frame [simp]:
  "strip_health (snd (imuConsistencyCheck pr tp r s)) = strip_health s"
  by (simp add: imuConsistencyCheck_def Let_def case_prod_beta)

lemma sensorAvailabilityCheck_frames [simp]:
  "strip_health (snd (sensorAvailabilityCheck n nb (accelerometerCheck now n' pr tp) s)) = strip_health s"
  "strip_health (snd (sensorAvailabilityCheck n nb (gyroCheck now n' pr tp) s)) = strip_health s"
  "strip_health (snd (sensorAvailabilityCheck n nb (distSensCheck now tp) s)) = strip_health s"
  "strip_health (snd (sensorAvailabilityCheck n nb (baroCheck now n' tp) s)) = strip_health s"
  "strip_health (snd (sensorAvailabilityCheck n nb (magnetometerCheck now n' pr tp) s)) = strip_health s"
  unfolding sensorAvailabilityCheck_def by (rule sensor_loop_frame, simp)+

lemma preflight_stage_frames [simp]:
  "strip_health (snd (preflight_mag env r s)) = strip_health s"
  "strip_health (snd (preflight_inertial env r s)) = strip_health s"
  "strip_health (snd (preflight_airspeed env pre fl s)) = strip_health s"
  "strip_health (fst (snd (preflight_rc env s fl))) = strip_health s"
  "strip_health (snd (preflight_ekf env cm r pre t s)) = strip_health s"
  by (simp_all add: preflight_mag_def preflight_inertial_def preflight_airspeed_def preflight_rc_def
      preflight_ekf_def Let_def case_prod_beta)

lemma preflightCheck_frame [simp]:
  "strip_health (fst (snd (preflightCheck env cm r pre t s fl))) = strip_health s"
  by (simp add: preflightCheck_def Let_def case_prod_beta)

definition strip_preflight_flags :: "vehicle_status_flags \<Rightarrow> vehicle_status_flags" where
  "strip_preflight_flags fl = fl\<lparr>sd_card_detected_once := False, rc_calibration_valid := False\<rparr>"

lemma preflightCheck_flags [simp]:
  "strip_preflight_flags (snd (snd (preflightCheck env cm r pre t s fl))) = strip_preflight_flags fl"
  by (simp add: preflightCheck_def preflight_airframe_def preflight_rc_def strip_preflight_flags_def
      Let_def case_prod_beta)

lemma prearm_power_frame [simp]:
  "strip_health (snd (prearm_power fl s ok)) = strip_health s"
  by (simp add: prearm_power_def Let_def)

lemma preArmCheck_frame [simp]:
  "strip_health (snd (snd (preArmCheck fl cm sf req auth a s))) = strip_health s"
  by (simp add: preArmCheck_def Let_def case_prod_beta)

subsection \<open>What a passed preflight check means\<close>

text \<open>
  The requirements are stated over the fields of the topics, the parameters and the vehicle status,
  independently of the check functions.
\<close>

definition sensor_working :: "hrt_abstime \<Rightarrow> vehicle_status \<Rightarrow> u32 option list \<Rightarrow> sensor_topic \<Rightarrow> bool" where
  "sensor_working now s slots t \<longleftrightarrow>
     tp_exists t \<and> tp_device_id t \<noteq> 0 \<and> tp_timestamp t \<noteq> 0 \<and> now - tp_timestamp t < 1000000
     \<and> (hil_state s = HIL_STATE_ON \<or> Some (tp_device_id t) \<in> set slots)"

definition sensor_used :: "nat \<Rightarrow> (estimator_status \<Rightarrow> u32) \<Rightarrow> preflight_topics \<Rightarrow> sensor_topic \<Rightarrow> bool" where
  "sensor_used n dev tp t \<longleftrightarrow>
     tp_device_id t \<noteq> 0 \<and> (\<exists>k<n. dev (estimator_topic tp k) = tp_device_id t)"

definition plausible_gravity :: "vector3f \<Rightarrow> bool" where
  "plausible_gravity a \<longleftrightarrow>
     (let g = f32_sqrt (f32_add (f32_add (f32_mul (v0 a) (v0 a)) (f32_mul (v1 a) (v1 a))) (f32_mul (v2 a) (v2 a)))
      in f32_lt (f32_lit 4) g \<and> f32_lt g (f32_lit 15))"

definition entries_consistent :: "float32 \<Rightarrow> imu_entry list \<Rightarrow> bool" where
  "entries_consistent limit es \<longleftrightarrow>
     (\<forall>e\<in>set es. ie_device_id e = 0 \<or> \<not> f32_lt limit (ie_inconsistency e))"

definition inertial_ok :: "preflight_env \<Rightarrow> vehicle_status \<Rightarrow> bool" where
  "inertial_ok env s \<longleftrightarrow>
     (let now = env_now env; n = env_instances env; pr = env_params env; tp = env_topics env; imu = imu_topic tp
      in (\<forall>i<n. i = 0 \<or> sensor_used n es_accel_device_id tp (accel_topic tp i)
            \<longrightarrow> sensor_working now s (cal_acc_ids pr) (accel_topic tp i)
                \<and> plausible_gravity (tp_xyz (accel_topic tp i)))
         \<and> (\<forall>i<n. i = 0 \<or> sensor_used n es_gyro_device_id tp (gyro_topic tp i)
            \<longrightarrow> sensor_working now s (cal_gyro_ids pr) (gyro_topic tp i))
         \<and> entries_consistent (com_arm_imu_acc pr) (accel_entries imu)
         \<and> entries_consistent (com_arm_imu_gyr pr) (take (length (accel_entries imu)) (gyro_entries imu)))"

definition vehicle_ready :: "preflight_env \<Rightarrow> bool \<Rightarrow> vehicle_status \<Rightarrow> vehicle_status_flags \<Rightarrow> bool" where
  "vehicle_ready env prearm s fl \<longleftrightarrow>
     (let pr = env_params env; tp = env_topics env; sw = switches_topic tp
      in nav_state s \<in> {NAVIGATION_STATE_MANUAL, NAVIGATION_STATE_ALTCTL, NAVIGATION_STATE_POSCTL,
           NAVIGATION_STATE_AUTO_MISSION, NAVIGATION_STATE_AUTO_LOITER, NAVIGATION_STATE_ACRO,
           NAVIGATION_STATE_OFFBOARD, NAVIGATION_STATE_STAB, NAVIGATION_STATE_AUTO_TAKEOFF,
           NAVIGATION_STATE_AUTO_VTOL_TAKEOFF, NAVIGATION_STATE_AUTO_LAND}
         \<and> (sw_timestamp sw \<noteq> 0
            \<longrightarrow> sw_return_switch sw \<noteq> 1 \<and> sw_kill_switch sw \<noteq> 1 \<and> sw_gear_switch sw \<noteq> 1)
         \<and> (prearm \<longrightarrow> failure_detector_status s = 0)
         \<and> (com_parachute pr \<noteq> 0 \<longrightarrow> parachute_system_present fl \<and> parachute_system_healthy fl)
         \<and> (f32_lt (f32_lit 0) (com_cpu_max pr)
            \<longrightarrow> env_now env - cpuload_timestamp tp \<le> 2000000
                \<and> \<not> f32_lt (com_cpu_max pr) (f32_mul (cpuload_load tp) (f32_lit 100)))
         \<and> (com_rc_in_mode pr = 0
            \<longrightarrow> (\<forall>c\<in>set (rc_channels pr).
                  \<not> f32_lt (rc_min c) (f32_lit 0) \<and> \<not> f32_lt (f32_lit 2500) (rc_max c)
                  \<and> \<not> f32_lt (rc_trim c) (rc_min c) \<and> \<not> f32_lt (rc_max c) (rc_trim c)
                  \<and> \<not> f32_lt (f32_lit 500) (rc_dz c))))"

definition power_ready :: "preflight_env \<Rightarrow> bool \<Rightarrow> vehicle_status \<Rightarrow> vehicle_status_flags \<Rightarrow> bool" where
  "power_ready env prearm s fl \<longleftrightarrow>
     (let pw = power_topic (env_topics env)
      in prearm \<and> hil_state s \<noteq> HIL_STATE_ON \<and> power_input_valid fl \<and> \<not> circuit_breaker_engaged_power_check fl
         \<longrightarrow> pw_timestamp pw \<noteq> 0
             \<and> (pw_usb_connected pw = 0
                \<longrightarrow> \<not> f32_lt (pw_voltage5v_v pw) (f32_lit (9 / 2))
                    \<and> com_power_count (env_params env) \<le> int (card {k. bit (pw_brick_valid pw) k})))"

definition bias_small :: "float32 \<Rightarrow> vector3f \<Rightarrow> vector3f \<Rightarrow> bool" where
  "bias_small limit bias variance \<longleftrightarrow>
     (\<forall>ax\<in>{v0, v1, v2}. \<not> f32_lt
        (f32_add (f32_mul (f32_lit (3 / 4)) limit) (f32_mul (f32_lit 3) (f32_sqrt (fmaxf0 (ax variance)))))
        (f32_abs (ax bias)))"

definition estimate_healthy :: "preflight_env \<Rightarrow> bool" where
  "estimate_healthy env \<longleftrightarrow>
     (let pr = env_params env; tp = env_topics env;
          es = estimator_topic tp (primary_instance tp); b = bias_topic tp (primary_instance tp)
      in es_timestamp es \<noteq> 0
         \<and> \<not> es_pre_flt_fail_innov_heading es \<and> \<not> es_pre_flt_fail_innov_vel_horiz es
         \<and> \<not> es_pre_flt_fail_innov_vel_vert es \<and> \<not> es_pre_flt_fail_innov_height es
         \<and> (com_arm_mag_str pr = 1 \<longrightarrow> \<not> es_pre_flt_fail_mag_field_disturbed es)
         \<and> \<not> f32_lt (com_arm_ekf_hgt pr) (es_hgt_test_ratio es)
         \<and> \<not> f32_lt (com_arm_ekf_vel pr) (es_vel_test_ratio es)
         \<and> \<not> f32_lt (com_arm_ekf_pos pr) (es_pos_test_ratio es)
         \<and> \<not> f32_lt (com_arm_ekf_yaw pr) (es_mag_test_ratio es)
         \<and> (sys_has_gps pr = 1 \<longrightarrow> es_gps_check_fail_flags es = 0 \<or> com_arm_wo_gps pr \<noteq> 0)
         \<and> (env_now env - sb_timestamp b < 30000000
            \<longrightarrow> (sb_accel_bias_valid b
                   \<longrightarrow> bias_small (sb_accel_bias_limit b) (sb_accel_bias b) (sb_accel_bias_variance b))
                \<and> (sb_gyro_bias_valid b
                   \<longrightarrow> bias_small (sb_gyro_bias_limit b) (sb_gyro_bias b) (sb_gyro_bias_variance b))))"

definition estimator_ready :: "preflight_env \<Rightarrow> vehicle_control_mode \<Rightarrow> vehicle_status \<Rightarrow> bool" where
  "estimator_ready env cm s \<longleftrightarrow>
     (flag_control_attitude_enabled cm \<or> flag_control_velocity_enabled cm \<or> flag_control_position_enabled cm)
     \<and> (is_rotary_wing s \<and> \<not> is_vtol s \<longrightarrow> sys_mc_est_group (env_params env) = 2)
     \<longrightarrow> estimate_healthy env"

text \<open>The check functions meet their requirements.\<close>

lemma calibration_index_iff:
  "FindCurrentCalibrationIndex slots d \<noteq> None \<longleftrightarrow> d \<noteq> 0 \<and> Some d \<in> set slots"
proof (cases "d = 0")
  case False
  have "List.find (\<lambda>i. slots ! i = Some d) [0..<length slots] \<noteq> None \<longleftrightarrow> (\<exists>i<length slots. slots ! i = Some d)"
    unfolding find_None_iff by auto
  then show ?thesis
    using False unfolding FindCurrentCalibrationIndex_def in_set_conv_nth by simp
qed (simp add: FindCurrentCalibrationIndex_def)

lemma sensor_working_iff:
  "tp_exists t \<and> sample_valid now t \<and> calibration_valid s slots (tp_device_id t)
   \<longleftrightarrow> sensor_working now s slots t"
  unfolding sensor_working_def sample_valid_def calibration_valid_def calibration_index_iff
    hrt_elapsed_time_def by blast

lemma accel_ok_iff:
  "accel_ok now pr s t \<longleftrightarrow> sensor_working now s (cal_acc_ids pr) t \<and> plausible_gravity (tp_xyz t)"
  unfolding accel_ok_def sensor_working_iff [symmetric] plausible_gravity_def accel_magnitude_def Let_def
  by blast

lemma gyro_ok_iff: "gyro_ok now pr s t \<longleftrightarrow> sensor_working now s (cal_gyro_ids pr) t"
  unfolding gyro_ok_def by (rule sensor_working_iff)

lemma required_iff:
  "isAccelRequired n tp i \<longleftrightarrow> sensor_used n es_accel_device_id tp (accel_topic tp i)"
  "isGyroRequired n tp i \<longleftrightarrow> sensor_used n es_gyro_device_id tp (gyro_topic tp i)"
  by (auto simp: isAccelRequired_def isGyroRequired_def is_used_by_nav_def sensor_used_def list_ex_iff
      word_neq_0_conv)

lemma entries_consistent_simps [simp]:
  "entries_consistent limit []"
  "entries_consistent limit (e # es) \<longleftrightarrow>
     (ie_device_id e = 0 \<or> \<not> f32_lt limit (ie_inconsistency e)) \<and> entries_consistent limit es"
  by (simp_all add: entries_consistent_def)

lemma imu_loop_pass: "fst (imu_loop a b limit r p es s) \<longleftrightarrow> entries_consistent limit es"
  by (induction es arbitrary: s) (auto simp: Let_def)

lemma entries_consistent_map2:
  "entries_consistent limit (map2 (\<lambda>g a. g\<lparr>ie_healthy := ie_healthy a\<rparr>) gs as)
   \<longleftrightarrow> entries_consistent limit (take (length as) gs)"
  by (induction gs as rule: list_induct2') simp_all

lemma imuConsistencyCheck_pass:
  "fst (imuConsistencyCheck pr tp r s) \<longleftrightarrow>
     entries_consistent (com_arm_imu_acc pr) (accel_entries (imu_topic tp))
     \<and> entries_consistent (com_arm_imu_gyr pr)
         (take (length (accel_entries (imu_topic tp))) (gyro_entries (imu_topic tp)))"
  by (simp add: imuConsistencyCheck_def Let_def case_prod_beta imu_loop_pass entries_consistent_map2)

lemma accel_loop_pass:
  "fst (sensorAvailabilityCheck n 1 (accelerometerCheck now n pr tp) s) \<longleftrightarrow>
     (\<forall>i<n. i = 0 \<or> isAccelRequired n tp i \<longrightarrow> accel_ok now pr s (accel_topic tp i))"
proof -
  have "fst (sensor_loop (accelerometerCheck now n pr tp) 1 [0..<n] True s) \<longleftrightarrow>
      True \<and> (\<forall>i\<in>set [0..<n]. fst (accelerometerCheck now n pr tp i (i < unat (1 :: u8)) s))"
    by (rule sensor_loop_pass) (simp, rule inertial_check_cong)
  then show ?thesis
    by (auto simp: sensorAvailabilityCheck_def accelerometerCheck_def)
qed

lemma gyro_loop_pass:
  "fst (sensorAvailabilityCheck n 1 (gyroCheck now n pr tp) s) \<longleftrightarrow>
     (\<forall>i<n. i = 0 \<or> isGyroRequired n tp i \<longrightarrow> gyro_ok now pr s (gyro_topic tp i))"
proof -
  have "fst (sensor_loop (gyroCheck now n pr tp) 1 [0..<n] True s) \<longleftrightarrow>
      True \<and> (\<forall>i\<in>set [0..<n]. fst (gyroCheck now n pr tp i (i < unat (1 :: u8)) s))"
    by (rule sensor_loop_pass) (simp, rule inertial_check_cong)
  then show ?thesis
    by (auto simp: sensorAvailabilityCheck_def gyroCheck_def)
qed

lemma inertial_ok_cong:
  "strip_health s = strip_health s' \<Longrightarrow> inertial_ok env s = inertial_ok env s'"
  unfolding inertial_ok_def sensor_working_def using strip_health_eqD(2) [of s s'] by simp

lemma preflight_inertial_pass:
  assumes "\<not> fst (preflight_inertial env r s)"
  shows "inertial_ok env s"
proof -
  let ?n = "env_instances env" and ?pr = "env_params env" and ?tp = "env_topics env"
  let ?s1 = "snd (sensorAvailabilityCheck ?n 1 (accelerometerCheck (env_now env) ?n ?pr ?tp) s)"
  have acc: "fst (sensorAvailabilityCheck ?n 1 (accelerometerCheck (env_now env) ?n ?pr ?tp) s)"
    and gyr: "fst (sensorAvailabilityCheck ?n 1 (gyroCheck (env_now env) ?n ?pr ?tp) ?s1)"
    and imu: "\<exists>s3. fst (imuConsistencyCheck ?pr ?tp r s3)"
    using assms by (auto simp: preflight_inertial_def Let_def case_prod_beta)
  have "gyro_ok (env_now env) ?pr ?s1 t = gyro_ok (env_now env) ?pr s t" for t
    by (rule gyro_ok_cong) simp
  then show ?thesis
    using acc gyr imu
    unfolding accel_loop_pass gyro_loop_pass imuConsistencyCheck_pass accel_ok_iff gyro_ok_iff required_iff
    by (simp add: inertial_ok_def Let_def)
qed

lemma preflight_passD:
  assumes "fst (preflightCheck env cm r pre t s fl)"
  shows "\<exists>r' s'. strip_health s' = strip_health s \<and> \<not> fst (preflight_inertial env r' s')"
    and "\<exists>s' fl'. strip_health s' = strip_health s \<and> strip_preflight_flags fl' = strip_preflight_flags fl
           \<and> \<not> preflight_vehicle env pre s' fl'"
    and "\<exists>s' fl'. \<not> fst (preflight_rc env s' fl')"
    and "\<exists>s' fl'. strip_health s' = strip_health s \<and> strip_preflight_flags fl' = strip_preflight_flags fl
           \<and> \<not> preflight_power env pre s' fl'"
    and "\<exists>r' s'. strip_health s' = strip_health s \<and> \<not> fst (preflight_ekf env cm r' pre t s')"
proof -
  let ?r = "r \<and> system_hotplug_timeout fl \<and> \<not> calibration_enabled fl"
  let ?fl1 = "snd (preflight_airframe env s fl)"
  let ?s4 = "snd (preflight_airspeed env pre ?fl1 (snd (preflight_inertial env ?r (snd (preflight_mag env ?r s)))))"
  let ?s5 = "fst (snd (preflight_rc env ?s4 ?fl1))" and ?fl5 = "snd (snd (preflight_rc env ?s4 ?fl1))"
  have fl5: "strip_preflight_flags ?fl5 = strip_preflight_flags fl"
    by (simp add: preflight_airframe_def preflight_rc_def strip_preflight_flags_def Let_def case_prod_beta)
  show "\<exists>r' s'. strip_health s' = strip_health s \<and> \<not> fst (preflight_inertial env r' s')"
    using assms
    by (intro exI [of _ ?r] exI [of _ "snd (preflight_mag env ?r s)"])
       (simp add: preflightCheck_def Let_def case_prod_beta)
  show "\<exists>s' fl'. strip_health s' = strip_health s \<and> strip_preflight_flags fl' = strip_preflight_flags fl
           \<and> \<not> preflight_vehicle env pre s' fl'"
    using assms
    by (intro exI [of _ "fst (snd (preflightCheck env cm r pre t s fl))"]
              exI [of _ "snd (snd (preflightCheck env cm r pre t s fl))"])
       (simp, simp add: preflightCheck_def Let_def case_prod_beta)
  show "\<exists>s' fl'. \<not> fst (preflight_rc env s' fl')"
    using assms by (auto simp: preflightCheck_def Let_def case_prod_beta)
  show "\<exists>s' fl'. strip_health s' = strip_health s \<and> strip_preflight_flags fl' = strip_preflight_flags fl
           \<and> \<not> preflight_power env pre s' fl'"
    using assms fl5
    by (intro exI [of _ ?s5] exI [of _ ?fl5]) (simp add: preflightCheck_def Let_def case_prod_beta)
  show "\<exists>r' s'. strip_health s' = strip_health s \<and> \<not> fst (preflight_ekf env cm r' pre t s')"
    using assms
    by (intro exI [of _ ?r] exI [of _ ?s5]) (simp add: preflightCheck_def Let_def case_prod_beta)
qed

lemma rcCalibrationCheck_zero:
  "rcCalibrationCheck pr = 0 \<longleftrightarrow> (\<forall>c\<in>set (rc_channels pr). rc_channel_errors c = 0)"
proof -
  have "fold (\<lambda>c total. total + rc_channel_errors c) cs k = k + sum_list (map rc_channel_errors cs)" for cs k
    by (induction cs arbitrary: k) simp_all
  then show ?thesis
    by (simp add: rcCalibrationCheck_def)
qed

lemma rc_channel_errors_zero:
  "rc_channel_errors c = 0 \<longleftrightarrow>
     \<not> f32_lt (rc_min c) (f32_lit 0) \<and> \<not> f32_lt (f32_lit 2500) (rc_max c)
     \<and> \<not> f32_lt (rc_trim c) (rc_min c) \<and> \<not> f32_lt (rc_max c) (rc_trim c) \<and> \<not> f32_lt (f32_lit 500) (rc_dz c)"
  by (simp add: rc_channel_errors_def)

lemma strip_preflight_flags_eqD:
  assumes "strip_preflight_flags fl' = strip_preflight_flags fl"
  shows "parachute_system_present fl' = parachute_system_present fl"
    "parachute_system_healthy fl' = parachute_system_healthy fl"
    "system_sensors_initialized fl' = system_sensors_initialized fl"
    "power_input_valid fl' = power_input_valid fl"
    "circuit_breaker_engaged_power_check fl' = circuit_breaker_engaged_power_check fl"
  using arg_cong [OF assms, of parachute_system_present] arg_cong [OF assms, of parachute_system_healthy]
    arg_cong [OF assms, of system_sensors_initialized] arg_cong [OF assms, of power_input_valid]
    arg_cong [OF assms, of circuit_breaker_engaged_power_check]
  by (simp_all add: strip_preflight_flags_def)

lemma mode_suitable_iff:
  "mode_suitable n \<longleftrightarrow> n \<in> {NAVIGATION_STATE_MANUAL, NAVIGATION_STATE_ALTCTL, NAVIGATION_STATE_POSCTL,
     NAVIGATION_STATE_AUTO_MISSION, NAVIGATION_STATE_AUTO_LOITER, NAVIGATION_STATE_ACRO,
     NAVIGATION_STATE_OFFBOARD, NAVIGATION_STATE_STAB, NAVIGATION_STATE_AUTO_TAKEOFF,
     NAVIGATION_STATE_AUTO_VTOL_TAKEOFF, NAVIGATION_STATE_AUTO_LAND}"
  by (cases n) simp_all

lemma preflight_pass_inertial:
  assumes "fst (preflightCheck env cm r prearm t s fl)"
  shows "inertial_ok env s"
proof -
  obtain r' s' where s': "strip_health s' = strip_health s" "\<not> fst (preflight_inertial env r' s')"
    using preflight_passD(1) [OF assms] by blast
  show ?thesis
    using preflight_inertial_pass [OF s'(2)] inertial_ok_cong [OF s'(1)] by simp
qed

lemma preflight_pass_ready:
  assumes "fst (preflightCheck env cm r prearm t s fl)"
  shows "vehicle_ready env prearm s fl"
proof -
  obtain s' fl' where e: "strip_health s' = strip_health s"
      "strip_preflight_flags fl' = strip_preflight_flags fl" "\<not> preflight_vehicle env prearm s' fl'"
    using preflight_passD(2) [OF assms] by blast
  have "com_rc_in_mode (env_params env) = 0 \<Longrightarrow> rcCalibrationCheck (env_params env) = 0"
    using preflight_passD(3) [OF assms] by (auto simp: preflight_rc_def split: if_splits)
  moreover have "mode_suitable (nav_state s)" "manualControlCheck (env_topics env)"
    "cpuResourceCheck (env_now env) (env_params env) (env_topics env)"
    "failureDetectorCheck s' prearm" "parachuteCheck (env_params env) fl'"
    using e(3) strip_health_eqD(3) [OF e(1)] by (simp_all add: preflight_vehicle_def modeCheck_def)
  ultimately show ?thesis
    using strip_health_eqD(7) [OF e(1)] strip_preflight_flags_eqD(1,2) [OF e(2)]
    unfolding vehicle_ready_def Let_def mode_suitable_iff [symmetric] rc_channel_errors_zero [symmetric]
    by (simp add: rcCalibrationCheck_zero manualControlCheck_def cpuResourceCheck_def hrt_elapsed_time_def
        failureDetectorCheck_def parachuteCheck_def Let_def not_less split: if_splits)
qed

lemma preflight_pass_power:
  assumes "fst (preflightCheck env cm r prearm t s fl)"
  shows "power_ready env prearm s fl"
proof -
  obtain s' fl' where e: "strip_health s' = strip_health s"
      "strip_preflight_flags fl' = strip_preflight_flags fl" "\<not> preflight_power env prearm s' fl'"
    using preflight_passD(4) [OF assms] by blast
  show ?thesis
    using e(3) strip_health_eqD(2) [OF e(1)] strip_preflight_flags_eqD(4,5) [OF e(2)]
    by (auto simp: power_ready_def preflight_power_def powerCheck_def countSetBits_card Let_def not_less
        split: if_splits)
qed

lemma bias_ok_iff: "bias_ok limit bias variance \<longleftrightarrow> bias_small limit bias variance"
  by (simp add: bias_ok_def bias_axis_ok_def bias_small_def)

lemma ekf2Check_pass:
  assumes "fst (ekf2Check pr tp b s)"
  shows "ekf2_estimate_ok pr (estimator_topic tp (primary_instance tp))
    \<and> (sys_has_gps pr = 1 \<longrightarrow> es_gps_check_fail_flags (estimator_topic tp (primary_instance tp)) = 0
       \<or> com_arm_wo_gps pr \<noteq> 0)"
  using assms by (auto simp: ekf2Check_def Let_def word_neq_0_conv split: if_splits)

lemma estimate_healthyI:
  assumes "fst (ekf2Check (env_params env) (env_topics env) b s)"
    and "ekf2CheckSensorBias (env_now env) (env_topics env)"
  shows "estimate_healthy env"
  using ekf2Check_pass [OF assms(1)] assms(2)
  unfolding estimate_healthy_def ekf2_estimate_ok_def ekf2CheckSensorBias_def Let_def
    bias_ok_iff [symmetric] hrt_elapsed_time_def
  by (simp split: if_splits)

lemma preflight_pass_estimator:
  assumes "fst (preflightCheck env cm r prearm t s fl)"
  shows "estimator_ready env cm s"
  unfolding estimator_ready_def
proof (intro impI, elim conjE)
  assume enabled: "flag_control_attitude_enabled cm \<or> flag_control_velocity_enabled cm
      \<or> flag_control_position_enabled cm"
    and group: "is_rotary_wing s \<and> \<not> is_vtol s \<longrightarrow> sys_mc_est_group (env_params env) = 2"
  obtain r' s' where e: "strip_health s' = strip_health s" "\<not> fst (preflight_ekf env cm r' prearm t s')"
    using preflight_passD(5) [OF assms] by blast
  have "(if is_rotary_wing s' \<and> \<not> is_vtol s' then sys_mc_est_group (env_params env) else 2) = 2"
    using group strip_health_eqD(4,5) [OF e(1)] by simp
  then have "\<exists>b. fst (ekf2Check (env_params env) (env_topics env) b s')
      \<and> ekf2CheckSensorBias (env_now env) (env_topics env)"
    using e(2) enabled by (auto simp: preflight_ekf_def Let_def case_prod_beta)
  then show "estimate_healthy env"
    using estimate_healthyI by blast
qed

subsection \<open>A concrete environment\<close>

definition sensor_example :: sensor_topic where
  "sensor_example = \<lparr>tp_exists = True, tp_device_id = 7, tp_timestamp = 900,
                     tp_xyz = V3 f32_zero f32_zero (f32_lit 10)\<rparr>"

definition estimator_example :: estimator_status where
  "estimator_example =
     \<lparr>es_timestamp = 900, es_accel_device_id = 7, es_gyro_device_id = 7, es_baro_device_id = 7,
      es_mag_device_id = 7, es_control_mode_flags = 4, es_gps_check_fail_flags = 0,
      es_pre_flt_fail_innov_heading = False, es_pre_flt_fail_innov_vel_horiz = False,
      es_pre_flt_fail_innov_vel_vert = False, es_pre_flt_fail_innov_height = False,
      es_pre_flt_fail_mag_field_disturbed = False, es_hgt_test_ratio = f32_zero,
      es_vel_test_ratio = f32_zero, es_pos_test_ratio = f32_zero, es_mag_test_ratio = f32_zero\<rparr>"

definition bias_example :: sensor_bias where
  "bias_example =
     \<lparr>sb_timestamp = 900, sb_accel_bias = v3_zero, sb_accel_bias_limit = f32_lit 1,
      sb_accel_bias_variance = v3_zero, sb_accel_bias_valid = False, sb_gyro_bias = v3_zero,
      sb_gyro_bias_limit = f32_lit 1, sb_gyro_bias_variance = v3_zero, sb_gyro_bias_valid = False\<rparr>"

definition imu_example :: sensors_status_imu where
  "imu_example =
     \<lparr>accel_device_id_primary = 7,
      accel_entries = [\<lparr>ie_device_id = 7, ie_inconsistency = f32_zero, ie_healthy = True\<rparr>],
      gyro_device_id_primary = 7,
      gyro_entries = [\<lparr>ie_device_id = 7, ie_inconsistency = f32_zero, ie_healthy = True\<rparr>]\<rparr>"

definition topics_example :: preflight_topics where
  "topics_example =
     \<lparr>accel_topic = (\<lambda>_. sensor_example), gyro_topic = (\<lambda>_. sensor_example),
      mag_topic = (\<lambda>_. sensor_example), baro_topic = (\<lambda>_. sensor_example),
      dist_topic = (\<lambda>_. sensor_example), estimator_topic = (\<lambda>_. estimator_example),
      bias_topic = (\<lambda>_. bias_example), primary_instance = 0, imu_topic = imu_example,
      mag_preflight_timestamp = 0, mag_inconsistency_angle = f32_zero, airspeed_timestamp = 900,
      calibrated_airspeed_m_s = f32_zero,
      switches_topic = \<lparr>sw_timestamp = 900, sw_return_switch = 3, sw_kill_switch = 3, sw_gear_switch = 3\<rparr>,
      power_topic = \<lparr>pw_timestamp = 900, pw_voltage5v_v = f32_lit 5, pw_usb_connected = 0, pw_brick_valid = 1\<rparr>,
      cpuload_timestamp = 900, cpuload_load = f32_zero, statfs_blocks = Some (1, 1)\<rparr>"

definition preflight_params_example :: preflight_params where
  "preflight_params_example =
     \<lparr>sys_has_mag = 0, sys_has_baro = 1, sys_has_num_dist = 0, fw_arsp_mode = 0, com_arm_arsp_en = 0,
      fw_airspd_trim = f32_lit 10, com_rc_in_mode = 1, sys_mc_est_group = 2, com_arm_sdcard = 1,
      com_arm_imu_acc = f32_lit 1, com_arm_imu_gyr = f32_lit 1, com_arm_mag_ang = 45,
      com_arm_mag_str = 1, com_arm_ekf_hgt = f32_lit 1, com_arm_ekf_vel = f32_lit 1,
      com_arm_ekf_pos = f32_lit 1, com_arm_ekf_yaw = f32_lit 1, com_arm_wo_gps = 0, sys_has_gps = 1,
      com_power_count = 0, com_cpu_max = f32_zero, com_parachute = 0, cal_acc_ids = [Some 7],
      cal_gyro_ids = [Some 7], cal_mag_ids = [Some 7], rc_channels = []\<rparr>"

definition env_example :: preflight_env where
  "env_example = \<lparr>env_now = 1000, env_instances = 1, env_fmu_v2 = False,
                  env_params = preflight_params_example, env_topics = topics_example\<rparr>"

definition control_mode_example :: vehicle_control_mode where
  "control_mode_example =
     \<lparr>flag_armed = False, flag_multicopter_position_control_enabled = True,
      flag_control_manual_enabled = True, flag_control_auto_enabled = False,
      flag_control_offboard_enabled = False, flag_control_rates_enabled = True,
      flag_control_attitude_enabled = True, flag_control_acceleration_enabled = False,
      flag_control_velocity_enabled = True, flag_control_position_enabled = True,
      flag_control_altitude_enabled = True, flag_control_climb_rate_enabled = True,
      flag_control_termination_enabled = False\<rparr>"

definition standby_example :: vehicle_status where
  "standby_example = status_example\<lparr>arming_state := ARMING_STATE_STANDBY\<rparr>"

lemmas preflight_examples =
  sensor_example_def estimator_example_def bias_example_def imu_example_def topics_example_def
  preflight_params_example_def env_example_def control_mode_example_def standby_example_def
  commander_examples

lemma sqrt_100: "f32_sqrt (f32_lit 100) = f32_lit 10"
proof -
  have "f32_lit 100 = FFin False 100" "f32_lit 10 = FFin False 10"
    by (simp_all add: f32_lit_def f32_of_real_numeral)
  moreover have "sqrt 100 = (10 :: real)"
    by (rule real_sqrt_unique) simp_all
  ultimately show ?thesis
    by (simp add: f32_of_real_numeral)
qed

lemma accel_magnitude_example: "accel_magnitude (tp_xyz sensor_example) = FFin False 10"
  using sqrt_100
  by (simp add: accel_magnitude_def sensor_example_def f32_lit_def f32_of_real_numeral
      f32_lit_0 [unfolded f32_lit_def])

lemma sample_valid_example: "sample_valid 1000 sensor_example"
  by (simp add: sample_valid_def sensor_example_def hrt_elapsed_time_def)

lemma calibration_example:
  "calibration_valid standby_example [Some 7] (tp_device_id sensor_example)"
  by (simp add: calibration_valid_def FindCurrentCalibrationIndex_def sensor_example_def)

lemma inertial_example:
  assumes "strip_health s = strip_health standby_example"
  shows "accel_ok 1000 preflight_params_example s sensor_example"
    and "gyro_ok 1000 preflight_params_example s sensor_example"
proof -
  have "tp_exists sensor_example"
    "cal_acc_ids preflight_params_example = [Some 7]" "cal_gyro_ids preflight_params_example = [Some 7]"
    by (simp_all add: sensor_example_def preflight_params_example_def)
  then have "accel_ok 1000 preflight_params_example standby_example sensor_example"
    "gyro_ok 1000 preflight_params_example standby_example sensor_example"
    using sample_valid_example calibration_example accel_magnitude_example
    by (simp_all add: accel_ok_def gyro_ok_def f32_lit_def f32_of_real_numeral)
  then show "accel_ok 1000 preflight_params_example s sensor_example"
    "gyro_ok 1000 preflight_params_example s sensor_example"
    using accel_ok_cong [OF assms] gyro_ok_cong [OF assms] by simp_all
qed

lemma preflight_inertial_example:
  "\<not> fst (preflight_inertial env_example r standby_example)"
proof -
  have "env_now env_example = 1000" "env_instances env_example = 1"
    "env_params env_example = preflight_params_example" "accel_topic (env_topics env_example) i = sensor_example"
    "gyro_topic (env_topics env_example) i = sensor_example" for i
    by (simp_all add: env_example_def topics_example_def)
  moreover have "fst (imuConsistencyCheck preflight_params_example (env_topics env_example) r s)" for s
    by (simp add: imuConsistencyCheck_def Let_def case_prod_beta env_example_def topics_example_def
        imu_example_def preflight_params_example_def)
  ultimately show ?thesis
    by (simp add: preflight_inertial_def Let_def case_prod_beta accel_loop_pass gyro_loop_pass
        inertial_example)
qed

lemma preflight_ekf_example:
  "\<not> fst (preflight_ekf env_example control_mode_example r True t s)"
proof -
  have "fst (ekf2Check preflight_params_example topics_example b s)" for b
    by (simp add: ekf2Check_def ekf2_estimate_ok_def Let_def topics_example_def estimator_example_def
        preflight_params_example_def)
  moreover have "ekf2CheckSensorBias 1000 topics_example"
    by (simp add: ekf2CheckSensorBias_def Let_def topics_example_def bias_example_def hrt_elapsed_time_def)
  ultimately show ?thesis
    by (simp add: preflight_ekf_def Let_def case_prod_beta env_example_def)
qed

lemma rail_voltage_example: "\<not> f32_lt (f32_lit 5) (f32_lit (9 / 2))"
  using f32_lit_mono [of "9 / 2" 5] f32_lt_le_trans [of "f32_lit 5" "f32_lit (9 / 2)" "f32_lit 5"] by auto

lemma preflight_stages_example:
  "preflight_airframe env_example s flags_example = (False, flags_example)"
  "preflight_mag env_example r s = (False, s)"
  "preflight_rc env_example s fl = (False, s, fl)"
  "\<not> preflight_power env_example True s fl"
  using rail_voltage_example
  by (simp_all add: preflight_airframe_def airframeCheck_def sdcardCheck_def preflight_mag_def
      preflight_rc_def preflight_power_def powerCheck_def env_example_def topics_example_def
      preflight_params_example_def flags_example_def Let_def)

lemma preflight_airspeed_rotary:
  assumes "strip_health s = strip_health standby_example"
  shows "preflight_airspeed env pre fl s = (False, s)"
  using strip_health_eqD(4,5) [OF assms]
  by (simp add: preflight_airspeed_def standby_example_def status_example_def)

lemma preflight_vehicle_example:
  assumes "strip_health s = strip_health standby_example"
  shows "\<not> preflight_vehicle env_example True s flags_example"
  using strip_health_eqD(3,7) [OF assms]
  by (simp add: preflight_vehicle_def failureDetectorCheck_def manualControlCheck_def modeCheck_def
      cpuResourceCheck_def parachuteCheck_def standby_example_def status_example_def env_example_def
      topics_example_def preflight_params_example_def Let_def)

lemma preflight_example:
  "fst (preflightCheck env_example control_mode_example True True 20000000 standby_example flags_example)"
  using preflight_inertial_example preflight_ekf_example preflight_stages_example
  by (simp add: preflightCheck_def Let_def case_prod_beta preflight_airspeed_rotary
      preflight_vehicle_example)

subsection \<open>Properties of the checks\<close>

text \<open>
  C34: a passed preflight check means working inertial sensors: the first accelerometer and
  gyroscope, and every other one that an estimator instance uses, exists, has a device id and a sample
  younger than a second, is calibrated (or the vehicle is simulated), the accelerometers measure a
  magnitude between 4 and 15, and no accelerometer or gyroscope deviates from the others by more than
  the configured limit.
\<close>

theorem preflight_pass_inertial_sensors:
  assumes "fst (preflightCheck env cm report prearm t s fl)"
  shows "inertial_ok env s"
  using assms by (rule preflight_pass_inertial)

theorem preflight_pass_inertial_sensors_witness: "inertial_ok env_example standby_example"
  by (rule preflight_pass_inertial_sensors [OF preflight_example])

text \<open>
  C35: a passed preflight check means a vehicle that is ready for take-off: a mode that one can take
  off in, no engaged return, kill or gear switch, no failure detected (in a pre-arm run), the
  parachute present and healthy where it is required, a recent processor load below its limit, radio
  control channels without calibration errors (where radio control is the selected input), a power
  supply that is monitored and sufficient (in a pre-arm run outside simulation, with a valid power
  input and no circuit breaker), and, where a controller needs the EKF2 estimator, an estimate
  without failed innovation tests, with test ratios and sensor biases within their limits and with
  usable GPS unless the vehicle may arm without.
\<close>

theorem preflight_pass_vehicle_ready:
  assumes "fst (preflightCheck env cm report prearm t s fl)"
  shows "vehicle_ready env prearm s fl \<and> power_ready env prearm s fl \<and> estimator_ready env cm s"
  using preflight_pass_ready [OF assms] preflight_pass_power [OF assms] preflight_pass_estimator [OF assms]
  by blast

theorem preflight_pass_vehicle_ready_witness:
  "vehicle_ready env_example True standby_example flags_example
   \<and> power_ready env_example True standby_example flags_example
   \<and> estimator_ready env_example control_mode_example standby_example"
  by (rule preflight_pass_vehicle_ready [OF preflight_example])

lemma map2_healthy_const:
  "map2 (\<lambda>g a. g\<lparr>ie_healthy := ie_healthy a\<rparr>) (map (ie_healthy_update f) gs) as =
   map2 (\<lambda>g a. g\<lparr>ie_healthy := ie_healthy a\<rparr>) gs as"
  by (induction gs arbitrary: as) (simp_all split: list.splits, case_tac as, simp_all)

text \<open>
  The health of the gyroscopes never reaches the health flags: whatever the gyroscope health
  reported in the IMU status is replaced by, \<^verbatim>\<open>imuConsistencyCheck\<close> returns the same result and leaves
  the same health words, because its second loop reads the health of the accelerometers.
\<close>

theorem imuConsistencyCheck_ignores_gyro_health:
  "imuConsistencyCheck pr
     (tp\<lparr>imu_topic := (imu_topic tp)\<lparr>gyro_entries := map (ie_healthy_update f) (gyro_entries (imu_topic tp))\<rparr>\<rparr>)
     report s
   = imuConsistencyCheck pr tp report s"
  by (simp add: imuConsistencyCheck_def map2_healthy_const Let_def case_prod_beta)

text \<open>
  The conditions under which a vehicle may be armed, without the order, the early assignments and
  the messages of the source.
\<close>

definition prearm_spec ::
  "vehicle_status_flags \<Rightarrow> vehicle_control_mode \<Rightarrow> safety \<Rightarrow> arm_requirements \<Rightarrow> vehicle_status \<Rightarrow> bool" where
  "prearm_spec fl cm sf req s \<longleftrightarrow>
     (flag_control_rates_enabled cm \<longrightarrow> angular_velocity_valid fl)
     \<and> (flag_control_attitude_enabled cm \<longrightarrow> attitude_valid fl)
     \<and> (flag_control_velocity_enabled cm \<longrightarrow> local_velocity_valid fl)
     \<and> (flag_control_position_enabled cm \<longrightarrow> local_position_valid fl)
     \<and> (flag_control_manual_enabled cm \<longrightarrow> \<not> rc_signal_lost s)
     \<and> \<not> flight_terminated fl
     \<and> (usb_connected fl \<longrightarrow> circuit_breaker_engaged_usb_check fl)
     \<and> (circuit_breaker_engaged_power_check fl \<or> power_input_valid fl \<and> battery_healthy fl)
     \<and> (req_mission req \<longrightarrow> auto_mission_available fl \<and> global_position_valid fl)
     \<and> (req_global_position req \<longrightarrow> circuit_breaker_engaged_posfailure_check fl
          \<or> global_position_valid fl \<and> home_position_valid fl)
     \<and> (safety_switch_available sf \<longrightarrow> safety_off sf)
     \<and> (avoidance_system_required fl \<longrightarrow> avoidance_system_valid fl)
     \<and> (req_esc_check req \<longrightarrow> \<not> escs_error fl \<and> \<not> escs_failure fl)
     \<and> (is_vtol s \<longrightarrow> \<not> in_transition_mode s
          \<and> (circuit_breaker_vtol_fw_arming_check fl \<or> is_rotary_wing s))
     \<and> (req_geofence req \<longrightarrow> \<not> geofence_violated s)"

lemma prearm_estimates_eq:
  "prearm_estimates cm fl s ok \<longleftrightarrow> ok
     \<and> (flag_control_rates_enabled cm \<longrightarrow> angular_velocity_valid fl)
     \<and> (flag_control_attitude_enabled cm \<longrightarrow> attitude_valid fl)
     \<and> (flag_control_velocity_enabled cm \<longrightarrow> local_velocity_valid fl)
     \<and> (flag_control_position_enabled cm \<longrightarrow> local_position_valid fl)
     \<and> (flag_control_manual_enabled cm \<longrightarrow> \<not> rc_signal_lost s)
     \<and> \<not> flight_terminated fl \<and> (usb_connected fl \<longrightarrow> circuit_breaker_engaged_usb_check fl)"
  by (simp add: prearm_estimates_def Let_def)

lemma prearm_power_eq:
  "fst (prearm_power fl s ok) \<longleftrightarrow> ok
     \<and> (circuit_breaker_engaged_power_check fl \<or> power_input_valid fl \<and> battery_healthy fl)"
  by (simp add: prearm_power_def Let_def)

lemma prearm_requirements_eq:
  "prearm_requirements req sf fl s ok \<longleftrightarrow> ok
     \<and> (req_mission req \<longrightarrow> auto_mission_available fl \<and> global_position_valid fl)
     \<and> (req_global_position req \<longrightarrow> circuit_breaker_engaged_posfailure_check fl
          \<or> global_position_valid fl \<and> home_position_valid fl)
     \<and> (safety_switch_available sf \<longrightarrow> safety_off sf)
     \<and> (avoidance_system_required fl \<longrightarrow> avoidance_system_valid fl)
     \<and> (req_esc_check req \<longrightarrow> \<not> escs_error fl \<and> \<not> escs_failure fl)
     \<and> (is_vtol s \<longrightarrow> \<not> in_transition_mode s
          \<and> (circuit_breaker_vtol_fw_arming_check fl \<or> is_rotary_wing s))
     \<and> (req_geofence req \<longrightarrow> \<not> geofence_violated s)"
  by (simp add: prearm_requirements_def Let_def)

lemma prearm_chain:
  assumes "ok = prearm_estimates cm fl s True"
  shows "prearm_requirements req sf fl (snd (prearm_power fl s ok)) (fst (prearm_power fl s ok))
      \<longleftrightarrow> prearm_spec fl cm sf req s"
proof -
  have f: "is_vtol (snd (prearm_power fl s ok)) = is_vtol s"
    "in_transition_mode (snd (prearm_power fl s ok)) = in_transition_mode s"
    "vehicle_type (snd (prearm_power fl s ok)) = vehicle_type s"
    "geofence_violated (snd (prearm_power fl s ok)) = geofence_violated s"
    using strip_health_eqD(4,5,9,10) [OF prearm_power_frame] by blast+
  show ?thesis
    unfolding prearm_requirements_eq prearm_power_eq f prearm_spec_def
    by (simp only: assms prearm_estimates_eq simp_thms conj_assoc)
qed

lemma preArmCheck_spec:
  "fst (preArmCheck fl cm sf req auth a s) =
     (prearm_spec fl cm sf req s \<and> (if req_arm_authorization req then fst (auth a) else True))"
  by (simp add: preArmCheck_def Let_def case_prod_beta prearm_chain)

text \<open>The authorizer is asked last: its state changes only if every other condition is met.\<close>

lemma preArmCheck_authorizer:
  "fst (snd (preArmCheck fl cm sf req auth a s)) =
     (if req_arm_authorization req \<and> prearm_spec fl cm sf req s then snd (auth a) else a)"
  by (simp add: preArmCheck_def Let_def case_prod_beta prearm_chain)

end
