(* ===== verification/Arm_Auth.thy ===== *)
theory Arm_Auth
  imports Commander_Types
begin

text \<open>
  The arming authorization (\<^verbatim>\<open>src/modules/commander/Arming/ArmAuthorization/ArmAuthorization.cpp\<close>):
  before arming, the commander may have to ask an external authorizer and wait for its answer, a
  \<^verbatim>\<open>vehicle_command_ack\<close>. The file's static variables are the record \<^verbatim>\<open>arm_auth\<close>. The parameters,
  the clock and the acknowledgement that a poll finds are arguments; the request that is sent and
  the messages to the ground station are not modelled.
\<close>

datatype arm_auth_state =
  ARM_AUTH_IDLE | ARM_AUTH_WAITING_AUTH | ARM_AUTH_WAITING_AUTH_WITH_ACK | ARM_AUTH_MISSION_APPROVED

datatype arm_auth_method = ARM_AUTH_METHOD_ARM_REQ | ARM_AUTH_METHOD_TWO_ARM_REQ

record arm_auth =
  auth_state :: arm_auth_state
  auth_timeout :: hrt_abstime
  auth_req_time :: hrt_abstime
  param_com_arm_auth_timout :: hrt_abstime
  param_com_arm_auth_method :: arm_auth_method
  param_com_arm_auth_id :: int

record auth_params =
  com_arm_auth_to :: float32
  com_arm_auth_met :: int
  com_arm_auth_id :: int

record command_ack =
  ack_command :: u32
  ack_result :: u8
  ack_result_param2 :: "32 word"
  ack_target_system :: u8
  ack_timestamp :: hrt_abstime

datatype auth_result = RESULT_ACCEPTED | RESULT_TEMPORARILY_REJECTED | RESULT_DENIED

definition VEHICLE_RESULT_ACCEPTED :: u8 where "VEHICLE_RESULT_ACCEPTED = 0"
definition VEHICLE_RESULT_TEMPORARILY_REJECTED :: u8 where "VEHICLE_RESULT_TEMPORARILY_REJECTED = 1"
definition VEHICLE_RESULT_DENIED :: u8 where "VEHICLE_RESULT_DENIED = 2"
definition VEHICLE_RESULT_IN_PROGRESS :: u8 where "VEHICLE_RESULT_IN_PROGRESS = 5"
definition VEHICLE_CMD_ARM_AUTHORIZATION_REQUEST :: u32 where
  "VEHICLE_CMD_ARM_AUTHORIZATION_REQUEST = 3001"

text \<open>The conversion of the timeout to an unsigned integer is undefined outside its range (\<^term>\<open>None\<close>).\<close>

definition arm_auth_param_update :: "auth_params \<Rightarrow> arm_auth \<Rightarrow> arm_auth option" where
  "arm_auth_param_update p a =
     (case f32_to_u64 (f32_mul (com_arm_auth_to p) (f32_of_u64 1000000)) of
        None \<Rightarrow> None
      | Some timeout \<Rightarrow>
          Some (a\<lparr>param_com_arm_auth_timout := timeout,
                  param_com_arm_auth_method :=
                    (if 0 \<le> com_arm_auth_met p \<and> com_arm_auth_met p < 2
                     then (if com_arm_auth_met p = 0 then ARM_AUTH_METHOD_ARM_REQ
                           else ARM_AUTH_METHOD_TWO_ARM_REQ)
                     else ARM_AUTH_METHOD_ARM_REQ),
                  param_com_arm_auth_id := com_arm_auth_id p\<rparr>))"

definition auth_waiting :: "arm_auth \<Rightarrow> bool" where
  "auth_waiting a \<longleftrightarrow>
     auth_state a = ARM_AUTH_WAITING_AUTH \<or> auth_state a = ARM_AUTH_WAITING_AUTH_WITH_ACK"

definition ack_matches :: "u8 \<Rightarrow> arm_auth \<Rightarrow> command_ack \<Rightarrow> bool" where
  "ack_matches system_id a k \<longleftrightarrow>
     ack_command k = VEHICLE_CMD_ARM_AUTHORIZATION_REQUEST \<and> ack_target_system k = system_id
     \<and> ack_timestamp k > auth_req_time a"

text \<open>
  The authorized time: \<^verbatim>\<open>result_param2 * 1000000\<close> is a product of two 32 bit integers, which wraps,
  before it is added to the 64 bit time of the acknowledgement.
\<close>

definition approved_until :: "command_ack \<Rightarrow> hrt_abstime" where
  "approved_until k = ack_timestamp k + scast (ack_result_param2 k * 1000000)"

definition auth_expire :: "hrt_abstime \<Rightarrow> arm_auth \<Rightarrow> arm_auth" where
  "auth_expire now a = (if now > auth_timeout a then a\<lparr>auth_state := ARM_AUTH_IDLE\<rparr> else a)"

definition auth_handle_ack :: "u8 \<Rightarrow> hrt_abstime \<Rightarrow> command_ack option \<Rightarrow> arm_auth \<Rightarrow> arm_auth" where
  "auth_handle_ack system_id now ack a =
     (case ack of
        Some k \<Rightarrow>
          if ack_matches system_id a k then
            if ack_result k = VEHICLE_RESULT_IN_PROGRESS
            then auth_expire now (a\<lparr>auth_state := ARM_AUTH_WAITING_AUTH_WITH_ACK\<rparr>)
            else if ack_result k = VEHICLE_RESULT_ACCEPTED
            then a\<lparr>auth_state := ARM_AUTH_MISSION_APPROVED, auth_timeout := approved_until k\<rparr>
            else a\<lparr>auth_state := ARM_AUTH_IDLE\<rparr>
          else auth_expire now a
      | None \<Rightarrow> auth_expire now a)"

definition auth_poll :: "u8 \<Rightarrow> hrt_abstime \<Rightarrow> command_ack option \<Rightarrow> arm_auth \<Rightarrow> arm_auth" where
  "auth_poll system_id now ack a =
     (case auth_state a of
        ARM_AUTH_WAITING_AUTH \<Rightarrow> auth_handle_ack system_id now ack a
      | ARM_AUTH_WAITING_AUTH_WITH_ACK \<Rightarrow> auth_handle_ack system_id now ack a
      | ARM_AUTH_MISSION_APPROVED \<Rightarrow>
          (if now > auth_timeout a then a\<lparr>auth_state := ARM_AUTH_IDLE\<rparr> else a)
      | ARM_AUTH_IDLE \<Rightarrow> a)"

definition arm_auth_update ::
  "u8 \<Rightarrow> hrt_abstime \<Rightarrow> auth_params option \<Rightarrow> command_ack option \<Rightarrow> arm_auth \<Rightarrow> arm_auth option" where
  "arm_auth_update system_id now param_update ack a =
     map_option (auth_poll system_id now ack)
       (case param_update of Some p \<Rightarrow> arm_auth_param_update p a | None \<Rightarrow> Some a)"

definition auth_request :: "hrt_abstime \<Rightarrow> arm_auth \<Rightarrow> arm_auth" where
  "auth_request now a =
     a\<lparr>auth_req_time := now, auth_timeout := now + param_com_arm_auth_timout a,
       auth_state := ARM_AUTH_WAITING_AUTH\<rparr>"

text \<open>
  The polling loop of the one-step method: a list of polls, each with its time, the parameters it
  reads again and the acknowledgement it finds. A list that ends before the loop does gives \<^term>\<open>None\<close>.
\<close>

fun auth_wait_loop ::
  "u8 \<Rightarrow> (hrt_abstime \<times> auth_params \<times> command_ack option) list \<Rightarrow> arm_auth \<Rightarrow> arm_auth option" where
  "auth_wait_loop system_id [] a = None"
| "auth_wait_loop system_id ((now, p, ack) # polls) a =
     (if now < auth_timeout a then
        case arm_auth_update system_id now (Some p) ack a of
          None \<Rightarrow> None
        | Some a' \<Rightarrow> if auth_waiting a' then auth_wait_loop system_id polls a' else Some a'
      else Some a)"

definition auth_method_arm_req_check ::
  "u8 \<Rightarrow> hrt_abstime \<Rightarrow> (hrt_abstime \<times> auth_params \<times> command_ack option) list \<Rightarrow> arm_auth
   \<Rightarrow> (auth_result \<times> arm_auth) option" where
  "auth_method_arm_req_check system_id now polls a =
     (case auth_state a of
        ARM_AUTH_MISSION_APPROVED \<Rightarrow> Some (RESULT_ACCEPTED, a)
      | ARM_AUTH_IDLE \<Rightarrow>
          (case auth_wait_loop system_id polls (auth_request now a) of
             None \<Rightarrow> None
           | Some a1 \<Rightarrow>
               let a2 = (if auth_waiting a1 then a1\<lparr>auth_state := ARM_AUTH_IDLE\<rparr> else a1)
               in Some (if auth_state a2 = ARM_AUTH_MISSION_APPROVED then RESULT_ACCEPTED
                        else RESULT_DENIED, a2))
      | _ \<Rightarrow> Some (RESULT_DENIED, a))"

definition auth_method_two_arm_check :: "hrt_abstime \<Rightarrow> arm_auth \<Rightarrow> auth_result \<times> arm_auth" where
  "auth_method_two_arm_check now a =
     (case auth_state a of
        ARM_AUTH_MISSION_APPROVED \<Rightarrow> (RESULT_ACCEPTED, a)
      | ARM_AUTH_IDLE \<Rightarrow> (RESULT_TEMPORARILY_REJECTED, auth_request now a)
      | _ \<Rightarrow> (RESULT_TEMPORARILY_REJECTED, a))"

definition arm_auth_check ::
  "u8 \<Rightarrow> hrt_abstime \<Rightarrow> (hrt_abstime \<times> auth_params \<times> command_ack option) list \<Rightarrow> arm_auth
   \<Rightarrow> (auth_result \<times> arm_auth) option" where
  "arm_auth_check system_id now polls a =
     (case param_com_arm_auth_method a of
        ARM_AUTH_METHOD_ARM_REQ \<Rightarrow> auth_method_arm_req_check system_id now polls a
      | ARM_AUTH_METHOD_TWO_ARM_REQ \<Rightarrow> Some (auth_method_two_arm_check now a))"

subsection \<open>Lemmas\<close>

lemma arm_auth_param_update_keeps:
  assumes "arm_auth_param_update p a = Some a'"
  shows "auth_state a' = auth_state a" "auth_timeout a' = auth_timeout a" "auth_req_time a' = auth_req_time a"
  using assms by (auto simp: arm_auth_param_update_def split: option.splits)

lemma auth_expire_simps [simp]:
  "auth_timeout (auth_expire now a) = auth_timeout a"
  "auth_req_time (auth_expire now a) = auth_req_time a"
  "auth_state (auth_expire now a) = (if now > auth_timeout a then ARM_AUTH_IDLE else auth_state a)"
  by (simp_all add: auth_expire_def)

text \<open>A poll approves only on an accepted, matching acknowledgement.\<close>

lemma auth_poll_approves:
  assumes "auth_state (auth_poll system_id now ack a) = ARM_AUTH_MISSION_APPROVED"
    and "auth_state a \<noteq> ARM_AUTH_MISSION_APPROVED"
  shows "\<exists>k. ack = Some k \<and> ack_matches system_id a k \<and> ack_result k = VEHICLE_RESULT_ACCEPTED
           \<and> auth_timeout (auth_poll system_id now ack a) = approved_until k"
  using assms
  by (auto simp: auth_poll_def auth_handle_ack_def split: arm_auth_state.splits option.splits if_splits)

lemma auth_poll_waiting:
  assumes "auth_waiting (auth_poll system_id now ack a)"
  shows "auth_waiting a" "auth_timeout (auth_poll system_id now ack a) = auth_timeout a"
    "auth_req_time (auth_poll system_id now ack a) = auth_req_time a"
  using assms
  by (auto simp: auth_poll_def auth_handle_ack_def auth_waiting_def
      split: arm_auth_state.splits option.splits if_splits)

lemma auth_wait_loop_approves:
  assumes "auth_wait_loop system_id polls a = Some a'" "auth_state a' = ARM_AUTH_MISSION_APPROVED"
    and "auth_waiting a"
  shows "\<exists>now p k. (now, p, Some k) \<in> set polls \<and> ack_matches system_id a k
           \<and> ack_result k = VEHICLE_RESULT_ACCEPTED \<and> now < auth_timeout a"
  using assms
proof (induction system_id polls a rule: auth_wait_loop.induct)
  case (2 system_id now p ack polls a)
  then have lt: "now < auth_timeout a"
    by (auto simp: auth_waiting_def split: if_splits)
  obtain b where b: "arm_auth_param_update p a = Some b"
    using 2 lt by (auto simp: arm_auth_update_def split: option.splits)
  note k = arm_auth_param_update_keeps [OF b]
  let ?b = "auth_poll system_id now ack b"
  have upd: "arm_auth_update system_id now (Some p) ack a = Some ?b"
    by (simp add: arm_auth_update_def b)
  have m: "ack_matches system_id b = ack_matches system_id a"
    using k by (intro ext) (simp add: ack_matches_def)
  show ?case
  proof (cases "auth_waiting ?b")
    case True
    have m': "ack_matches system_id ?b = ack_matches system_id a"
      using auth_poll_waiting [OF True] k by (intro ext) (simp add: ack_matches_def)
    have "\<exists>now p k. (now, p, Some k) \<in> set polls \<and> ack_matches system_id ?b k
           \<and> ack_result k = VEHICLE_RESULT_ACCEPTED \<and> now < auth_timeout ?b"
      using 2 True lt upd by simp
    then show ?thesis
      using m' auth_poll_waiting(2) [OF True] k by auto
  next
    case False
    then have "auth_state ?b = ARM_AUTH_MISSION_APPROVED"
      using 2 lt upd by simp
    moreover have "auth_state b \<noteq> ARM_AUTH_MISSION_APPROVED"
      using 2(4) k by (auto simp: auth_waiting_def)
    ultimately show ?thesis
      using auth_poll_approves [of system_id now ack b] m lt by auto
  qed
qed simp

text \<open>The timeout parameter is in range when its product with a million fits into 64 bits.\<close>

definition auth_params_ok :: "auth_params \<Rightarrow> bool" where
  "auth_params_ok p \<longleftrightarrow> f32_to_u64 (f32_mul (com_arm_auth_to p) (f32_of_u64 1000000)) \<noteq> None"

lemma arm_auth_update_defined:
  assumes "auth_params_ok p"
  shows "\<exists>b. arm_auth_param_update p a = Some b
           \<and> arm_auth_update system_id now (Some p) ack a = Some (auth_poll system_id now ack b)"
  using assms by (auto simp: auth_params_ok_def arm_auth_update_def arm_auth_param_update_def)

lemma auth_wait_loop_ends:
  assumes "\<exists>(now, p, ack) \<in> set polls. now \<ge> auth_timeout a"
    and "\<And>now p ack. (now, p, ack) \<in> set polls \<Longrightarrow> auth_params_ok p"
  shows "\<exists>a'. auth_wait_loop system_id polls a = Some a'"
  using assms
proof (induction system_id polls a rule: auth_wait_loop.induct)
  case (2 system_id now p ack polls a)
  show ?case
  proof (cases "now < auth_timeout a")
    case True
    obtain b where b: "arm_auth_param_update p a = Some b"
        "arm_auth_update system_id now (Some p) ack a = Some (auth_poll system_id now ack b)"
      using arm_auth_update_defined [of p a system_id now ack] 2(3) by auto
    show ?thesis
    proof (cases "auth_waiting (auth_poll system_id now ack b)")
      case w: True
      have t: "auth_timeout (auth_poll system_id now ack b) = auth_timeout a"
        using auth_poll_waiting(2) [OF w] arm_auth_param_update_keeps [OF b(1)] by simp
      have "\<exists>a'. auth_wait_loop system_id polls (auth_poll system_id now ack b) = Some a'"
        using 2(2,3) True by (intro 2(1) [OF True b(2) w]) (auto simp: t)
      then show ?thesis
        using True b(2) w by simp
    qed (use True b in simp)
  qed simp
qed simp

subsection \<open>Properties\<close>

definition auth_example :: "arm_auth_state \<Rightarrow> arm_auth" where
  "auth_example st =
     \<lparr>auth_state = st, auth_timeout = 0, auth_req_time = 0, param_com_arm_auth_timout = 1000000,
      param_com_arm_auth_method = ARM_AUTH_METHOD_ARM_REQ, param_com_arm_auth_id = 10\<rparr>"

definition auth_params_example :: auth_params where
  "auth_params_example = \<lparr>com_arm_auth_to = f32_lit 1, com_arm_auth_met = 0, com_arm_auth_id = 10\<rparr>"

definition ack_example :: "int \<Rightarrow> hrt_abstime \<Rightarrow> command_ack" where
  "ack_example seconds t =
     \<lparr>ack_command = VEHICLE_CMD_ARM_AUTHORIZATION_REQUEST, ack_result = VEHICLE_RESULT_ACCEPTED,
      ack_result_param2 = word_of_int seconds, ack_target_system = 1, ack_timestamp = t\<rparr>"

lemma auth_timeout_example:
  "f32_to_u64 (f32_mul (f32_lit 1) (f32_of_u64 1000000)) = Some 1000000"
  by (simp add: f32_of_u64_def f32_of_real_numeral)

lemma auth_params_example_ok: "auth_params_ok auth_params_example"
  using auth_timeout_example by (simp add: auth_params_ok_def auth_params_example_def)

text \<open>
  C29: arming is authorized only by an authorizer: when \<^verbatim>\<open>arm_auth_check\<close> accepts, either an earlier
  authorization is still in force, or the call found an acknowledgement of the authorization
  command that accepts, is addressed to this system and is newer than the request, before the
  request timed out.
\<close>

theorem arm_auth_check_needs_acceptance:
  assumes "arm_auth_check system_id now polls a = Some (RESULT_ACCEPTED, a')"
  shows "auth_state a = ARM_AUTH_MISSION_APPROVED
    \<or> (\<exists>t p k. (t, p, Some k) \<in> set polls \<and> ack_command k = VEHICLE_CMD_ARM_AUTHORIZATION_REQUEST
         \<and> ack_target_system k = system_id \<and> ack_timestamp k > now
         \<and> ack_result k = VEHICLE_RESULT_ACCEPTED \<and> t < now + param_com_arm_auth_timout a)"
proof (cases "auth_state a = ARM_AUTH_MISSION_APPROVED")
  case False
  then have idle: "auth_state a = ARM_AUTH_IDLE"
    and "param_com_arm_auth_method a = ARM_AUTH_METHOD_ARM_REQ"
    using assms
    by (auto simp: arm_auth_check_def auth_method_arm_req_check_def auth_method_two_arm_check_def
        split: arm_auth_state.splits arm_auth_method.splits)
  then obtain a1 where "auth_wait_loop system_id polls (auth_request now a) = Some a1"
      "auth_state a1 = ARM_AUTH_MISSION_APPROVED"
    using assms
    by (auto simp: arm_auth_check_def auth_method_arm_req_check_def Let_def
        split: option.splits if_splits)
  moreover have "auth_waiting (auth_request now a)"
    by (simp add: auth_waiting_def auth_request_def)
  ultimately have "\<exists>t p k. (t, p, Some k) \<in> set polls \<and> ack_matches system_id (auth_request now a) k
      \<and> ack_result k = VEHICLE_RESULT_ACCEPTED \<and> t < auth_timeout (auth_request now a)"
    by (rule auth_wait_loop_approves)
  then show ?thesis
    by (simp add: ack_matches_def auth_request_def)
qed simp

theorem arm_auth_check_needs_acceptance_witness:
  "\<exists>a'. arm_auth_check 1 100 [(600, auth_params_example, Some (ack_example 60 500))]
       (auth_example ARM_AUTH_IDLE) = Some (RESULT_ACCEPTED, a')
   \<and> (\<exists>t p k. (t, p, Some k) \<in> set [(600, auth_params_example, Some (ack_example 60 500))]
         \<and> ack_timestamp k > 100)"
proof -
  have ex: "\<exists>a'. arm_auth_check 1 100 [(600, auth_params_example, Some (ack_example 60 500))]
       (auth_example ARM_AUTH_IDLE) = Some (RESULT_ACCEPTED, a')"
    using auth_timeout_example
    by (simp add: arm_auth_check_def auth_method_arm_req_check_def auth_request_def auth_example_def
        arm_auth_update_def arm_auth_param_update_def auth_params_example_def auth_poll_def
        auth_handle_ack_def ack_matches_def ack_example_def auth_waiting_def Let_def
        VEHICLE_RESULT_IN_PROGRESS_def VEHICLE_RESULT_ACCEPTED_def)
  then obtain a' where "arm_auth_check 1 100 [(600, auth_params_example, Some (ack_example 60 500))]
       (auth_example ARM_AUTH_IDLE) = Some (RESULT_ACCEPTED, a')"
    by blast
  from arm_auth_check_needs_acceptance [OF this] this show ?thesis
    by (auto simp: auth_example_def)
qed

text \<open>
  C39: the one-step authorization, which blocks the commander, returns: as soon as one poll reads a
  clock that has reached the timeout of the request, the loop has ended with a result. The only
  other requirement is a timeout parameter that fits into 64 bits.
\<close>

theorem arm_auth_check_returns:
  assumes "\<exists>(t, p, ack) \<in> set polls. t \<ge> now + param_com_arm_auth_timout a"
    and "\<And>t p ack. (t, p, ack) \<in> set polls \<Longrightarrow> auth_params_ok p"
  shows "\<exists>r a'. arm_auth_check system_id now polls a = Some (r, a')"
proof -
  have "\<exists>a'. auth_wait_loop system_id polls (auth_request now a) = Some a'"
    using assms by (intro auth_wait_loop_ends) (auto simp: auth_request_def)
  then show ?thesis
    by (auto simp: arm_auth_check_def auth_method_arm_req_check_def Let_def
        split: arm_auth_method.splits arm_auth_state.splits)
qed

theorem arm_auth_check_returns_witness:
  "\<exists>r a'. arm_auth_check 1 100 [(600, auth_params_example, None), (1000100, auth_params_example, None)]
     (auth_example ARM_AUTH_IDLE) = Some (r, a')"
  by (rule arm_auth_check_returns) (auto simp: auth_example_def auth_params_example_ok)

text \<open>
  An authorization for 2148 seconds is lost: the product that gives the end of the authorized
  period wraps around at 32 bits, the period ends before the acknowledgement that grants it, and
  the next update of the state withdraws the authorization.
\<close>

theorem long_authorization_withdrawn:
  assumes "2146967296 < t" and "t \<le> now"
  shows "auth_state (auth_poll system_id now None
           (a\<lparr>auth_state := ARM_AUTH_MISSION_APPROVED, auth_timeout := approved_until (ack_example 2148 t)\<rparr>))
         = ARM_AUTH_IDLE"
proof -
  have "scast (word_of_int 2148 * 1000000 :: 32 word) = (- 2146967296 :: u64)"
    by simp
  then have "approved_until (ack_example 2148 t) = t - 2146967296"
    by (simp add: approved_until_def ack_example_def)
  moreover have "t - 2146967296 < t"
    using assms(1) by (simp add: word_less_nat_alt unat_sub_if' split: if_splits)
  ultimately show ?thesis
    using assms(2) by (simp add: auth_poll_def)
qed

theorem long_authorization_withdrawn_witness:
  "auth_state (auth_poll 1 5000000001 None
     (auth_example ARM_AUTH_IDLE\<lparr>auth_state := ARM_AUTH_MISSION_APPROVED,
        auth_timeout := approved_until (ack_example 2148 5000000000)\<rparr>)) = ARM_AUTH_IDLE"
  by (rule long_authorization_withdrawn) simp_all

end
