(* ===== verification/Arm_State_Machine.thy ===== *)
theory Arm_State_Machine
  imports Preflight Arm_Auth
begin

text \<open>
  The arming state machine (\<^verbatim>\<open>Arming/ArmStateMachine\<close>), the safety button (\<^verbatim>\<open>Safety.cpp\<close>) and the
  operations of the commander that use them: \<^verbatim>\<open>Commander::arm\<close>, \<^verbatim>\<open>Commander::disarm\<close> and
  \<^verbatim>\<open>Commander::shutdown_if_allowed\<close>. The structures that are passed by reference and the member
  \<^verbatim>\<open>_last_preflight_check\<close> are the record \<^verbatim>\<open>arm_ctx\<close>; the state of the arming authorization is
  its last field and the call of the authorizer the argument \<^verbatim>\<open>auth\<close>.
\<close>

subsection \<open>The state machine\<close>

record 'a arm_ctx =
  ac_status :: vehicle_status
  ac_armed :: actuator_armed
  ac_flags :: vehicle_status_flags
  ac_last_preflight_check :: hrt_abstime
  ac_auth :: 'a

record 'a arm_env =
  ae_now :: hrt_abstime
  ae_preflight :: preflight_env
  ae_control_mode :: vehicle_control_mode
  ae_safety :: safety
  ae_requirements :: arm_requirements
  ae_time_since_boot :: hrt_abstime
  ae_authorize :: "'a \<Rightarrow> bool \<times> 'a"

fun arming_state_index :: "arming_state_t \<Rightarrow> nat" where
  "arming_state_index ARMING_STATE_INIT = 0"
| "arming_state_index ARMING_STATE_STANDBY = 1"
| "arming_state_index ARMING_STATE_ARMED = 2"
| "arming_state_index ARMING_STATE_STANDBY_ERROR = 3"
| "arming_state_index ARMING_STATE_SHUTDOWN = 4"
| "arming_state_index ARMING_STATE_IN_AIR_RESTORE = 5"

text \<open>The rows are the new state, the columns the current state.\<close>

definition arming_transitions :: "bool list list" where
  "arming_transitions =
     [[True,  True,  False, True,  False, False],
      [True,  True,  True,  False, False, False],
      [False, True,  True,  False, False, True],
      [True,  True,  True,  True,  False, False],
      [True,  True,  False, True,  True,  True],
      [False, False, False, False, False, False]]"

definition arming_transition_valid :: "arming_state_t \<Rightarrow> arming_state_t \<Rightarrow> bool" where
  "arming_transition_valid new cur = arming_transitions ! arming_state_index new ! arming_state_index cur"

text \<open>The preflight check of an arming request, and the periodic one while the sensors are failing.\<close>

definition arm_preflight ::
  "'a arm_env \<Rightarrow> arming_state_t \<Rightarrow> bool \<Rightarrow> 'a arm_ctx \<Rightarrow> bool \<times> 'a arm_ctx" where
  "arm_preflight e new fRunPreArmChecks c =
     (if fRunPreArmChecks \<and> new = ARMING_STATE_ARMED \<and> hil_state (ac_status c) \<noteq> HIL_STATE_ON then
        let (ok, s, fl) = preflightCheck (ae_preflight e) (ae_control_mode e) True True
                            (ae_time_since_boot e) (ac_status c) (ac_flags c)
        in (ok, c\<lparr>ac_status := s,
                  ac_flags := (if ok then fl\<lparr>system_sensors_initialized := True\<rparr> else fl)\<rparr>)
      else (True, c))"

definition arm_recheck :: "'a arm_env \<Rightarrow> arming_state_t \<Rightarrow> bool \<Rightarrow> 'a arm_ctx \<Rightarrow> 'a arm_ctx" where
  "arm_recheck e new fRunPreArmChecks c =
     (if \<not> system_sensors_initialized (ac_flags c) \<and> fRunPreArmChecks
         \<and> (new = ARMING_STATE_ARMED \<or> new = ARMING_STATE_STANDBY)
         \<and> hil_state (ac_status c) \<noteq> HIL_STATE_ON
         \<and> (ac_last_preflight_check c = 0
            \<or> hrt_elapsed_time (ae_now e) (ac_last_preflight_check c) > 1000 * 1000) then
        let (ok, s, fl) = preflightCheck (ae_preflight e) (ae_control_mode e) False
                            (arming_state (ac_status c) \<noteq> ARMING_STATE_ARMED)
                            (ae_time_since_boot e) (ac_status c) (ac_flags c)
        in c\<lparr>ac_status := s, ac_flags := fl\<lparr>system_sensors_initialized := ok\<rparr>,
             ac_last_preflight_check := ae_now e\<rparr>
      else c)"

definition arm_validate ::
  "'a arm_env \<Rightarrow> arming_state_t \<Rightarrow> bool \<Rightarrow> bool \<Rightarrow> 'a arm_ctx \<Rightarrow> bool \<times> 'a arm_ctx" where
  "arm_validate e new fRunPreArmChecks preflight_check_ret c =
     (let valid = arming_transition_valid new (arming_state (ac_status c))
      in if valid \<and> new = ARMING_STATE_ARMED
            \<and> arming_state (ac_status c) \<noteq> ARMING_STATE_IN_AIR_RESTORE then
           let (prearm_check_ret, c1) =
                 (if fRunPreArmChecks \<and> preflight_check_ret then
                    let (ok, a, s) = preArmCheck (ac_flags c) (ae_control_mode e) (ae_safety e)
                                       (ae_requirements e) (ae_authorize e) (ac_auth c) (ac_status c)
                    in (ok, c\<lparr>ac_status := s, ac_auth := a\<rparr>)
                  else (True, c))
           in (if \<not> preflight_check_ret \<or> \<not> prearm_check_ret then False else valid, c1)
         else (valid, c))"

definition arm_hil :: "arming_state_t \<Rightarrow> bool \<times> 'a arm_ctx \<Rightarrow> bool \<times> 'a arm_ctx" where
  "arm_hil new vc =
     (let (valid, c) = vc
      in if hil_state (ac_status c) = HIL_STATE_ON then
           let c1 = c\<lparr>ac_armed := (ac_armed c)\<lparr>lockdown := True\<rparr>,
                      ac_flags := (ac_flags c)\<lparr>system_sensors_initialized := True\<rparr>\<rparr>;
               c2 = (if arming_state (ac_status c1) = ARMING_STATE_STANDBY_ERROR
                     then c1\<lparr>ac_status := (ac_status c1)\<lparr>arming_state := ARMING_STATE_STANDBY\<rparr>\<rparr> else c1)
           in (if new = ARMING_STATE_STANDBY then True else valid, c2)
         else (valid, c))"

definition arm_standby :: "arming_state_t \<Rightarrow> bool \<times> 'a arm_ctx \<Rightarrow> bool \<times> 'a arm_ctx" where
  "arm_standby new vc =
     (let (valid, c) = vc
      in if hil_state (ac_status c) \<noteq> HIL_STATE_ON \<and> new = ARMING_STATE_STANDBY
            \<and> arming_state (ac_status c) \<noteq> ARMING_STATE_STANDBY_ERROR
            \<and> \<not> system_sensors_initialized (ac_flags c)
         then (False, c) else (valid, c))"

definition arm_finish ::
  "hrt_abstime \<Rightarrow> arming_state_t \<Rightarrow> u8 \<Rightarrow> bool \<times> 'a arm_ctx \<Rightarrow> transition_result \<times> 'a arm_ctx" where
  "arm_finish now new calling_reason vc =
     (let (valid, c) = vc
      in if valid then
           let was_armed = armed (ac_armed c);
               is_arm = (new = ARMING_STATE_ARMED);
               a1 = (ac_armed c)\<lparr>armed := is_arm,
                                 ready_to_arm := (is_arm \<or> new = ARMING_STATE_STANDBY)\<rparr>;
               s1 = (ac_status c)\<lparr>arming_state := new\<rparr>;
               s2 = (if was_armed \<and> \<not> is_arm then s1\<lparr>latest_disarming_reason := calling_reason\<rparr>
                     else if \<not> was_armed \<and> is_arm then s1\<lparr>latest_arming_reason := calling_reason\<rparr>
                     else s1);
               s3 = s2\<lparr>armed_time := (if is_arm then now else 0)\<rparr>
           in (TRANSITION_CHANGED, c\<lparr>ac_armed := a1, ac_status := s3\<rparr>)
         else (TRANSITION_DENIED, c))"

definition arming_state_transition ::
  "'a arm_env \<Rightarrow> arming_state_t \<Rightarrow> bool \<Rightarrow> u8 \<Rightarrow> 'a arm_ctx \<Rightarrow> transition_result \<times> 'a arm_ctx" where
  "arming_state_transition e new fRunPreArmChecks calling_reason c =
     (if new = arming_state (ac_status c) then (TRANSITION_NOT_CHANGED, c)
      else
        let (preflight_check_ret, c1) = arm_preflight e new fRunPreArmChecks c;
            c2 = arm_recheck e new fRunPreArmChecks c1
        in arm_finish (ae_now e) new calling_reason
             (arm_standby new (arm_hil new (arm_validate e new fRunPreArmChecks preflight_check_ret c2))))"

subsection \<open>The safety button\<close>

record safety_handler =
  sh_safety :: safety
  sh_safety_disabled :: bool
  sh_previous_safety_off :: bool

definition safetyButtonHandler ::
  "hrt_abstime \<Rightarrow> bool \<Rightarrow> bool list \<Rightarrow> safety_handler \<Rightarrow> safety option \<times> safety_handler" where
  "safetyButtonHandler now advertised button_events h =
     (let sf = sh_safety h;
          sf1 = (if sh_safety_disabled h then sf\<lparr>safety_switch_available := True, safety_off := True\<rparr>
                 else
                   let sf2 = (if \<not> safety_switch_available sf \<and> advertised
                              then sf\<lparr>safety_switch_available := True\<rparr> else sf)
                   in fold (\<lambda>triggered x. x\<lparr>safety_off := (safety_off x \<or> triggered)\<rparr>) button_events sf2);
          publish = (hrt_elapsed_time now (safety_timestamp sf1) \<ge> 1000000
                     \<or> safety_off sf1 \<noteq> sh_previous_safety_off h);
          sf3 = (if publish then sf1\<lparr>safety_timestamp := now\<rparr> else sf1)
      in (if publish then Some sf3 else None,
          h\<lparr>sh_safety := sf3, sh_previous_safety_off := safety_off sf3\<rparr>))"

definition enableSafety :: "safety_handler \<Rightarrow> safety_handler" where
  "enableSafety h = h\<lparr>sh_safety := (sh_safety h)\<lparr>safety_off := False\<rparr>\<rparr>"

subsection \<open>The commander's operations\<close>

datatype arm_disarm_reason =
    reason_transition_to_standby | reason_rc_stick | reason_rc_switch | reason_command_internal
  | reason_command_external | reason_mission_start | reason_safety_button
  | reason_auto_disarm_land | reason_auto_disarm_preflight | reason_kill_switch | reason_lockdown
  | reason_failure_detector | reason_shutdown | reason_unit_test | reason_rc_button

fun reason_code :: "arm_disarm_reason \<Rightarrow> u8" where
  "reason_code reason_transition_to_standby = 0"
| "reason_code reason_rc_stick = 1"
| "reason_code reason_rc_switch = 2"
| "reason_code reason_command_internal = 3"
| "reason_code reason_command_external = 4"
| "reason_code reason_mission_start = 5"
| "reason_code reason_safety_button = 6"
| "reason_code reason_auto_disarm_land = 7"
| "reason_code reason_auto_disarm_preflight = 8"
| "reason_code reason_kill_switch = 9"
| "reason_code reason_lockdown = 10"
| "reason_code reason_failure_detector = 11"
| "reason_code reason_shutdown = 12"
| "reason_code reason_unit_test = 13"
| "reason_code reason_rc_button = 14"

record arm_inputs =
  ai_last_disarmed_timestamp :: hrt_abstime
  ai_is_throttle_above_center :: bool
  ai_is_throttle_low :: bool
  ai_geofence_action_rtl :: bool
  ai_landed :: bool
  ai_maybe_landed :: bool
  ai_is_ground_rover :: bool
  ai_com_force_safety :: bool

definition by_rc :: "arm_disarm_reason \<Rightarrow> bool" where
  "by_rc r \<longleftrightarrow> r = reason_rc_stick \<or> r = reason_rc_switch \<or> r = reason_rc_button"

definition arm_refused ::
  "'a arm_env \<Rightarrow> arm_inputs \<Rightarrow> arm_disarm_reason \<Rightarrow> 'a arm_ctx \<Rightarrow> bool" where
  "arm_refused e inp reason c =
     (let cm = ae_control_mode e; s = ac_status c
      in (if flag_control_manual_enabled cm then
            (flag_control_climb_rate_enabled cm \<and> \<not> rc_signal_lost s \<and> ai_is_throttle_above_center inp)
            \<or> (\<not> flag_control_climb_rate_enabled cm \<and> \<not> rc_signal_lost s \<and> \<not> ai_is_throttle_low inp
               \<and> vehicle_type s \<noteq> VEHICLE_TYPE_ROVER)
          else by_rc reason)
         \<or> (ai_geofence_action_rtl inp \<and> \<not> home_position_valid (ac_flags c)))"

definition cmd_arm ::
  "'a arm_env \<Rightarrow> arm_inputs \<Rightarrow> arm_disarm_reason \<Rightarrow> bool \<Rightarrow> 'a arm_ctx
   \<Rightarrow> transition_result \<times> 'a arm_ctx" where
  "cmd_arm e inp reason run_preflight_checks c =
     (let run = (if reason = reason_rc_switch
                    \<and> hrt_elapsed_time (ae_now e) (ai_last_disarmed_timestamp inp) < 5000000
                 then False else run_preflight_checks)
      in if run \<and> \<not> armed (ac_armed c) \<and> arm_refused e inp reason c then (TRANSITION_DENIED, c)
         else arming_state_transition e ARMING_STATE_ARMED run (reason_code reason) c)"

definition disarm_refused ::
  "'a arm_env \<Rightarrow> arm_inputs \<Rightarrow> arm_disarm_reason \<Rightarrow> 'a arm_ctx \<Rightarrow> bool" where
  "disarm_refused e inp reason c =
     (let on_ground = (ai_landed inp \<or> ai_maybe_landed inp \<or> ai_is_ground_rover inp);
          mc_manual_thrust_mode = (is_rotary_wing (ac_status c)
            \<and> flag_control_manual_enabled (ae_control_mode e)
            \<and> \<not> flag_control_climb_rate_enabled (ae_control_mode e))
      in \<not> on_ground \<and> \<not> (mc_manual_thrust_mode \<and> by_rc reason))"

definition cmd_disarm ::
  "'a arm_env \<Rightarrow> arm_inputs \<Rightarrow> arm_disarm_reason \<Rightarrow> bool \<Rightarrow> safety_handler \<Rightarrow> 'a arm_ctx
   \<Rightarrow> transition_result \<times> safety_handler \<times> 'a arm_ctx" where
  "cmd_disarm e inp reason forced h c =
     (if \<not> forced \<and> disarm_refused e inp reason c then (TRANSITION_DENIED, h, c)
      else
        let (r, c1) = arming_state_transition e ARMING_STATE_STANDBY False (reason_code reason) c
        in (r, if r = TRANSITION_CHANGED \<and> ai_com_force_safety inp then enableSafety h else h, c1))"

definition shutdown_if_allowed :: "'a arm_env \<Rightarrow> 'a arm_ctx \<Rightarrow> bool \<times> 'a arm_ctx" where
  "shutdown_if_allowed e c =
     (let (r, c1) = arming_state_transition e ARMING_STATE_SHUTDOWN False (reason_code reason_shutdown) c
      in (r \<noteq> TRANSITION_DENIED, c1))"

text \<open>The state that an arm command of the IO processor enters before the transition.\<close>

definition flick_to_restore :: "'a arm_ctx \<Rightarrow> 'a arm_ctx" where
  "flick_to_restore c = c\<lparr>ac_status := (ac_status c)\<lparr>arming_state := ARMING_STATE_IN_AIR_RESTORE\<rparr>\<rparr>"

text \<open>
  \<^verbatim>\<open>VEHICLE_CMD_COMPONENT_ARM_DISARM\<close>. The rounded values of the command's parameters are arguments:
  the requested action (\<^term>\<open>None\<close> for an unsupported one, \<^term>\<open>Some True\<close> to arm), whether the
  command is forced, and whether it comes from this system and its IO processor.
\<close>

definition component_arm_disarm ::
  "'a arm_env \<Rightarrow> arm_inputs \<Rightarrow> bool option \<Rightarrow> bool \<Rightarrow> bool \<Rightarrow> bool \<Rightarrow> safety_handler \<Rightarrow> 'a arm_ctx
   \<Rightarrow> bool option \<times> safety_handler \<times> 'a arm_ctx" where
  "component_arm_disarm e inp action forced from_own_io from_external h c =
     (let reason = (if from_external then reason_command_external else reason_command_internal)
      in case action of
           None \<Rightarrow> (None, h, c)
         | Some True \<Rightarrow>
             (let c1 = (if \<not> forced \<and> from_own_io
                        then flick_to_restore c
                        else c);
                  (r, c2) = cmd_arm e inp reason (from_external \<or> \<not> forced) c1
              in (Some (r \<noteq> TRANSITION_DENIED), h, c2))
         | Some False \<Rightarrow>
             (let (r, h1, c1) = cmd_disarm e inp reason forced h c
              in (Some (r \<noteq> TRANSITION_DENIED), h1, c1)))"

subsection \<open>What the stages keep\<close>

lemma transition_table [simp]:
  "arming_transition_valid ARMING_STATE_ARMED cur \<longleftrightarrow>
     cur \<in> {ARMING_STATE_STANDBY, ARMING_STATE_ARMED, ARMING_STATE_IN_AIR_RESTORE}"
  "arming_transition_valid ARMING_STATE_STANDBY cur \<longleftrightarrow>
     cur \<in> {ARMING_STATE_INIT, ARMING_STATE_STANDBY, ARMING_STATE_ARMED}"
  "\<not> arming_transition_valid ARMING_STATE_IN_AIR_RESTORE cur"
  by (cases cur; simp add: arming_transition_valid_def arming_transitions_def)+

lemma transition_table_shutdown [simp]:
  "arming_transition_valid new ARMING_STATE_SHUTDOWN \<longleftrightarrow> new = ARMING_STATE_SHUTDOWN"
  by (cases new; simp add: arming_transition_valid_def arming_transitions_def)

text \<open>The part of the state that the checks do not touch.\<close>

definition same_arming :: "'a arm_ctx \<Rightarrow> 'a arm_ctx \<Rightarrow> bool" where
  "same_arming c c' \<longleftrightarrow>
     strip_health (ac_status c') = strip_health (ac_status c) \<and> ac_armed c' = ac_armed c
     \<and> (system_sensors_initialized (ac_flags c) \<longrightarrow> system_sensors_initialized (ac_flags c'))"

lemma same_arming_refl [simp]: "same_arming c c"
  by (simp add: same_arming_def)

lemma same_arming_trans: "same_arming c c' \<Longrightarrow> same_arming c' c'' \<Longrightarrow> same_arming c c''"
  by (simp add: same_arming_def)

lemma same_armingD:
  assumes "same_arming c c'"
  shows "arming_state (ac_status c') = arming_state (ac_status c)"
    "hil_state (ac_status c') = hil_state (ac_status c)"
    "armed_time (ac_status c') = armed_time (ac_status c)" "ac_armed c' = ac_armed c"
    "system_sensors_initialized (ac_flags c) \<Longrightarrow> system_sensors_initialized (ac_flags c')"
proof -
  have e: "strip_health (ac_status c') = strip_health (ac_status c)"
    using assms by (simp add: same_arming_def)
  show "arming_state (ac_status c') = arming_state (ac_status c)"
    "hil_state (ac_status c') = hil_state (ac_status c)"
    "armed_time (ac_status c') = armed_time (ac_status c)"
    using strip_health_eqD(1,2,8) [OF e] .
  show "ac_armed c' = ac_armed c"
    "system_sensors_initialized (ac_flags c) \<Longrightarrow> system_sensors_initialized (ac_flags c')"
    using assms by (simp_all add: same_arming_def)
qed

lemma preflight_initialized [simp]:
  "system_sensors_initialized (snd (snd (preflightCheck env cm r pre t s fl))) =
     system_sensors_initialized fl"
  using strip_preflight_flags_eqD(3) [OF preflightCheck_flags] .

lemma stage_same_arming:
  "same_arming c (snd (arm_preflight e new run c))"
  "same_arming c (arm_recheck e new run c)"
  "same_arming c (snd (arm_validate e new run ret c))"
  by (simp_all add: same_arming_def arm_preflight_def arm_recheck_def arm_validate_def Let_def
      case_prod_beta)

text \<open>The context and the verdict that reach the HIL stage.\<close>

definition arm_checked :: "'a arm_env \<Rightarrow> arming_state_t \<Rightarrow> bool \<Rightarrow> 'a arm_ctx \<Rightarrow> bool \<times> 'a arm_ctx" where
  "arm_checked e new run c =
     (let (ret, c1) = arm_preflight e new run c
      in arm_validate e new run ret (arm_recheck e new run c1))"

lemma arm_checked_same_arming: "same_arming c (snd (arm_checked e new run c))"
  unfolding arm_checked_def case_prod_beta Let_def
  by (rule same_arming_trans [OF same_arming_trans [OF stage_same_arming(1) stage_same_arming(2)]
        stage_same_arming(3)])


lemma arming_state_transition_eq:
  "arming_state_transition e new run reason c =
     (if new = arming_state (ac_status c) then (TRANSITION_NOT_CHANGED, c)
      else arm_finish (ae_now e) new reason (arm_standby new (arm_hil new (arm_checked e new run c))))"
  by (simp add: arming_state_transition_def arm_checked_def Let_def case_prod_beta)

subsection \<open>The contract of the arming state machine\<close>

text \<open>
  The actuators are armed exactly in the state \<^verbatim>\<open>ARMED\<close>, the arming time is zero outside it, and
  the sensors are marked as initialized, as the constructor of the commander does.
\<close>

definition arm_inv :: "'a arm_ctx \<Rightarrow> bool" where
  "arm_inv c \<longleftrightarrow>
     armed (ac_armed c) = is_armed (ac_status c)
     \<and> (\<not> is_armed (ac_status c) \<longrightarrow> armed_time (ac_status c) = 0)
     \<and> system_sensors_initialized (ac_flags c)"

locale arming_service =
  fixes transit :: "'e \<Rightarrow> arming_state_t \<Rightarrow> bool \<Rightarrow> u8 \<Rightarrow> 'a arm_ctx \<Rightarrow> transition_result \<times> 'a arm_ctx"
  assumes transit_changed:
      "fst (transit e new run r c) = TRANSITION_CHANGED
       \<Longrightarrow> arming_state (ac_status (snd (transit e new run r c))) = new"
    and transit_not_changed:
      "fst (transit e new run r c) = TRANSITION_NOT_CHANGED \<Longrightarrow> snd (transit e new run r c) = c"
    and transit_inv: "arm_inv c \<Longrightarrow> arm_inv (snd (transit e new run r c))"
begin

text \<open>A sequence of requests, each in its own environment.\<close>

fun serve :: "('e \<times> arming_state_t \<times> bool \<times> u8) list \<Rightarrow> 'a arm_ctx \<Rightarrow> 'a arm_ctx" where
  "serve [] c = c"
| "serve ((e, new, run, r) # reqs) c = serve reqs (snd (transit e new run r c))"

lemma serve_inv: "arm_inv c \<Longrightarrow> arm_inv (serve reqs c)"
  by (induction reqs c rule: serve.induct) (simp_all add: transit_inv)

lemma served_armed_flag:
  "arm_inv c \<Longrightarrow> armed (ac_armed (serve reqs c)) = is_armed (ac_status (serve reqs c))"
  using serve_inv by (auto simp: arm_inv_def)

end

lemma arm_hil_inv:
  assumes "arm_inv (snd vc)"
  shows "arm_inv (snd (arm_hil new vc))"
  using assms by (auto simp: arm_hil_def arm_inv_def Let_def case_prod_beta)

lemma arm_standby_snd [simp]: "snd (arm_standby new vc) = snd vc"
  by (simp add: arm_standby_def Let_def case_prod_beta)

lemma arm_finish_inv:
  assumes "arm_inv (snd vc)"
  shows "arm_inv (snd (arm_finish now new r vc))"
  using assms by (simp add: arm_finish_def arm_inv_def Let_def case_prod_beta)

lemma arm_finish_changed:
  "fst (arm_finish now new r vc) = TRANSITION_CHANGED \<longleftrightarrow> fst vc"
  "fst vc \<Longrightarrow> arming_state (ac_status (snd (arm_finish now new r vc))) = new"
  "fst (arm_finish now new r vc) \<noteq> TRANSITION_NOT_CHANGED"
  by (simp_all add: arm_finish_def Let_def case_prod_beta)

lemma same_arming_inv: "same_arming c c' \<Longrightarrow> arm_inv c \<Longrightarrow> arm_inv c'"
  using same_armingD [of c c'] by (auto simp: arm_inv_def)

interpretation arm_machine: arming_service arming_state_transition
proof
  fix e :: "'a arm_env" and new run r and c :: "'a arm_ctx"
  show "fst (arming_state_transition e new run r c) = TRANSITION_CHANGED
       \<Longrightarrow> arming_state (ac_status (snd (arming_state_transition e new run r c))) = new"
    by (auto simp: arming_state_transition_eq arm_finish_changed split: if_splits)
  show "fst (arming_state_transition e new run r c) = TRANSITION_NOT_CHANGED
       \<Longrightarrow> snd (arming_state_transition e new run r c) = c"
    by (simp add: arming_state_transition_eq arm_finish_changed split: if_splits)
  show "arm_inv c \<Longrightarrow> arm_inv (snd (arming_state_transition e new run r c))"
    using same_arming_inv [OF arm_checked_same_arming [of c e new run]]
    by (simp add: arming_state_transition_eq arm_finish_inv arm_hil_inv)
qed

subsection \<open>Reachable states\<close>

text \<open>
  The steps of the commander that go through the arming state machine: the arm and disarm requests
  of the operator, the shutdown, the MAVLink command, the start of a calibration and the step from
  \<^verbatim>\<open>INIT\<close> to \<^verbatim>\<open>STANDBY\<close> in the main loop. The environments of the steps are arbitrary.
\<close>

inductive arm_step :: "'a arm_ctx \<Rightarrow> 'a arm_ctx \<Rightarrow> bool" where
  step_arm: "arm_step c (snd (cmd_arm e inp reason run c))"
| step_disarm: "arm_step c (snd (snd (cmd_disarm e inp reason forced h c)))"
| step_shutdown: "arm_step c (snd (shutdown_if_allowed e c))"
| step_command: "arm_step c (snd (snd (component_arm_disarm e inp action forced own ext h c)))"
| step_calibrate: "arm_step c (snd (arming_state_transition e ARMING_STATE_INIT False r c))"
| step_proceed: "arm_step c (snd (arming_state_transition e ARMING_STATE_STANDBY True r c))"

inductive_cases arm_stepE: "arm_step c c'"

lemma restore_checked:
  assumes "arming_state (ac_status c) = ARMING_STATE_IN_AIR_RESTORE"
  shows "fst (arm_checked e ARMING_STATE_ARMED run c)"
proof -
  let ?c2 = "arm_recheck e ARMING_STATE_ARMED run (snd (arm_preflight e ARMING_STATE_ARMED run c))"
  have "arming_state (ac_status ?c2) = ARMING_STATE_IN_AIR_RESTORE"
    using same_armingD(1) [OF same_arming_trans [OF stage_same_arming(1) stage_same_arming(2)]] assms
    by metis
  then show ?thesis
    by (simp add: arm_checked_def arm_validate_def Let_def case_prod_beta)
qed

lemma restore_arms:
  assumes "arming_state (ac_status c) = ARMING_STATE_IN_AIR_RESTORE"
  shows "fst (arming_state_transition e ARMING_STATE_ARMED run r c) = TRANSITION_CHANGED"
proof -
  have "fst (arm_standby ARMING_STATE_ARMED (arm_hil ARMING_STATE_ARMED (arm_checked e ARMING_STATE_ARMED run c)))"
    using restore_checked [OF assms, of e run]
    by (simp add: arm_standby_def arm_hil_def Let_def case_prod_beta)
  then show ?thesis
    using assms by (simp add: arming_state_transition_eq arm_finish_changed)
qed

lemma changed_to_armed_inv:
  assumes "fst (arming_state_transition e ARMING_STATE_ARMED run r c) = TRANSITION_CHANGED"
    and "system_sensors_initialized (ac_flags c)"
  shows "arm_inv (snd (arming_state_transition e ARMING_STATE_ARMED run r c))"
proof -
  let ?vc = "arm_standby ARMING_STATE_ARMED (arm_hil ARMING_STATE_ARMED (arm_checked e ARMING_STATE_ARMED run c))"
  have eq: "arming_state_transition e ARMING_STATE_ARMED run r c = arm_finish (ae_now e) ARMING_STATE_ARMED r ?vc"
    using assms(1) by (simp add: arming_state_transition_eq split: if_splits)
  have v: "fst ?vc"
    using assms(1) unfolding eq arm_finish_changed .
  have "system_sensors_initialized (ac_flags (snd (arm_checked e ARMING_STATE_ARMED run c)))"
    using same_armingD(5) [OF arm_checked_same_arming assms(2)] .
  then have "system_sensors_initialized (ac_flags (snd ?vc))"
    by (simp add: arm_hil_def Let_def case_prod_beta)
  then show ?thesis
    using v by (simp add: eq arm_finish_def arm_inv_def Let_def case_prod_beta)
qed

lemma cmd_arm_inv: "arm_inv c \<Longrightarrow> arm_inv (snd (cmd_arm e inp reason run c))"
  by (simp add: cmd_arm_def Let_def arm_machine.transit_inv)

lemma flick_to_restore_simps [simp]:
  "arming_state (ac_status (flick_to_restore c)) = ARMING_STATE_IN_AIR_RESTORE"
  "armed_time (ac_status (flick_to_restore c)) = armed_time (ac_status c)"
  "ac_armed (flick_to_restore c) = ac_armed c"
  "ac_flags (flick_to_restore c) = ac_flags c"
  by (simp_all add: flick_to_restore_def)

lemma cmd_arm_restore_inv:
  assumes "arm_inv c"
  shows "arm_inv (snd (cmd_arm e inp reason run (flick_to_restore c)))"
proof (cases "armed (ac_armed c)")
  case True
  have "arm_inv (snd (arming_state_transition e ARMING_STATE_ARMED run' r (flick_to_restore c)))" for run' r
    using assms by (intro changed_to_armed_inv restore_arms) (simp_all add: arm_inv_def)
  then show ?thesis
    using True by (simp add: cmd_arm_def Let_def)
next
  case False
  then have "arm_inv (flick_to_restore c)"
    using assms by (simp add: arm_inv_def)
  then show ?thesis
    by (rule cmd_arm_inv)
qed

lemma command_inv:
  assumes "arm_inv c"
  shows "arm_inv (snd (snd (component_arm_disarm e inp action forced own ext h c)))"
proof (cases action)
  case (Some b)
  then show ?thesis
    using assms
    by (cases b; cases "\<not> forced \<and> own")
       (simp_all add: component_arm_disarm_def cmd_disarm_def Let_def case_prod_beta
          arm_machine.transit_inv cmd_arm_inv cmd_arm_restore_inv)
qed (use assms in \<open>simp add: component_arm_disarm_def\<close>)

lemma arm_step_inv:
  assumes "arm_step c c'" "arm_inv c"
  shows "arm_inv c'"
  using assms
  by cases (simp_all add: cmd_disarm_def shutdown_if_allowed_def Let_def case_prod_beta cmd_arm_inv
      arm_machine.transit_inv command_inv)

lemma arm_reachable_inv:
  assumes "arm_step\<^sup>*\<^sup>* c c'" "arm_inv c"
  shows "arm_inv c'"
  using assms by (induction rule: rtranclp_induct) (auto intro: arm_step_inv)

text \<open>In the invariant a transition to \<^verbatim>\<open>STANDBY\<close> from the armed state is never refused.\<close>

lemma disarm_transition:
  assumes "arm_inv c" "is_armed (ac_status c)"
  shows "fst (arming_state_transition e ARMING_STATE_STANDBY False r c) = TRANSITION_CHANGED"
proof -
  let ?k = "arm_checked e ARMING_STATE_STANDBY False c"
  have "fst ?k" and k: "snd ?k = c"
    using assms(2)
    by (simp_all add: arm_checked_def arm_preflight_def arm_recheck_def arm_validate_def Let_def)
  moreover have "system_sensors_initialized (ac_flags c)"
    using assms(1) by (simp add: arm_inv_def)
  ultimately have "fst (arm_standby ARMING_STATE_STANDBY (arm_hil ARMING_STATE_STANDBY ?k))"
    using assms(2) by (simp add: arm_standby_def arm_hil_def Let_def case_prod_beta)
  then show ?thesis
    using assms(2) by (simp add: arming_state_transition_eq arm_finish_changed)
qed

subsection \<open>Arming with checks\<close>

lemma prearm_spec_flags [simp]:
  "prearm_spec (fl\<lparr>system_sensors_initialized := b\<rparr>) cm sf req s = prearm_spec fl cm sf req s"
  "prearm_spec (fl\<lparr>sd_card_detected_once := b\<rparr>) cm sf req s = prearm_spec fl cm sf req s"
  "prearm_spec (fl\<lparr>rc_calibration_valid := b\<rparr>) cm sf req s = prearm_spec fl cm sf req s"
  by (simp_all add: prearm_spec_def)

lemma prearm_spec_strip: "prearm_spec (strip_preflight_flags fl) cm sf req s = prearm_spec fl cm sf req s"
proof -
  have "strip_preflight_flags fl = (fl\<lparr>rc_calibration_valid := False\<rparr>)\<lparr>sd_card_detected_once := False\<rparr>"
    by (simp add: strip_preflight_flags_def)
  then show ?thesis
    by (simp only: prearm_spec_flags)
qed

lemma prearm_spec_preflight:
  "prearm_spec (snd (snd (preflightCheck env cm' r pre t s0 fl))) cm sf req s = prearm_spec fl cm sf req s"
  using prearm_spec_strip [of "snd (snd (preflightCheck env cm' r pre t s0 fl))"] prearm_spec_strip [of fl]
  by simp

lemma prearm_spec_status:
  assumes "strip_health s' = strip_health s"
  shows "prearm_spec fl cm sf req s' = prearm_spec fl cm sf req s"
  using strip_health_eqD(4,5,6,9,10) [OF assms] by (simp add: prearm_spec_def)

text \<open>The preflight check of an arm request, and the flags and the status it leaves.\<close>

abbreviation arm_preflightCheck :: "'a arm_env \<Rightarrow> 'a arm_ctx \<Rightarrow> bool \<times> vehicle_status \<times> vehicle_status_flags" where
  "arm_preflightCheck e c \<equiv>
     preflightCheck (ae_preflight e) (ae_control_mode e) True True (ae_time_since_boot e)
       (ac_status c) (ac_flags c)"

abbreviation arm_prearm_spec :: "'a arm_env \<Rightarrow> 'a arm_ctx \<Rightarrow> bool" where
  "arm_prearm_spec e c \<equiv>
     prearm_spec (ac_flags c) (ae_control_mode e) (ae_safety e) (ae_requirements e) (ac_status c)"

definition preflight_done :: "'a arm_env \<Rightarrow> 'a arm_ctx \<Rightarrow> bool" where
  "preflight_done e c \<longleftrightarrow> hil_state (ac_status c) = HIL_STATE_ON \<or> fst (arm_preflightCheck e c)"

lemma arm_preflight_ret:
  "fst (arm_preflight e ARMING_STATE_ARMED True c) \<longleftrightarrow> preflight_done e c"
  by (auto simp: arm_preflight_def preflight_done_def Let_def case_prod_beta)

lemma arm_preflight_auth [simp]:
  "ac_auth (arm_recheck e new run c) = ac_auth c"
  "ac_auth (snd (arm_preflight e new run c)) = ac_auth c"
  by (simp_all add: arm_preflight_def arm_recheck_def Let_def case_prod_beta)

text \<open>After a passed check there is no second one, and the pre-arm conditions are as before.\<close>

lemma checked_context:
  assumes "preflight_done e c"
  defines "c1 \<equiv> snd (arm_preflight e ARMING_STATE_ARMED True c)"
  shows "arm_recheck e ARMING_STATE_ARMED True c1 = c1"
    and "arm_prearm_spec e c1 = arm_prearm_spec e c"
    and "arming_state (ac_status c1) = arming_state (ac_status c)"
proof -
  have "hil_state (ac_status c1) = HIL_STATE_ON \<or> system_sensors_initialized (ac_flags c1)"
    using assms by (auto simp: arm_preflight_def preflight_done_def Let_def case_prod_beta)
  then show "arm_recheck e ARMING_STATE_ARMED True c1 = c1"
    by (auto simp: arm_recheck_def)
  show "arm_prearm_spec e c1 = arm_prearm_spec e c"
    using assms(1)
    by (auto simp: c1_def arm_preflight_def preflight_done_def Let_def case_prod_beta prearm_spec_preflight
        prearm_spec_status [OF preflightCheck_frame])
  show "arming_state (ac_status c1) = arming_state (ac_status c)"
    unfolding c1_def by (rule same_armingD(1) [OF stage_same_arming(1)])
qed


text \<open>The authorizer's state after the checks of an arm request.\<close>

lemma arm_checked_auth:
  "ac_auth (snd (arm_checked e ARMING_STATE_ARMED True c)) =
     (if arming_state (ac_status c) \<in> {ARMING_STATE_STANDBY, ARMING_STATE_ARMED} \<and> preflight_done e c
         \<and> arm_prearm_spec e c \<and> req_arm_authorization (ae_requirements e)
      then snd (ae_authorize e (ac_auth c)) else ac_auth c)"
proof -
  let ?c1 = "snd (arm_preflight e ARMING_STATE_ARMED True c)"
  let ?c2 = "arm_recheck e ARMING_STATE_ARMED True ?c1"
  have st2: "arming_state (ac_status ?c2) = arming_state (ac_status c)"
    by (rule same_armingD(1) [OF same_arming_trans [OF stage_same_arming(1) stage_same_arming(2)]])
  have eq: "arm_checked e ARMING_STATE_ARMED True c = arm_validate e ARMING_STATE_ARMED True (preflight_done e c) ?c2"
    by (simp add: arm_checked_def case_prod_beta arm_preflight_ret)
  show ?thesis
  proof (cases "preflight_done e c")
    case True
    then show ?thesis
      using st2 unfolding eq checked_context(1) [OF True]
      by (auto simp: arm_validate_def Let_def case_prod_beta preArmCheck_authorizer checked_context(2))
  next
    case False
    then show ?thesis
      unfolding eq by (simp add: arm_validate_def Let_def case_prod_beta)
  qed
qed

lemma arm_checked_auth_unchecked: "ac_auth (snd (arm_checked e new False c)) = ac_auth c"
  by (simp add: arm_checked_def arm_validate_def Let_def case_prod_beta)

lemma stages_auth [simp]:
  "ac_auth (snd (arm_hil new vc)) = ac_auth (snd vc)"
  "ac_auth (snd (arm_finish now new r vc)) = ac_auth (snd vc)"
  by (simp_all add: arm_hil_def arm_finish_def Let_def case_prod_beta)


subsection \<open>Properties of the arming state machine\<close>

definition authorize_always :: "unit \<Rightarrow> bool \<times> unit" where
  "authorize_always a = (True, a)"

definition arm_env_example :: "unit arm_env" where
  "arm_env_example =
     \<lparr>ae_now = 1000, ae_preflight = env_example, ae_control_mode = control_mode_example,
      ae_safety = \<lparr>safety_switch_available = True, safety_off = True, safety_timestamp = 0\<rparr>,
      ae_requirements = \<lparr>req_arm_authorization = False, req_esc_check = False,
        req_global_position = True, req_mission = False, req_geofence = False\<rparr>,
      ae_time_since_boot = 20000000, ae_authorize = authorize_always\<rparr>"

definition arm_inputs_example :: arm_inputs where
  "arm_inputs_example =
     \<lparr>ai_last_disarmed_timestamp = 0, ai_is_throttle_above_center = False, ai_is_throttle_low = True,
      ai_geofence_action_rtl = False, ai_landed = True, ai_maybe_landed = True,
      ai_is_ground_rover = False, ai_com_force_safety = False\<rparr>"

definition arm_ctx_example :: "arming_state_t \<Rightarrow> unit arm_ctx" where
  "arm_ctx_example st =
     \<lparr>ac_status = status_example\<lparr>arming_state := st\<rparr>,
      ac_armed = \<lparr>armed = (st = ARMING_STATE_ARMED), ready_to_arm = True, lockdown = False, force_failsafe = False\<rparr>,
      ac_flags = flags_example, ac_last_preflight_check = 0, ac_auth = ()\<rparr>"

lemma arm_inv_example: "arm_inv (arm_ctx_example st)"
  by (simp add: arm_inv_def arm_ctx_example_def status_example_def flags_example_def)

text \<open>
  C15: in every state that the commander can reach through the arming state machine, whatever the
  requests and the results of the checks, the actuators are armed exactly when the arming state
  is \<^verbatim>\<open>ARMED\<close>.
\<close>

theorem armed_flag_reachable:
  assumes "arm_step\<^sup>*\<^sup>* c c'" and "arm_inv c"
  shows "armed (ac_armed c') = is_armed (ac_status c')"
  using arm_reachable_inv [OF assms] by (simp add: arm_inv_def)

theorem armed_flag_reachable_witness:
  "let c' = snd (cmd_arm arm_env_example arm_inputs_example reason_rc_stick True
                  (arm_ctx_example ARMING_STATE_STANDBY))
   in armed (ac_armed c') = is_armed (ac_status c')"
  unfolding Let_def
  by (rule armed_flag_reachable [OF r_into_rtranclp [where r = arm_step, OF step_arm] arm_inv_example])


text \<open>
  C36: the authorizer, whose answer the commander waits for, is asked last and at most once. An arm
  request changes the state of the authorization exactly if it runs the checks (they are skipped in
  the grace period after disarming by switch), is not refused for the stick or the geofence, finds
  the vehicle in standby with a passed preflight check (or in simulation) and with every pre-arm
  condition met, and the configuration asks for an authorization; the new state is then that of one
  query.
\<close>

theorem authorizer_asked_last:
  "ac_auth (snd (cmd_arm e inp reason run c)) =
     (if run
         \<and> \<not> (reason = reason_rc_switch
              \<and> hrt_elapsed_time (ae_now e) (ai_last_disarmed_timestamp inp) < 5000000)
         \<and> \<not> (arm_refused e inp reason c \<and> \<not> armed (ac_armed c))
         \<and> arming_state (ac_status c) = ARMING_STATE_STANDBY
         \<and> (hil_state (ac_status c) = HIL_STATE_ON
            \<or> fst (preflightCheck (ae_preflight e) (ae_control_mode e) True True (ae_time_since_boot e)
                     (ac_status c) (ac_flags c)))
         \<and> prearm_spec (ac_flags c) (ae_control_mode e) (ae_safety e) (ae_requirements e) (ac_status c)
         \<and> req_arm_authorization (ae_requirements e)
      then snd (ae_authorize e (ac_auth c)) else ac_auth c)"
proof -
  have "ac_auth (snd (arming_state_transition e ARMING_STATE_ARMED True r c)) =
      (if arming_state (ac_status c) = ARMING_STATE_STANDBY \<and> preflight_done e c \<and> arm_prearm_spec e c
          \<and> req_arm_authorization (ae_requirements e)
       then snd (ae_authorize e (ac_auth c)) else ac_auth c)" for r
    by (simp add: arming_state_transition_eq arm_checked_auth)
  moreover have "ac_auth (snd (arming_state_transition e ARMING_STATE_ARMED False r c)) = ac_auth c" for r
    by (simp add: arming_state_transition_eq arm_checked_auth_unchecked)
  ultimately show ?thesis
    unfolding cmd_arm_def Let_def preflight_done_def by (cases run) auto
qed




text \<open>
  C32: disarming cannot be lost: from every reachable state in which the vehicle is armed, a forced
  disarm request is carried out.
\<close>

theorem forced_disarm_succeeds:
  assumes "arm_step\<^sup>*\<^sup>* c c'" and "arm_inv c" and "armed (ac_armed c')"
  shows "fst (cmd_disarm e inp reason True h c') = TRANSITION_CHANGED"
proof -
  have "arm_inv c'"
    by (rule arm_reachable_inv [OF assms(1,2)])
  then show ?thesis
    using disarm_transition [of c' e "reason_code reason"] assms(3)
    by (simp add: cmd_disarm_def Let_def case_prod_beta arm_inv_def)
qed

theorem forced_disarm_succeeds_witness:
  "fst (cmd_disarm arm_env_example arm_inputs_example reason_kill_switch True
     \<lparr>sh_safety = ae_safety arm_env_example, sh_safety_disabled = False, sh_previous_safety_off = True\<rparr>
     (arm_ctx_example ARMING_STATE_ARMED)) = TRANSITION_CHANGED"
  by (rule forced_disarm_succeeds [OF rtranclp.rtrancl_refl arm_inv_example])
     (simp add: arm_ctx_example_def)

text \<open>
  C40: a refused arm command of the IO processor disables the arming checks. The command enters the
  in-air restore state before it is examined; when it is then refused, for instance because of the
  throttle, the state remains, and the next arm request is carried out whatever its preflight and
  pre-arm checks say, even though it asks for them.
\<close>

theorem refused_io_command_disables_checks:
  assumes "\<not> armed (ac_armed c)" and "arm_refused e inp reason_command_internal c"
    and "\<not> arm_refused e2 inp2 reason c"
  shows "fst (cmd_arm e2 inp2 reason True
           (snd (snd (component_arm_disarm e inp (Some True) False True False h c)))) = TRANSITION_CHANGED"
proof -
  have keep: "arm_refused e' inp' r (flick_to_restore c) = arm_refused e' inp' r c" for e' :: "'a arm_env" and inp' r
    by (simp add: arm_refused_def flick_to_restore_def Let_def)
  have "snd (snd (component_arm_disarm e inp (Some True) False True False h c)) = flick_to_restore c"
    using assms(1,2) by (simp add: component_arm_disarm_def cmd_arm_def Let_def keep)
  then show ?thesis
    using assms(1,3) restore_arms [of "flick_to_restore c"] by (simp add: cmd_arm_def Let_def keep)
qed

theorem refused_io_command_disables_checks_witness:
  "let c = (arm_ctx_example ARMING_STATE_STANDBY)\<lparr>ac_flags := flags_example\<lparr>flight_terminated := True\<rparr>\<rparr>;
       h = \<lparr>sh_safety = ae_safety arm_env_example, sh_safety_disabled = False, sh_previous_safety_off = True\<rparr>;
       inp = arm_inputs_example\<lparr>ai_is_throttle_above_center := True\<rparr>;
       c1 = snd (snd (component_arm_disarm arm_env_example inp (Some True) False True False h c))
   in \<not> prearm_spec (ac_flags c) (ae_control_mode arm_env_example) (ae_safety arm_env_example)
          (ae_requirements arm_env_example) (ac_status c)
      \<and> fst (cmd_arm arm_env_example arm_inputs_example reason_rc_stick True c1) = TRANSITION_CHANGED"
  unfolding Let_def
proof
  let ?c = "(arm_ctx_example ARMING_STATE_STANDBY)\<lparr>ac_flags := flags_example\<lparr>flight_terminated := True\<rparr>\<rparr>"
  show "\<not> prearm_spec (ac_flags ?c) (ae_control_mode arm_env_example) (ae_safety arm_env_example)
          (ae_requirements arm_env_example) (ac_status ?c)"
    by (simp add: prearm_spec_def)
  show "fst (cmd_arm arm_env_example arm_inputs_example reason_rc_stick True
      (snd (snd (component_arm_disarm arm_env_example
         (arm_inputs_example\<lparr>ai_is_throttle_above_center := True\<rparr>) (Some True) False True False
         \<lparr>sh_safety = ae_safety arm_env_example, sh_safety_disabled = False, sh_previous_safety_off = True\<rparr> ?c))))
      = TRANSITION_CHANGED"
    by (rule refused_io_command_disables_checks)
       (simp_all add: arm_refused_def arm_env_example_def arm_inputs_example_def arm_ctx_example_def
          control_mode_example_def status_example_def Let_def)
qed

end
