(* ===== verification/Commander_Monitor.thy ===== *)
theory Commander_Monitor
  imports Nav_State Mathlib_Bits Hysteresis
begin

text \<open>
  The monitors of the commander (\<^verbatim>\<open>src/modules/commander/Commander.cpp\<close>): the validity of position and
  velocity estimates (\<^verbatim>\<open>check_posvel_validity\<close>), the offboard signal (\<^verbatim>\<open>offboard_control_update\<close>) and
  the batteries (\<^verbatim>\<open>battery_status_check\<close>), and the relation of the failsafe steps that change the
  main state without a request of the operator.
\<close>

subsection \<open>Position and velocity validity\<close>

record posvel_sample =
  pv_now :: hrt_abstime
  pv_data_valid :: bool
  pv_accuracy :: float32
  pv_required_accuracy :: float32
  pv_timestamp :: hrt_abstime

definition posvel_level_check :: "float32 \<Rightarrow> posvel_sample \<Rightarrow> bool \<Rightarrow> bool" where
  "posvel_level_check com_pos_fs_delay x was_valid =
     (let data_stale = (f32_gt (f32_of_u64 (hrt_elapsed_time (pv_now x) (pv_timestamp x)))
                              (f32_mul com_pos_fs_delay (f32_of_u64 1000000))
                        \<or> pv_timestamp x = 0);
          req_accuracy = (if was_valid then f32_mul (pv_required_accuracy x) (f32_lit (5 / 2))
                          else pv_required_accuracy x)
      in pv_data_valid x \<and> \<not> data_stale \<and> f32_lt (pv_accuracy x) req_accuracy)"

text \<open>The state is the validity flag and the time of the last failed check.\<close>

definition check_posvel_validity ::
  "float32 \<Rightarrow> posvel_sample \<Rightarrow> bool \<times> hrt_abstime \<Rightarrow> bool \<times> hrt_abstime" where
  "check_posvel_validity com_pos_fs_delay x st =
     (let (was_valid, last_fail_time_us) = st
      in if posvel_level_check com_pos_fs_delay x was_valid then
           (if \<not> was_valid then hrt_elapsed_time (pv_now x) last_fail_time_us > 1000000 else was_valid,
            last_fail_time_us)
         else (False, pv_now x))"

fun posvel_run :: "float32 \<Rightarrow> posvel_sample list \<Rightarrow> bool \<times> hrt_abstime \<Rightarrow> bool \<times> hrt_abstime" where
  "posvel_run d [] st = st"
| "posvel_run d (x # xs) st = posvel_run d xs (check_posvel_validity d x st)"

lemma posvel_run_append: "posvel_run d (xs @ ys) st = posvel_run d ys (posvel_run d xs st)"
  by (induction xs arbitrary: st) simp_all

lemma posvel_last_fail_bounds:
  assumes "sorted (map pv_now (y # zs))" "snd st = pv_now y"
  shows "pv_now y \<le> snd (posvel_run d zs st) \<and> snd (posvel_run d zs st) \<le> pv_now (last (y # zs))"
  using assms
proof (induction zs rule: rev_induct)
  case (snoc z zs)
  have s: "sorted (map pv_now (y # zs))" and z: "\<And>t. t \<in> set (y # zs) \<Longrightarrow> pv_now t \<le> pv_now z"
    using snoc.prems(1) by (auto simp: sorted_append)
  have "pv_now (last (y # zs)) \<le> pv_now z"
    by (rule z, rule last_in_set) simp
  then have "snd (posvel_run d zs st) \<le> pv_now z"
    using snoc.IH [OF s snoc.prems(2)] order_trans by blast
  then show ?case
    using snoc.IH [OF s snoc.prems(2)] z [of y]
    by (simp add: posvel_run_append check_posvel_validity_def case_prod_beta Let_def)
qed simp

lemma word_elapsed_mono:
  fixes a b t :: u64
  assumes "a \<le> b" "b \<le> t"
  shows "t - b \<le> t - a"
  using assms by (simp add: word_le_nat_alt unat_sub_if')

subsection \<open>Offboard signal\<close>

record offboard_state =
  of_available :: hysteresis
  of_signal_lost :: bool

record offboard_sample =
  os_now :: hrt_abstime
  os_updated :: bool
  os_position :: bool
  os_velocity :: bool
  os_acceleration :: bool
  os_attitude :: bool
  os_body_rate :: bool
  os_actuator :: bool
  os_local_position_valid :: bool
  os_local_velocity_valid :: bool

text \<open>
  The requested modes are those of the last message received, which is the message of this call
  when the topic was updated.
\<close>

definition offboard_usable :: "offboard_sample \<Rightarrow> bool" where
  "offboard_usable x =
     (let offboard_available = (os_updated x
            \<and> (os_position x \<or> os_velocity x \<or> os_acceleration x \<or> os_attitude x \<or> os_body_rate x
               \<or> os_actuator x))
      in if os_position x \<and> \<not> os_local_position_valid x then False
         else if os_velocity x \<and> \<not> os_local_velocity_valid x then False
         else if os_acceleration x \<and> \<not> os_local_velocity_valid x then False
         else offboard_available)"

definition offboard_control_update :: "offboard_sample \<Rightarrow> offboard_state \<Rightarrow> offboard_state" where
  "offboard_control_update x st =
     (let h = set_state_and_update (offboard_usable x) (os_now x) (of_available st)
      in st\<lparr>of_available := h, of_signal_lost := \<not> hy_state h\<rparr>)"

fun offboard_run :: "offboard_sample list \<Rightarrow> offboard_state \<Rightarrow> offboard_state" where
  "offboard_run [] st = st"
| "offboard_run (x # xs) st = offboard_run xs (offboard_control_update x st)"

lemma offboard_run_append: "offboard_run (xs @ ys) st = offboard_run ys (offboard_run xs st)"
  by (induction xs arbitrary: st) simp_all

abbreviation offboard_request :: "offboard_sample \<Rightarrow> bool \<times> hrt_abstime" where
  "offboard_request x \<equiv> (offboard_usable x, os_now x)"

lemma offboard_run_hysteresis:
  "of_available (offboard_run xs st) = hy_run (of_available st) (map offboard_request xs)"
  by (induction xs arbitrary: st) (simp_all add: offboard_control_update_def Let_def)

subsection \<open>Batteries\<close>

record battery_sample =
  bt_index :: nat
  bt_connected :: bool
  bt_is_required :: bool
  bt_warning :: u8
  bt_timestamp :: hrt_abstime
  bt_faults :: u16
  bt_time_remaining_s :: float32
  bt_current_filtered_a :: float32

record battery_scan =
  sc_last_connected :: u8
  sc_required_count :: nat
  sc_has_fault :: bool
  sc_worst_warning :: u8
  sc_oldest_update :: hrt_abstime
  sc_worst_time_s :: float32
  sc_current :: float32

definition battery_disconnected :: "bool \<Rightarrow> battery_sample \<Rightarrow> battery_scan \<Rightarrow> bool" where
  "battery_disconnected is_arm b sc \<longleftrightarrow>
     is_arm \<and> sc_last_connected sc AND push_bit (bt_index b) 1 \<noteq> 0 \<and> \<not> bt_connected b"

definition battery_scan_connected :: "battery_sample \<Rightarrow> battery_scan \<Rightarrow> battery_scan" where
  "battery_scan_connected b sc =
     (if bt_connected b then
        sc\<lparr>sc_worst_warning := (if bt_warning b > sc_worst_warning sc then bt_warning b else sc_worst_warning sc),
           sc_oldest_update := (if bt_timestamp b < sc_oldest_update sc then bt_timestamp b else sc_oldest_update sc),
           sc_has_fault := (if bt_faults b > 0 then True else sc_has_fault sc),
           sc_worst_time_s :=
             (if f32_isfinite (bt_time_remaining_s b)
                 \<and> (\<not> f32_isfinite (sc_worst_time_s sc)
                    \<or> f32_isfinite (sc_worst_time_s sc) \<and> f32_lt (bt_time_remaining_s b) (sc_worst_time_s sc))
              then bt_time_remaining_s b else sc_worst_time_s sc),
           sc_current := f32_add (sc_current sc) (bt_current_filtered_a b)\<rparr>
      else sc)"

definition battery_scan_step :: "bool \<Rightarrow> battery_sample \<Rightarrow> battery_scan \<Rightarrow> battery_scan" where
  "battery_scan_step is_arm b sc =
     (let sc1 = (if bt_is_required b then sc\<lparr>sc_required_count := sc_required_count sc + 1\<rparr> else sc);
          sc2 = (if battery_disconnected is_arm b sc1
                 then sc1\<lparr>sc_worst_warning := BATTERY_WARNING_CRITICAL\<rparr> else sc1);
          sc3 = sc2\<lparr>sc_last_connected :=
                      (if bt_connected b then sc_last_connected sc2 OR push_bit (bt_index b) 1
                       else sc_last_connected sc2 AND NOT (push_bit (bt_index b) 1))\<rparr>
      in battery_scan_connected b sc3)"

definition battery_scan_init :: "hrt_abstime \<Rightarrow> u8 \<Rightarrow> battery_scan" where
  "battery_scan_init now last_connected =
     \<lparr>sc_last_connected = last_connected, sc_required_count = 0, sc_has_fault = False,
      sc_worst_warning = BATTERY_WARNING_NONE, sc_oldest_update = now, sc_worst_time_s = FNaN,
      sc_current = f32_zero\<rparr>"

definition battery_scan_all :: "hrt_abstime \<Rightarrow> bool \<Rightarrow> u8 \<Rightarrow> battery_sample list \<Rightarrow> battery_scan" where
  "battery_scan_all now is_arm last_connected bs =
     fold (battery_scan_step is_arm) bs (battery_scan_init now last_connected)"

record battery_monitor =
  bm_last_connected :: u8
  bm_warning :: u8
  bm_failsafe_timestamp :: hrt_abstime
  bm_rtl_time_actions_done :: bool
  bm_current :: float32

record battery_inputs =
  bi_now :: hrt_abstime
  bi_batteries :: "battery_sample list"
  bi_rtl_estimate :: "(hrt_abstime \<times> bool \<times> float32) option"
  bi_ground_contact :: bool
  bi_com_low_bat_act :: low_battery_action
  bi_com_bat_act_t :: float32
  bi_control_auto_enabled :: bool

text \<open>The context of the navigation state machine with the flags and the state of the monitor.\<close>

record battery_ctx =
  bc_nav :: nav_ctx
  bc_flags :: vehicle_status_flags
  bc_monitor :: battery_monitor

text \<open>The comparison of the flight time left with the time of a return.\<close>

definition battery_rtl_time :: "battery_inputs \<Rightarrow> battery_scan \<Rightarrow> battery_ctx \<Rightarrow> battery_ctx" where
  "battery_rtl_time inp sc x =
     (let c = bc_nav x; m = bc_monitor x
      in case bi_rtl_estimate inp of
           None \<Rightarrow> x
         | Some (timestamp, valid, safe_time_estimate) \<Rightarrow>
             if bi_now inp - timestamp < 2000000 \<and> valid \<and> armed (ctx_armed c)
                \<and> \<not> bi_ground_contact inp \<and> \<not> bm_rtl_time_actions_done m
                \<and> f32_isfinite (sc_worst_time_s sc) \<and> f32_ge safe_time_estimate (sc_worst_time_s sc)
                \<and> main_of c \<noteq> MAIN_STATE_AUTO_RTL \<and> main_of c \<noteq> MAIN_STATE_AUTO_LAND
             then x\<lparr>bc_nav := request_main (bi_now inp) (bc_flags x) MAIN_STATE_AUTO_RTL c,
                    bc_monitor := m\<lparr>bm_rtl_time_actions_done := True\<rparr>\<rparr>
             else x)"

definition battery_warning_update :: "bool \<Rightarrow> u8 \<Rightarrow> u8 \<Rightarrow> bool \<times> u8" where
  "battery_warning_update is_arm worst_warning old =
     (if is_arm then (if worst_warning > old then (True, worst_warning) else (False, old))
      else (False, worst_warning))"

definition battery_is_healthy :: "hrt_abstime \<Rightarrow> battery_scan \<Rightarrow> u8 \<Rightarrow> bool" where
  "battery_is_healthy now sc warning \<longleftrightarrow>
     hrt_elapsed_time now (sc_oldest_update sc) < 5000000
     \<and> countSetBits (sc_last_connected sc) \<ge> sc_required_count sc
     \<and> warning = BATTERY_WARNING_NONE \<and> \<not> sc_has_fault sc"

text \<open>The reaction: loiter while the delay runs, then the configured action.\<close>

definition battery_react_start :: "battery_inputs \<Rightarrow> battery_ctx \<Rightarrow> battery_ctx" where
  "battery_react_start inp x =
     (let c = bc_nav x;
          m = bc_monitor x;
          failsafe_action = get_battery_failsafe_action (ctx_internal c) (bm_warning m) (bi_com_low_bat_act inp)
      in x\<lparr>bc_monitor := m\<lparr>bm_failsafe_timestamp := bi_now inp\<rparr>,
           bc_nav := (if f32_gt (bi_com_bat_act_t inp) (f32_lit 0) \<and> failsafe_action \<noteq> MAIN_STATE_MAX
                      then request_main (bi_now inp) (bc_flags x) MAIN_STATE_AUTO_LOITER c else c)\<rparr>)"

definition execute_main_state :: "hrt_abstime \<Rightarrow> main_state_t \<Rightarrow> nav_ctx \<Rightarrow> nav_ctx" where
  "execute_main_state now m c =
     (if m \<noteq> MAIN_STATE_MAX
      then c\<lparr>ctx_internal := (ctx_internal c)\<lparr>main_state := m,
               main_state_changes := main_state_changes (ctx_internal c) + 1, state_timestamp := now\<rparr>\<rparr>
      else c)"

definition battery_react_act :: "battery_inputs \<Rightarrow> battery_ctx \<Rightarrow> battery_ctx" where
  "battery_react_act inp x =
     (let c = bc_nav x; m = bc_monitor x
      in if bm_failsafe_timestamp m \<noteq> 0
            \<and> f32_gt (f32_of_u64 (hrt_elapsed_time (bi_now inp) (bm_failsafe_timestamp m)))
                     (f32_mul (bi_com_bat_act_t inp) (f32_of_u64 1000000))
            \<and> (main_of c = MAIN_STATE_AUTO_LOITER \<or> bi_control_auto_enabled inp)
         then x\<lparr>bc_monitor := m\<lparr>bm_failsafe_timestamp := 0\<rparr>,
                bc_nav := execute_main_state (bi_now inp)
                  (get_battery_failsafe_action (ctx_internal c) (bm_warning m) (bi_com_low_bat_act inp)) c\<rparr>
         else x)"

text \<open>
  The shutdown of boards with power control, after the reaction, is left out, as are the fields
  that only remember what has been reported to the ground station.
\<close>

definition battery_status_check :: "battery_inputs \<Rightarrow> battery_ctx \<Rightarrow> battery_ctx" where
  "battery_status_check inp x =
     (let is_arm = armed (ctx_armed (bc_nav x));
          sc = battery_scan_all (bi_now inp) is_arm (bm_last_connected (bc_monitor x)) (bi_batteries inp);
          x1 = battery_rtl_time inp sc
                 (x\<lparr>bc_monitor := (bc_monitor x)\<lparr>bm_last_connected := sc_last_connected sc,
                                                bm_current := sc_current sc\<rparr>\<rparr>);
          (increased, warning) = battery_warning_update is_arm (sc_worst_warning sc) (bm_warning (bc_monitor x1));
          x2 = x1\<lparr>bc_monitor := (bc_monitor x1)\<lparr>bm_warning := warning\<rparr>,
                  bc_flags := (bc_flags x1)\<lparr>battery_healthy := battery_is_healthy (bi_now inp) sc warning\<rparr>\<rparr>;
          x3 = (if increased then battery_react_start inp x2 else x2)
      in battery_react_act inp x3)"

subsection \<open>Lemmas on the battery scan\<close>

lemma battery_scan_step_fields:
  "sc_worst_warning (battery_scan_step is_arm b sc) =
     (let w = (if battery_disconnected is_arm b sc then BATTERY_WARNING_CRITICAL else sc_worst_warning sc)
      in if bt_connected b \<and> bt_warning b > w then bt_warning b else w)"
  "sc_has_fault (battery_scan_step is_arm b sc) = (sc_has_fault sc \<or> (bt_connected b \<and> bt_faults b > 0))"
  "sc_oldest_update (battery_scan_step is_arm b sc) =
     (if bt_connected b \<and> bt_timestamp b < sc_oldest_update sc then bt_timestamp b else sc_oldest_update sc)"
  by (simp_all add: battery_scan_step_def battery_scan_connected_def battery_disconnected_def Let_def)

lemma battery_scan_quiet:
  assumes "sc_worst_warning (fold (battery_scan_step is_arm) bs sc) = BATTERY_WARNING_NONE"
  shows "sc_worst_warning sc = BATTERY_WARNING_NONE
    \<and> (\<forall>b\<in>set bs. bt_connected b \<longrightarrow> bt_warning b = BATTERY_WARNING_NONE)"
  using assms
proof (induction bs arbitrary: sc)
  case (Cons b bs)
  have "sc_worst_warning (battery_scan_step is_arm b sc) = BATTERY_WARNING_NONE"
    and rest: "\<forall>b\<in>set bs. bt_connected b \<longrightarrow> bt_warning b = BATTERY_WARNING_NONE"
    using Cons.IH [of "battery_scan_step is_arm b sc"] Cons.prems by simp_all
  then have "sc_worst_warning sc = BATTERY_WARNING_NONE"
    "bt_connected b \<Longrightarrow> bt_warning b = BATTERY_WARNING_NONE"
    by (auto simp: battery_scan_step_fields(1) Let_def battery_warnings word_gt_0 split: if_splits)
  then show ?case
    using rest by simp
qed simp

lemma battery_scan_no_fault:
  assumes "\<not> sc_has_fault (fold (battery_scan_step is_arm) bs sc)"
  shows "\<not> sc_has_fault sc \<and> (\<forall>b\<in>set bs. bt_connected b \<longrightarrow> bt_faults b = 0)"
  using assms
proof (induction bs arbitrary: sc)
  case (Cons b bs)
  then show ?case
    using Cons.IH [of "battery_scan_step is_arm b sc"]
    by (simp add: battery_scan_step_fields(2) word_gt_0)
qed simp

lemma battery_scan_oldest:
  "sc_oldest_update (fold (battery_scan_step is_arm) bs sc) \<le> sc_oldest_update sc
   \<and> (\<forall>b\<in>set bs. bt_connected b \<longrightarrow> sc_oldest_update (fold (battery_scan_step is_arm) bs sc) \<le> bt_timestamp b)"
proof (induction bs arbitrary: sc)
  case (Cons b bs)
  let ?s = "battery_scan_step is_arm b sc"
  have "sc_oldest_update ?s \<le> sc_oldest_update sc" "bt_connected b \<Longrightarrow> sc_oldest_update ?s \<le> bt_timestamp b"
    by (auto simp: battery_scan_step_fields(3))
  then show ?case
    using Cons.IH [of ?s] by (auto intro: order_trans)
qed simp

lemma battery_healthy_after:
  "battery_healthy (bc_flags (battery_status_check inp x)) =
     (let is_arm = armed (ctx_armed (bc_nav x));
          sc = battery_scan_all (bi_now inp) is_arm (bm_last_connected (bc_monitor x)) (bi_batteries inp)
      in battery_is_healthy (bi_now inp) sc
           (snd (battery_warning_update is_arm (sc_worst_warning sc) (bm_warning (bc_monitor x)))))"
proof -
  have r: "bm_warning (bc_monitor (battery_rtl_time inp sc y)) = bm_warning (bc_monitor y)" for sc y
    by (simp add: battery_rtl_time_def Let_def split: option.splits)
  have a: "bc_flags (battery_react_act inp y) = bc_flags y" "bc_flags (battery_react_start inp y) = bc_flags y" for y
    by (simp_all add: battery_react_act_def battery_react_start_def Let_def)
  show ?thesis
    by (simp add: battery_status_check_def Let_def case_prod_beta a r)
qed

subsection \<open>Failsafe steps and the main state\<close>

text \<open>
  The steps that change the main state without a request: \<^verbatim>\<open>set_nav_state\<close>, the battery check and the
  propeller failsafe.
\<close>

inductive failsafe_step :: "battery_ctx \<Rightarrow> battery_ctx \<Rightarrow> bool" where
  fs_nav: "failsafe_step x (x\<lparr>bc_nav := snd (set_nav_state now cfg inp (bc_flags x) (bc_nav x))\<rparr>)"
| fs_battery: "failsafe_step x (battery_status_check binp x)"
| fs_propeller: "failsafe_step x (x\<lparr>bc_nav := (bc_nav x)\<lparr>ctx_internal :=
     imbalanced_prop_failsafe now (bc_flags x) act (ctx_internal (bc_nav x))\<rparr>\<rparr>)"

definition landing :: "main_state_t \<Rightarrow> bool" where
  "landing m \<longleftrightarrow> m = MAIN_STATE_AUTO_LAND \<or> m = MAIN_STATE_AUTO_PRECLAND"

lemma landing_battery_action:
  "landing (main_state i) \<Longrightarrow> get_battery_failsafe_action i w act = MAIN_STATE_MAX"
  by (auto simp: landing_def get_battery_failsafe_action_def Let_def split: low_battery_action.splits)

lemma landing_set_nav_state:
  assumes "landing (main_of c)"
  shows "main_of (snd (set_nav_state now cfg inp fl c)) = main_of c"
  using assms
  by (auto simp: landing_def set_nav_state_def Let_def nav_switch_def nav_simple_auto_def)

lemma landing_imbalanced:
  "landing (main_state i) \<Longrightarrow> imbalanced_prop_failsafe now fl act i = i"
  by (auto simp: landing_def imbalanced_prop_failsafe_def Let_def
      split: imbalanced_propeller_action.splits)

lemma landing_battery_reaction:
  assumes "landing (main_of (bc_nav x))"
  shows "bc_nav (battery_react_start inp x) = bc_nav x"
    and "bc_nav (battery_react_act inp x) = bc_nav x"
  using landing_battery_action [OF assms]
  by (simp_all add: battery_react_start_def battery_react_act_def execute_main_state_def Let_def)

lemma land_rtl_time:
  assumes "main_of (bc_nav x) = MAIN_STATE_AUTO_LAND"
  shows "bc_nav (battery_rtl_time inp sc x) = bc_nav x"
  using assms by (simp add: battery_rtl_time_def Let_def split: option.splits)

lemma land_battery_check:
  assumes "main_of (bc_nav x) = MAIN_STATE_AUTO_LAND"
  shows "bc_nav (battery_status_check inp x) = bc_nav x"
proof -
  have l: "landing (main_of (bc_nav y))" if "bc_nav y = bc_nav x" for y
    using assms that by (simp add: landing_def)
  have t: "bc_nav (battery_rtl_time inp sc (x\<lparr>bc_monitor := m\<rparr>)) = bc_nav x" for sc m
    using land_rtl_time [of "x\<lparr>bc_monitor := m\<rparr>"] assms by simp
  show ?thesis
    by (simp add: battery_status_check_def Let_def case_prod_beta landing_battery_reaction l t)
qed

lemma land_step:
  assumes "failsafe_step x y" "main_of (bc_nav x) = MAIN_STATE_AUTO_LAND"
  shows "main_of (bc_nav y) = MAIN_STATE_AUTO_LAND"
  using assms
  by cases (simp_all add: land_battery_check landing_set_nav_state landing_imbalanced landing_def)

subsection \<open>Properties of the monitors\<close>

text \<open>
  C28: an estimate that was declared invalid becomes valid again only after a second without a
  failed check: at the call that sets the flag, more than a second has passed since every earlier
  call whose check failed.
\<close>

theorem posvel_probation:
  assumes "sorted (map pv_now (xs @ [y] @ zs @ [x]))"
    and "\<not> posvel_level_check d y (fst (posvel_run d xs st))"
    and "\<not> fst (posvel_run d (xs @ [y] @ zs) st)"
    and "fst (posvel_run d (xs @ [y] @ zs @ [x]) st)"
  shows "pv_now x - pv_now y > 1000000"
proof -
  let ?s = "check_posvel_validity d y (posvel_run d xs st)"
  let ?l = "snd (posvel_run d zs ?s)"
  have y: "snd ?s = pv_now y"
    using assms(2) by (simp add: check_posvel_validity_def case_prod_beta Let_def)
  have run: "posvel_run d (xs @ [y] @ zs) st = posvel_run d zs ?s"
    by (simp add: posvel_run_append)
  have so: "sorted (map pv_now (y # zs))" and le: "pv_now (last (y # zs)) \<le> pv_now x"
    using assms(1) by (auto simp: sorted_append)
  have b: "pv_now y \<le> ?l" "?l \<le> pv_now x"
    using posvel_last_fail_bounds [OF so y, of d] le by (auto intro: order_trans)
  have "hrt_elapsed_time (pv_now x) ?l > 1000000"
    using assms(3,4) posvel_run_append [of d "xs @ [y] @ zs" "[x]" st] run
    by (auto simp: check_posvel_validity_def case_prod_beta Let_def split: if_splits)
  then show ?thesis
    using word_elapsed_mono [OF b] by (simp add: hrt_elapsed_time_def order_less_le_trans)
qed

definition posvel_example :: "hrt_abstime \<Rightarrow> bool \<Rightarrow> posvel_sample" where
  "posvel_example t ok = \<lparr>pv_now = t, pv_data_valid = ok, pv_accuracy = f32_zero,
     pv_required_accuracy = f32_lit 1, pv_timestamp = t\<rparr>"

lemma posvel_level_example:
  "t \<noteq> 0 \<Longrightarrow> posvel_level_check (f32_lit 1) (posvel_example t True) False"
  "\<not> posvel_level_check d (posvel_example t False) w"
  by (simp_all add: posvel_level_check_def posvel_example_def hrt_elapsed_time_def f32_of_u64_def
      f32_of_real_numeral f32_lit_0 [unfolded f32_lit_def] Let_def)

theorem posvel_probation_witness:
  "pv_now (posvel_example 3000000 True) - pv_now (posvel_example 1000000 False) > 1000000"
  by (rule posvel_probation [where xs = "[]" and zs = "[]" and d = "f32_lit 1" and st = "(True, 0)"])
     (simp_all add: check_posvel_validity_def posvel_level_example del: f32_lit_1,
      simp_all add: posvel_example_def hrt_elapsed_time_def)

text \<open>
  The commander reports the offboard signal as lost only after the configured time: at the call
  that raises the flag there is an uninterrupted sequence of calls that found no usable offboard
  message, as long as the hysteresis time \<^verbatim>\<open>COM_OF_LOSS_T\<close>.
\<close>

theorem offboard_lost_after_timeout:
  assumes "hy_requested_state (of_available st) = hy_state (of_available st)"
    and "hy_state (of_available (offboard_run xs st))"
    and "of_signal_lost (offboard_run (xs @ [x]) st)"
  shows "\<exists>pre suf. xs @ [x] = pre @ suf \<and> suf \<noteq> [] \<and> (\<forall>y\<in>set suf. \<not> offboard_usable y)
           \<and> hy_time_from_true_us (of_available st) \<le> os_now x - os_now (hd suf)"
proof -
  let ?h = "hy_run (of_available st) (map offboard_request xs)"
  have down: "\<not> hy_state (set_state_and_update (offboard_usable x) (os_now x) ?h)" and up: "hy_state ?h"
    using assms(2,3)
    by (simp_all add: offboard_run_append offboard_control_update_def Let_def offboard_run_hysteresis)
  then have change: "hy_state (set_state_and_update (offboard_usable x) (os_now x) ?h) \<noteq> hy_state ?h"
    by simp
  have nu: "\<not> offboard_usable x"
    using hy_moves_to_request [OF change] down by simp
  obtain pre suf where ps: "map offboard_request xs @ [offboard_request x] = pre @ suf" "suf \<noteq> []"
      "\<forall>r\<in>set suf. fst r = offboard_usable x" "hy_delay ?h \<le> os_now x - snd (hd suf)"
    using hy_change_history [OF assms(1) change] by blast
  define d where "d = drop (length pre) (xs @ [x])"
  have xs: "xs @ [x] = take (length pre) (xs @ [x]) @ d"
    unfolding d_def by (rule append_take_drop_id [symmetric])
  have "map offboard_request (xs @ [x]) = pre @ suf"
    using ps(1) by simp
  then have suf: "suf = map offboard_request d"
    unfolding d_def by (metis append_eq_conv_conj drop_map)
  then have ne: "d \<noteq> []"
    using ps(2) by auto
  have "\<forall>y\<in>set d. \<not> offboard_usable y"
    using ps(3) nu unfolding suf by simp
  moreover have "hy_time_from_true_us (of_available st) \<le> os_now x - os_now (hd d)"
    using ps(4) up ne unfolding suf by (simp add: hy_delay_def hd_map)
  ultimately show ?thesis
    using xs ne by blast
qed

definition offboard_example :: "hrt_abstime \<Rightarrow> bool \<Rightarrow> offboard_sample" where
  "offboard_example t upd =
     \<lparr>os_now = t, os_updated = upd, os_position = True, os_velocity = False, os_acceleration = False,
      os_attitude = False, os_body_rate = False, os_actuator = False, os_local_position_valid = True,
      os_local_velocity_valid = True\<rparr>"

definition offboard_state_example :: offboard_state where
  "offboard_state_example =
     \<lparr>of_available = set_hysteresis_time_from True 500000 (hy_init False), of_signal_lost = True\<rparr>"

lemmas offboard_examples =
  offboard_example_def offboard_state_example_def offboard_control_update_def offboard_usable_def
  set_hysteresis_time_from_def hy_init_def

theorem offboard_lost_after_timeout_witness:
  "\<exists>pre suf. [offboard_example 10 True, offboard_example 20 False] @ [offboard_example 600000 False] = pre @ suf
     \<and> suf \<noteq> [] \<and> (\<forall>y\<in>set suf. \<not> offboard_usable y)
     \<and> hy_time_from_true_us (of_available offboard_state_example)
         \<le> os_now (offboard_example 600000 False) - os_now (hd suf)"
  by (rule offboard_lost_after_timeout) (simp_all add: offboard_examples hy_defs)

text \<open>
  When the commander reports the batteries as healthy, no connected battery has a warning or a
  fault, and each of them was updated less than five seconds ago.
\<close>

theorem battery_healthy_sound:
  assumes "battery_healthy (bc_flags (battery_status_check inp x))"
    and "b \<in> set (bi_batteries inp)" and "bt_connected b" and "bt_timestamp b \<le> bi_now inp"
  shows "bt_warning b = BATTERY_WARNING_NONE \<and> bt_faults b = 0
    \<and> hrt_elapsed_time (bi_now inp) (bt_timestamp b) < 5000000"
proof -
  let ?arm = "armed (ctx_armed (bc_nav x))"
  let ?sc = "battery_scan_all (bi_now inp) ?arm (bm_last_connected (bc_monitor x)) (bi_batteries inp)"
  have h: "battery_is_healthy (bi_now inp) ?sc
      (snd (battery_warning_update ?arm (sc_worst_warning ?sc) (bm_warning (bc_monitor x))))"
    using assms(1) by (simp add: battery_healthy_after Let_def)
  then have "sc_worst_warning ?sc = BATTERY_WARNING_NONE" and f: "\<not> sc_has_fault ?sc"
    and t: "hrt_elapsed_time (bi_now inp) (sc_oldest_update ?sc) < 5000000"
    by (auto simp: battery_is_healthy_def battery_warning_update_def battery_warnings word_gt_0
        split: if_splits)
  then have w: "bt_warning b = BATTERY_WARNING_NONE"
    using battery_scan_quiet assms(2,3) unfolding battery_scan_all_def by blast
  have "bt_faults b = 0"
    using battery_scan_no_fault f assms(2,3) unfolding battery_scan_all_def by blast
  moreover have "sc_oldest_update ?sc \<le> bt_timestamp b"
    using battery_scan_oldest assms(2,3) unfolding battery_scan_all_def by blast
  then have "hrt_elapsed_time (bi_now inp) (bt_timestamp b) \<le> hrt_elapsed_time (bi_now inp) (sc_oldest_update ?sc)"
    unfolding hrt_elapsed_time_def using assms(4) by (rule word_elapsed_mono)
  then have "hrt_elapsed_time (bi_now inp) (bt_timestamp b) < 5000000"
    using t by (rule order_le_less_trans)
  ultimately show ?thesis
    using w by blast
qed

definition battery_example :: "nat \<Rightarrow> bool \<Rightarrow> u8 \<Rightarrow> battery_sample" where
  "battery_example i con w =
     \<lparr>bt_index = i, bt_connected = con, bt_is_required = False, bt_warning = w, bt_timestamp = 900,
      bt_faults = 0, bt_time_remaining_s = f32_lit 100, bt_current_filtered_a = f32_zero\<rparr>"

definition battery_inputs_example :: "battery_sample list \<Rightarrow> battery_inputs" where
  "battery_inputs_example bs =
     \<lparr>bi_now = 1000, bi_batteries = bs, bi_rtl_estimate = Some (900, True, f32_lit 200),
      bi_ground_contact = False, bi_com_low_bat_act = LowBat_RETURN_OR_LAND,
      bi_com_bat_act_t = f32_lit 5, bi_control_auto_enabled = True\<rparr>"

definition battery_ctx_example :: "main_state_t \<Rightarrow> battery_ctx" where
  "battery_ctx_example m =
     \<lparr>bc_nav = nav_ctx_example m, bc_flags = flags_example,
      bc_monitor = \<lparr>bm_last_connected = 3, bm_warning = BATTERY_WARNING_NONE, bm_failsafe_timestamp = 0,
                    bm_rtl_time_actions_done = False, bm_current = f32_zero\<rparr>\<rparr>"

lemmas battery_examples =
  battery_example_def battery_inputs_example_def battery_ctx_example_def nav_ctx_example_def
  commander_examples battery_scan_all_def battery_scan_init_def

theorem battery_healthy_sound_witness:
  "bt_warning (battery_example 0 True 0) = BATTERY_WARNING_NONE \<and> bt_faults (battery_example 0 True 0) = 0
    \<and> hrt_elapsed_time (bi_now (battery_inputs_example [battery_example 0 True 0]))
        (bt_timestamp (battery_example 0 True 0)) < 5000000"
proof (rule battery_healthy_sound [where x = "battery_ctx_example MAIN_STATE_POSCTL"])
  show "battery_healthy (bc_flags (battery_status_check (battery_inputs_example [battery_example 0 True 0])
          (battery_ctx_example MAIN_STATE_POSCTL)))"
    by (simp add: battery_healthy_after Let_def battery_is_healthy_def battery_warning_update_def
        battery_scan_step_def battery_scan_connected_def battery_disconnected_def battery_examples
        battery_warnings hrt_elapsed_time_def)
qed (simp_all add: battery_examples)

text \<open>
  A battery that is disconnected in flight hides a worse warning: whatever the batteries before
  it reported, the result of the scan is the critical warning, so that an emergency of a connected
  battery is treated as a critical one.
\<close>

theorem battery_disconnect_hides_emergency:
  assumes "battery_disconnected True b (battery_scan_all now True lc bs)"
  shows "sc_worst_warning (battery_scan_all now True lc (bs @ [b])) = BATTERY_WARNING_CRITICAL"
  using assms
  by (simp add: battery_scan_all_def battery_scan_step_fields(1) battery_disconnected_def Let_def)

theorem battery_disconnect_hides_emergency_witness:
  "sc_worst_warning (battery_scan_all 1000 True 3 [battery_example 0 True BATTERY_WARNING_EMERGENCY])
     = BATTERY_WARNING_EMERGENCY
   \<and> sc_worst_warning (battery_scan_all 1000 True 3
        ([battery_example 0 True BATTERY_WARNING_EMERGENCY] @ [battery_example 1 False 0]))
     = BATTERY_WARNING_CRITICAL"
proof
  show "sc_worst_warning (battery_scan_all 1000 True 3 [battery_example 0 True BATTERY_WARNING_EMERGENCY])
     = BATTERY_WARNING_EMERGENCY"
    by (simp add: battery_scan_step_fields(1) battery_examples battery_disconnected_def battery_warnings)
  show "sc_worst_warning (battery_scan_all 1000 True 3
        ([battery_example 0 True BATTERY_WARNING_EMERGENCY] @ [battery_example 1 False 0]))
     = BATTERY_WARNING_CRITICAL"
    by (rule battery_disconnect_hides_emergency)
       (simp add: battery_disconnected_def battery_examples battery_scan_step_def
          battery_scan_connected_def Let_def battery_warnings)
qed

text \<open>
  C10: a landing is never interrupted by a failsafe: once the main state is \<^verbatim>\<open>AUTO_LAND\<close>, no sequence
  of navigation updates, battery checks and propeller failsafes changes it.
\<close>

theorem landing_not_interrupted:
  assumes "failsafe_step\<^sup>*\<^sup>* x y" and "main_of (bc_nav x) = MAIN_STATE_AUTO_LAND"
  shows "main_of (bc_nav y) = MAIN_STATE_AUTO_LAND"
  using assms by (induction rule: rtranclp_induct) (auto intro: land_step)

theorem landing_not_interrupted_witness:
  "main_of (bc_nav (battery_status_check (battery_inputs_example [battery_example 0 True BATTERY_WARNING_EMERGENCY])
      (battery_ctx_example MAIN_STATE_AUTO_LAND))) = MAIN_STATE_AUTO_LAND"
  by (rule landing_not_interrupted [OF r_into_rtranclp [where r = failsafe_step, OF fs_battery]])
     (simp add: battery_ctx_example_def nav_ctx_example_def internal_example_def)

text \<open>
  A precision landing, in contrast, is interrupted: when the remaining flight time falls below
  the time of a return, the battery check of a vehicle in \<^verbatim>\<open>AUTO_PRECLAND\<close> requests the return, since
  the test that should spare landing vehicles names \<^verbatim>\<open>AUTO_RTL\<close> and \<^verbatim>\<open>AUTO_LAND\<close> only.
\<close>

theorem precision_landing_interrupted:
  assumes "main_of (bc_nav x) = MAIN_STATE_AUTO_PRECLAND" and "armed (ctx_armed (bc_nav x))"
    and "bi_rtl_estimate inp = Some (t, True, safe_time)" and "bi_now inp - t < 2000000"
    and "\<not> bi_ground_contact inp" and "\<not> bm_rtl_time_actions_done (bc_monitor x)"
    and "f32_isfinite (sc_worst_time_s sc)" and "f32_ge safe_time (sc_worst_time_s sc)"
    and "global_position_valid (bc_flags x)" and "home_position_valid (bc_flags x)"
  shows "main_of (bc_nav (battery_rtl_time inp sc x)) = MAIN_STATE_AUTO_RTL"
  using assms by (simp add: battery_rtl_time_def Let_def)

theorem precision_landing_interrupted_witness:
  "main_of (bc_nav (battery_rtl_time (battery_inputs_example [])
      ((battery_scan_init 1000 0)\<lparr>sc_worst_time_s := f32_lit 100\<rparr>)
      (battery_ctx_example MAIN_STATE_AUTO_PRECLAND))) = MAIN_STATE_AUTO_RTL"
  by (rule precision_landing_interrupted [where t = 900 and safe_time = "f32_lit 200"])
     (simp_all add: battery_examples f32_lit_def f32_of_real_numeral)

end
