(* ===== verification/Flash_Fs.thy ===== *)
theory Flash_Fs
  imports Px4_Base
begin

text \<open>
  The parameter storage in flash, \<^verbatim>\<open>src/lib/parameters/flashparams/flashfs.c\<close>: a log of entries in a
  few flash sectors, each entry with a header, a checksum and a padded payload. Flash and RAM are
  maps from byte addresses to bytes; a \<^verbatim>\<open>flash_entry_header_t *\<close> is the address of its first byte and
  the packed fields are read at their offsets (magic 0, flag 4, crc 6, size 10, file token 12).
  The processor is little endian.

  Code outside of the repository is a parameter: the flash driver of NuttX (\<^verbatim>\<open>up_progmem_*\<close>), its
  \<^verbatim>\<open>crc32\<close> and \<^verbatim>\<open>malloc\<close>. The scanning loops follow pointers through the flash and can leave a
  sector or run forever on arbitrary contents. They are partial functions: the value \<^term>\<open>None\<close> of an
  operation means that it does not return, or that it uses a null pointer.
\<close>

subsection \<open>Memory\<close>

type_synonym memory = "nat \<Rightarrow> u8"

definition rd16 :: "memory \<Rightarrow> nat \<Rightarrow> u16" where
  "rd16 m a = ucast (m a) OR push_bit 8 (ucast (m (a + 1)))"

definition rd32 :: "memory \<Rightarrow> nat \<Rightarrow> u32" where
  "rd32 m a = ucast (m a) OR push_bit 8 (ucast (m (a + 1))) OR push_bit 16 (ucast (m (a + 2)))
              OR push_bit 24 (ucast (m (a + 3)))"

definition le16 :: "u16 \<Rightarrow> u8 list" where
  "le16 w = [ucast w, ucast (drop_bit 8 w)]"

definition le32 :: "u32 \<Rightarrow> u8 list" where
  "le32 w = [ucast w, ucast (drop_bit 8 w), ucast (drop_bit 16 w), ucast (drop_bit 24 w)]"

definition bytes_at :: "memory \<Rightarrow> nat \<Rightarrow> nat \<Rightarrow> u8 list" where
  "bytes_at m a n = map (\<lambda>i. m (a + i)) [0..<n]"

definition store :: "nat \<Rightarrow> u8 list \<Rightarrow> memory \<Rightarrow> memory" where
  "store a bs m = (\<lambda>x. if a \<le> x \<and> x < a + length bs then bs ! (x - a) else m x)"

subsection \<open>Entries\<close>

definition MagicSig :: u32 where "MagicSig = 0xaa553cc3"
definition BlankSig :: u32 where "BlankSig = 0xffffffff"
definition SizeMask :: u16 where "SizeMask = 0x0003"
definition MaskEntry :: u16 where "MaskEntry = NOT SizeMask"
definition BlankEntry :: u16 where "BlankEntry = 0xffff"
definition ValidEntry :: u16 where "ValidEntry = 0xa5ac AND NOT SizeMask"
definition ErasedEntry :: u16 where "ErasedEntry = 0x0000"

definition header_size :: nat where "header_size = 16"

definition h_magic :: "memory \<Rightarrow> nat \<Rightarrow> u32" where "h_magic m p = rd32 m p"
definition h_flag :: "memory \<Rightarrow> nat \<Rightarrow> u16" where "h_flag m p = rd16 m (p + 4)"
definition h_crc :: "memory \<Rightarrow> nat \<Rightarrow> u32" where "h_crc m p = rd32 m (p + 6)"
definition h_size :: "memory \<Rightarrow> nat \<Rightarrow> nat" where "h_size m p = unat (rd16 m (p + 10))"
definition h_token :: "memory \<Rightarrow> nat \<Rightarrow> u32" where "h_token m p = rd32 m (p + 12)"

definition parameters_token :: u32 where "parameters_token = 0x6d726170"

definition blank_flash :: "memory \<Rightarrow> nat \<Rightarrow> bool" where
  "blank_flash m p \<longleftrightarrow> rd32 m p = BlankSig"

definition blank_check :: "memory \<Rightarrow> nat \<Rightarrow> nat \<Rightarrow> bool" where
  "blank_check m pf new_size = list_all (\<lambda>i. blank_flash m (pf + 4 * i)) [0..<new_size div 4]"

definition valid_magic :: "memory \<Rightarrow> nat \<Rightarrow> bool" where
  "valid_magic m p \<longleftrightarrow> rd32 m p = MagicSig"

definition blank_magic :: "memory \<Rightarrow> nat \<Rightarrow> bool" where
  "blank_magic m p \<longleftrightarrow> rd32 m p = BlankSig"

definition erased_entry :: "memory \<Rightarrow> nat \<Rightarrow> bool" where
  "erased_entry m fi \<longleftrightarrow> h_flag m fi AND MaskEntry = ErasedEntry"

definition blank_entry :: "memory \<Rightarrow> nat \<Rightarrow> bool" where
  "blank_entry m fi \<longleftrightarrow> h_magic m fi = BlankSig \<and> h_flag m fi = BlankEntry"

definition valid_entry :: "memory \<Rightarrow> nat \<Rightarrow> bool" where
  "valid_entry m fi \<longleftrightarrow> h_flag m fi AND MaskEntry = ValidEntry"

definition entry_size_adjust :: "memory \<Rightarrow> nat \<Rightarrow> nat" where
  "entry_size_adjust m fi = unat (h_flag m fi AND SizeMask)"

definition next_entry :: "memory \<Rightarrow> nat \<Rightarrow> nat" where
  "next_entry m fi = fi + h_size m fi"

definition entry_data :: "nat \<Rightarrow> nat" where
  "entry_data fi = fi + header_size"

text \<open>The two lengths have the type \<^verbatim>\<open>uint16_t\<close>; the subtractions wrap around.\<close>

definition entry_data_length :: "memory \<Rightarrow> nat \<Rightarrow> nat" where
  "entry_data_length m fi =
     (h_size m fi + 2 * 65536 - (header_size + entry_size_adjust m fi)) mod 65536"

definition entry_crc_start :: "nat \<Rightarrow> nat" where
  "entry_crc_start fi = fi + 10"

definition entry_crc_length :: "memory \<Rightarrow> nat \<Rightarrow> nat" where
  "entry_crc_length m fi = (h_size m fi + 65536 - 10) mod 65536"

definition crc_ok :: "(u8 list \<Rightarrow> u32) \<Rightarrow> memory \<Rightarrow> nat \<Rightarrow> bool" where
  "crc_ok crc32 m fi \<longleftrightarrow> h_crc m fi = crc32 (bytes_at m (entry_crc_start fi) (entry_crc_length m fi))"

subsection \<open>Search\<close>

record sector_descriptor =
  sd_page :: nat
  sd_size :: nat
  sd_address :: nat

text \<open>The last word of a sector, the end of the loops over its words.\<close>

definition sector_pe :: "sector_descriptor \<Rightarrow> nat" where
  "sector_pe s = sd_address s + 4 * (sd_size s div 4) - 4"

partial_function (option) hunt_magic :: "memory \<Rightarrow> nat \<Rightarrow> nat \<Rightarrow> nat option" where
  "hunt_magic m pe p =
     (if p \<noteq> pe \<and> \<not> valid_magic m p then hunt_magic m pe (p + 4) else Some p)"

text \<open>
  The part of \<^verbatim>\<open>find_entry\<close> for one sector, from the label \<^verbatim>\<open>cont\<close>; the result \<^term>\<open>Some None\<close> goes on to
  the next sector. An entry with a wrong checksum also ends the search in its sector: after
  \<^verbatim>\<open>pmagic++\<close> the body of the loop over the sectors is left.
\<close>

partial_function (option) find_in_sector ::
  "(u8 list \<Rightarrow> u32) \<Rightarrow> memory \<Rightarrow> u32 \<Rightarrow> nat \<Rightarrow> nat \<Rightarrow> nat option option" where
  "find_in_sector crc32 m token pe p =
     Option.bind (hunt_magic m pe p)
       (\<lambda>pf. if pf = pe then Some None
             else if crc_ok crc32 m pf then
               if valid_entry m pf \<and> h_token m pf = token then Some (Some pf)
               else if blank_entry m (next_entry m pf) then Some None
               else find_in_sector crc32 m token pe (next_entry m pf)
             else Some None)"

fun find_entry ::
  "(u8 list \<Rightarrow> u32) \<Rightarrow> memory \<Rightarrow> u32 \<Rightarrow> sector_descriptor list \<Rightarrow> nat option option" where
  "find_entry crc32 m token [] = Some None"
| "find_entry crc32 m token (s # ss) =
     (case find_in_sector crc32 m token (sector_pe s) (sd_address s) of
        None \<Rightarrow> None
      | Some (Some pf) \<Rightarrow> Some (Some pf)
      | Some None \<Rightarrow> find_entry crc32 m token ss)"

partial_function (option) free_in_sector ::
  "(u8 list \<Rightarrow> u32) \<Rightarrow> memory \<Rightarrow> nat \<Rightarrow> nat \<Rightarrow> nat \<Rightarrow> nat option option" where
  "free_in_sector crc32 m required pe p =
     (let p1 = (if valid_magic m p then if crc_ok crc32 m p then next_entry m p else p + 4 else p)
      in if blank_magic m p1 \<and> blank_entry m p1 \<and> blank_check m p1 required then Some (Some p1)
         else if p1 + 4 \<noteq> pe then free_in_sector crc32 m required pe (p1 + 4) else Some None)"

fun find_free ::
  "(u8 list \<Rightarrow> u32) \<Rightarrow> memory \<Rightarrow> nat \<Rightarrow> sector_descriptor list \<Rightarrow> nat option option" where
  "find_free crc32 m required [] = Some None"
| "find_free crc32 m required (s # ss) =
     (case free_in_sector crc32 m required (sector_pe s) (sd_address s) of
        None \<Rightarrow> None
      | Some (Some pf) \<Rightarrow> Some (Some pf)
      | Some None \<Rightarrow> find_free crc32 m required ss)"

text \<open>A pointer to a sector descriptor is its index in the sector map.\<close>

definition get_next_sector_descriptor :: "sector_descriptor list \<Rightarrow> nat \<Rightarrow> nat option" where
  "get_next_sector_descriptor ss i =
     (if i < length ss then Some (if i + 1 < length ss then i + 1 else 0) else None)"

definition get_sector_info :: "sector_descriptor list \<Rightarrow> nat \<Rightarrow> nat option" where
  "get_sector_info ss p =
     List.find (\<lambda>i. sd_address (ss ! i) \<le> p \<and> p \<le> sd_address (ss ! i) + sd_size (ss ! i) - 1)
       [0..<length ss]"

definition check_free_space_in_sector ::
  "sector_descriptor list \<Rightarrow> memory \<Rightarrow> nat \<Rightarrow> nat \<Rightarrow> nat option option" where
  "check_free_space_in_sector ss m pf new_size =
     (case get_sector_info ss pf of
        None \<Rightarrow> None
      | Some i \<Rightarrow>
          let psector_first = sd_address (ss ! i);
              psector_last = psector_first + sd_size (ss ! i) - 1;
              pnext_end = (if valid_magic m pf then next_entry m pf else pf) + new_size
          in Some (if psector_first \<le> pnext_end \<and> pnext_end \<le> psector_last then None else Some i))"

subsection \<open>State and flash driver\<close>

record progmem =
  pm_getpage :: "nat \<Rightarrow> int"
  pm_eraseblock :: "int \<Rightarrow> memory \<Rightarrow> int \<times> memory"
  pm_write :: "nat \<Rightarrow> u8 list \<Rightarrow> memory \<Rightarrow> int \<times> memory"

text \<open>
  The static variables of the file, with the flash. The working buffer is the memory seen from its
  first byte, \<^term>\<open>None\<close> for a null pointer; the bytes from \<^verbatim>\<open>working_buffer_size\<close> on belong to others.
\<close>

record flashfs =
  ff_flash :: memory
  ff_sector_map :: "sector_descriptor list option"
  ff_working_buffer :: "memory option"
  ff_working_buffer_size :: nat
  ff_working_buffer_static :: bool
  ff_last_erased :: int

definition ENOENT :: int where "ENOENT = 2"
definition ENXIO :: int where "ENXIO = 6"
definition ENOMEM :: int where "ENOMEM = 12"
definition EFBIG :: int where "EFBIG = 27"
definition ENOSPC :: int where "ENOSPC = 28"

definition erase_sector ::
  "progmem \<Rightarrow> sector_descriptor \<Rightarrow> nat \<Rightarrow> flashfs \<Rightarrow> int \<times> flashfs" where
  "erase_sector pm sm pf st =
     (let block = pm_getpage pm pf
      in if block > 0 \<and> block = int (sd_page sm) then
           let (size, m) = pm_eraseblock pm block (ff_flash st)
           in (if size < 0 \<or> size \<noteq> int (sd_size sm) then size else 0,
               st\<lparr>ff_last_erased := int (sd_page sm), ff_flash := m\<rparr>)
         else (0, st))"

definition erase_entry :: "progmem \<Rightarrow> nat \<Rightarrow> flashfs \<Rightarrow> int \<times> flashfs" where
  "erase_entry pm pf st =
     (let (rv, m) = pm_write pm (pf + 4) (le16 ErasedEntry) (ff_flash st) in (rv, st\<lparr>ff_flash := m\<rparr>))"

subsection \<open>Operations\<close>

text \<open>The result of a successful read is the address of the data and its length.\<close>

definition parameter_flashfs_read ::
  "(u8 list \<Rightarrow> u32) \<Rightarrow> u32 \<Rightarrow> flashfs \<Rightarrow> (int \<times> (nat \<times> nat) option) option" where
  "parameter_flashfs_read crc32 token st =
     (case ff_sector_map st of
        None \<Rightarrow> Some (- ENXIO, None)
      | Some ss \<Rightarrow>
          (case find_entry crc32 (ff_flash st) token ss of
             None \<Rightarrow> None
           | Some None \<Rightarrow> Some (- ENOENT, None)
           | Some (Some pf) \<Rightarrow>
               let n = entry_data_length (ff_flash st) pf in Some (int n, Some (entry_data pf, n))))"

definition size_adjust :: "nat \<Rightarrow> nat" where
  "size_adjust buf_size = (buf_size + header_size + 3) div 4 * 4 - (buf_size + header_size)"

definition total_size :: "nat \<Rightarrow> nat" where
  "total_size buf_size = buf_size + header_size + size_adjust buf_size"

definition entry_body :: "u32 \<Rightarrow> nat \<Rightarrow> memory \<Rightarrow> memory" where
  "entry_body token buf_size b =
     (let b = store 0 (le32 MagicSig) b;
          b = store 12 (le32 token) b;
          b = store 4 (le16 (ValidEntry + of_nat (size_adjust buf_size))) b;
          b = store 10 (le16 (of_nat (total_size buf_size))) b
      in store (header_size + buf_size) (replicate (size_adjust buf_size) (ucast BlankSig)) b)"

definition entry_image :: "(u8 list \<Rightarrow> u32) \<Rightarrow> u32 \<Rightarrow> nat \<Rightarrow> memory \<Rightarrow> memory" where
  "entry_image crc32 token buf_size b =
     (let b = entry_body token buf_size b
      in store 6 (le32 (crc32 (bytes_at b (entry_crc_start 0) (entry_crc_length b 0)))) b)"

definition commit_entry ::
  "(u8 list \<Rightarrow> u32) \<Rightarrow> progmem \<Rightarrow> u32 \<Rightarrow> nat \<Rightarrow> nat \<Rightarrow> flashfs \<Rightarrow> (int \<times> flashfs) option" where
  "commit_entry crc32 pm token buf_size pf st =
     (case ff_working_buffer st of
        None \<Rightarrow> None
      | Some b \<Rightarrow>
          let b' = entry_image crc32 token buf_size b;
              (rv, m) = pm_write pm pf (bytes_at b' 0 (h_size b' 0)) (ff_flash st);
              system_bytes = int (header_size + size_adjust buf_size)
          in Some (if rv \<ge> system_bytes then rv - system_bytes else rv,
                   st\<lparr>ff_working_buffer := Some b', ff_flash := m\<rparr>))"

definition write_after ::
  "(u8 list \<Rightarrow> u32) \<Rightarrow> progmem \<Rightarrow> u32 \<Rightarrow> nat \<Rightarrow> nat \<Rightarrow> flashfs \<Rightarrow> (int \<times> flashfs) option" where
  "write_after crc32 pm token buf_size pf st =
     (let (rv, st) = erase_entry pm pf st
      in if rv < 0 then Some (rv, st)
         else commit_entry crc32 pm token buf_size (next_entry (ff_flash st) pf) st)"

definition write_next_sector ::
  "(u8 list \<Rightarrow> u32) \<Rightarrow> progmem \<Rightarrow> u32 \<Rightarrow> nat \<Rightarrow> nat \<Rightarrow> sector_descriptor \<Rightarrow> flashfs \<Rightarrow> (int \<times> flashfs) option" where
  "write_next_sector crc32 pm token buf_size pf sm st =
     (if sd_size sm < total_size buf_size then Some (- ENOSPC, st)
      else let (rv, st) = erase_entry pm pf st
           in if rv < 0 then Some (rv, st)
              else commit_entry crc32 pm token buf_size (sd_address sm)
                     (if blank_check (ff_flash st) (sd_address sm) (total_size buf_size) then st
                      else snd (erase_sector pm sm (sd_address sm) st)))"

definition parameter_flashfs_write ::
  "(u8 list \<Rightarrow> u32) \<Rightarrow> progmem \<Rightarrow> u32 \<Rightarrow> nat \<Rightarrow> flashfs \<Rightarrow> (int \<times> flashfs) option" where
  "parameter_flashfs_write crc32 pm token buf_size st =
     (case ff_sector_map st of
        None \<Rightarrow> Some (- ENXIO, st)
      | Some ss \<Rightarrow>
          (case find_entry crc32 (ff_flash st) token ss of
             None \<Rightarrow> None
           | Some None \<Rightarrow>
               (case find_free crc32 (ff_flash st) (total_size buf_size mod 65536) ss of
                  None \<Rightarrow> None
                | Some None \<Rightarrow> Some (- ENOSPC, st)
                | Some (Some pf) \<Rightarrow> commit_entry crc32 pm token buf_size pf st)
           | Some (Some pf) \<Rightarrow>
               (case check_free_space_in_sector ss (ff_flash st) pf (total_size buf_size) of
                  None \<Rightarrow> None
                | Some None \<Rightarrow> write_after crc32 pm token buf_size pf st
                | Some (Some i) \<Rightarrow>
                    (case get_next_sector_descriptor ss i of
                       None \<Rightarrow> None
                     | Some j \<Rightarrow> write_next_sector crc32 pm token buf_size pf (ss ! j) st))))"

definition parameter_flashfs_alloc ::
  "(nat \<Rightarrow> memory option) \<Rightarrow> nat \<Rightarrow> flashfs \<Rightarrow> int \<times> nat \<times> flashfs" where
  "parameter_flashfs_alloc malloc buf_size st =
     (if Option.is_none (ff_sector_map st) then (- ENXIO, buf_size, st)
      else
        let n = (buf_size + header_size) mod 65536;
            st = (if ff_working_buffer_static st then st
                  else st\<lparr>ff_working_buffer_size := n, ff_working_buffer := malloc n\<rparr>)
        in case ff_working_buffer st of
             None \<Rightarrow> (- ENOMEM, buf_size, st\<lparr>ff_working_buffer_size := 0\<rparr>)
           | Some b \<Rightarrow>
               (0, (ff_working_buffer_size st + 2 ^ 32 - header_size) mod 2 ^ 32,
                st\<lparr>ff_working_buffer := Some (store 0 (replicate (ff_working_buffer_size st) 0xff) b)\<rparr>))"

definition parameter_flashfs_free :: "flashfs \<Rightarrow> flashfs" where
  "parameter_flashfs_free st =
     (if \<not> ff_working_buffer_static st \<and> \<not> Option.is_none (ff_working_buffer st)
      then st\<lparr>ff_working_buffer := None, ff_working_buffer_size := 0\<rparr> else st)"

fun erase_sectors :: "progmem \<Rightarrow> sector_descriptor list \<Rightarrow> int \<Rightarrow> flashfs \<Rightarrow> int \<times> flashfs" where
  "erase_sectors pm [] rv st = (rv, st)"
| "erase_sectors pm (s # ss) rv st =
     (let (sz, st) = erase_sector pm s (sd_address s) st
      in if sz \<noteq> 0 then (sz, st) else erase_sectors pm ss (rv + int (sd_size s)) st)"

definition parameter_flashfs_erase :: "progmem \<Rightarrow> flashfs \<Rightarrow> int \<times> flashfs" where
  "parameter_flashfs_erase pm st =
     (case ff_sector_map st of None \<Rightarrow> (- ENXIO, st) | Some ss \<Rightarrow> erase_sectors pm ss 0 st)"

definition parameter_flashfs_init ::
  "(u8 list \<Rightarrow> u32) \<Rightarrow> progmem \<Rightarrow> sector_descriptor list \<Rightarrow> memory option \<Rightarrow> nat \<Rightarrow> flashfs
   \<Rightarrow> (int \<times> flashfs) option" where
  "parameter_flashfs_init crc32 pm fconfig buffer buf_size st =
     (let buf_size = (if Option.is_none buffer then 0 else buf_size);
          st = st\<lparr>ff_sector_map := Some fconfig, ff_working_buffer_static := (\<not> Option.is_none buffer),
                 ff_working_buffer := buffer, ff_working_buffer_size := buf_size, ff_last_erased := -1\<rparr>
      in case find_entry crc32 (ff_flash st) parameters_token fconfig of
           None \<Rightarrow> None
         | Some (Some _) \<Rightarrow> Some (0, st)
         | Some None \<Rightarrow>
             (case find_free crc32 (ff_flash st) (total_size buf_size mod 65536) fconfig of
                None \<Rightarrow> None
              | Some (Some _) \<Rightarrow> Some (0, st)
              | Some None \<Rightarrow> Some (parameter_flashfs_erase pm st)))"

text \<open>
  The end of \<^verbatim>\<open>param_export_internal\<close> in \<^verbatim>\<open>flashparams.cpp\<close>, which stores the \<^verbatim>\<open>n\<close> encoded bytes at \<^verbatim>\<open>enc\<close>
  unless the flash already holds them.
\<close>

definition param_export_commit ::
  "(u8 list \<Rightarrow> u32) \<Rightarrow> progmem \<Rightarrow> (nat \<Rightarrow> memory option) \<Rightarrow> memory \<Rightarrow> nat \<Rightarrow> flashfs
   \<Rightarrow> (int \<times> flashfs) option" where
  "param_export_commit crc32 pm malloc enc n st =
     (let (result, buf_size, st) = parameter_flashfs_alloc malloc n st
      in if result \<noteq> 0 then Some (result, st)
         else case parameter_flashfs_read crc32 parameters_token st of
                None \<Rightarrow> None
              | Some (was_result, was) \<Rightarrow>
                  let commit = (case was of
                                  None \<Rightarrow> True
                                | Some (was_buffer, was_buf_size) \<Rightarrow>
                                    was_result < 0 \<or> was_buf_size \<noteq> buf_size
                                    \<or> bytes_at (ff_flash st) was_buffer was_buf_size
                                      \<noteq> bytes_at enc 0 was_buf_size)
                  in if commit then
                       case parameter_flashfs_write crc32 pm parameters_token buf_size
                              (st\<lparr>ff_working_buffer :=
                                    map_option (store header_size (bytes_at enc 0 buf_size))
                                      (ff_working_buffer st)\<rparr>) of
                         None \<Rightarrow> None
                       | Some (rv, st) \<Rightarrow>
                           Some (if rv mod 2 ^ 32 = int buf_size then 0 else - EFBIG,
                                 parameter_flashfs_free st)
                     else Some (result, parameter_flashfs_free st))"

end
