(* ===== verification/Flash_Chain.thy ===== *)
theory Flash_Chain
  imports Flash_Fs
begin

text \<open>
  The layout of the parameter storage: what the sectors look like between two operations, that the
  searches of \<^verbatim>\<open>flashfs.c\<close> end on such sectors and what they find, and which part of the flash each
  fact depends on.
\<close>

subsection \<open>Little endian fields\<close>

lemma bit_u8_u32: "bit (ucast (b::u8) :: u32) n \<longleftrightarrow> n < 8 \<and> bit b n"
  using bit_imp_le_length [of b n] by (auto simp: bit_ucast_iff)

lemma bit_u32_u8: "bit (ucast (w::u32) :: u8) n \<longleftrightarrow> n < 8 \<and> bit w n"
  by (auto simp: bit_ucast_iff)

lemma bit_u8_u16: "bit (ucast (b::u8) :: u16) n \<longleftrightarrow> n < 8 \<and> bit b n"
  using bit_imp_le_length [of b n] by (auto simp: bit_ucast_iff)

lemma bit_u16_u8: "bit (ucast (w::u16) :: u8) n \<longleftrightarrow> n < 8 \<and> bit w n"
  by (auto simp: bit_ucast_iff)

lemma rd16_eqI:
  assumes "m a = ucast w" and "m (a + 1) = ucast (drop_bit 8 w)"
  shows "rd16 m a = w"
proof (rule bit_word_eqI)
  fix n assume "n < LENGTH(16)"
  then have n: "n < 8 \<or> (8 \<le> n \<and> n - 8 < 8)" by auto
  then show "bit (rd16 m a) n = bit w n"
    unfolding rd16_def assms
    by (auto simp: bit_or_iff bit_push_bit_iff bit_u8_u16 bit_u16_u8 bit_drop_bit_eq)
qed

lemma rd32_eqI:
  assumes "m a = ucast w" and "m (a + 1) = ucast (drop_bit 8 w)"
    and "m (a + 2) = ucast (drop_bit 16 w)" and "m (a + 3) = ucast (drop_bit 24 w)"
  shows "rd32 m a = w"
proof (rule bit_word_eqI)
  fix n assume "n < LENGTH(32)"
  then have n: "n < 8 \<or> (8 \<le> n \<and> n < 16) \<or> (16 \<le> n \<and> n < 24) \<or> (24 \<le> n \<and> n < 32)" by auto
  then show "bit (rd32 m a) n = bit w n"
    unfolding rd32_def assms
    by (auto simp: bit_or_iff bit_push_bit_iff bit_u8_u32 bit_u32_u8 bit_drop_bit_eq)
qed

lemma rd16_cong: "m a = m' a \<Longrightarrow> m (a + 1) = m' (a + 1) \<Longrightarrow> rd16 m a = rd16 m' a"
  by (simp add: rd16_def)

lemma rd32_cong:
  "m a = m' a \<Longrightarrow> m (a + 1) = m' (a + 1) \<Longrightarrow> m (a + 2) = m' (a + 2) \<Longrightarrow> m (a + 3) = m' (a + 3)
   \<Longrightarrow> rd32 m a = rd32 m' a"
  by (simp add: rd32_def)

lemma length_bytes_at [simp]: "length (bytes_at m a n) = n"
  by (simp add: bytes_at_def)

lemma nth_bytes_at [simp]: "i < n \<Longrightarrow> bytes_at m a n ! i = m (a + i)"
  by (simp add: bytes_at_def)

lemma bytes_at_eq_iff: "bytes_at m a n = bs \<longleftrightarrow> length bs = n \<and> (\<forall>i<n. m (a + i) = bs ! i)"
  by (auto simp: list_eq_iff_nth_eq)

lemma length_le16 [simp]: "length (le16 w) = 2"
  by (simp add: le16_def)

lemma length_le32 [simp]: "length (le32 w) = 4"
  by (simp add: le32_def)

lemma rd16_store [simp]: "rd16 (store a (le16 w) m) a = w"
  by (rule rd16_eqI) (simp_all add: store_def le16_def)

lemma rd32_store [simp]: "rd32 (store a (le32 w) m) a = w"
  by (rule rd32_eqI) (simp_all add: store_def le32_def)

lemma store_outside: "x < a \<or> a + length bs \<le> x \<Longrightarrow> store a bs m x = m x"
  by (auto simp: store_def)

lemma rd16_store_outside:
  "a + 2 \<le> b \<or> b + length bs \<le> a \<Longrightarrow> rd16 (store b bs m) a = rd16 m a"
  by (rule rd16_cong) (auto simp: store_def)

lemma rd32_store_outside:
  "a + 4 \<le> b \<or> b + length bs \<le> a \<Longrightarrow> rd32 (store b bs m) a = rd32 m a"
  by (rule rd32_cong) (auto simp: store_def)

subsection \<open>Blank flash\<close>

definition blank :: "memory \<Rightarrow> nat \<Rightarrow> nat \<Rightarrow> bool" where
  "blank m a b \<longleftrightarrow> (\<forall>x. a \<le> x \<and> x < b \<longrightarrow> m x = 0xff)"

lemma blank_mono: "blank m a b \<Longrightarrow> a \<le> a' \<Longrightarrow> b' \<le> b \<Longrightarrow> blank m a' b'"
  by (auto simp: blank_def)

lemma blank_cong:
  "(\<And>x. a \<le> x \<Longrightarrow> x < b \<Longrightarrow> m x = m' x) \<Longrightarrow> blank m a b = blank m' a b"
  by (auto simp: blank_def)

lemma blank_rd32: "blank m a b \<Longrightarrow> a \<le> p \<Longrightarrow> p + 4 \<le> b \<Longrightarrow> rd32 m p = BlankSig"
  by (rule rd32_eqI) (auto simp: blank_def BlankSig_def)

lemma blank_rd16: "blank m a b \<Longrightarrow> a \<le> p \<Longrightarrow> p + 2 \<le> b \<Longrightarrow> rd16 m p = BlankEntry"
  by (rule rd16_eqI) (auto simp: blank_def BlankEntry_def)

lemma blank_not_magic: "blank m a b \<Longrightarrow> a \<le> p \<Longrightarrow> p + 4 \<le> b \<Longrightarrow> \<not> valid_magic m p"
  by (simp add: valid_magic_def blank_rd32 BlankSig_def MagicSig_def)

lemma blank_blank_entry: "blank m a b \<Longrightarrow> a \<le> p \<Longrightarrow> p + 6 \<le> b \<Longrightarrow> blank_entry m p"
  by (simp add: blank_entry_def h_magic_def h_flag_def blank_rd32 blank_rd16)

lemma blank_blank_check: "blank m p (p + n) \<Longrightarrow> blank_check m p n"
  by (auto simp: blank_check_def list_all_iff blank_flash_def intro!: blank_rd32)

lemma hunt_blank:
  assumes "blank m p (p + 4 * k)"
  shows "hunt_magic m (p + 4 * k) p = Some (p + 4 * k)"
  using assms
proof (induction k arbitrary: p)
  case 0
  then show ?case by (subst hunt_magic.simps) simp
next
  case (Suc k)
  have "\<not> valid_magic m p" by (rule blank_not_magic [OF Suc.prems]) simp_all
  moreover have "hunt_magic m (p + 4 + 4 * k) (p + 4) = Some (p + 4 + 4 * k)"
    by (rule Suc.IH) (use Suc.prems in \<open>simp add: blank_def\<close>)
  ultimately show ?case by (subst hunt_magic.simps) (simp add: add.assoc)
qed

lemma hunt_magic_here: "valid_magic m p \<Longrightarrow> hunt_magic m pe p = Some p"
  by (subst hunt_magic.simps) simp

lemma hunt_to_end:
  assumes "blank m p pe" and "p \<le> pe" and "4 dvd p" and "4 dvd pe"
  shows "hunt_magic m pe p = Some pe"
proof -
  obtain k where "pe = p + 4 * k"
    using assms(2-4) by (metis dvd_diff_nat dvdE le_add_diff_inverse)
  then show ?thesis using hunt_blank [of m p k] assms(1) by simp
qed

subsection \<open>Entries and sectors\<close>

definition entry_ok :: "(u8 list \<Rightarrow> u32) \<Rightarrow> memory \<Rightarrow> nat \<Rightarrow> nat \<Rightarrow> bool" where
  "entry_ok crc32 m a sz \<longleftrightarrow>
     valid_magic m a \<and> h_size m a = sz \<and> header_size \<le> sz \<and> 4 dvd sz \<and> crc_ok crc32 m a"

fun spent_chain :: "(u8 list \<Rightarrow> u32) \<Rightarrow> memory \<Rightarrow> nat list \<Rightarrow> nat \<Rightarrow> nat \<Rightarrow> bool" where
  "spent_chain crc32 m [] a b \<longleftrightarrow> a = b"
| "spent_chain crc32 m (sz # zs) a b \<longleftrightarrow>
     entry_ok crc32 m a sz \<and> erased_entry m a \<and> spent_chain crc32 m zs (a + sz) b"

definition live_entry :: "(u8 list \<Rightarrow> u32) \<Rightarrow> memory \<Rightarrow> u32 \<Rightarrow> nat \<Rightarrow> u8 list \<Rightarrow> bool" where
  "live_entry crc32 m token a d \<longleftrightarrow>
     entry_ok crc32 m a (total_size (length d))
     \<and> h_flag m a = ValidEntry + of_nat (size_adjust (length d))
     \<and> h_token m a = token \<and> bytes_at m (a + header_size) (length d) = d"

definition sector_end :: "sector_descriptor \<Rightarrow> nat" where
  "sector_end s = sd_address s + sd_size s"

definition sector_ok :: "sector_descriptor \<Rightarrow> bool" where
  "sector_ok s \<longleftrightarrow> 4 dvd sd_address s \<and> 4 dvd sd_size s \<and> 20 \<le> sd_size s"

definition sector_spent :: "(u8 list \<Rightarrow> u32) \<Rightarrow> memory \<Rightarrow> sector_descriptor \<Rightarrow> bool" where
  "sector_spent crc32 m s \<longleftrightarrow>
     (\<exists>zs b. spent_chain crc32 m zs (sd_address s) b \<and> b \<le> sector_pe s \<and> blank m b (sector_end s))"

definition sector_live ::
  "(u8 list \<Rightarrow> u32) \<Rightarrow> memory \<Rightarrow> u32 \<Rightarrow> sector_descriptor \<Rightarrow> nat \<Rightarrow> u8 list \<Rightarrow> bool" where
  "sector_live crc32 m token s a d \<longleftrightarrow>
     (\<exists>zs. spent_chain crc32 m zs (sd_address s) a) \<and> live_entry crc32 m token a d
     \<and> a + total_size (length d) \<le> sector_pe s
     \<and> blank m (a + total_size (length d)) (sector_end s)"

lemma sector_pe_end: "sector_ok s \<Longrightarrow> sector_pe s + 4 = sector_end s"
  by (auto simp: sector_ok_def sector_pe_def sector_end_def)

lemma size_adjust_less: "size_adjust n < 4"
  by (simp add: size_adjust_def header_size_def)

lemma total_size_dvd: "4 dvd total_size n"
proof -
  have "total_size n = (n + header_size + 3) div 4 * 4"
    by (simp add: total_size_def size_adjust_def header_size_def)
  then show ?thesis by simp
qed

lemma header_le_total: "header_size \<le> total_size n"
  by (simp add: total_size_def)

lemma spent_chain_mono: "spent_chain crc32 m zs a b \<Longrightarrow> a \<le> b"
  by (induction zs arbitrary: a) (auto simp: entry_ok_def dest: add_leD1)

lemma spent_chain_dvd: "spent_chain crc32 m zs a b \<Longrightarrow> 4 dvd a \<Longrightarrow> 4 dvd b"
  by (induction zs arbitrary: a) (auto simp: entry_ok_def)

lemma spent_chain_append:
  "spent_chain crc32 m (zs @ ys) a c \<longleftrightarrow>
     (\<exists>b. spent_chain crc32 m zs a b \<and> spent_chain crc32 m ys b c)"
  by (induction zs arbitrary: a) auto

lemma erased_not_valid: "erased_entry m a \<Longrightarrow> \<not> valid_entry m a"
  by (simp add: erased_entry_def valid_entry_def ErasedEntry_def ValidEntry_def SizeMask_def)

lemma magic_not_blank: "valid_magic m a \<Longrightarrow> \<not> blank_entry m a"
  by (simp add: valid_magic_def blank_entry_def h_magic_def MagicSig_def BlankSig_def)

lemma valid_flag:
  fixes k :: nat
  assumes "k < 4"
  shows "(ValidEntry + of_nat k) AND MaskEntry = ValidEntry"
    and "unat ((ValidEntry + of_nat k) AND SizeMask) = k"
proof -
  have "k = 0 \<or> k = 1 \<or> k = 2 \<or> k = 3" using assms by linarith
  then show "(ValidEntry + of_nat k) AND MaskEntry = ValidEntry"
    and "unat ((ValidEntry + of_nat k) AND SizeMask) = k"
    by (auto simp: ValidEntry_def MaskEntry_def SizeMask_def)
qed

lemma h_size_less: "h_size m a < 65536"
  using unsigned_less [of "rd16 m (a + 10)", where ?'a = nat] by (simp add: h_size_def)

lemma live_entry_valid: "live_entry crc32 m token a d \<Longrightarrow> valid_entry m a"
  by (simp add: live_entry_def valid_entry_def valid_flag size_adjust_less)

lemma mod_wrap_sub:
  fixes a b :: nat
  assumes "b \<le> a" and "a < n" and "b \<le> n * k"
  shows "(a + n * k - b) mod n = a - b"
proof -
  have "a + n * k - b = (a - b) + n * k" using assms by simp
  moreover have "a - b < n" using assms by simp
  ultimately show ?thesis by (simp only: mod_mult_self2 mod_less)
qed

lemma live_entry_length:
  assumes "live_entry crc32 m token a d"
  shows "entry_data_length m a = length d"
proof -
  have s: "h_size m a = total_size (length d)" and "entry_size_adjust m a = size_adjust (length d)"
    using assms by (simp_all add: live_entry_def entry_ok_def entry_size_adjust_def valid_flag size_adjust_less)
  then have "entry_data_length m a
             = (total_size (length d) + 65536 * 2 - (header_size + size_adjust (length d))) mod 65536"
    by (simp add: entry_data_length_def)
  also have "\<dots> = total_size (length d) - (header_size + size_adjust (length d))"
    using h_size_less [of m a] s size_adjust_less [of "length d"]
    by (intro mod_wrap_sub) (simp_all add: total_size_def header_size_def)
  finally show ?thesis by (simp add: total_size_def)
qed

subsection \<open>What the searches find\<close>

lemma find_in_spent:
  assumes "spent_chain crc32 m zs a b" and "b \<le> pe" and "blank m b (pe + 4)"
    and "4 dvd a" and "4 dvd pe"
  shows "find_in_sector crc32 m token pe a = Some None"
  using assms(1,4)
proof (induction zs arbitrary: a)
  case Nil
  then have "hunt_magic m pe a = Some pe"
    using assms(2,3,5) blank_mono [OF assms(3), of b pe] by (intro hunt_to_end) simp_all
  then show ?case by (subst find_in_sector.simps) simp
next
  case (Cons sz zs)
  then have e: "entry_ok crc32 m a sz" "erased_entry m a" and c: "spent_chain crc32 m zs (a + sz) b"
    by simp_all
  have "a \<noteq> pe" using e(1) spent_chain_mono [OF c] assms(2) by (auto simp: entry_ok_def header_size_def)
  moreover have "find_in_sector crc32 m token pe (a + sz) = Some None"
    by (rule Cons.IH [OF c]) (use e Cons.prems in \<open>simp add: entry_ok_def\<close>)
  ultimately show ?case
    using e erased_not_valid [OF e(2)]
    by (subst find_in_sector.simps) (simp add: entry_ok_def hunt_magic_here next_entry_def)
qed

lemma find_in_live:
  assumes "spent_chain crc32 m zs a b" and "live_entry crc32 m token b d" and "b < pe"
  shows "find_in_sector crc32 m token pe a = Some (Some b)"
  using assms(1)
proof (induction zs arbitrary: a)
  case Nil
  then show ?case
    using assms(2,3) live_entry_valid [OF assms(2)]
    by (subst find_in_sector.simps) (simp add: live_entry_def entry_ok_def hunt_magic_here)
next
  case (Cons sz zs)
  then have e: "entry_ok crc32 m a sz" "erased_entry m a" and c: "spent_chain crc32 m zs (a + sz) b"
    by simp_all
  have "a \<noteq> pe" using e(1) spent_chain_mono [OF c] assms(3) by (auto simp: entry_ok_def header_size_def)
  moreover have "\<not> blank_entry m (a + sz)"
    using c assms(2) by (cases zs) (auto simp: live_entry_def entry_ok_def dest: magic_not_blank)
  ultimately show ?case
    using e erased_not_valid [OF e(2)] Cons.IH [OF c]
    by (subst find_in_sector.simps) (simp add: entry_ok_def hunt_magic_here next_entry_def)
qed

lemma sector_pe_dvd: "sector_ok s \<Longrightarrow> 4 dvd sector_pe s"
  by (simp add: sector_ok_def sector_pe_def dvd_diff_nat)

lemma find_sector_spent:
  assumes "sector_ok s" and "sector_spent crc32 m s"
  shows "find_in_sector crc32 m token (sector_pe s) (sd_address s) = Some None"
  using assms sector_pe_end [OF assms(1)] sector_pe_dvd [OF assms(1)]
  by (auto simp: sector_spent_def sector_ok_def intro!: find_in_spent)

lemma find_sector_live:
  assumes "sector_live crc32 m token s a d"
  shows "find_in_sector crc32 m token (sector_pe s) (sd_address s) = Some (Some a)"
  using assms header_le_total [of "length d"]
  by (auto simp: sector_live_def header_size_def intro!: find_in_live)

lemma find_entry_spent:
  assumes "\<And>s. s \<in> set ss \<Longrightarrow> sector_ok s" and "\<And>s. s \<in> set ss \<Longrightarrow> sector_spent crc32 m s"
  shows "find_entry crc32 m token ss = Some None"
  using assms by (induction ss) (simp_all add: find_sector_spent)

lemma find_entry_live:
  assumes "i < length ss" and "sector_live crc32 m token (ss ! i) a d"
    and "\<And>j. j < i \<Longrightarrow> sector_ok (ss ! j)" and "\<And>j. j < i \<Longrightarrow> sector_spent crc32 m (ss ! j)"
  shows "find_entry crc32 m token ss = Some (Some a)"
  using assms
proof (induction ss arbitrary: i)
  case (Cons s ss)
  show ?case
  proof (cases i)
    case 0
    then show ?thesis using Cons.prems by (simp add: find_sector_live)
  next
    case (Suc k)
    have "find_entry crc32 m token ss = Some (Some a)"
      by (rule Cons.IH [of k]) (use Cons.prems Suc in \<open>force+\<close>)
    then show ?thesis
      using Cons.prems(3,4) [of 0] Suc by (simp add: find_sector_spent)
  qed
qed simp

lemma find_free_blank:
  assumes "blank m (sd_address s) (sector_end s)" and "n \<le> sd_size s" and "20 \<le> sd_size s"
  shows "find_free crc32 m n (s # ss) = Some (Some (sd_address s))"
proof -
  have b: "blank m (sd_address s) (sd_address s + sd_size s)" using assms(1) by (simp add: sector_end_def)
  have "blank_entry m (sd_address s)" by (rule blank_blank_entry [OF b]) (use assms in simp_all)
  moreover have "blank_check m (sd_address s) n"
    by (rule blank_blank_check) (rule blank_mono [OF b], use assms in simp_all)
  moreover have "blank_magic m (sd_address s)" and "\<not> valid_magic m (sd_address s)"
    using calculation(1) magic_not_blank by (auto simp: blank_entry_def blank_magic_def h_magic_def)
  ultimately have "free_in_sector crc32 m n (sector_pe s) (sd_address s) = Some (Some (sd_address s))"
    by (subst free_in_sector.simps) simp
  then show ?thesis by simp
qed

subsection \<open>The part of the flash that a fact depends on\<close>

lemma entry_cong:
  assumes "\<And>x. a \<le> x \<Longrightarrow> x < a + sz \<Longrightarrow> m x = m' x" and "header_size \<le> sz"
  shows "valid_magic m a = valid_magic m' a" and "h_size m a = h_size m' a"
    and "h_flag m a = h_flag m' a" and "h_token m a = h_token m' a" and "h_crc m a = h_crc m' a"
  using assms
  by (auto simp: valid_magic_def h_size_def h_flag_def h_token_def h_crc_def header_size_def
           intro!: rd32_cong rd16_cong arg_cong [where f = unat] arg_cong [where f = "\<lambda>w. w = MagicSig"])

lemma entry_crc_cong:
  assumes "\<And>x. a + 6 \<le> x \<Longrightarrow> x < a + h_size m a \<Longrightarrow> m x = m' x" and "header_size \<le> h_size m a"
  shows "crc_ok crc32 m a = crc_ok crc32 m' a"
proof -
  have l: "entry_crc_length m a = h_size m a - 10"
    using mod_wrap_sub [of 10 "h_size m a" 65536 1] assms(2) h_size_less [of m a]
    by (simp add: entry_crc_length_def header_size_def add.commute)
  have "h_crc m a = h_crc m' a" and s: "h_size m a = h_size m' a"
    using assms by (auto simp: h_crc_def h_size_def header_size_def
                         intro!: rd32_cong rd16_cong arg_cong [where f = unat])
  moreover have "bytes_at m (a + 10) (h_size m a - 10) = bytes_at m' (a + 10) (h_size m a - 10)"
    using assms by (auto simp: bytes_at_eq_iff)
  moreover have "entry_crc_length m' a = h_size m a - 10"
    using l s by (simp add: entry_crc_length_def)
  ultimately show ?thesis
    using l by (simp add: crc_ok_def entry_crc_start_def)
qed

lemma entry_ok_cong:
  assumes "\<And>x. a \<le> x \<Longrightarrow> x < a + sz \<Longrightarrow> m x = m' x" and "entry_ok crc32 m a sz"
  shows "entry_ok crc32 m' a sz"
proof -
  have "header_size \<le> sz" "h_size m a = sz" using assms(2) by (simp_all add: entry_ok_def)
  then show ?thesis
    using assms entry_cong [of a sz m m'] entry_crc_cong [of a m m' crc32]
    by (simp add: entry_ok_def)
qed

lemma spent_chain_cong:
  assumes "\<And>x. a \<le> x \<Longrightarrow> x < b \<Longrightarrow> m x = m' x" and "spent_chain crc32 m zs a b"
  shows "spent_chain crc32 m' zs a b"
  using assms
proof (induction zs arbitrary: a)
  case (Cons sz zs)
  then have e: "entry_ok crc32 m a sz" "erased_entry m a" and c: "spent_chain crc32 m zs (a + sz) b"
    by simp_all
  have le: "a + sz \<le> b" by (rule spent_chain_mono [OF c])
  have "entry_ok crc32 m' a sz" by (rule entry_ok_cong [OF _ e(1)]) (use Cons.prems(1) le in simp)
  moreover have "h_flag m a = h_flag m' a"
    by (rule entry_cong(3) [of a sz]) (use Cons.prems(1) le e(1) in \<open>simp_all add: entry_ok_def\<close>)
  moreover have "spent_chain crc32 m' zs (a + sz) b"
    by (rule Cons.IH [OF _ c]) (use Cons.prems(1) in simp)
  ultimately show ?case using e(2) by (simp add: erased_entry_def)
qed simp

lemma live_entry_cong:
  assumes "\<And>x. a \<le> x \<Longrightarrow> x < a + total_size (length d) \<Longrightarrow> m x = m' x"
    and "live_entry crc32 m token a d"
  shows "live_entry crc32 m' token a d"
proof -
  have "entry_ok crc32 m' a (total_size (length d))"
    by (rule entry_ok_cong [OF assms(1)]) (use assms(2) in \<open>simp_all add: live_entry_def\<close>)
  moreover have "bytes_at m' (a + header_size) (length d) = bytes_at m (a + header_size) (length d)"
    using assms(1) by (auto simp: bytes_at_eq_iff total_size_def)
  ultimately show ?thesis
    using assms(2) entry_cong [OF assms(1) header_le_total] by (simp add: live_entry_def)
qed

lemma sector_spent_cong:
  assumes "\<And>x. sd_address s \<le> x \<Longrightarrow> x < sector_end s \<Longrightarrow> m x = m' x" and "sector_ok s"
    and "sector_spent crc32 m s"
  shows "sector_spent crc32 m' s"
proof -
  obtain zs b where z: "spent_chain crc32 m zs (sd_address s) b" "b \<le> sector_pe s" "blank m b (sector_end s)"
    using assms(3) by (auto simp: sector_spent_def)
  have "spent_chain crc32 m' zs (sd_address s) b"
    by (rule spent_chain_cong [OF _ z(1)]) (use assms(1,2) z(2) sector_pe_end in force)
  moreover have "blank m' b (sector_end s)"
    using z(3) spent_chain_mono [OF z(1)] assms(1) by (simp add: blank_def)
  ultimately show ?thesis using z(2) by (auto simp: sector_spent_def)
qed

lemma blank_sector_spent:
  assumes "sector_ok s" and "blank m (sd_address s) (sector_end s)"
  shows "sector_spent crc32 m s"
proof -
  have "sd_address s \<le> sector_pe s" using assms(1) by (auto simp: sector_ok_def sector_pe_def)
  then show ?thesis using assms(2) by (auto simp: sector_spent_def intro!: exI [of _ "[]"])
qed

text \<open>A sector whose first words are blank is blank.\<close>

lemma spent_blank_check:
  assumes "sector_ok s" and "sector_spent crc32 m s" and "blank_check m (sd_address s) n" and "4 \<le> n"
  shows "blank m (sd_address s) (sector_end s)"
proof -
  obtain zs b where z: "spent_chain crc32 m zs (sd_address s) b" "blank m b (sector_end s)"
    using assms(2) by (auto simp: sector_spent_def)
  have "0 \<in> set [0..<n div 4]" using assms(4) by simp
  then have "rd32 m (sd_address s) = BlankSig"
    using assms(3) by (force simp: blank_check_def list_all_iff blank_flash_def)
  then have "zs = []"
    using z(1) by (cases zs) (auto simp: entry_ok_def valid_magic_def BlankSig_def MagicSig_def)
  then show ?thesis using z by simp
qed

end
