(* ===== verification/Flash_Params.thy ===== *)
theory Flash_Params
  imports Flash_Chain
begin

text \<open>
  The contract of the parameter storage: it holds one file, the last one that was written. The
  contract is a function from the abstract content, an optional byte list, and every operation of
  \<^verbatim>\<open>flashfs.c\<close> and the export of \<^verbatim>\<open>flashparams.cpp\<close> refine it, for every flash driver that behaves as
  its interface documents.
\<close>

subsection \<open>The flash driver\<close>

text \<open>
  A write within a sector programs the given bytes, which on erased cells and for zero bytes
  succeeds, and leaves the rest alone; erasing the block of a sector sets its bytes to 0xff.
\<close>

definition progmem_ok :: "progmem \<Rightarrow> sector_descriptor list \<Rightarrow> bool" where
  "progmem_ok pm ss \<longleftrightarrow>
     (\<forall>s\<in>set ss. \<forall>a bs m. sd_address s \<le> a \<and> a + length bs \<le> sector_end s \<longrightarrow>
        fst (pm_write pm a bs m) = int (length bs)
        \<and> (\<forall>x. x < a \<or> a + length bs \<le> x \<longrightarrow> snd (pm_write pm a bs m) x = m x)
        \<and> (\<forall>i<length bs. m (a + i) = 0xff \<or> bs ! i = 0 \<longrightarrow> snd (pm_write pm a bs m) (a + i) = bs ! i))
     \<and> (\<forall>s\<in>set ss. 0 < sd_page s \<and> pm_getpage pm (sd_address s) = int (sd_page s)
          \<and> (\<forall>m. fst (pm_eraseblock pm (int (sd_page s)) m) = int (sd_size s)
                 \<and> (\<forall>x. snd (pm_eraseblock pm (int (sd_page s)) m) x
                         = (if sd_address s \<le> x \<and> x < sector_end s then 0xff else m x))))"

lemma progmem_write:
  assumes "progmem_ok pm ss" and "s \<in> set ss" and "sd_address s \<le> a" and "a + length bs \<le> sector_end s"
  obtains m' where "pm_write pm a bs m = (int (length bs), m')"
    and "\<And>x. x < a \<or> a + length bs \<le> x \<Longrightarrow> m' x = m x"
    and "\<And>i. i < length bs \<Longrightarrow> m (a + i) = 0xff \<or> bs ! i = 0 \<Longrightarrow> m' (a + i) = bs ! i"
proof -
  have l: "fst (pm_write pm a bs m) = int (length bs)"
    "\<And>x. x < a \<or> a + length bs \<le> x \<Longrightarrow> snd (pm_write pm a bs m) x = m x"
    "\<And>i. i < length bs \<Longrightarrow> m (a + i) = 0xff \<or> bs ! i = 0 \<Longrightarrow> snd (pm_write pm a bs m) (a + i) = bs ! i"
    using assms unfolding progmem_ok_def by blast+
  show thesis
    by (rule that [of "snd (pm_write pm a bs m)"]) (use l in \<open>simp_all add: prod_eq_iff\<close>)
qed

lemma erase_sector_ok:
  assumes "progmem_ok pm ss" and "s \<in> set ss"
  obtains m' where "erase_sector pm s (sd_address s) st
                    = (0, st\<lparr>ff_last_erased := int (sd_page s), ff_flash := m'\<rparr>)"
    and "blank m' (sd_address s) (sector_end s)"
    and "\<And>x. x < sd_address s \<or> sector_end s \<le> x \<Longrightarrow> m' x = ff_flash st x"
proof -
  let ?m = "snd (pm_eraseblock pm (int (sd_page s)) (ff_flash st))"
  have l: "0 < sd_page s" "pm_getpage pm (sd_address s) = int (sd_page s)"
    "fst (pm_eraseblock pm (int (sd_page s)) (ff_flash st)) = int (sd_size s)"
    "\<And>x. ?m x = (if sd_address s \<le> x \<and> x < sector_end s then 0xff else ff_flash st x)"
    using assms unfolding progmem_ok_def by blast+
  show thesis
    by (rule that [of ?m])
      (use l in \<open>auto simp: erase_sector_def case_prod_beta Let_def blank_def\<close>)
qed

subsection \<open>The image of an entry\<close>

lemma entry_body_fields:
  "rd32 (entry_body token n b) 0 = MagicSig" "rd32 (entry_body token n b) 12 = token"
  "rd16 (entry_body token n b) 4 = ValidEntry + of_nat (size_adjust n)"
  "rd16 (entry_body token n b) 10 = of_nat (total_size n)"
  by (simp_all add: entry_body_def header_size_def rd32_store_outside rd16_store_outside)

lemma entry_body_data:
  "i < n \<Longrightarrow> entry_body token n b (header_size + i) = b (header_size + i)"
  by (simp add: entry_body_def header_size_def store_outside)

lemma entry_image_outside:
  "x < 6 \<or> 10 \<le> x \<Longrightarrow> entry_image crc32 token n b x = entry_body token n b x"
  by (auto simp: entry_image_def Let_def store_outside)

lemma entry_image_size:
  "total_size n < 65536 \<Longrightarrow> h_size (entry_image crc32 token n b) 0 = total_size n"
  using entry_body_fields(4) [of token n b]
  by (simp add: h_size_def entry_image_def Let_def rd16_store_outside unsigned_of_nat take_bit_eq_mod)

lemma entry_image_live:
  assumes "total_size n < 65536"
  shows "live_entry crc32 (entry_image crc32 token n b) token 0 (bytes_at b header_size n)"
proof -
  let ?c = "entry_image crc32 token n b" and ?e = "entry_body token n b"
  have f: "rd32 ?c 0 = MagicSig" "rd32 ?c 12 = token" "rd16 ?c 4 = ValidEntry + of_nat (size_adjust n)"
    and s: "rd16 ?c 10 = rd16 ?e 10"
    using entry_body_fields [of token n b]
    by (simp_all add: entry_image_def Let_def rd32_store_outside rd16_store_outside)
  have l: "entry_crc_length ?c 0 = entry_crc_length ?e 0"
    using s by (simp add: entry_crc_length_def h_size_def)
  have "bytes_at ?c 10 k = bytes_at ?e 10 k" for k
    by (simp add: bytes_at_eq_iff entry_image_outside)
  then have "crc_ok crc32 ?c 0"
    using l by (simp add: crc_ok_def h_crc_def entry_crc_start_def)
       (simp add: entry_image_def Let_def entry_crc_start_def)
  moreover have "bytes_at ?c header_size n = bytes_at b header_size n"
    using entry_body_data by (simp add: bytes_at_eq_iff entry_image_outside header_size_def)
  ultimately show ?thesis
    using f entry_image_size [OF assms]
    by (simp add: live_entry_def entry_ok_def valid_magic_def h_flag_def h_token_def header_le_total
        total_size_dvd)
qed

lemma rd32_shift: "rd32 m (a + k) = rd32 (\<lambda>x. m (a + x)) k"
  by (simp add: rd32_def add.assoc)

lemma rd16_shift: "rd16 m (a + k) = rd16 (\<lambda>x. m (a + x)) k"
  by (simp add: rd16_def add.assoc)

lemma bytes_at_shift: "bytes_at m (a + k) n = bytes_at (\<lambda>x. m (a + x)) k n"
  by (simp add: bytes_at_def add.assoc)

lemma live_entry_shift:
  "live_entry crc32 m token a d \<longleftrightarrow> live_entry crc32 (\<lambda>x. m (a + x)) token 0 d"
  using rd32_shift [of m a 0]
  by (simp add: live_entry_def entry_ok_def valid_magic_def h_flag_def h_token_def h_size_def crc_ok_def
      h_crc_def rd32_shift [of m a] rd16_shift [of m a] bytes_at_shift [of m a] entry_crc_start_def
      entry_crc_length_def)

lemma live_entry_copy:
  assumes "live_entry crc32 b token 0 d" and "\<And>i. i < total_size (length d) \<Longrightarrow> m (a + i) = b i"
  shows "live_entry crc32 m token a d"
  unfolding live_entry_shift [of crc32 m token a d]
  by (rule live_entry_cong [OF _ assms(1)]) (simp add: assms(2))

lemma commit_entry_ok:
  assumes "progmem_ok pm ss" and "s \<in> set ss" and "ff_working_buffer st = Some b"
    and "total_size n < 65536" and "sd_address s \<le> pf" and "pf + total_size n \<le> sector_end s"
    and "blank (ff_flash st) pf (pf + total_size n)"
  obtains m' where "commit_entry crc32 pm token n pf st
                    = Some (int n, st\<lparr>ff_working_buffer := Some (entry_image crc32 token n b), ff_flash := m'\<rparr>)"
    and "live_entry crc32 m' token pf (bytes_at b header_size n)"
    and "\<And>x. x < pf \<or> pf + total_size n \<le> x \<Longrightarrow> m' x = ff_flash st x"
proof -
  let ?c = "entry_image crc32 token n b"
  let ?bs = "bytes_at ?c 0 (total_size n)"
  obtain m' where w: "pm_write pm pf ?bs (ff_flash st) = (int (total_size n), m')"
    and o: "\<And>x. x < pf \<or> pf + total_size n \<le> x \<Longrightarrow> m' x = ff_flash st x"
    and i: "\<And>i. i < total_size n \<Longrightarrow> ff_flash st (pf + i) = 0xff \<or> ?bs ! i = 0 \<Longrightarrow> m' (pf + i) = ?bs ! i"
    by (rule progmem_write [OF assms(1,2,5), of ?bs "ff_flash st"]) (use assms(6) in simp_all)
  have "m' (pf + i) = ?c i" if "i < total_size n" for i
    using i [OF that] that assms(7) by (simp add: blank_def)
  then have "live_entry crc32 m' token pf (bytes_at b header_size n)"
    by (intro live_entry_copy [OF entry_image_live [OF assms(4)]]) simp
  moreover have "commit_entry crc32 pm token n pf st
                 = Some (int n, st\<lparr>ff_working_buffer := Some ?c, ff_flash := m'\<rparr>)"
    using w assms(3,4) by (simp add: commit_entry_def entry_image_size total_size_def)
  ultimately show thesis using that o by blast
qed

lemma erase_entry_ok:
  assumes "progmem_ok pm ss" and "s \<in> set ss" and "sd_address s \<le> a" and "a + 6 \<le> sector_end s"
  obtains m' where "erase_entry pm a st = (2, st\<lparr>ff_flash := m'\<rparr>)" and "h_flag m' a = ErasedEntry"
    and "\<And>x. x < a + 4 \<or> a + 6 \<le> x \<Longrightarrow> m' x = ff_flash st x"
proof -
  obtain m' where w: "pm_write pm (a + 4) (le16 ErasedEntry) (ff_flash st) = (2, m')"
    and o: "\<And>x. x < a + 4 \<or> a + 4 + 2 \<le> x \<Longrightarrow> m' x = ff_flash st x"
    and i: "\<And>i. i < 2 \<Longrightarrow> ff_flash st (a + 4 + i) = 0xff \<or> le16 ErasedEntry ! i = 0
              \<Longrightarrow> m' (a + 4 + i) = le16 ErasedEntry ! i"
    by (rule progmem_write [OF assms(1,2), of "a + 4" "le16 ErasedEntry" "ff_flash st"])
      (use assms in simp_all)
  have "m' (a + 4) = 0" "m' (a + 4 + 1) = 0"
    using i [of 0] i [of 1] by (simp_all add: le16_def ErasedEntry_def)
  then have "h_flag m' a = ErasedEntry"
    by (simp add: h_flag_def ErasedEntry_def rd16_eqI)
  moreover have "m' x = ff_flash st x" if "x < a + 4 \<or> a + 6 \<le> x" for x
    using that by (intro o) auto
  ultimately show thesis using that [of m'] w by (simp add: erase_entry_def)
qed

lemma erased_live_spent:
  assumes "live_entry crc32 m token a d" and "h_flag m' a = ErasedEntry"
    and "\<And>x. x < a + 4 \<or> a + 6 \<le> x \<Longrightarrow> m' x = m x"
  shows "spent_chain crc32 m' [total_size (length d)] a (a + total_size (length d))"
proof -
  have e: "entry_ok crc32 m a (total_size (length d))" using assms(1) by (simp add: live_entry_def)
  have "valid_magic m' a = valid_magic m a" and s: "h_size m' a = h_size m a"
    using assms(3) by (auto simp: valid_magic_def h_size_def rd32_def rd16_def)
  moreover have "crc_ok crc32 m a = crc_ok crc32 m' a"
    by (rule entry_crc_cong) (use e assms(3) in \<open>simp_all add: entry_ok_def\<close>)
  ultimately show ?thesis
    using e assms(2) by (simp add: entry_ok_def erased_entry_def ErasedEntry_def)
qed

subsection \<open>The content of the storage\<close>

definition sectors_ok :: "sector_descriptor list \<Rightarrow> bool" where
  "sectors_ok ss \<longleftrightarrow> ss \<noteq> [] \<and> (\<forall>s\<in>set ss. sector_ok s)
     \<and> (\<forall>i j. i < j \<and> j < length ss \<longrightarrow>
          sector_end (ss ! i) \<le> sd_address (ss ! j) \<or> sector_end (ss ! j) \<le> sd_address (ss ! i))"

text \<open>An entry fits if one word of every sector remains and its size is a 16 bit number.\<close>

definition entry_fits :: "sector_descriptor list \<Rightarrow> nat \<Rightarrow> bool" where
  "entry_fits ss n \<longleftrightarrow> total_size n < 65536 \<and> (\<forall>s\<in>set ss. total_size n + 4 \<le> sd_size s)"

fun fs_holds ::
  "(u8 list \<Rightarrow> u32) \<Rightarrow> memory \<Rightarrow> sector_descriptor list \<Rightarrow> u32 \<Rightarrow> u8 list option \<Rightarrow> bool" where
  "fs_holds crc32 m ss token None \<longleftrightarrow> (\<forall>s\<in>set ss. blank m (sd_address s) (sector_end s))"
| "fs_holds crc32 m ss token (Some d) \<longleftrightarrow>
     (\<exists>i<length ss. (\<exists>a. sector_live crc32 m token (ss ! i) a d)
        \<and> (\<forall>j<length ss. j \<noteq> i \<longrightarrow> sector_spent crc32 m (ss ! j)))"

lemma sectors_ok_nth: "sectors_ok ss \<Longrightarrow> i < length ss \<Longrightarrow> sector_ok (ss ! i)"
  by (simp add: sectors_ok_def)

lemma sectors_disjoint:
  assumes "sectors_ok ss" and "i < length ss" and "j < length ss" and "i \<noteq> j"
  shows "sector_end (ss ! i) \<le> sd_address (ss ! j) \<or> sector_end (ss ! j) \<le> sd_address (ss ! i)"
  using assms by (cases i j rule: linorder_cases) (auto simp: sectors_ok_def)

lemma live_bounds:
  assumes "sector_ok s" and "sector_live crc32 m token s a d"
  shows "sd_address s \<le> a" and "4 dvd a" and "a + total_size (length d) + 4 \<le> sector_end s"
  using assms sector_pe_end [OF assms(1)]
  by (auto simp: sector_live_def sector_ok_def dest: spent_chain_mono spent_chain_dvd)

lemma live_spent_others:
  assumes "sectors_ok ss" and "i < length ss" and "sector_live crc32 m' token (ss ! i) a d"
    and "\<And>j. j < length ss \<Longrightarrow> j \<noteq> i \<Longrightarrow> sector_spent crc32 m (ss ! j)"
    and "\<And>x. x < sd_address (ss ! i) \<or> sector_end (ss ! i) \<le> x \<Longrightarrow> m' x = m x"
  shows "fs_holds crc32 m' ss token (Some d)"
proof -
  have "sector_spent crc32 m' (ss ! j)" if j: "j < length ss" "j \<noteq> i" for j
  proof (rule sector_spent_cong [OF _ sectors_ok_nth [OF assms(1) j(1)] assms(4) [OF j]])
    fix x assume "sd_address (ss ! j) \<le> x" and "x < sector_end (ss ! j)"
    then show "m x = m' x"
      using sectors_disjoint [OF assms(1) j(1) assms(2) j(2)] assms(5) [of x] by force
  qed
  then show ?thesis using assms(2,3) by auto
qed

lemma fs_find:
  assumes "sectors_ok ss"
  shows "fs_holds crc32 m ss token None \<Longrightarrow> find_entry crc32 m token ss = Some None"
    and "i < length ss \<Longrightarrow> sector_live crc32 m token (ss ! i) a d
         \<Longrightarrow> (\<And>j. j < length ss \<Longrightarrow> j \<noteq> i \<Longrightarrow> sector_spent crc32 m (ss ! j))
         \<Longrightarrow> find_entry crc32 m token ss = Some (Some a)"
  using assms
  by (auto simp: sectors_ok_def intro!: find_entry_spent blank_sector_spent)
    (rule find_entry_live, auto)

subsection \<open>Reading\<close>

lemma read_ok:
  assumes "sectors_ok ss" and "ff_sector_map st = Some ss"
    and "fs_holds crc32 (ff_flash st) ss token (Some d)"
  obtains p where "parameter_flashfs_read crc32 token st = Some (int (length d), Some (p, length d))"
    and "bytes_at (ff_flash st) p (length d) = d"
proof -
  obtain i a where i: "i < length ss" and l: "sector_live crc32 (ff_flash st) token (ss ! i) a d"
    and o: "\<And>j. j < length ss \<Longrightarrow> j \<noteq> i \<Longrightarrow> sector_spent crc32 (ff_flash st) (ss ! j)"
    using assms(3) by auto
  have e: "live_entry crc32 (ff_flash st) token a d" using l by (simp add: sector_live_def)
  show thesis
    by (rule that [of "entry_data a"])
      (use fs_find(2) [OF assms(1) i l o] assms(2) live_entry_length [OF e] e in
        \<open>simp_all add: parameter_flashfs_read_def live_entry_def entry_data_def Let_def\<close>)
qed

lemma read_empty:
  assumes "sectors_ok ss" and "ff_sector_map st = Some ss" and "fs_holds crc32 (ff_flash st) ss token None"
  shows "parameter_flashfs_read crc32 token st = Some (- ENOENT, None)"
  using fs_find(1) [OF assms(1,3)] assms(2) by (simp add: parameter_flashfs_read_def)

subsection \<open>Writing\<close>

text \<open>The outcome of a successful write of the \<^verbatim>\<open>n\<close> bytes in the working buffer.\<close>

definition stores ::
  "(u8 list \<Rightarrow> u32) \<Rightarrow> sector_descriptor list \<Rightarrow> u32 \<Rightarrow> nat \<Rightarrow> memory \<Rightarrow> flashfs
   \<Rightarrow> (int \<times> flashfs) option \<Rightarrow> bool" where
  "stores crc32 ss token n b st r \<longleftrightarrow>
     (\<exists>st'. r = Some (int n, st')
        \<and> fs_holds crc32 (ff_flash st') ss token (Some (bytes_at b header_size n))
        \<and> ff_sector_map st' = ff_sector_map st
        \<and> ff_working_buffer_static st' = ff_working_buffer_static st
        \<and> ff_working_buffer st' = Some (entry_image crc32 token n b))"

lemma stores_frame:
  "stores crc32 ss token n b st' r \<Longrightarrow> ff_sector_map st' = ff_sector_map st
   \<Longrightarrow> ff_working_buffer_static st' = ff_working_buffer_static st \<Longrightarrow> stores crc32 ss token n b st r"
  by (simp add: stores_def)

lemma commit_blank_sector:
  assumes "progmem_ok pm ss" and "sectors_ok ss" and "ff_working_buffer st = Some b" and "entry_fits ss n"
    and "j < length ss" and "blank (ff_flash st) (sd_address (ss ! j)) (sector_end (ss ! j))"
    and "\<And>k. k < length ss \<Longrightarrow> sector_spent crc32 (ff_flash st) (ss ! k)"
  shows "stores crc32 ss token n b st (commit_entry crc32 pm token n (sd_address (ss ! j)) st)"
proof -
  let ?s = "ss ! j" and ?d = "bytes_at b header_size n"
  have s: "?s \<in> set ss" "sector_ok ?s" using assms(2,5) by (simp_all add: sectors_ok_nth)
  have f: "total_size n < 65536" "total_size n + 4 \<le> sd_size ?s"
    using assms(4) s(1) by (simp_all add: entry_fits_def)
  have f': "sd_address ?s + total_size n \<le> sector_end ?s" using f(2) by (simp add: sector_end_def)
  have b: "blank (ff_flash st) (sd_address ?s) (sd_address ?s + total_size n)"
    by (rule blank_mono [OF assms(6)]) (use f' in simp_all)
  obtain m' where c: "commit_entry crc32 pm token n (sd_address ?s) st
      = Some (int n, st\<lparr>ff_working_buffer := Some (entry_image crc32 token n b), ff_flash := m'\<rparr>)"
    and l: "live_entry crc32 m' token (sd_address ?s) ?d"
    and o: "\<And>x. x < sd_address ?s \<or> sd_address ?s + total_size n \<le> x \<Longrightarrow> m' x = ff_flash st x"
    by (rule commit_entry_ok [where ?crc32.0 = crc32 and token = token,
          OF assms(1) s(1) assms(3) f(1) order_refl f' b]) blast
  have "blank m' (sd_address ?s + total_size n) (sector_end ?s)"
    using assms(6) o by (simp add: blank_def)
  moreover have "sd_address ?s + total_size n \<le> sector_pe ?s"
    using f(2) sector_pe_end [OF s(2)] by (simp add: sector_end_def)
  ultimately have "sector_live crc32 m' token ?s (sd_address ?s) ?d"
    using l by (auto simp: sector_live_def intro!: exI [of _ "[]"])
  then have "fs_holds crc32 m' ss token (Some ?d)"
    by (rule live_spent_others [OF assms(2,5), where m = "ff_flash st"]) (use assms(7) o f' in auto)
  then show ?thesis using c by (simp add: stores_def)
qed

lemma write_empty:
  assumes "progmem_ok pm ss" and "sectors_ok ss" and "ff_sector_map st = Some ss"
    and "ff_working_buffer st = Some b" and "entry_fits ss n"
    and "fs_holds crc32 (ff_flash st) ss token None"
  shows "stores crc32 ss token n b st (parameter_flashfs_write crc32 pm token n st)"
proof -
  obtain s ss' where ss: "ss = s # ss'" using assms(2) by (cases ss) (auto simp: sectors_ok_def)
  have s: "sector_ok s" and f: "total_size n < 65536" "total_size n + 4 \<le> sd_size s"
    using assms(2,5) ss by (simp_all add: sectors_ok_def entry_fits_def)
  have "blank (ff_flash st) (sd_address s) (sector_end s)" using assms(6) ss by simp
  then have "find_free crc32 (ff_flash st) (total_size n mod 65536) ss = Some (Some (sd_address s))"
    using s f by (simp only: ss, intro find_free_blank) (simp_all add: sector_ok_def)
  then have "parameter_flashfs_write crc32 pm token n st = commit_entry crc32 pm token n (sd_address s) st"
    using fs_find(1) [OF assms(2,6)] assms(3) by (simp add: parameter_flashfs_write_def)
  moreover have "sector_spent crc32 (ff_flash st) (ss ! k)" if "k < length ss" for k
    by (rule blank_sector_spent) (use that assms(2,6) in \<open>simp_all add: sectors_ok_nth\<close>)
  ultimately show ?thesis
    using commit_blank_sector [OF assms(1,2,4,5), of 0 crc32 token] assms(6) ss by simp
qed

text \<open>Marking the live entry as erased leaves a storage with spent sectors only.\<close>

lemma erase_live_entry:
  assumes "progmem_ok pm ss" and "sectors_ok ss" and "i < length ss"
    and "sector_live crc32 (ff_flash st) token (ss ! i) a d"
    and "\<And>j. j < length ss \<Longrightarrow> j \<noteq> i \<Longrightarrow> sector_spent crc32 (ff_flash st) (ss ! j)"
  obtains m' zs where "erase_entry pm a st = (2, st\<lparr>ff_flash := m'\<rparr>)"
    and "spent_chain crc32 m' zs (sd_address (ss ! i)) (a + total_size (length d))"
    and "next_entry m' a = a + total_size (length d)"
    and "blank m' (a + total_size (length d)) (sector_end (ss ! i))"
    and "\<And>x. x < sd_address (ss ! i) \<or> sector_end (ss ! i) \<le> x \<Longrightarrow> m' x = ff_flash st x"
    and "\<And>k. k < length ss \<Longrightarrow> sector_spent crc32 m' (ss ! k)"
proof -
  let ?m = "ff_flash st" and ?s = "ss ! i" and ?T = "total_size (length d)"
  have s: "?s \<in> set ss" "sector_ok ?s" using assms(2,3) by (simp_all add: sectors_ok_nth)
  note b = live_bounds [OF s(2) assms(4)]
  have T: "16 \<le> ?T" using header_le_total by (simp add: header_size_def)
  obtain zs where z: "spent_chain crc32 ?m zs (sd_address ?s) a"
    and l: "live_entry crc32 ?m token a d" and bl: "blank ?m (a + ?T) (sector_end ?s)"
    and pe: "a + ?T \<le> sector_pe ?s"
    using assms(4) by (auto simp: sector_live_def)
  have le: "a + 6 \<le> sector_end ?s" using b(3) T by simp
  obtain m' where e: "erase_entry pm a st = (2, st\<lparr>ff_flash := m'\<rparr>)"
    and fl: "h_flag m' a = ErasedEntry" and o: "\<And>x. x < a + 4 \<or> a + 6 \<le> x \<Longrightarrow> m' x = ?m x"
    by (rule erase_entry_ok [where st = st, OF assms(1) s(1) b(1) le]) blast
  have c1: "spent_chain crc32 m' zs (sd_address ?s) a"
    by (rule spent_chain_cong [OF _ z]) (use o in simp)
  have c2: "spent_chain crc32 m' [?T] a (a + ?T)" by (rule erased_live_spent [OF l fl o])
  have c: "spent_chain crc32 m' (zs @ [?T]) (sd_address ?s) (a + ?T)"
    using c1 c2 by (auto simp: spent_chain_append)
  have n: "next_entry m' a = a + ?T" using c2 by (simp add: next_entry_def entry_ok_def)
  have bl': "blank m' (a + ?T) (sector_end ?s)" using bl o T by (simp add: blank_def)
  have out: "m' x = ?m x" if "x < sd_address ?s \<or> sector_end ?s \<le> x" for x
    using that b(1) le by (intro o) auto
  have "sector_spent crc32 m' (ss ! k)" if k: "k < length ss" for k
  proof (cases "k = i")
    case True
    then show ?thesis using c bl' pe by (auto simp: sector_spent_def)
  next
    case False
    show ?thesis
    proof (rule sector_spent_cong [OF _ sectors_ok_nth [OF assms(2) k] assms(5) [OF k False]])
      fix x assume "sd_address (ss ! k) \<le> x" and "x < sector_end (ss ! k)"
      then show "?m x = m' x"
        using sectors_disjoint [OF assms(2) k assms(3) False] out [of x] by force
    qed
  qed
  then show thesis using that e c n bl' out by blast
qed

lemma write_after_ok:
  assumes "progmem_ok pm ss" and "sectors_ok ss" and "i < length ss"
    and "sector_live crc32 (ff_flash st) token (ss ! i) a d"
    and "\<And>j. j < length ss \<Longrightarrow> j \<noteq> i \<Longrightarrow> sector_spent crc32 (ff_flash st) (ss ! j)"
    and "ff_working_buffer st = Some b" and "entry_fits ss n"
    and "a + total_size (length d) + total_size n + 4 \<le> sector_end (ss ! i)"
  shows "stores crc32 ss token n b st (write_after crc32 pm token n a st)"
proof -
  let ?s = "ss ! i" and ?p = "a + total_size (length d)"
  have s: "?s \<in> set ss" "sector_ok ?s" using assms(2,3) by (simp_all add: sectors_ok_nth)
  obtain m' zs where e: "erase_entry pm a st = (2, st\<lparr>ff_flash := m'\<rparr>)"
    and c: "spent_chain crc32 m' zs (sd_address ?s) ?p" and n: "next_entry m' a = ?p"
    and bl: "blank m' ?p (sector_end ?s)"
    and out: "\<And>x. x < sd_address ?s \<or> sector_end ?s \<le> x \<Longrightarrow> m' x = ff_flash st x"
    and sp: "\<And>k. k < length ss \<Longrightarrow> sector_spent crc32 m' (ss ! k)"
    by (rule erase_live_entry [OF assms(1-5)]) blast+
  let ?st = "st\<lparr>ff_flash := m'\<rparr>"
  have f: "total_size n < 65536" using assms(7) by (simp add: entry_fits_def)
  have p: "sd_address ?s \<le> ?p" "?p + total_size n \<le> sector_end ?s"
    using spent_chain_mono [OF c] assms(8) by simp_all
  have wb: "ff_working_buffer ?st = Some b" using assms(6) by simp
  have b: "blank (ff_flash ?st) ?p (?p + total_size n)"
    using blank_mono [OF bl order_refl p(2)] by simp
  obtain m2 where w: "commit_entry crc32 pm token n ?p ?st
      = Some (int n, ?st\<lparr>ff_working_buffer := Some (entry_image crc32 token n b), ff_flash := m2\<rparr>)"
    and l: "live_entry crc32 m2 token ?p (bytes_at b header_size n)"
    and o: "\<And>x. x < ?p \<or> ?p + total_size n \<le> x \<Longrightarrow> m2 x = ff_flash ?st x"
    by (rule commit_entry_ok [where ?crc32.0 = crc32 and token = token, OF assms(1) s(1) wb f p b]) blast
  have "spent_chain crc32 m2 zs (sd_address ?s) ?p"
    by (rule spent_chain_cong [OF _ c]) (use o in simp)
  moreover have "blank m2 (?p + total_size n) (sector_end ?s)"
    using bl o by (simp add: blank_def)
  ultimately have "sector_live crc32 m2 token ?s ?p (bytes_at b header_size n)"
    using l assms(8) sector_pe_end [OF s(2)] by (auto simp: sector_live_def)
  then have "fs_holds crc32 m2 ss token (Some (bytes_at b header_size n))"
    by (rule live_spent_others [OF assms(2,3), where m = m']) (use sp o p in auto)
  then show ?thesis using e n w by (simp add: write_after_def stores_def)
qed

lemma write_next_sector_ok:
  assumes "progmem_ok pm ss" and "sectors_ok ss" and "i < length ss"
    and "sector_live crc32 (ff_flash st) token (ss ! i) a d"
    and "\<And>j. j < length ss \<Longrightarrow> j \<noteq> i \<Longrightarrow> sector_spent crc32 (ff_flash st) (ss ! j)"
    and "ff_working_buffer st = Some b" and "entry_fits ss n" and "j < length ss"
  shows "stores crc32 ss token n b st (write_next_sector crc32 pm token n a (ss ! j) st)"
proof -
  let ?s = "ss ! j"
  have s: "?s \<in> set ss" "sector_ok ?s" using assms(2,8) by (simp_all add: sectors_ok_nth)
  have f: "\<not> sd_size ?s < total_size n" using assms(7) s(1) by (auto simp: entry_fits_def)
  obtain m' where e: "erase_entry pm a st = (2, st\<lparr>ff_flash := m'\<rparr>)"
    and sp: "\<And>k. k < length ss \<Longrightarrow> sector_spent crc32 m' (ss ! k)"
    by (rule erase_live_entry [OF assms(1-5)]) blast+
  define st2 where "st2 = (if blank_check m' (sd_address ?s) (total_size n) then st\<lparr>ff_flash := m'\<rparr>
                           else snd (erase_sector pm ?s (sd_address ?s) (st\<lparr>ff_flash := m'\<rparr>)))"
  have "blank (ff_flash st2) (sd_address ?s) (sector_end ?s)
        \<and> (\<forall>k<length ss. sector_spent crc32 (ff_flash st2) (ss ! k))
        \<and> ff_working_buffer st2 = Some b \<and> ff_sector_map st2 = ff_sector_map st
        \<and> ff_working_buffer_static st2 = ff_working_buffer_static st"
  proof (cases "blank_check m' (sd_address ?s) (total_size n)")
    case True
    then show ?thesis
      using spent_blank_check [OF s(2) sp [OF assms(8)] True] header_le_total [of n] sp assms(6)
      by (simp add: st2_def header_size_def)
  next
    case False
    obtain m2 where m2: "erase_sector pm ?s (sd_address ?s) (st\<lparr>ff_flash := m'\<rparr>)
        = (0, st\<lparr>ff_flash := m'\<rparr>\<lparr>ff_last_erased := int (sd_page ?s), ff_flash := m2\<rparr>)"
      and bl: "blank m2 (sd_address ?s) (sector_end ?s)"
      and o: "\<And>x. x < sd_address ?s \<or> sector_end ?s \<le> x \<Longrightarrow> m2 x = ff_flash (st\<lparr>ff_flash := m'\<rparr>) x"
      by (rule erase_sector_ok [where st = "st\<lparr>ff_flash := m'\<rparr>", OF assms(1) s(1)]) blast
    have "sector_spent crc32 m2 (ss ! k)" if k: "k < length ss" for k
    proof (cases "k = j")
      case True
      then show ?thesis using blank_sector_spent [OF s(2) bl] by simp
    next
      case ne: False
      show ?thesis
      proof (rule sector_spent_cong [OF _ sectors_ok_nth [OF assms(2) k] sp [OF k]])
        fix x assume "sd_address (ss ! k) \<le> x" and "x < sector_end (ss ! k)"
        then show "m' x = m2 x"
          using sectors_disjoint [OF assms(2) k assms(8) ne] o [of x] by force
      qed
    qed
    then show ?thesis using False bl m2 assms(6) by (simp add: st2_def)
  qed
  then have "stores crc32 ss token n b st (commit_entry crc32 pm token n (sd_address ?s) st2)"
    using commit_blank_sector [OF assms(1,2) _ assms(7,8), of st2 b crc32 token] stores_frame by blast
  then show ?thesis using f e by (simp add: write_next_sector_def st2_def)
qed

lemma get_sector_info_ok:
  assumes "sectors_ok ss" and "i < length ss" and "sd_address (ss ! i) \<le> p" and "p < sector_end (ss ! i)"
  shows "get_sector_info ss p = Some i"
proof -
  have "\<not> (sd_address (ss ! j) \<le> p \<and> p \<le> sector_end (ss ! j) - 1)" if "j < i" for j
    using sectors_disjoint [OF assms(1), of j i] sectors_ok_nth [OF assms(1), of j] that assms
    by (auto simp: sector_ok_def sector_end_def)
  then show ?thesis
    using assms unfolding get_sector_info_def find_Some_iff
    by (auto simp: sector_end_def intro!: exI [of _ i])
qed

lemma write_update:
  assumes "progmem_ok pm ss" and "sectors_ok ss" and "ff_sector_map st = Some ss"
    and "ff_working_buffer st = Some b" and "entry_fits ss n"
    and "fs_holds crc32 (ff_flash st) ss token (Some d)"
  shows "stores crc32 ss token n b st (parameter_flashfs_write crc32 pm token n st)"
proof -
  let ?m = "ff_flash st"
  obtain i a where i: "i < length ss" and l: "sector_live crc32 ?m token (ss ! i) a d"
    and o: "\<And>j. j < length ss \<Longrightarrow> j \<noteq> i \<Longrightarrow> sector_spent crc32 ?m (ss ! j)"
    using assms(6) by auto
  let ?s = "ss ! i" and ?e = "a + total_size (length d) + total_size n"
  note s = sectors_ok_nth [OF assms(2) i]
  note b = live_bounds [OF s l]
  have g: "get_sector_info ss a = Some i"
    using b by (intro get_sector_info_ok [OF assms(2) i]) simp_all
  have "valid_magic ?m a" "next_entry ?m a = a + total_size (length d)"
    using l by (simp_all add: sector_live_def live_entry_def entry_ok_def next_entry_def)
  then have ch: "check_free_space_in_sector ss ?m a (total_size n)
             = Some (if sd_address ?s \<le> ?e \<and> ?e \<le> sector_end ?s - 1 then None else Some i)"
    using g by (simp add: check_free_space_in_sector_def sector_end_def Let_def)
  note fe = fs_find(2) [OF assms(2) i l o]
  show ?thesis
  proof (cases "sd_address ?s \<le> ?e \<and> ?e \<le> sector_end ?s - 1")
    case True
    have "4 dvd ?e" and "4 dvd sector_end ?s"
      using b(2) s by (simp_all add: total_size_dvd sector_ok_def sector_end_def)
    then obtain x y where xy: "?e = 4 * x" "sector_end ?s = 4 * y" by (auto elim!: dvdE)
    have "?e < sector_end ?s" using True b(3) by auto
    then have "?e + 4 \<le> sector_end ?s" unfolding xy by simp
    then show ?thesis
      using write_after_ok [OF assms(1,2) i l o assms(4,5)] ch True fe assms(3)
      by (simp add: parameter_flashfs_write_def)
  next
    case False
    obtain j where j: "get_next_sector_descriptor ss i = Some j" "j < length ss"
      using i by (cases "i + 1 < length ss") (fastforce simp: get_next_sector_descriptor_def)+
    show ?thesis
      using write_next_sector_ok [OF assms(1,2) i l o assms(4,5) j(2)] ch [unfolded if_not_P [OF False]]
        fe assms(3) j(1)
      by (simp add: parameter_flashfs_write_def)
  qed
qed

lemma flashfs_write_ok:
  assumes "progmem_ok pm ss" and "sectors_ok ss" and "ff_sector_map st = Some ss"
    and "ff_working_buffer st = Some b" and "entry_fits ss n"
    and "fs_holds crc32 (ff_flash st) ss token d"
  shows "stores crc32 ss token n b st (parameter_flashfs_write crc32 pm token n st)"
  using assms by (cases d) (blast intro: write_empty write_update)+

end
