(* ===== verification/Flash_Storage.thy ===== *)
theory Flash_Storage
  imports Flash_Params
begin

text \<open>
  The parameter storage over its whole life: any sequence of saves by \<^verbatim>\<open>flash_param_save\<close> and of
  restarts with \<^verbatim>\<open>parameter_flashfs_init\<close>, and what is read afterwards. The last section shows where
  the code falls short of its documentation.
\<close>

subsection \<open>Export of the parameters\<close>

lemma alloc_dynamic:
  assumes "ff_sector_map st = Some ss" and "\<not> ff_working_buffer_static st"
    and "malloc (n + header_size) = Some h" and "total_size n < 65536"
  shows "parameter_flashfs_alloc malloc n st
         = (0, n, st\<lparr>ff_working_buffer_size := n + header_size,
                     ff_working_buffer := Some (store 0 (replicate (n + header_size) 0xff) h)\<rparr>)"
proof -
  have n: "n + header_size < 65536" using assms(4) by (simp add: total_size_def)
  then have "(n + header_size + 2 ^ 32 - header_size) mod 2 ^ 32 = n" by simp
  then show ?thesis using assms(1-3) n by (simp add: parameter_flashfs_alloc_def Let_def)
qed

lemma bytes_at_filled: "bytes_at (store k (bytes_at enc 0 n) h) k n = bytes_at enc 0 n"
  by (simp add: bytes_at_eq_iff store_def)

lemma free_frame [simp]:
  "ff_flash (parameter_flashfs_free st) = ff_flash st"
  "ff_sector_map (parameter_flashfs_free st) = ff_sector_map st"
  "ff_working_buffer_static (parameter_flashfs_free st) = ff_working_buffer_static st"
  by (simp_all add: parameter_flashfs_free_def)

lemma param_export_ok:
  assumes "progmem_ok pm ss" and "sectors_ok ss" and "ff_sector_map st = Some ss"
    and "\<not> ff_working_buffer_static st" and "\<forall>k. malloc k \<noteq> None" and "entry_fits ss n"
    and "fs_holds crc32 (ff_flash st) ss parameters_token d"
  shows "\<exists>st'. param_export_commit crc32 pm malloc enc n st = Some (0, st')
           \<and> fs_holds crc32 (ff_flash st') ss parameters_token (Some (bytes_at enc 0 n))
           \<and> ff_sector_map st' = Some ss \<and> \<not> ff_working_buffer_static st'
           \<and> (d = Some (bytes_at enc 0 n) \<longrightarrow> ff_flash st' = ff_flash st)"
proof -
  have n: "total_size n < 65536" using assms(6) by (simp add: entry_fits_def)
  obtain h where h: "malloc (n + header_size) = Some h" using assms(5) by blast
  define b where "b = store 0 (replicate (n + header_size) 0xff) h"
  define st1 where "st1 = st\<lparr>ff_working_buffer_size := n + header_size, ff_working_buffer := Some b\<rparr>"
  define c where "c = store header_size (bytes_at enc 0 n) b"
  define st2 where "st2 = st1\<lparr>ff_working_buffer := Some c\<rparr>"
  have a: "parameter_flashfs_alloc malloc n st = (0, n, st1)"
    using alloc_dynamic [of st ss malloc n h] assms(3,4) h n by (simp add: st1_def b_def)
  have s1: "ff_sector_map st1 = Some ss" "ff_flash st1 = ff_flash st" "ff_working_buffer st1 = Some b"
    and s2: "ff_sector_map st2 = Some ss" "ff_flash st2 = ff_flash st" "ff_working_buffer st2 = Some c"
      "\<not> ff_working_buffer_static st2"
    using assms(3,4) by (simp_all add: st1_def st2_def)
  have "stores crc32 ss parameters_token n c st2 (parameter_flashfs_write crc32 pm parameters_token n st2)"
    by (rule flashfs_write_ok [OF assms(1,2) s2(1,3) assms(6)]) (use assms(7) s2(2) in simp)
  then obtain st3 where w: "parameter_flashfs_write crc32 pm parameters_token n st2 = Some (int n, st3)"
    and f3: "fs_holds crc32 (ff_flash st3) ss parameters_token (Some (bytes_at enc 0 n))"
    and s3: "ff_sector_map st3 = Some ss" "\<not> ff_working_buffer_static st3"
    using s2 bytes_at_filled [of header_size enc n b] by (auto simp: stores_def c_def)
  have i: "int n mod 2 ^ 32 = int n" using n by (simp add: total_size_def)
  show ?thesis
  proof (cases d)
    case None
    have "parameter_flashfs_read crc32 parameters_token st1 = Some (- ENOENT, None)"
      by (rule read_empty [OF assms(2) s1(1)]) (use assms(7) None s1(2) in simp)
    then have "param_export_commit crc32 pm malloc enc n st = Some (0, parameter_flashfs_free st3)"
      using a w i s1(3) by (simp add: param_export_commit_def st2_def c_def)
    then show ?thesis using f3 s3 None by simp
  next
    case (Some e)
    obtain p where r: "parameter_flashfs_read crc32 parameters_token st1
        = Some (int (length e), Some (p, length e))" and p: "bytes_at (ff_flash st1) p (length e) = e"
      by (rule read_ok [OF assms(2) s1(1), of crc32 parameters_token e]) (use assms(7) Some s1(2) in auto)
    show ?thesis
    proof (cases "e = bytes_at enc 0 n")
      case True
      then have "length e = n" by simp
      then have "param_export_commit crc32 pm malloc enc n st = Some (0, parameter_flashfs_free st1)"
        using a r p True by (simp add: param_export_commit_def)
      then show ?thesis using assms(4,7) Some True s1 by (simp add: st1_def)
    next
      case False
      then have "length e \<noteq> n \<or> e \<noteq> bytes_at enc 0 (length e)" by auto
      then have "param_export_commit crc32 pm malloc enc n st = Some (0, parameter_flashfs_free st3)"
        using a r p w i s1(3) by (auto simp: param_export_commit_def st2_def c_def Let_def)
      then show ?thesis using f3 s3 Some False by simp
    qed
  qed
qed

lemma init_ok:
  assumes "sectors_ok ss" and "fs_holds crc32 (ff_flash st) ss parameters_token d"
  shows "\<exists>st'. parameter_flashfs_init crc32 pm ss None k st = Some (0, st')
           \<and> fs_holds crc32 (ff_flash st') ss parameters_token d
           \<and> ff_sector_map st' = Some ss \<and> \<not> ff_working_buffer_static st'"
proof (cases d)
  case None
  then have f: "find_entry crc32 (ff_flash st) parameters_token ss = Some None"
    using fs_find(1) [OF assms(1)] assms(2) by blast
  obtain s ss' where ss: "ss = s # ss'" using assms(1) by (cases ss) (auto simp: sectors_ok_def)
  have "find_free crc32 (ff_flash st) (total_size 0 mod 65536) ss = Some (Some (sd_address s))"
    using assms None ss
    by (simp only: ss, intro find_free_blank)
      (simp_all add: sectors_ok_def sector_ok_def total_size_def size_adjust_def header_size_def)
  then show ?thesis using f assms(2) None by (simp add: parameter_flashfs_init_def Let_def)
next
  case (Some e)
  obtain i a where "i < length ss" "sector_live crc32 (ff_flash st) parameters_token (ss ! i) a e"
    "\<And>j. j < length ss \<Longrightarrow> j \<noteq> i \<Longrightarrow> sector_spent crc32 (ff_flash st) (ss ! j)"
    using assms(2) Some by auto
  then have "find_entry crc32 (ff_flash st) parameters_token ss = Some (Some a)"
    by (rule fs_find(2) [OF assms(1)])
  then show ?thesis using assms(2) Some by (simp add: parameter_flashfs_init_def)
qed

subsection \<open>Sequences of saves and restarts\<close>

datatype fs_event = Save "u8 list" | Restart

fun fs_event_step ::
  "(u8 list \<Rightarrow> u32) \<Rightarrow> progmem \<Rightarrow> (nat \<Rightarrow> memory option) \<Rightarrow> sector_descriptor list \<Rightarrow> fs_event \<Rightarrow> flashfs
   \<Rightarrow> (int \<times> flashfs) option" where
  "fs_event_step crc32 pm malloc ss (Save xs) st =
     param_export_commit crc32 pm malloc (\<lambda>i. xs ! i) (length xs) st"
| "fs_event_step crc32 pm malloc ss Restart st = parameter_flashfs_init crc32 pm ss None 0 st"

text \<open>The run stops with \<^term>\<open>None\<close> at the first event that does not return zero.\<close>

fun fs_run ::
  "(u8 list \<Rightarrow> u32) \<Rightarrow> progmem \<Rightarrow> (nat \<Rightarrow> memory option) \<Rightarrow> sector_descriptor list \<Rightarrow> fs_event list \<Rightarrow> flashfs
   \<Rightarrow> flashfs option" where
  "fs_run crc32 pm malloc ss [] st = Some st"
| "fs_run crc32 pm malloc ss (e # es) st =
     (case fs_event_step crc32 pm malloc ss e st of
        None \<Rightarrow> None
      | Some (rv, st') \<Rightarrow> if rv = 0 then fs_run crc32 pm malloc ss es st' else None)"

text \<open>The abstract storage.\<close>

fun fs_spec_step :: "fs_event \<Rightarrow> u8 list option \<Rightarrow> u8 list option" where
  "fs_spec_step (Save xs) d = Some xs"
| "fs_spec_step Restart d = d"

definition fs_spec :: "fs_event list \<Rightarrow> u8 list option \<Rightarrow> u8 list option" where
  "fs_spec es d = fold fs_spec_step es d"

fun event_fits :: "sector_descriptor list \<Rightarrow> fs_event \<Rightarrow> bool" where
  "event_fits ss (Save xs) \<longleftrightarrow> entry_fits ss (length xs)"
| "event_fits ss Restart \<longleftrightarrow> True"

lemma bytes_at_nth [simp]: "bytes_at ((!) xs) 0 (length xs) = xs"
  by (simp add: bytes_at_def map_nth)

lemma fs_event_refines:
  assumes "progmem_ok pm ss" and "sectors_ok ss" and "ff_sector_map st = Some ss"
    and "\<not> ff_working_buffer_static st" and "\<forall>k. malloc k \<noteq> None" and "event_fits ss e"
    and "fs_holds crc32 (ff_flash st) ss parameters_token d"
  shows "\<exists>st'. fs_event_step crc32 pm malloc ss e st = Some (0, st')
           \<and> fs_holds crc32 (ff_flash st') ss parameters_token (fs_spec_step e d)
           \<and> ff_sector_map st' = Some ss \<and> \<not> ff_working_buffer_static st'"
proof (cases e)
  case (Save xs)
  then show ?thesis
    using param_export_ok [OF assms(1-5) _ assms(7), where n = "length xs" and enc = "(!) xs"] assms(6) by auto
next
  case Restart
  then show ?thesis using init_ok [OF assms(2,7)] by auto
qed

lemma fs_run_refines:
  assumes "progmem_ok pm ss" and "sectors_ok ss" and "\<forall>k. malloc k \<noteq> None"
    and "list_all (event_fits ss) es" and "ff_sector_map st = Some ss"
    and "\<not> ff_working_buffer_static st" and "fs_holds crc32 (ff_flash st) ss parameters_token d"
  shows "\<exists>st'. fs_run crc32 pm malloc ss es st = Some st'
           \<and> fs_holds crc32 (ff_flash st') ss parameters_token (fs_spec es d)
           \<and> ff_sector_map st' = Some ss"
  using assms(4-7)
proof (induction es arbitrary: st d)
  case Nil
  then show ?case by (simp add: fs_spec_def)
next
  case (Cons e es)
  obtain st1 where s: "fs_event_step crc32 pm malloc ss e st = Some (0, st1)"
    and f: "fs_holds crc32 (ff_flash st1) ss parameters_token (fs_spec_step e d)"
    and m: "ff_sector_map st1 = Some ss" "\<not> ff_working_buffer_static st1"
    using fs_event_refines [OF assms(1,2) Cons.prems(2,3) assms(3) _ Cons.prems(4), of e] Cons.prems(1)
    by auto
  show ?case using Cons.IH [OF _ m f] Cons.prems(1) s by (simp add: fs_spec_def)
qed

text \<open>
  C5: the parameter storage keeps the last save. For every flash driver that behaves as documented
  and every checksum function, every sequence of saves that fit into a sector and of restarts,
  starting from erased sectors, succeeds at each event, and a read afterwards returns exactly the
  bytes of the last save, or that there is no file if nothing was saved.
\<close>

theorem flash_storage_keeps_last_save:
  assumes "progmem_ok pm ss" and "sectors_ok ss" and "\<forall>k. malloc k \<noteq> None"
    and "list_all (event_fits ss) es" and "ff_sector_map st = Some ss"
    and "\<not> ff_working_buffer_static st"
    and "\<And>s x. s \<in> set ss \<Longrightarrow> sd_address s \<le> x \<Longrightarrow> x < sd_address s + sd_size s \<Longrightarrow> ff_flash st x = 0xff"
  shows "\<exists>st'. fs_run crc32 pm malloc ss es st = Some st'
           \<and> (case fs_spec es None of
                None \<Rightarrow> parameter_flashfs_read crc32 parameters_token st' = Some (- ENOENT, None)
              | Some d \<Rightarrow> \<exists>p. parameter_flashfs_read crc32 parameters_token st'
                              = Some (int (length d), Some (p, length d))
                            \<and> bytes_at (ff_flash st') p (length d) = d)"
proof -
  have "fs_holds crc32 (ff_flash st) ss parameters_token None"
    using assms(7) by (auto simp: blank_def sector_end_def)
  then obtain st' where r: "fs_run crc32 pm malloc ss es st = Some st'" "ff_sector_map st' = Some ss"
    and f: "fs_holds crc32 (ff_flash st') ss parameters_token (fs_spec es None)"
    using fs_run_refines [OF assms(1-6)] by blast
  have "case fs_spec es None of
          None \<Rightarrow> parameter_flashfs_read crc32 parameters_token st' = Some (- ENOENT, None)
        | Some d \<Rightarrow> \<exists>p. parameter_flashfs_read crc32 parameters_token st'
                        = Some (int (length d), Some (p, length d))
                      \<and> bytes_at (ff_flash st') p (length d) = d"
  proof (cases "fs_spec es None")
    case None
    then show ?thesis using read_empty [OF assms(2) r(2)] f by simp
  next
    case (Some d)
    then have "fs_holds crc32 (ff_flash st') ss parameters_token (Some d)" using f by simp
    then obtain p where "parameter_flashfs_read crc32 parameters_token st' = Some (int (length d), Some (p, length d))"
      and "bytes_at (ff_flash st') p (length d) = d"
      by (rule read_ok [OF assms(2) r(2)])
    then show ?thesis using Some by auto
  qed
  then show ?thesis using r(1) by blast
qed

text \<open>A driver for NOR flash: programming clears bits, erasing a block sets all of them.\<close>

definition nor_flash :: "sector_descriptor list \<Rightarrow> progmem" where
  "nor_flash ss =
     \<lparr>pm_getpage = (\<lambda>a. case List.find (\<lambda>s. sd_address s = a) ss of None \<Rightarrow> -1 | Some s \<Rightarrow> int (sd_page s)),
      pm_eraseblock = (\<lambda>p m. case List.find (\<lambda>s. int (sd_page s) = p) ss of
                               None \<Rightarrow> (-1, m)
                             | Some s \<Rightarrow> (int (sd_size s),
                                 \<lambda>x. if sd_address s \<le> x \<and> x < sd_address s + sd_size s then 0xff else m x)),
      pm_write = (\<lambda>a bs m. (int (length bs), \<lambda>x. if a \<le> x \<and> x < a + length bs then m x AND bs ! (x - a) else m x))\<rparr>"

definition two_sectors :: "sector_descriptor list" where
  "two_sectors = [\<lparr>sd_page = 1, sd_size = 64, sd_address = 4096\<rparr>, \<lparr>sd_page = 2, sd_size = 64, sd_address = 8192\<rparr>]"

definition erased_flashfs :: flashfs where
  "erased_flashfs = \<lparr>ff_flash = (\<lambda>_. 0xff), ff_sector_map = Some two_sectors, ff_working_buffer = None,
                     ff_working_buffer_size = 0, ff_working_buffer_static = False, ff_last_erased = -1\<rparr>"

definition length_crc :: "u8 list \<Rightarrow> u32" where
  "length_crc bs = of_nat (length bs)"

lemma and_ff: "(0xff :: u8) AND b = b"
proof -
  have "(0xff :: u8) = -1" by simp
  then show ?thesis by (simp only: and.left_neutral)
qed

lemma nor_flash_ok: "progmem_ok (nor_flash two_sectors) two_sectors"
  by (auto simp: progmem_ok_def nor_flash_def two_sectors_def sector_end_def and_ff)

lemma two_sectors_ok: "sectors_ok two_sectors"
  by (auto simp: sectors_ok_def two_sectors_def sector_ok_def sector_end_def less_Suc_eq nth_Cons')

theorem flash_storage_keeps_last_save_witness:
  "\<exists>st'. fs_run length_crc (nor_flash two_sectors) (\<lambda>_. Some (\<lambda>_. 0)) two_sectors
           [Save [1, 2, 3], Restart, Save [4, 5], Save [4, 5], Save [6]] erased_flashfs = Some st'
         \<and> (\<exists>p. parameter_flashfs_read length_crc parameters_token st' = Some (1, Some (p, 1))
               \<and> bytes_at (ff_flash st') p 1 = [6])"
  using flash_storage_keeps_last_save
      [of "nor_flash two_sectors" two_sectors "\<lambda>_. Some (\<lambda>_. 0)"
          "[Save [1, 2, 3], Restart, Save [4, 5], Save [4, 5], Save [6]]" erased_flashfs length_crc,
       OF nor_flash_ok two_sectors_ok]
  by (simp add: erased_flashfs_def fs_spec_def entry_fits_def two_sectors_def total_size_def size_adjust_def
      header_size_def)

text \<open>A flash with one entry, of four bytes, at a given address.\<close>

definition put_entry :: "nat \<Rightarrow> memory \<Rightarrow> memory" where
  "put_entry a m = store a (bytes_at (entry_image length_crc parameters_token 4 (\<lambda>_. 7)) 0 20) m"

lemma total_size_4: "total_size 4 = 20"
  by (simp add: total_size_def size_adjust_def header_size_def)

lemma put_entry_live: "live_entry length_crc (put_entry a m) parameters_token a [7, 7, 7, 7]"
proof -
  have b: "bytes_at (\<lambda>_. 7) header_size 4 = [7, 7, 7, 7]" by (simp add: bytes_at_def upt_conv_Cons)
  have t: "total_size (length [7, 7, 7, 7 :: u8]) = 20"
    by (simp add: total_size_def size_adjust_def header_size_def)
  have "live_entry length_crc (entry_image length_crc parameters_token 4 (\<lambda>_. 7)) parameters_token 0 [7, 7, 7, 7]"
    using entry_image_live [of 4 length_crc parameters_token "\<lambda>_. 7"] total_size_4 b by simp
  then show ?thesis
    by (rule live_entry_copy) (simp only: t, simp add: put_entry_def store_def)
qed

lemma blank_second_sector:
  "sector_spent length_crc (put_entry a (\<lambda>x. if x < 4100 then f x else 0xff)) (two_sectors ! 1)"
  if "a \<le> 4120"
  using that
  by (intro blank_sector_spent)
    (simp_all add: two_sectors_def sector_ok_def sector_end_def blank_def put_entry_def store_def)

text \<open>
  A save of unchanged parameters does not wear the flash: when the storage already holds the
  encoded bytes, the export succeeds and leaves the flash as it was.
\<close>

theorem unchanged_save_keeps_flash:
  assumes "progmem_ok pm ss" and "sectors_ok ss" and "ff_sector_map st = Some ss"
    and "\<not> ff_working_buffer_static st" and "\<forall>k. malloc k \<noteq> None" and "entry_fits ss n"
    and "fs_holds crc32 (ff_flash st) ss parameters_token (Some (bytes_at enc 0 n))"
  shows "\<exists>st'. param_export_commit crc32 pm malloc enc n st = Some (0, st') \<and> ff_flash st' = ff_flash st"
  using param_export_ok [OF assms, where enc = enc] by blast

lemma stored_flash_holds:
  "fs_holds length_crc (put_entry 4096 (\<lambda>x. if x < 4100 then 0xff else 0xff)) two_sectors parameters_token
     (Some [7, 7, 7, 7])"
proof -
  let ?m = "put_entry 4096 (\<lambda>x. if x < 4100 then 0xff else 0xff)"
  have t: "total_size (length [7, 7, 7, 7 :: u8]) = 20"
    by (simp add: total_size_def size_adjust_def header_size_def)
  have "blank ?m (4096 + 20) 4160" by (simp add: blank_def put_entry_def store_def)
  then have "sector_live length_crc ?m parameters_token (two_sectors ! 0) 4096 [7, 7, 7, 7]"
    unfolding sector_live_def t
    by (auto simp: two_sectors_def sector_pe_def sector_end_def put_entry_live intro!: exI [of _ "[]"])
  moreover have "sector_spent length_crc ?m (two_sectors ! j)" if "j < length two_sectors" "j \<noteq> 0" for j
  proof -
    have "j = 1" using that by (simp add: two_sectors_def)
    then show ?thesis using blank_second_sector [of 4096 "\<lambda>_. 0xff"] by simp
  qed
  moreover have "0 < length two_sectors" by (simp add: two_sectors_def)
  ultimately show ?thesis by (simp only: fs_holds.simps) blast
qed

theorem unchanged_save_keeps_flash_witness:
  "\<exists>st'. param_export_commit length_crc (nor_flash two_sectors) (\<lambda>_. Some (\<lambda>_. 0)) (\<lambda>_. 7) 4
           (erased_flashfs\<lparr>ff_flash := put_entry 4096 (\<lambda>x. if x < 4100 then 0xff else 0xff)\<rparr>) = Some (0, st')
         \<and> ff_flash st' = put_entry 4096 (\<lambda>x. if x < 4100 then 0xff else 0xff)"
proof -
  have b: "bytes_at (\<lambda>_. 7) 0 4 = [7, 7, 7, 7 :: u8]" by (simp add: bytes_at_def upt_conv_Cons)
  show ?thesis
    using unchanged_save_keeps_flash
        [of "nor_flash two_sectors" two_sectors
            "erased_flashfs\<lparr>ff_flash := put_entry 4096 (\<lambda>x. if x < 4100 then 0xff else 0xff)\<rparr>"
            "\<lambda>_. Some (\<lambda>_. 0)" 4 length_crc "\<lambda>_. 7",
         OF nor_flash_ok two_sectors_ok]
      stored_flash_holds
    by (simp add: erased_flashfs_def entry_fits_def two_sectors_def total_size_4 b)
qed

subsection \<open>Shortcomings\<close>

text \<open>
  An entry with a wrong checksum hides every later entry of its sector. The comment at that
  branch says that the search goes on, but it leaves the sector: a file that is stored correctly
  behind the entry, as after a save that was interrupted by a loss of power, is reported missing.
\<close>

theorem broken_entry_hides_file:
  assumes "sectors_ok ss" and "ff_sector_map st = Some ss" and "i < length ss"
    and "valid_magic (ff_flash st) (sd_address (ss ! i))"
    and "\<not> crc_ok crc32 (ff_flash st) (sd_address (ss ! i))"
    and "live_entry crc32 (ff_flash st) token b d" and "sd_address (ss ! i) < b" and "b < sector_pe (ss ! i)"
    and "\<And>j. j < length ss \<Longrightarrow> j \<noteq> i \<Longrightarrow> sector_spent crc32 (ff_flash st) (ss ! j)"
  shows "parameter_flashfs_read crc32 token st = Some (- ENOENT, None)"
proof -
  let ?m = "ff_flash st"
  have f: "find_in_sector crc32 ?m token (sector_pe (ss ! i)) (sd_address (ss ! i)) = Some None"
    using assms(4,5,7,8) by (subst find_in_sector.simps) (simp add: hunt_magic_here)
  have "find_in_sector crc32 ?m token (sector_pe s) (sd_address s) = Some None" if s: "s \<in> set ss" for s
  proof -
    obtain j where j: "j < length ss" "s = ss ! j" using s by (auto simp: in_set_conv_nth)
    then show ?thesis
      using f find_sector_spent [OF sectors_ok_nth [OF assms(1) j(1)] assms(9) [OF j(1)]]
      by (cases "j = i") simp_all
  qed
  then have "find_entry crc32 ?m token ss = Some None" by (induction ss) simp_all
  then show ?thesis using assms(2) by (simp add: parameter_flashfs_read_def)
qed

text \<open>A sector that starts with an interrupted write of one word, followed by a complete entry.\<close>

definition broken_flash :: memory where
  "broken_flash = put_entry 4116 (\<lambda>x. if x < 4100 then store 4096 (le32 MagicSig) (\<lambda>_. 0xff) x else 0xff)"

lemma broken_flash_start: "valid_magic broken_flash 4096" "\<not> crc_ok length_crc broken_flash 4096"
proof -
  have "rd32 broken_flash 4096 = MagicSig"
    by (rule rd32_eqI) (simp_all add: broken_flash_def put_entry_def store_def le32_def)
  then show "valid_magic broken_flash 4096" by (simp add: valid_magic_def)
  have "rd32 broken_flash 4102 = 0xffffffff"
    by (rule rd32_eqI) (simp_all add: broken_flash_def put_entry_def store_def)
  moreover have "length_crc (bytes_at broken_flash (4096 + 10) (entry_crc_length broken_flash 4096)) \<noteq> 0xffffffff"
  proof -
    have "entry_crc_length broken_flash 4096 < 2 ^ 32 - 1"
      using mod_less_divisor [of 65536 "h_size broken_flash 4096 + 65536 - 10"]
      by (simp add: entry_crc_length_def)
    then have "unat (length_crc (bytes_at broken_flash (4096 + 10) (entry_crc_length broken_flash 4096))) \<noteq> unat (0xffffffff :: u32)"
      by (simp add: length_crc_def unsigned_of_nat take_bit_nat_eq_self)
    then show ?thesis by metis
  qed
  ultimately show "\<not> crc_ok length_crc broken_flash 4096"
    by (simp add: crc_ok_def h_crc_def entry_crc_start_def)
qed

theorem broken_entry_hides_file_witness:
  "live_entry length_crc broken_flash parameters_token 4116 [7, 7, 7, 7]
   \<and> parameter_flashfs_read length_crc parameters_token (erased_flashfs\<lparr>ff_flash := broken_flash\<rparr>)
     = Some (- ENOENT, None)"
proof
  show l: "live_entry length_crc broken_flash parameters_token 4116 [7, 7, 7, 7]"
    unfolding broken_flash_def by (rule put_entry_live)
  have s: "sector_spent length_crc broken_flash (two_sectors ! j)" if "j < length two_sectors" "j \<noteq> 0" for j
  proof -
    have "j = 1" using that by (simp add: two_sectors_def)
    then show ?thesis
      using blank_second_sector [of 4116 "store 4096 (le32 MagicSig) (\<lambda>_. 0xff)"] by (simp add: broken_flash_def)
  qed
  show "parameter_flashfs_read length_crc parameters_token (erased_flashfs\<lparr>ff_flash := broken_flash\<rparr>)
        = Some (- ENOENT, None)"
    by (rule broken_entry_hides_file [OF two_sectors_ok, where i = 0 and b = 4116 and d = "[7, 7, 7, 7]"])
      (use l s broken_flash_start in \<open>simp_all add: erased_flashfs_def two_sectors_def sector_pe_def\<close>)
qed

text \<open>
  The padding of an entry is written past the end of the allocated buffer. The buffer that
  \<^verbatim>\<open>parameter_flashfs_alloc\<close> obtains for a payload of \<^verbatim>\<open>n\<close> bytes has room for the header and the payload
  only; when \<^verbatim>\<open>n\<close> is not a multiple of four, the following \<^verbatim>\<open>parameter_flashfs_write\<close>, although it
  succeeds, overwrites the first byte behind the buffer, whatever it held.
\<close>

theorem padding_past_buffer:
  assumes "progmem_ok pm ss" and "sectors_ok ss" and "ff_sector_map st = Some ss"
    and "\<not> ff_working_buffer_static st" and "malloc (n + 16) = Some h" and "entry_fits ss n"
    and "fs_holds crc32 (ff_flash st) ss token d" and "\<not> 4 dvd n"
  shows "case parameter_flashfs_alloc malloc n st of (rv, buf_size, st1) \<Rightarrow>
           rv = 0 \<and> buf_size = n \<and> ff_working_buffer_size st1 = n + 16
           \<and> (\<exists>st2 b. parameter_flashfs_write crc32 pm token n st1 = Some (int n, st2)
                \<and> ff_working_buffer st2 = Some b \<and> b (ff_working_buffer_size st1) = 0xff)"
proof -
  let ?b = "store 0 (replicate (n + header_size) 0xff) h"
  let ?st = "st\<lparr>ff_working_buffer_size := n + header_size, ff_working_buffer := Some ?b\<rparr>"
  have n: "total_size n < 65536" using assms(6) by (simp add: entry_fits_def)
  have a: "parameter_flashfs_alloc malloc n st = (0, n, ?st)"
    by (rule alloc_dynamic [OF assms(3,4) _ n]) (use assms(5) in \<open>simp add: header_size_def\<close>)
  have "stores crc32 ss token n ?b ?st (parameter_flashfs_write crc32 pm token n ?st)"
    by (rule flashfs_write_ok [OF assms(1,2) _ _ assms(6)]) (use assms(3,7) in simp_all)
  moreover have "entry_image crc32 token n ?b (n + header_size) = 0xff"
  proof -
    have "0 < size_adjust n"
      using assms(8) by (simp add: size_adjust_def header_size_def) presburger
    then show ?thesis
      by (simp add: entry_image_outside header_size_def)
        (simp add: entry_body_def store_def header_size_def BlankSig_def)
  qed
  ultimately show ?thesis using a by (auto simp: stores_def header_size_def)
qed

theorem padding_past_buffer_witness:
  "case parameter_flashfs_alloc (\<lambda>_. Some (\<lambda>_. 0)) 5 erased_flashfs of (rv, buf_size, st1) \<Rightarrow>
     rv = 0 \<and> buf_size = 5 \<and> ff_working_buffer_size st1 = 5 + 16
     \<and> (\<exists>st2 b. parameter_flashfs_write length_crc (nor_flash two_sectors) parameters_token 5 st1 = Some (int 5, st2)
          \<and> ff_working_buffer st2 = Some b \<and> b (ff_working_buffer_size st1) = 0xff)"
  by (rule padding_past_buffer [OF nor_flash_ok two_sectors_ok, where d = None])
    (simp_all add: erased_flashfs_def two_sectors_def entry_fits_def total_size_def size_adjust_def
      header_size_def blank_def)

end
