(* ===== verification/Crc.thy ===== *)
theory Crc
  imports Flash_Chain
begin

text \<open>
  The checksums of \<^verbatim>\<open>src/lib/systemlib/crc.c\<close>: CRC-16-CCITT over bytes, the reflected CRC-32 over
  bytes and CRC-64-WE over 32 bit words. The three registers have a contract in common, the locale
  below: the step of the register is linear and injective, and a byte can be moved from the input of
  a later round into the register before the first round. It follows that a burst of errors that
  is not longer than the register is always detected, and that a message followed by its checksum
  leaves the register at zero.
\<close>

subsection \<open>The checksums\<close>

definition CRC16_OUTPUT_XOR :: u16 where "CRC16_OUTPUT_XOR = 0x0000"
definition CRC64_INITIAL :: u64 where "CRC64_INITIAL = 0xFFFFFFFFFFFFFFFF"
definition CRC64_OUTPUT_XOR :: u64 where "CRC64_OUTPUT_XOR = 0xFFFFFFFFFFFFFFFF"

definition crc16_bit :: "u16 \<Rightarrow> u16" where
  "crc16_bit crc = (if crc AND push_bit 15 1 \<noteq> 0 then push_bit 1 crc XOR 0x1021 else push_bit 1 crc)"

definition crc16_add :: "u16 \<Rightarrow> u8 \<Rightarrow> u16" where
  "crc16_add crc value = (crc16_bit ^^ 8) (crc XOR push_bit 8 (ucast value))"

definition crc16_signature :: "u16 \<Rightarrow> u8 list \<Rightarrow> u16" where
  "crc16_signature initial bytes = foldl crc16_add initial bytes XOR CRC16_OUTPUT_XOR"

definition crc32_bit :: "u32 \<Rightarrow> u32" where
  "crc32_bit acc = drop_bit 1 acc XOR (0xedb88320 AND (- (acc AND 1)))"

definition crc32_add :: "u32 \<Rightarrow> u8 \<Rightarrow> u32" where
  "crc32_add acc b = (crc32_bit ^^ 8) (acc XOR ucast b)"

definition crc32_signature :: "u32 \<Rightarrow> u8 list \<Rightarrow> u32" where
  "crc32_signature acc bytes = foldl crc32_add acc bytes"

definition crc64_bit :: "u64 \<Rightarrow> u64" where
  "crc64_bit crc =
     (if crc AND push_bit 63 1 \<noteq> 0 then push_bit 1 crc XOR 0x42F0E1EBA9EA3693 else push_bit 1 crc)"

definition crc64_add :: "u64 \<Rightarrow> u8 \<Rightarrow> u64" where
  "crc64_add crc byte = (crc64_bit ^^ 8) (crc XOR push_bit 56 (ucast byte))"

definition crc64_add_word :: "u64 \<Rightarrow> u32 \<Rightarrow> u64" where
  "crc64_add_word crc value = foldl crc64_add crc (le32 value)"

subsection \<open>The contract of a checksum register\<close>

text \<open>
  \<^verbatim>\<open>embed k b\<close> is the register content that after \<^verbatim>\<open>k\<close> more bytes acts as the input byte \<^verbatim>\<open>b\<close>, and
  \<^verbatim>\<open>byte_of k\<close> reads it back.
\<close>

lemma xor_eq_0_iff: "x XOR y = 0 \<longleftrightarrow> x = y" for x y :: "'w::len word"
  by (auto simp: bit_eq_iff bit_xor_iff)

lemma xor_cancel_left: "c XOR x = c XOR y \<longleftrightarrow> x = y" for c x y :: "'w::len word"
  by (auto simp: bit_eq_iff bit_xor_iff)

lemma xor_cancel_right: "x XOR c = y XOR c \<longleftrightarrow> x = y" for c x y :: "'w::len word"
  by (auto simp: bit_eq_iff bit_xor_iff)

locale crc_register =
  fixes step :: "'w::len word \<Rightarrow> 'w word"
    and embed :: "nat \<Rightarrow> u8 \<Rightarrow> 'w word"
    and byte_of :: "nat \<Rightarrow> 'w word \<Rightarrow> u8"
    and width :: nat
  assumes step_xor: "step (x XOR y) = step x XOR step y"
    and step_zero: "step x = 0 \<Longrightarrow> x = 0"
    and embed_step: "Suc k < width \<Longrightarrow> (step ^^ 8) (embed (Suc k) b) = embed k b"
    and byte_of_embed: "j < width \<Longrightarrow> k < width \<Longrightarrow> byte_of j (embed k b) = (if j = k then b else 0)"
    and byte_of_xor: "byte_of j (x XOR y) = byte_of j x XOR byte_of j y"
    and byte_of_all: "(\<And>j. j < width \<Longrightarrow> byte_of j x = 0) \<Longrightarrow> x = 0"
begin

definition update :: "'w word \<Rightarrow> u8 \<Rightarrow> 'w word" where
  "update crc b = (step ^^ 8) (crc XOR embed 0 b)"

fun pack :: "nat \<Rightarrow> u8 list \<Rightarrow> 'w word" where
  "pack k [] = 0"
| "pack k (b # bs) = embed k b XOR pack (Suc k) bs"

lemma steps_xor: "(step ^^ n) (x XOR y) = (step ^^ n) x XOR (step ^^ n) y"
  by (induction n) (simp_all add: step_xor)

lemma steps_zero: "(step ^^ n) x = 0 \<Longrightarrow> x = 0"
  by (induction n arbitrary: x) (auto dest: step_zero)

lemma steps_inj: "(step ^^ n) x = (step ^^ n) y \<Longrightarrow> x = y"
proof -
  assume "(step ^^ n) x = (step ^^ n) y"
  then have "(step ^^ n) (x XOR y) = 0" by (simp add: steps_xor)
  then have "x XOR y = 0" by (rule steps_zero)
  then show "x = y" by (simp add: xor_eq_0_iff)
qed

lemma embed_steps: "k < width \<Longrightarrow> (step ^^ (8 * k)) (embed k b) = embed 0 b"
proof (induction k)
  case (Suc k)
  have "(step ^^ (8 * Suc k)) (embed (Suc k) b) = (step ^^ (8 * k)) ((step ^^ 8) (embed (Suc k) b))"
    using funpow_add [of "8 * k" 8 step] by (simp add: add.commute)
  then show ?case using Suc by (simp add: embed_step)
qed simp

lemma pack_append: "pack k (as @ bs) = pack k as XOR pack (k + length as) bs"
  by (induction as arbitrary: k) (simp_all add: xor.assoc)

lemma foldl_update:
  "length bs \<le> width \<Longrightarrow> foldl update c bs = (step ^^ (8 * length bs)) (c XOR pack 0 bs)"
proof (induction bs rule: rev_induct)
  case (snoc b bs)
  let ?L = "length bs"
  have "foldl update c (bs @ [b]) = (step ^^ 8) ((step ^^ (8 * ?L)) (c XOR pack 0 bs) XOR embed 0 b)"
    using snoc by (simp only: foldl_append foldl.simps update_def [of "foldl update c bs"]) simp
  also have "embed 0 b = (step ^^ (8 * ?L)) (embed ?L b)"
    using snoc.prems by (simp add: embed_steps)
  also have "(step ^^ 8) ((step ^^ (8 * ?L)) (c XOR pack 0 bs) XOR (step ^^ (8 * ?L)) (embed ?L b))
             = (step ^^ (8 + 8 * ?L)) ((c XOR pack 0 bs) XOR embed ?L b)"
    by (simp only: funpow_add comp_apply steps_xor)
  finally show ?case by (simp add: pack_append xor.assoc)
qed simp

lemma byte_of_zero: "byte_of j 0 = 0"
  using byte_of_xor [of j 0 0] by simp

lemma byte_of_pack:
  "j < width \<Longrightarrow> k + length bs \<le> width \<Longrightarrow>
   byte_of j (pack k bs) = (if k \<le> j \<and> j < k + length bs then bs ! (j - k) else 0)"
proof (induction bs arbitrary: k)
  case (Cons b bs)
  then show ?case
    by (auto simp: byte_of_xor byte_of_embed nth_Cons' Suc_diff_le)
qed (simp add: byte_of_zero, linarith)

lemma pack_inj:
  assumes "length as = length bs" and "length as \<le> width" and "pack 0 as = pack 0 bs"
  shows "as = bs"
proof (rule nth_equalityI [OF assms(1)])
  fix i assume i: "i < length as"
  have "byte_of i (pack 0 as) = as ! i" "byte_of i (pack 0 bs) = bs ! i"
    using i assms(1,2) by (simp_all add: byte_of_pack)
  then show "as ! i = bs ! i" using assms(3) by simp
qed

lemma update_inj: "foldl update c bs = foldl update c' bs \<Longrightarrow> c = c'"
proof (induction bs arbitrary: c c')
  case (Cons b bs)
  then have "update c b = update c' b" by simp
  then have "c XOR embed 0 b = c' XOR embed 0 b" unfolding update_def by (rule steps_inj)
  then show ?case by (simp add: xor_cancel_right)
qed simp

lemma burst_detected:
  assumes "length xs = length ys" and "length xs \<le> width" and "xs \<noteq> ys"
  shows "foldl update c (p @ xs @ s) \<noteq> foldl update c (p @ ys @ s)"
proof
  let ?c = "foldl update c p" and ?n = "8 * length xs"
  assume "foldl update c (p @ xs @ s) = foldl update c (p @ ys @ s)"
  then have "foldl update (foldl update ?c xs) s = foldl update (foldl update ?c ys) s"
    by (simp only: foldl_append)
  then have "foldl update ?c xs = foldl update ?c ys" by (rule update_inj)
  moreover have "foldl update ?c xs = (step ^^ ?n) (?c XOR pack 0 xs)" by (rule foldl_update [OF assms(2)])
  moreover have "foldl update ?c ys = (step ^^ ?n) (?c XOR pack 0 ys)"
    using foldl_update [of ys ?c] assms(1,2) by (simp only:)
  ultimately have "(step ^^ ?n) (?c XOR pack 0 xs) = (step ^^ ?n) (?c XOR pack 0 ys)" by (simp only:)
  then have "?c XOR pack 0 xs = ?c XOR pack 0 ys" by (rule steps_inj)
  then have "pack 0 xs = pack 0 ys" by (simp only: xor_cancel_left)
  then have "xs = ys" by (rule pack_inj [OF assms(1,2)])
  then show False using assms(3) by contradiction
qed

lemma pack_byte_of: "pack 0 (map (\<lambda>k. byte_of k x) [0..<width]) = x"
proof -
  let ?bs = "map (\<lambda>k. byte_of k x) [0..<width]"
  have "byte_of j (pack 0 ?bs XOR x) = 0" if "j < width" for j
    using that by (simp add: byte_of_xor byte_of_pack)
  then have "pack 0 ?bs XOR x = 0" by (rule byte_of_all)
  then show ?thesis by (simp add: xor_eq_0_iff)
qed

lemma appended_residue:
  "foldl update c (bs @ map (\<lambda>k. byte_of k (foldl update c bs)) [0..<width]) = 0"
proof -
  have "(step ^^ n) 0 = 0" for n using steps_xor [of n 0 0] by simp
  then show ?thesis by (simp add: foldl_update pack_byte_of)
qed

end

subsection \<open>Registers that shift to the left\<close>

definition msb_step :: "'w::len word \<Rightarrow> 'w word \<Rightarrow> 'w word" where
  "msb_step poly x = (if bit x (LENGTH('w) - 1) then push_bit 1 x XOR poly else push_bit 1 x)"

definition msb_embed :: "nat \<Rightarrow> u8 \<Rightarrow> 'w::len word" where
  "msb_embed k b = push_bit (LENGTH('w) - 8 * Suc k) (ucast b)"

definition msb_byte :: "nat \<Rightarrow> 'w::len word \<Rightarrow> u8" where
  "msb_byte k x = ucast (drop_bit (LENGTH('w) - 8 * Suc k) x)"

lemma msb_step_xor: "msb_step poly (x XOR y) = msb_step poly x XOR msb_step poly y"
  by (auto simp: msb_step_def bit_xor_iff push_bit_xor bit_eq_iff)

lemma msb_step_zero:
  fixes x :: "'w::len word"
  assumes "odd poly" and "msb_step poly x = 0"
  shows "x = 0"
proof (cases "bit x (LENGTH('w) - 1)")
  case True
  then have "push_bit 1 x = poly" using assms(2) by (simp add: msb_step_def xor_eq_0_iff)
  then have "even poly" by auto
  then show ?thesis using assms(1) by simp
next
  case False
  then have p: "push_bit 1 x = 0" using assms(2) by (simp add: msb_step_def)
  have "\<not> bit x n" for n
  proof
    assume b: "bit x n"
    then have "n < LENGTH('w)" by (rule bit_imp_le_length)
    moreover have "n \<noteq> LENGTH('w) - 1" using b False by auto
    ultimately have "Suc n < LENGTH('w)" by simp
    then have "bit (push_bit 1 x) (Suc n)" using b unfolding bit_push_bit_iff by simp
    then show False using p by simp
  qed
  then show ?thesis by (simp add: bit_eq_iff)
qed

lemma bit_byte_word: "bit (ucast (b::u8) :: 'w::len word) n \<longleftrightarrow> n < LENGTH('w) \<and> n < 8 \<and> bit b n"
  using bit_imp_le_length [of b n] by (auto simp: bit_ucast_iff)

lemma msb_step_shift:
  fixes b :: u8
  assumes "k + 8 + s \<le> LENGTH('w)"
  shows "(msb_step poly ^^ k) (push_bit s (ucast b) :: 'w::len word) = push_bit (k + s) (ucast b)"
  using assms
proof (induction k)
  case (Suc k)
  let ?x = "push_bit (k + s) (ucast b) :: 'w word"
  have "\<not> bit ?x (LENGTH('w) - 1)"
    using Suc.prems by (auto simp: bit_push_bit_iff bit_byte_word)
  then have "msb_step poly ?x = push_bit 1 ?x" by (simp add: msb_step_def)
  then show ?case using Suc by (simp add: push_bit_push_bit)
qed simp

lemma div_8_le: "k < n div 8 \<Longrightarrow> 8 * Suc k \<le> n" for k n :: nat
  by presburger

lemma msb_embed_step:
  assumes "Suc k < LENGTH('w) div 8"
  shows "(msb_step poly ^^ 8) (msb_embed (Suc k) b :: 'w::len word) = msb_embed k b"
proof -
  have l: "8 * Suc (Suc k) \<le> LENGTH('w)" by (rule div_8_le [OF assms])
  then have "(msb_step poly ^^ 8) (msb_embed (Suc k) b :: 'w word)
             = push_bit (8 + (LENGTH('w) - 8 * Suc (Suc k))) (ucast b)"
    unfolding msb_embed_def by (intro msb_step_shift) simp
  also have "8 + (LENGTH('w) - 8 * Suc (Suc k)) = LENGTH('w) - 8 * Suc k" using l by simp
  finally show ?thesis by (simp add: msb_embed_def)
qed

lemma bit_msb_byte:
  "8 * Suc k \<le> LENGTH('w) \<Longrightarrow>
   bit (msb_byte k (x :: 'w::len word)) n \<longleftrightarrow> n < 8 \<and> bit x (LENGTH('w) - 8 * Suc k + n)"
  by (auto simp: msb_byte_def bit_ucast_iff bit_drop_bit_eq)

lemma msb_byte_embed:
  assumes "j < LENGTH('w) div 8" and "k < LENGTH('w) div 8"
  shows "msb_byte j (msb_embed k b :: 'w::len word) = (if j = k then b else 0)"
proof (rule bit_eqI)
  fix n
  have l: "8 * Suc j \<le> LENGTH('w)" "8 * Suc k \<le> LENGTH('w)"
    by (rule div_8_le [OF assms(1)], rule div_8_le [OF assms(2)])
  show "bit (msb_byte j (msb_embed k b :: 'w word)) n = bit (if j = k then b else 0) n"
    using l bit_imp_le_length [of b n]
    by (auto simp: bit_msb_byte msb_embed_def bit_push_bit_iff bit_byte_word)
qed

lemma msb_byte_xor: "msb_byte j (x XOR y) = msb_byte j x XOR msb_byte j y"
  by (auto simp: msb_byte_def bit_eq_iff bit_xor_iff bit_ucast_iff bit_drop_bit_eq)

lemma msb_byte_all:
  fixes x :: "'w::len word"
  assumes "8 dvd LENGTH('w)" and "\<And>j. j < LENGTH('w) div 8 \<Longrightarrow> msb_byte j x = 0"
  shows "x = 0"
proof (rule bit_eqI)
  fix n
  obtain w where w: "LENGTH('w) = 8 * w" using assms(1) by (auto elim: dvdE)
  show "bit x n = bit (0 :: 'w word) n"
  proof (cases "n < LENGTH('w)")
    case True
    define j where "j = w - 1 - n div 8"
    have d: "n div 8 < w" using True w by (simp add: less_mult_imp_div_less mult.commute)
    have j: "j < w" "LENGTH('w) - 8 * Suc j = 8 * (n div 8)" using d w by (auto simp: j_def)
    have "bit (msb_byte j x) (n mod 8) = bit x (8 * (n div 8) + n mod 8)"
      using j w by (simp add: bit_msb_byte)
    moreover have "msb_byte j x = 0" using assms(2) [of j] j w by simp
    ultimately show ?thesis by simp
  qed (auto dest: bit_imp_le_length)
qed

lemma msb_register:
  assumes "odd (poly :: 'w::len word)" and "8 dvd LENGTH('w)"
  shows "crc_register (msb_step poly) (msb_embed :: nat \<Rightarrow> u8 \<Rightarrow> 'w word) msb_byte (LENGTH('w) div 8)"
  by unfold_locales
    (simp_all add: msb_step_xor msb_step_zero [OF assms(1)] msb_embed_step msb_byte_embed msb_byte_xor
      msb_byte_all [OF assms(2)])

subsection \<open>Registers that shift to the right\<close>

definition lsb_step :: "'w::len word \<Rightarrow> 'w word \<Rightarrow> 'w word" where
  "lsb_step poly x = drop_bit 1 x XOR (if bit x 0 then poly else 0)"

definition lsb_embed :: "nat \<Rightarrow> u8 \<Rightarrow> 'w::len word" where
  "lsb_embed k b = push_bit (8 * k) (ucast b)"

definition lsb_byte :: "nat \<Rightarrow> 'w::len word \<Rightarrow> u8" where
  "lsb_byte k x = ucast (drop_bit (8 * k) x)"

lemma lsb_step_xor: "lsb_step poly (x XOR y) = lsb_step poly x XOR lsb_step poly y"
  by (auto simp: lsb_step_def bit_eq_iff bit_xor_iff bit_drop_bit_eq)

lemma lsb_step_zero:
  fixes x :: "'w::len word"
  assumes "bit poly (LENGTH('w) - 1)" and "lsb_step poly x = 0"
  shows "x = 0"
proof (cases "bit x 0")
  case True
  then have "drop_bit 1 x = poly" using assms(2) by (simp add: lsb_step_def xor_eq_0_iff)
  then have "bit (drop_bit 1 x) (LENGTH('w) - 1)" using assms(1) by simp
  then have "bit x (1 + (LENGTH('w) - 1))" by (simp only: bit_drop_bit_eq comp_apply)
  then have "1 + (LENGTH('w) - 1) < LENGTH('w)" by (rule bit_imp_le_length)
  then show ?thesis by linarith
next
  case False
  then have d: "drop_bit 1 x = 0" using assms(2) by (simp add: lsb_step_def)
  have "\<not> bit x n" for n
  proof (cases n)
    case (Suc m)
    have "bit (drop_bit 1 x) m = bit x (1 + m)" by (simp only: bit_drop_bit_eq comp_apply)
    then show ?thesis using d Suc by simp
  qed (use False in simp)
  then show ?thesis by (simp add: bit_eq_iff)
qed

lemma lsb_step_shift:
  fixes b :: u8
  assumes "k + 8 + s \<le> LENGTH('w)"
  shows "(lsb_step poly ^^ k) (push_bit (k + s) (ucast b) :: 'w::len word) = push_bit s (ucast b)"
  using assms
proof (induction k)
  case (Suc k)
  let ?x = "push_bit (Suc k + s) (ucast b) :: 'w word"
  have "\<not> bit ?x 0" unfolding bit_push_bit_iff by simp
  then have "lsb_step poly ?x = drop_bit 1 ?x" by (simp add: lsb_step_def)
  also have "\<dots> = push_bit (k + s) (ucast b)"
  proof (rule bit_eqI)
    fix n
    show "bit (drop_bit 1 ?x) n = bit (push_bit (k + s) (ucast b) :: 'w word) n"
      using Suc.prems unfolding bit_drop_bit_eq bit_push_bit_iff comp_apply
      by (auto simp: bit_byte_word)
  qed
  finally show ?case using Suc by (simp add: funpow_Suc_right del: funpow.simps)
qed simp

lemma lsb_embed_step:
  assumes "Suc k < LENGTH('w) div 8"
  shows "(lsb_step poly ^^ 8) (lsb_embed (Suc k) b :: 'w::len word) = lsb_embed k b"
  using lsb_step_shift [of 8 "8 * k", where ?'w = 'w] div_8_le [OF assms]
  by (simp add: lsb_embed_def)

lemma bit_lsb_byte:
  "8 * Suc k \<le> LENGTH('w) \<Longrightarrow> bit (lsb_byte k (x :: 'w::len word)) n \<longleftrightarrow> n < 8 \<and> bit x (8 * k + n)"
  by (auto simp: lsb_byte_def bit_ucast_iff bit_drop_bit_eq)

lemma lsb_byte_embed:
  assumes "j < LENGTH('w) div 8" and "k < LENGTH('w) div 8"
  shows "lsb_byte j (lsb_embed k b :: 'w::len word) = (if j = k then b else 0)"
proof (rule bit_eqI)
  fix n
  have l: "8 * Suc j \<le> LENGTH('w)" "8 * Suc k \<le> LENGTH('w)"
    by (rule div_8_le [OF assms(1)], rule div_8_le [OF assms(2)])
  show "bit (lsb_byte j (lsb_embed k b :: 'w word)) n = bit (if j = k then b else 0) n"
    using l bit_imp_le_length [of b n]
    by (auto simp: bit_lsb_byte lsb_embed_def bit_push_bit_iff bit_byte_word)
qed

lemma lsb_byte_xor: "lsb_byte j (x XOR y) = lsb_byte j x XOR lsb_byte j y"
  by (auto simp: lsb_byte_def bit_eq_iff bit_xor_iff bit_ucast_iff bit_drop_bit_eq)

lemma lsb_byte_all:
  fixes x :: "'w::len word"
  assumes "8 dvd LENGTH('w)" and "\<And>j. j < LENGTH('w) div 8 \<Longrightarrow> lsb_byte j x = 0"
  shows "x = 0"
proof (rule bit_eqI)
  fix n
  obtain w where w: "LENGTH('w) = 8 * w" using assms(1) by (auto elim: dvdE)
  show "bit x n = bit (0 :: 'w word) n"
  proof (cases "n < LENGTH('w)")
    case True
    then have d: "n div 8 < w" using w by (simp add: less_mult_imp_div_less mult.commute)
    then have "bit (lsb_byte (n div 8) x) (n mod 8) = bit x (8 * (n div 8) + n mod 8)"
      using w by (simp add: bit_lsb_byte)
    moreover have "lsb_byte (n div 8) x = 0" using assms(2) [of "n div 8"] d w by simp
    ultimately show ?thesis by simp
  qed (auto dest: bit_imp_le_length)
qed

lemma lsb_register:
  assumes "bit (poly :: 'w::len word) (LENGTH('w) - 1)" and "8 dvd LENGTH('w)"
  shows "crc_register (lsb_step poly) (lsb_embed :: nat \<Rightarrow> u8 \<Rightarrow> 'w word) lsb_byte (LENGTH('w) div 8)"
  by unfold_locales
    (simp_all add: lsb_step_xor lsb_step_zero [OF assms(1)] lsb_embed_step lsb_byte_embed lsb_byte_xor
      lsb_byte_all [OF assms(2)])

subsection \<open>The three checksums meet the contract\<close>

lemma crc16_bit_msb: "crc16_bit = msb_step 0x1021"
  by (rule ext) (simp add: crc16_bit_def msb_step_def bit_iff_and_push_bit_not_eq_0)

lemma crc64_bit_msb: "crc64_bit = msb_step 0x42F0E1EBA9EA3693"
  by (rule ext) (simp add: crc64_bit_def msb_step_def bit_iff_and_push_bit_not_eq_0)

lemma crc32_bit_lsb: "crc32_bit = lsb_step 0xedb88320"
proof
  fix x :: u32
  have "x AND 1 = (if bit x 0 then 1 else 0)" by (simp add: and_one_eq bit_0 odd_iff_mod_2_eq_one)
  then show "crc32_bit x = lsb_step 0xedb88320 x" by (simp add: crc32_bit_def lsb_step_def)
qed

interpretation c16: crc_register crc16_bit "msb_embed :: nat \<Rightarrow> u8 \<Rightarrow> u16" msb_byte 2
  using msb_register [of "0x1021 :: u16"] by (simp add: crc16_bit_msb)

interpretation c32: crc_register crc32_bit "lsb_embed :: nat \<Rightarrow> u8 \<Rightarrow> u32" lsb_byte 4
  using lsb_register [of "0xedb88320 :: u32"] by (simp add: crc32_bit_lsb)

interpretation c64: crc_register crc64_bit "msb_embed :: nat \<Rightarrow> u8 \<Rightarrow> u64" msb_byte 8
  using msb_register [of "0x42F0E1EBA9EA3693 :: u64"] by (simp add: crc64_bit_msb)

lemma crc16_update: "c16.update = crc16_add"
  by (intro ext) (simp add: c16.update_def crc16_add_def msb_embed_def)

lemma crc32_update: "c32.update = crc32_add"
  by (intro ext) (simp add: c32.update_def crc32_add_def lsb_embed_def)

lemma crc64_update: "c64.update = crc64_add"
  by (intro ext) (simp add: c64.update_def crc64_add_def msb_embed_def)

text \<open>
  C18: the checksums detect every burst of errors that is not longer than they are: two messages
  of the same length that differ within two adjacent bytes have different CRC-16, within four
  adjacent bytes different CRC-32 and within eight adjacent bytes different CRC-64 checksums,
  whatever the initial value and the rest of the message. The CRC-64 is stated over the bytes that
  \<^verbatim>\<open>crc64_add_word\<close> feeds into the register, four of each word.
\<close>

theorem crc_detects_bursts:
  assumes "length xs = length ys" and "xs \<noteq> ys"
  shows "(length xs \<le> 2 \<longrightarrow> crc16_signature i (p @ xs @ s) \<noteq> crc16_signature i (p @ ys @ s))
       \<and> (length xs \<le> 4 \<longrightarrow> crc32_signature j (p @ xs @ s) \<noteq> crc32_signature j (p @ ys @ s))
       \<and> (length xs \<le> 8 \<longrightarrow> foldl crc64_add k (p @ xs @ s) \<noteq> foldl crc64_add k (p @ ys @ s))"
proof (intro conjI impI)
  assume "length xs \<le> 2"
  from c16.burst_detected [OF assms(1) this assms(2), of i p s]
  show "crc16_signature i (p @ xs @ s) \<noteq> crc16_signature i (p @ ys @ s)"
    by (simp only: crc16_update crc16_signature_def xor_cancel_right not_False_eq_True)
next
  assume "length xs \<le> 4"
  from c32.burst_detected [OF assms(1) this assms(2), of j p s]
  show "crc32_signature j (p @ xs @ s) \<noteq> crc32_signature j (p @ ys @ s)"
    by (simp only: crc32_update crc32_signature_def not_False_eq_True)
next
  assume "length xs \<le> 8"
  from c64.burst_detected [OF assms(1) this assms(2), of k p s]
  show "foldl crc64_add k (p @ xs @ s) \<noteq> foldl crc64_add k (p @ ys @ s)"
    by (simp only: crc64_update not_False_eq_True)
qed

theorem crc_detects_bursts_witness:
  "crc16_signature 0xFFFF ([1, 2] @ [3, 4] @ [5]) \<noteq> crc16_signature 0xFFFF ([1, 2] @ [9, 4] @ [5])
   \<and> crc32_signature 0 ([1, 2] @ [3, 4] @ [5]) \<noteq> crc32_signature 0 ([1, 2] @ [9, 4] @ [5])"
  using crc_detects_bursts [of "[3, 4]" "[9, 4]" "0xFFFF" "[1, 2]" "[5]" 0 0] by simp

text \<open>
  C37: a message that is followed by its own checksum leaves the register at zero, so that a receiver
  can check both with one computation: the CRC-16 with its high byte first, the CRC-32 in the
  little endian order of the processor.
\<close>

theorem crc_appended_residue:
  "crc16_signature i (bs @ rev (le16 (crc16_signature i bs))) = 0
   \<and> crc32_signature j (bs @ le32 (crc32_signature j bs)) = 0"
proof
  have "map (\<lambda>k. msb_byte k x) [0..<2] = rev (le16 x)" for x :: u16
    by (simp add: msb_byte_def le16_def upt_conv_Cons)
  then show "crc16_signature i (bs @ rev (le16 (crc16_signature i bs))) = 0"
    using c16.appended_residue [of i bs]
    by (simp add: crc16_update crc16_signature_def CRC16_OUTPUT_XOR_def)
next
  have "map (\<lambda>k. lsb_byte k x) [0..<4] = le32 x" for x :: u32
    by (simp add: lsb_byte_def le32_def upt_conv_Cons)
  then show "crc32_signature j (bs @ le32 (crc32_signature j bs)) = 0"
    using c32.appended_residue [of j bs] by (simp add: crc32_update crc32_signature_def)
qed

end
