(* ===== verification/Boot_Shared.thy ===== *)
theory Boot_Shared
  imports Crc
begin

text \<open>
  The mailbox between a boot loader and the application, \<^verbatim>\<open>src/drivers/bootloaders/boot_app_shared.c\<close>:
  a record with a signature that names its writer and a CRC-64, kept in five 32 bit registers that
  survive a reset. The registers return the value last written to them.
\<close>

datatype eRole = Invalid | App | BootLoader

record bootloader_app_shared =
  bs_crc :: u64
  bs_signature :: u32
  bs_bus_speed :: u32
  bs_node_id :: u32

record shared_regs =
  signature_LOC :: u32
  bus_speed_LOC :: u32
  node_id_LOC :: u32
  crc_LoLOC :: u32
  crc_HiLOC :: u32

definition BOOTLOADER_COMMON_APP_SIGNATURE :: u32 where
  "BOOTLOADER_COMMON_APP_SIGNATURE = 0xB0A04150"

definition BOOTLOADER_COMMON_BOOTLOADER_SIGNATURE :: u32 where
  "BOOTLOADER_COMMON_BOOTLOADER_SIGNATURE = 0xB0A0424C"

definition EBADR :: int where "EBADR = 53"

text \<open>The union of the 64 bit checksum and its two halves.\<close>

definition crc_of_halves :: "u32 \<Rightarrow> u32 \<Rightarrow> u64" where
  "crc_of_halves lo hi = ucast lo OR push_bit 32 (ucast hi)"

definition shared_read :: "shared_regs \<Rightarrow> bootloader_app_shared" where
  "shared_read r =
     \<lparr>bs_crc = crc_of_halves (crc_LoLOC r) (crc_HiLOC r), bs_signature = signature_LOC r,
      bs_bus_speed = bus_speed_LOC r, bs_node_id = node_id_LOC r\<rparr>"

definition shared_write :: "bootloader_app_shared \<Rightarrow> shared_regs" where
  "shared_write w =
     \<lparr>signature_LOC = bs_signature w, bus_speed_LOC = bs_bus_speed w, node_id_LOC = bs_node_id w,
      crc_LoLOC = ucast (bs_crc w), crc_HiLOC = ucast (drop_bit 32 (bs_crc w))\<rparr>"

definition calulate_signature :: "bootloader_app_shared \<Rightarrow> u64" where
  "calulate_signature w =
     crc64_add_word (crc64_add_word (crc64_add_word CRC64_INITIAL (bs_signature w)) (bs_bus_speed w))
       (bs_node_id w) XOR CRC64_OUTPUT_XOR"

definition role_signature :: "eRole \<Rightarrow> u32" where
  "role_signature role =
     (if role = App then BOOTLOADER_COMMON_APP_SIGNATURE else BOOTLOADER_COMMON_BOOTLOADER_SIGNATURE)"

definition bootloader_app_shared_init :: "eRole \<Rightarrow> bootloader_app_shared" where
  "bootloader_app_shared_init role =
     \<lparr>bs_crc = 0, bs_signature = (if role \<noteq> Invalid then role_signature role else 0),
      bs_bus_speed = 0, bs_node_id = 0\<rparr>"

text \<open>A read returns the status and, on success, the record that is copied to the caller.\<close>

definition bootloader_app_shared_read ::
  "shared_regs \<Rightarrow> eRole \<Rightarrow> int \<times> bootloader_app_shared option" where
  "bootloader_app_shared_read r role =
     (let working = shared_read r
      in if bs_signature working = role_signature role \<and> bs_crc working = calulate_signature working
         then (0, Some working) else (- EBADR, None))"

definition bootloader_app_shared_write :: "bootloader_app_shared \<Rightarrow> eRole \<Rightarrow> shared_regs" where
  "bootloader_app_shared_write shared role =
     (let working = shared\<lparr>bs_signature := role_signature role\<rparr>
      in shared_write (working\<lparr>bs_crc := calulate_signature working\<rparr>))"

definition bootloader_app_shared_invalidate :: shared_regs where
  "bootloader_app_shared_invalidate = shared_write (bootloader_app_shared_init Invalid)"

subsection \<open>Properties\<close>

lemma crc_of_halves_ucast: "crc_of_halves (ucast w) (ucast (drop_bit 32 w)) = w"
proof (rule bit_word_eqI)
  fix n assume "n < LENGTH(64)"
  then have "n < 32 \<or> (32 \<le> n \<and> n - 32 < 32)" by auto
  then show "bit (crc_of_halves (ucast w) (ucast (drop_bit 32 w))) n = bit w n"
    unfolding crc_of_halves_def bit_or_iff bit_push_bit_iff
    by (auto simp: bit_ucast_iff bit_drop_bit_eq)
qed

lemma shared_read_write: "shared_read (shared_write w) = w"
  by (simp add: shared_read_def shared_write_def crc_of_halves_ucast)

lemma calulate_signature_crc [simp]: "calulate_signature (w\<lparr>bs_crc := c\<rparr>) = calulate_signature w"
  by (simp add: calulate_signature_def)

lemma role_signature_inj: "role_signature r = role_signature r' \<longleftrightarrow> (r = App) = (r' = App)"
  by (simp add: role_signature_def BOOTLOADER_COMMON_APP_SIGNATURE_def
      BOOTLOADER_COMMON_BOOTLOADER_SIGNATURE_def)

text \<open>
  C26: what one side writes the other side reads: after a write in a role, a read that expects this
  role succeeds with the bus speed and the node id that were written, a read that expects the other
  role fails, and after an invalidation every read fails.
\<close>

theorem boot_shared_roundtrip:
  "bootloader_app_shared_read (bootloader_app_shared_write w role) role'
     = (if (role = App) = (role' = App)
        then (0, Some (w\<lparr>bs_signature := role_signature role,
                         bs_crc := calulate_signature (w\<lparr>bs_signature := role_signature role\<rparr>)\<rparr>))
        else (- EBADR, None))
   \<and> bootloader_app_shared_read bootloader_app_shared_invalidate role' = (- EBADR, None)"
proof
  show "bootloader_app_shared_read bootloader_app_shared_invalidate role' = (- EBADR, None)"
    by (simp add: bootloader_app_shared_read_def bootloader_app_shared_invalidate_def shared_read_write
        bootloader_app_shared_init_def role_signature_def BOOTLOADER_COMMON_APP_SIGNATURE_def
        BOOTLOADER_COMMON_BOOTLOADER_SIGNATURE_def Let_def)
qed (auto simp: bootloader_app_shared_read_def bootloader_app_shared_write_def shared_read_write
      role_signature_inj Let_def)

lemma le32_inj:
  assumes "le32 x = le32 y"
  shows "x = y"
proof -
  have "rd32 (store 0 (le32 x) (\<lambda>_. 0)) 0 = rd32 (store 0 (le32 y) (\<lambda>_. 0)) 0" by (simp only: assms)
  then show ?thesis by (simp only: rd32_store)
qed

lemma crc64_words:
  "crc64_add_word (crc64_add_word (crc64_add_word c s) b) n = foldl crc64_add c (le32 s @ (le32 b @ le32 n) @ [])"
  by (simp add: crc64_add_word_def)

text \<open>
  C31: a damaged mailbox is not accepted: if after a write any of the three data registers is changed
  while the checksum registers are kept, the read that expects the role of the writer fails.
\<close>

theorem boot_shared_detects_corruption:
  assumes "r = bootloader_app_shared_write w role" and "crc_LoLOC r' = crc_LoLOC r"
    and "crc_HiLOC r' = crc_HiLOC r"
    and "signature_LOC r' \<noteq> signature_LOC r \<or> bus_speed_LOC r' \<noteq> bus_speed_LOC r \<or> node_id_LOC r' \<noteq> node_id_LOC r"
  shows "bootloader_app_shared_read r' role = (- EBADR, None)"
proof (cases "signature_LOC r' = signature_LOC r")
  case True
  let ?w = "w\<lparr>bs_signature := role_signature role\<rparr>" and ?v = "shared_read r'"
  have r: "shared_read r = ?w\<lparr>bs_crc := calulate_signature ?w\<rparr>"
    using assms(1) by (simp add: bootloader_app_shared_write_def shared_read_write Let_def)
  have "bs_crc ?v = bs_crc (shared_read r)" using assms(2,3) by (simp add: shared_read_def)
  then have c: "bs_crc ?v = calulate_signature (shared_read r)" using r by simp
  let ?d = "\<lambda>r. le32 (bus_speed_LOC r) @ le32 (node_id_LOC r)"
  have l: "length (?d r') = length (?d r)" "length (?d r') \<le> 8" by simp_all
  have ne: "?d r' \<noteq> ?d r" using assms(4) True le32_inj by auto
  note b = c64.burst_detected [OF l ne, of CRC64_INITIAL "le32 (signature_LOC r)" "[]", unfolded crc64_update]
  have "calulate_signature ?v \<noteq> calulate_signature (shared_read r)"
    using b True
    by (simp only: calulate_signature_def crc64_words xor_cancel_right shared_read_def
        bootloader_app_shared.simps not_False_eq_True)
  then show ?thesis using c by (simp add: bootloader_app_shared_read_def Let_def)
next
  case False
  have "signature_LOC r = role_signature role"
    using assms(1) by (simp add: bootloader_app_shared_write_def shared_write_def Let_def)
  then show ?thesis using False by (simp add: bootloader_app_shared_read_def shared_read_def Let_def)
qed

theorem boot_shared_detects_corruption_witness:
  "bootloader_app_shared_read
     ((bootloader_app_shared_write (bootloader_app_shared_init App) App)\<lparr>node_id_LOC := 42\<rparr>) App = (- EBADR, None)"
  by (rule boot_shared_detects_corruption [where w = "bootloader_app_shared_init App", OF refl])
    (simp_all add: bootloader_app_shared_write_def shared_write_def bootloader_app_shared_init_def Let_def)

end
