(* ===== verification/Spec2Isabelle.thy ===== *)
theory Spec2Isabelle
  imports Eso_Cascade Arm_State_Machine Commander_Monitor Flash_Storage Boot_Shared
begin

text \<open>
  A model of the parts of a PX4 flight stack that decide whether a multicopter with a robot arm
  flies, in which mode, and with which torque: the controllers with extended state observers that
  this repository adds, the decision functions of the commander, and the storage of parameters.
  Paths are relative to \<^verbatim>\<open>src/\<close>.

  \<^bold>\<open>The program and its parts.\<close> Three work items form the control cascade. The position controller
  (\<^verbatim>\<open>src/modules/eso_pos_control\<close>) turns position setpoints into an attitude and a thrust, the attitude
  controller (\<^verbatim>\<open>src/modules/eso_att_control\<close>) turns the attitude into body rates and feed-forward terms,
  and the rate controller (\<^verbatim>\<open>src/modules/eso_rate_control\<close>) turns the rates into a torque. The joint
  angles of the arm come through \<^verbatim>\<open>src/modules/arm_joint_bridge\<close>; the kinematics of the arm
  (\<^verbatim>\<open>eso_att_control/ArmKinematics.hpp\<close>) gives the centre of mass and the inertia. The commander
  (\<^verbatim>\<open>src/modules/commander\<close>) checks the vehicle, arms it, selects the navigation state and publishes
  the control mode that enables the loops of the cascade. Parameters are kept in flash
  (\<^verbatim>\<open>src/lib/parameters/flashparams\<close>), and the boot loader and the application share a mailbox
  (\<^verbatim>\<open>src/drivers/bootloaders\<close>), both guarded by the checksums of \<^verbatim>\<open>src/lib/systemlib/crc.c\<close>.

  \<^bold>\<open>Foundations.\<close>
  \<^item> \<^verbatim>\<open>Px4_Base\<close>: machine integers, time stamps, the fact collections, and the interface of steps
    that keep an invariant (\<^verbatim>\<open>invariant_steps\<close>).
  \<^item> \<^verbatim>\<open>Binary32\<close>: IEEE 754 single precision with infinities, NaN and signed zero. A finite number
    is a sign and a real magnitude; each operation rounds the exact real result to nearest even,
    with gradual underflow and overflow. The rounding is an instance of an interface
    (\<^verbatim>\<open>magnitude_rounding\<close>) whose facts carry all bounds. \<^verbatim>\<open>Binary32_Filter\<close> bounds a step of a low pass
    filter with its three roundings. The model evaluates the source expressions as written. The
    build passes \<^verbatim>\<open>-freciprocal-math\<close> and \<^verbatim>\<open>-fno-signed-zeros\<close> (\<^verbatim>\<open>cmake/px4_add_common_flags.cmake\<close>, lines 55
    to 58), which permit a compiler to multiply by a reciprocal and to ignore the sign of a zero; the
    theorems hold for code in which it makes no use of that permission.
  \<^item> \<^verbatim>\<open>Px4_Math\<close>, \<^verbatim>\<open>Rotations\<close>, \<^verbatim>\<open>Mathlib_Bits\<close>: the functions of \<^verbatim>\<open>src/lib/mathlib\<close> and \<^verbatim>\<open>src/lib/matrix\<close> that
    the modelled code calls, in the evaluation order of the source.
  \<^item> \<^verbatim>\<open>Hysteresis\<close>: \<^verbatim>\<open>src/lib/hysteresis\<close>, with the delay of a state change stated over runs.

  \<^bold>\<open>Control cascade.\<close>
  \<^item> \<^verbatim>\<open>Eso_Takeoff\<close>: the take-off state machine; spool-up delay, sound transitions, the ramp ends.
  \<^item> \<^verbatim>\<open>Eso_Observers\<close>: both observers behind one interface (\<^verbatim>\<open>extended_state_observer\<close>).
  \<^item> \<^verbatim>\<open>Eso_Position_Control\<close>, \<^verbatim>\<open>Eso_Position_Laws\<close>: the position controller; its operations keep every number
    representable, limits, hand-over of the observer, and three departures from the comments of the code.
  \<^item> \<^verbatim>\<open>Eso_Position_Module\<close>: the position control work item from topics to topics; the limits between
    its parameters, and what its failsafe publishes.
  \<^item> \<^verbatim>\<open>Eso_Attitude_Control\<close>, \<^verbatim>\<open>Eso_Attitude_Module\<close>: the attitude controller and its work item; what is
    published when, the limits of the published rates, and the bound of their derivative over every
    sequence of runs and around arming.
  \<^item> \<^verbatim>\<open>Eso_Rate_Control\<close>, \<^verbatim>\<open>Eso_Rate_Safety\<close>: the rate controller; integrator and torque bounds,
    sanitised inputs, the effect of a bad gyro sample.
  \<^item> \<^verbatim>\<open>Arm_Joint_Bridge\<close>, \<^verbatim>\<open>Arm_Kinematics\<close>: the joint messages and the vehicle model.
  \<^item> \<^verbatim>\<open>Eso_Rate_Module\<close>: the rate control work item from topics to topics; what it may publish.
  \<^item> \<^verbatim>\<open>Eso_Cascade\<close>: lemmas on the three work items in sequence; the theorem at the end of this
    theory follows the failsafe of the position loop through all of them.

  \<^bold>\<open>Commander.\<close>
  \<^item> \<^verbatim>\<open>Commander_Types\<close>: the messages and enumerations.
  \<^item> \<^verbatim>\<open>Nav_State\<close>: \<^verbatim>\<open>state_machine_helper.cpp\<close>; the selected state is supported by the estimates, a
    deviation raises the failsafe flag, each with its listed exceptions, and the reaction to a lost
    manual control comes after its delay.
  \<^item> \<^verbatim>\<open>Control_Mode\<close>: \<^verbatim>\<open>update_control_mode\<close>; no outer loop without its inner loops, no position
    control without a position.
  \<^item> \<^verbatim>\<open>Preflight_Checks\<close>, \<^verbatim>\<open>Preflight\<close>: the preflight and pre-arm checks; what a pass means for the
    sensors, switches, power and estimates that the checks read.
  \<^item> \<^verbatim>\<open>Arm_Auth\<close>, \<^verbatim>\<open>Arm_State_Machine\<close>: authorization and arming; no arming without the checks, the
    authorizer asked last, the armed flag over all reachable states, and the command that leaves a
    state in which the checks do not count.
  \<^item> \<^verbatim>\<open>Commander_Monitor\<close>: validity of estimates, offboard loss, batteries.

  \<^bold>\<open>Storage.\<close>
  \<^item> \<^verbatim>\<open>Flash_Fs\<close>, \<^verbatim>\<open>Flash_Chain\<close>, \<^verbatim>\<open>Flash_Params\<close>, \<^verbatim>\<open>Flash_Storage\<close>: \<^verbatim>\<open>flashfs.c\<close>; a sequence of saves and
    restarts refines a cell that holds the last save.
  \<^item> \<^verbatim>\<open>Crc\<close>: the three checksums behind one interface (\<^verbatim>\<open>crc_register\<close>); burst detection, residue.
  \<^item> \<^verbatim>\<open>Boot_Shared\<close>: the mailbox; round trip and detection of corruption.

  \<^bold>\<open>Conventions.\<close> A class is a record and a method a function on it; setters return the updated
  record. A subscription is an \<^verbatim>\<open>option\<close> of the input, \<^verbatim>\<open>None\<close> when there is no update. Undefined behaviour
  and a failing allocation are \<^verbatim>\<open>None\<close>. The loops of \<^verbatim>\<open>flashfs.c\<close> that have no bound in the source are
  partial functions into \<^verbatim>\<open>option\<close>, where \<^verbatim>\<open>None\<close> means that the loop does not return; the storage
  theorems prove that they return. The blocking loop of the arm authorization runs over the list of
  clock readings that it makes, and returns as soon as one is past the deadline. Code outside \<^verbatim>\<open>src/\<close> is
  a parameter: \<^verbatim>\<open>cosf\<close>, \<^verbatim>\<open>sinf\<close>, \<^verbatim>\<open>acosf\<close>, \<^verbatim>\<open>asinf\<close> and \<^verbatim>\<open>atan2f\<close> of the C library, and the flash driver, \<^verbatim>\<open>crc32\<close>
  and \<^verbatim>\<open>malloc\<close> of NuttX with their documented laws. The clock is read once per call; the texts sent to
  the ground station, performance counters and debug prints are left out.

  \<^bold>\<open>Not modelled.\<close> The main loop, command handlers and calibration of the commander sequence several
  hundred members and topics and are mostly I/O. Start-up and shell commands of the work items, the
  other modules (estimators, navigator and flight tasks, control allocation, logger, MAVLink,
  fixed-wing and rover control), drivers, boards, uORB, the generated parameter table with its BSON
  encoding and the third-party DSP library under \<^verbatim>\<open>gyro_fft\<close> are outside this development: they are not
  specific to the aerial manipulator, or I/O, or not in the repository; where the modelled code reads
  from them, what it reads is an input.
\<close>

subsection \<open>The failsafe through the cascade\<close>

text \<open>
  C7: the failsafe of the position loop through the whole cascade. If a run of the position work
  item ends in failsafe with a known velocity, the attitude work item receives its setpoint and the
  rate work item the resulting rate setpoint, then the commanded rates are zero and every thrust
  setpoint that the rate loop publishes is zero: the branch that is to stop the vehicle and wait
  takes the thrust away.
\<close>

theorem failsafe_stop_cuts_thrust:
  assumes "pos_Run L ip sp = Some (ppubs, sp')" and "pi_local_pos ip = Some lp" and "pm_in_failsafe sp'"
    and "v3_all f32_isfinite (pc_vel (pm_control sp'))" and "v3_all f32_isfinite (pc_vel_dot (pm_control sp'))"
    and "f32_lt f32_zero (pp_xy_vel_max (pm_params sp'))"
    and "Pub_attitude_sp att \<in> set ppubs" and "ai_attitude_setpoint ia = Some att"
    and "att_Run L ia sa = (apubs, sa')" and "am_last_attitude_setpoint sa < pi_now ip"
    and "\<not> am_stick_mode (am_mode sa')" and "\<not> autotune_adds ia"
    and "Pub_rates ta r \<in> set apubs" and "ri_rates_sp ir = Some r" and "ri_gyro ir = Some (now, w)"
    and "\<not> (cm_manual_enabled (rm_mode (snd (rate_Run tr ir sr))) \<and> \<not> cm_attitude_enabled (rm_mode (snd (rate_Run tr ir sr))))"
    and "Pub_thrust_setpoint t ts \<in> set (fst (rate_Run tr ir sr))"
  shows "rs_rates r = v3_zero \<and> t = v3_zero"
proof -
  have att: "as_timestamp att = pi_now ip" "as_q_d att = q_nan" "v2 (as_thrust_body att) = FNaN"
    using failsafe_stop_attitude [OF assms(1-6)] assms(7) by (metis mem_Collect_eq singletonD)+
  have r: "rs_rates r = v3_zero \<and> rs_thrust_body r = as_thrust_body att"
    using assms(10) att by (intro att_Run_nan_setpoint [OF assms(9,8) _ _ assms(11-13)]) simp_all
  then have "v2 (rs_thrust_body r) = FNaN" using att(3) by simp
  then show ?thesis using rate_Run_nan_thrust [OF assms(15,14) _ assms(16,17)] r by blast
qed

theorem failsafe_stop_cuts_thrust_witness:
  "\<exists>ppubs sp' att t r th ts. lost_run = Some (ppubs, sp') \<and> Pub_attitude_sp att \<in> set ppubs
     \<and> Pub_rates t r \<in> set (fst (att_Run libm_zero (att_cascade_input att) att_first))
     \<and> Pub_thrust_setpoint th ts
         \<in> set (fst (rate_Run trig_example (rate_cascade_input r) (rate_module_init params_example)))
     \<and> rs_rates r = v3_zero \<and> th = v3_zero"
proof -
  obtain ppubs sp' where p: "lost_run = Some (ppubs, sp')" "pm_in_failsafe sp'"
    "pc_vel (pm_control sp') = v3_zero" "pc_vel_dot (pm_control sp') = v3_zero" "pm_params sp' = pos_params_example"
    by (rule lost_run_failsafe)
  have lp: "pi_local_pos pos_input_example = Some position_lost" by (simp add: pos_input_example_def)
  have fin: "v3_all f32_isfinite (pc_vel (pm_control sp'))" "v3_all f32_isfinite (pc_vel_dot (pm_control sp'))"
    "f32_lt f32_zero (pp_xy_vel_max (pm_params sp'))"
    by (simp_all add: p v3_zero_def v3_all_def pos_params_example_def f32_lit_numeral)
  obtain att where att: "Pub_attitude_sp att \<in> set ppubs"
    using failsafe_stop_attitude [OF p(1) lp p(2) fin] by blast
  let ?ia = "att_cascade_input att"
  obtain apubs sa where a: "att_Run libm_zero ?ia att_first = (apubs, sa)" by (cases "att_Run libm_zero ?ia att_first")
  have ia: "ai_attitude ?ia = ai_attitude att_input_example"
      "ai_mode ?ia = Some (control_mode_off\<lparr>flag_armed := True, flag_control_attitude_enabled := True\<rparr>)"
    by (simp_all add: att_input_example_def)
  then obtain v where v: "ai_attitude ?ia = Some v" by (simp add: att_input_example_def)
  have "am_run_att_ctrl (am_read_topics ?ia att_first)"
    by (simp add: am_read_topics_def att_input_example_def am_run_att_ctrl_def att_module_init_def
        am_parameters_updated_def Let_def case_prod_beta)
  from att_Run_publishes [OF v this a] obtain t r where r: "Pub_rates t r \<in> set apubs" by blast
  have stick: "\<not> am_stick_mode (am_mode sa)"
    unfolding att_Run_mode [OF v ia(2) a] by (simp add: am_stick_mode_def control_mode_off_def)
  have tune: "\<not> autotune_adds ?ia" by (simp add: autotune_adds_def att_input_example_def)
  have last: "am_last_attitude_setpoint att_first < pi_now pos_input_example"
    by (simp add: att_module_init_def am_parameters_updated_def Let_def case_prod_beta pos_input_example_def)
  let ?ir = "rate_cascade_input r" and ?sr = "rate_module_init params_example"
  have g: "ri_gyro ?ir = Some (1000, v3_zero)" by (simp add: quiet_input_def)
  have m: "rm_mode (snd (rate_Run trig_example ?ir ?sr)) = mode_attitude_loop" by (rule rate_Run_mode [OF g]) simp
  have "\<not> rm_circuit_breaker ?sr" "\<not> rm_is_vtol ?sr"
    by (simp_all add: rate_module_init_def rate_parameters_updated_def update_profile_def params_example_def
        CBRK_RATE_CTRL_KEY_def circuit_breaker_enabled_by_val_def Let_def case_prod_beta)
  then obtain th ts where th: "Pub_thrust_setpoint th ts \<in> set (fst (rate_Run trig_example ?ir ?sr))"
    using rate_Run_publishes_thrust [OF g, of mode_attitude_loop ?sr trig_example]
    by (auto simp: mode_attitude_loop_def quiet_input_def)
  have att_mode: "cm_attitude_enabled mode_attitude_loop" by (simp add: mode_attitude_loop_def)
  have "rs_rates r = v3_zero \<and> th = v3_zero"
    by (rule failsafe_stop_cuts_thrust [OF p(1) lp p(2) fin att _ a last stick tune r _ g _ th])
      (simp_all add: m att_mode)
  moreover have "Pub_rates t r \<in> set (fst (att_Run libm_zero ?ia att_first))" using a r by simp
  ultimately show ?thesis using p(1) att th by blast
qed

end
